(* ===== verification/Prelude.thy ===== *)
theory Prelude
  imports Main "HOL-Library.Word" "HOL-Library.Sublist"
begin

text \<open>
  Shared vocabulary of the development: named collections, lemmas on association lists and
  filters, and the functions of Rust's standard library that the modelled code calls on
  strings.

  A Rust \<open>String\<close> is a HOL \<open>string\<close>: the list of its UTF-8 bytes. Searching, splitting and
  replacing by a pattern agree on bytes and on characters, because UTF-8 is
  self-synchronising. \<open>chars()\<close> counts the bytes that start a character. White space is the
  ASCII part of Unicode's \<open>White_Space\<close> (tab, line feed, vertical tab, form feed, carriage
  return and space).
\<close>

named_theorems inv_pres \<open>operations keep the invariant of their component\<close>
named_theorems op_frame \<open>what an operation leaves unchanged\<close>

type_synonym u64 = "64 word"
type_synonym u32 = "32 word"

section \<open>Generic lemmas\<close>

lemma find_Some_iff_first:
  "List.find P xs = Some x \<longleftrightarrow>
     (\<exists>as bs. xs = as @ x # bs \<and> P x \<and> (\<forall>y \<in> set as. \<not> P y))"
proof (induction xs)
  case Nil
  then show ?case by simp
next
  case (Cons a xs)
  show ?case
  proof (cases "P a")
    case True
    then show ?thesis
      by (auto simp: Cons_eq_append_conv)
  next
    case False
    with Cons show ?thesis
      by (auto simp: Cons_eq_append_conv) (metis append_Cons set_ConsD)
  qed
qed

lemma find_SomeD:
  "List.find P xs = Some x \<Longrightarrow> x \<in> set xs \<and> P x"
  by (auto simp: find_Some_iff_first)

lemma find_NoneD: "List.find P xs = None \<Longrightarrow> x \<in> set xs \<Longrightarrow> \<not> P x"
  by (auto simp: find_None_iff)

lemma find_eq_None: "(\<And>x. x \<in> set xs \<Longrightarrow> \<not> P x) \<Longrightarrow> List.find P xs = None"
  by (auto simp: find_None_iff)

lemma find_append: "List.find P (xs @ ys) = (case List.find P xs of None \<Rightarrow> List.find P ys | s \<Rightarrow> s)"
  by (induction xs) auto

lemma find_unique:
  assumes "x \<in> set xs" and "P x" and "\<And>y. y \<in> set xs \<Longrightarrow> P y \<Longrightarrow> y = x"
  shows "List.find P xs = Some x"
proof (cases "List.find P xs")
  case None
  from find_NoneD [OF None assms(1)] assms(2) show ?thesis by simp
next
  case (Some y)
  from find_SomeD [OF Some] have "y = x" by (intro assms(3)) simp_all
  with Some show ?thesis by simp
qed

lemma distinct_map_filter: "distinct (map f xs) \<Longrightarrow> distinct (map f (filter P xs))"
  by (induction xs) auto

lemma length_filter_mono:
  "(\<And>x. x \<in> set xs \<Longrightarrow> P x \<Longrightarrow> Q x) \<Longrightarrow> length (filter P xs) \<le> length (filter Q xs)"
  by (induction xs) auto

lemma sorted_distinct_remdups_adj: "sorted xs \<Longrightarrow> distinct (remdups_adj (xs :: 'a::linorder list))"
  by (induction xs rule: remdups_adj.induct) (auto simp: order.strict_iff_order)

lemma take_sort_subset: "set (take n (sort_key f xs)) \<subseteq> set xs"
  using set_take_subset [of n "sort_key f xs"] by simp

section \<open>Strings\<close>

definition ws :: "char \<Rightarrow> bool" where
  "ws c \<longleftrightarrow> c \<in> set [CHR 0x20, CHR 0x0A, CHR 0x09, CHR 0x0D, CHR 0x0B, CHR 0x0C]"

definition LF :: string where
  "LF = [CHR 0x0A]"

definition trim_start :: "string \<Rightarrow> string" where
  "trim_start s = dropWhile ws s"

definition trim_end :: "string \<Rightarrow> string" where
  "trim_end s = rev (dropWhile ws (rev s))"

definition trim :: "string \<Rightarrow> string" where
  "trim s = trim_end (trim_start s)"

definition ascii_lower :: "char \<Rightarrow> char" where
  "ascii_lower c = (let n = of_char c :: nat in if 65 \<le> n \<and> n \<le> 90 then char_of (n + 32) else c)"

definition to_ascii_lowercase :: "string \<Rightarrow> string" where
  "to_ascii_lowercase s = map ascii_lower s"

definition is_ascii_digit :: "char \<Rightarrow> bool" where
  "is_ascii_digit c \<longleftrightarrow> (let n = of_char c :: nat in 48 \<le> n \<and> n \<le> 57)"

definition is_ascii_alphanumeric :: "char \<Rightarrow> bool" where
  "is_ascii_alphanumeric c \<longleftrightarrow>
     (let n = of_char c :: nat
      in 48 \<le> n \<and> n \<le> 57 \<or> 65 \<le> n \<and> n \<le> 90 \<or> 97 \<le> n \<and> n \<le> 122)"

text \<open>A byte \<open>10xxxxxx\<close> continues a character; every other byte starts one.\<close>

definition utf8_cont :: "char \<Rightarrow> bool" where
  "utf8_cont c \<longleftrightarrow> (let n = of_char c :: nat in 128 \<le> n \<and> n < 192)"

definition char_count :: "string \<Rightarrow> nat" where
  "char_count s = length (filter (\<lambda>c. \<not> utf8_cont c) s)"

text \<open>\<open>s.chars().take(n).collect()\<close>: the bytes of the first \<open>n\<close> characters.\<close>

fun take_chars :: "nat \<Rightarrow> string \<Rightarrow> string" where
  "take_chars n [] = []"
| "take_chars n (c # cs) =
     (if utf8_cont c then c # take_chars n cs
      else (case n of 0 \<Rightarrow> [] | Suc m \<Rightarrow> c # take_chars m cs))"

lemma char_count_append: "char_count (a @ b) = char_count a + char_count b"
  by (simp add: char_count_def)

lemma char_count_Nil: "char_count [] = 0"
  by (simp add: char_count_def)

lemma char_count_Cons: "char_count (c # s) = (if utf8_cont c then 0 else 1) + char_count s"
  by (simp add: char_count_def)

lemma take_chars_le: "char_count (take_chars n s) \<le> n"
  by (induction n s rule: take_chars.induct) (auto simp: char_count_Cons char_count_Nil split: nat.splits)

fun strip_prefix :: "string \<Rightarrow> string \<Rightarrow> string option" where
  "strip_prefix [] s = Some s"
| "strip_prefix (p # ps) [] = None"
| "strip_prefix (p # ps) (c # cs) = (if p = c then strip_prefix ps cs else None)"

definition starts_with :: "string \<Rightarrow> string \<Rightarrow> bool" where
  "starts_with p s \<longleftrightarrow> strip_prefix p s \<noteq> None"

definition ends_with :: "string \<Rightarrow> string \<Rightarrow> bool" where
  "ends_with p s \<longleftrightarrow> starts_with (rev p) (rev s)"

text \<open>\<open>s.split_once(p)\<close>: the text before and after the first occurrence of \<open>p\<close>.\<close>

fun split_once :: "string \<Rightarrow> string \<Rightarrow> (string \<times> string) option" where
  "split_once p [] = (if p = [] then Some ([], []) else None)"
| "split_once p (c # cs) =
     (case strip_prefix p (c # cs) of
        Some rest \<Rightarrow> Some ([], rest)
      | None \<Rightarrow>
          (case split_once p cs of
             Some (a, b) \<Rightarrow> Some (c # a, b)
           | None \<Rightarrow> None))"

definition contains :: "string \<Rightarrow> string \<Rightarrow> bool" where
  "contains p s \<longleftrightarrow> split_once p s \<noteq> None"

text \<open>\<open>s.lines()\<close>: pieces ended by a line feed (with one carriage return before it removed), and
  a last unterminated piece if it is not empty.\<close>

definition strip_cr :: "string \<Rightarrow> string" where
  "strip_cr s = (if s \<noteq> [] \<and> last s = CHR 0x0D then butlast s else s)"

fun lines_aux :: "string \<Rightarrow> string \<Rightarrow> string list" where
  "lines_aux acc [] = (if acc = [] then [] else [rev acc])"
| "lines_aux acc (c # cs) =
     (if c = CHR 0x0A then strip_cr (rev acc) # lines_aux [] cs else lines_aux (c # acc) cs)"

definition lines :: "string \<Rightarrow> string list" where
  "lines s = lines_aux [] s"

fun split_ws_aux :: "string \<Rightarrow> string \<Rightarrow> string list" where
  "split_ws_aux acc [] = (if acc = [] then [] else [rev acc])"
| "split_ws_aux acc (c # cs) =
     (if ws c then (if acc = [] then split_ws_aux [] cs else rev acc # split_ws_aux [] cs)
      else split_ws_aux (c # acc) cs)"

definition split_whitespace :: "string \<Rightarrow> string list" where
  "split_whitespace s = split_ws_aux [] s"

fun join :: "string \<Rightarrow> string list \<Rightarrow> string" where
  "join sep [] = []"
| "join sep [s] = s"
| "join sep (s # t # ts) = s @ sep @ join sep (t # ts)"

text \<open>\<open>s.replace(p, r)\<close> for a non-empty pattern: non-overlapping occurrences from the left.\<close>

lemma strip_prefix_Some: "strip_prefix p s = Some r \<longleftrightarrow> s = p @ r"
  by (induction p s rule: strip_prefix.induct) auto

lemma strip_prefix_None: "strip_prefix p s = None \<longleftrightarrow> (\<forall>r. s \<noteq> p @ r)"
  by (metis not_None_eq strip_prefix_Some)

function replace_all :: "string \<Rightarrow> string \<Rightarrow> string \<Rightarrow> string" where
  "replace_all p r s =
     (case s of
        [] \<Rightarrow> []
      | c # cs \<Rightarrow>
          (case strip_prefix p s of
             Some rest \<Rightarrow> if p = [] then s else r @ replace_all p r rest
           | None \<Rightarrow> c # replace_all p r cs))"
  by pat_completeness auto
termination
  by (relation "measure (\<lambda>(p, r, s). length s)") (auto simp: strip_prefix_Some)

declare replace_all.simps [simp del]

lemma split_once_sound: "split_once p s = Some (a, b) \<Longrightarrow> s = a @ p @ b"
proof (induction p s arbitrary: a b rule: split_once.induct)
  case (1 p)
  then show ?case by (auto split: if_splits)
next
  case (2 p c cs)
  then show ?case
    by (auto simp: strip_prefix_Some split: option.splits prod.splits)
qed

lemma split_once_first:
  "s = a @ p @ b \<Longrightarrow> (\<And>a' b'. s = a' @ p @ b' \<Longrightarrow> length a \<le> length a') \<Longrightarrow>
    split_once p s = Some (a, b)"
proof (induction p s arbitrary: a b rule: split_once.induct)
  case (1 p)
  then show ?case by auto
next
  case (2 p c cs)
  show ?case
  proof (cases a)
    case Nil
    with 2(2) have "strip_prefix p (c # cs) = Some b" by (simp add: strip_prefix_Some)
    with Nil show ?thesis by simp
  next
    case (Cons a0 as)
    have none: "strip_prefix p (c # cs) = None"
    proof (rule ccontr)
      assume "strip_prefix p (c # cs) \<noteq> None"
      then obtain r where "c # cs = [] @ p @ r" by (auto simp: strip_prefix_Some)
      from 2(3) [OF this] Cons show False by simp
    qed
    have "split_once p cs = Some (as, b)"
    proof (rule 2(1) [OF none])
      show "cs = as @ p @ b" using 2(2) Cons by simp
    next
      fix a' b' assume "cs = a' @ p @ b'"
      with 2(2) Cons have "c # cs = (a0 # a') @ p @ b'" by simp
      from 2(3) [OF this] Cons show "length as \<le> length a'" by simp
    qed
    with none 2(2) Cons show ?thesis by simp
  qed
qed

lemma contains_iff: "contains p s \<longleftrightarrow> (\<exists>a b. s = a @ p @ b)"
proof
  assume "contains p s"
  then show "\<exists>a b. s = a @ p @ b" by (auto simp: contains_def dest: split_once_sound)
next
  assume "\<exists>a b. s = a @ p @ b"
  then obtain a b where ab: "s = a @ p @ b" "\<And>a' b'. s = a' @ p @ b' \<Longrightarrow> length a \<le> length a'"
    using ex_has_least_nat [of "\<lambda>(a, b). s = a @ p @ b" _ "\<lambda>(a, b). length a"] by force
  from split_once_first [OF this] show "contains p s" by (simp add: contains_def)
qed

lemma split_once_None: "split_once p s = None \<longleftrightarrow> \<not> contains p s"
  by (cases "split_once p s") (auto simp: contains_def)

lemma split_once_least:
  "split_once p s = Some (a, b) \<Longrightarrow> s = a' @ p @ b' \<Longrightarrow> length a \<le> length a'"
proof (induction p s arbitrary: a b a' rule: split_once.induct)
  case (1 p)
  then show ?case by (auto split: if_splits)
next
  case (2 p c cs)
  show ?case
  proof (cases a')
    case Nil
    with 2(3) have "strip_prefix p (c # cs) = Some b'" by (simp add: strip_prefix_Some)
    with 2(2) show ?thesis by simp
  next
    case (Cons d ds)
    with 2 show ?thesis by (auto split: option.splits)
  qed
qed

lemma split_once_before: "split_once p s = Some (a, b) \<Longrightarrow> p \<noteq> [] \<Longrightarrow> \<not> contains p a"
proof
  assume s: "split_once p s = Some (a, b)" and "p \<noteq> []" and "contains p a"
  then obtain x y where "a = x @ p @ y" by (auto simp: contains_iff)
  with split_once_sound [OF s] have "s = x @ p @ (y @ p @ b)" by simp
  from split_once_least [OF s this] \<open>a = x @ p @ y\<close> \<open>p \<noteq> []\<close> show False by simp
qed

lemma contains_Nil_left [simp]: "contains [] s"
  unfolding contains_iff by (intro exI [of _ "[]"] exI [of _ s]) simp

lemma contains_Nil_right [simp]: "contains p [] \<longleftrightarrow> p = []"
  by (simp add: contains_iff)

lemma contains_appendI: "contains p x \<Longrightarrow> contains p (u @ x @ v)"
  unfolding contains_iff by (metis append.assoc)

text \<open>An occurrence cannot reach over a character that the pattern does not have.\<close>

lemma contains_around:
  assumes "c \<notin> set p" and "contains p (a @ c # b)"
  shows "contains p a \<or> contains p b"
proof (cases "p = []")
  case True
  then show ?thesis by simp
next
  case False
  from assms(2) obtain u v where uv: "a @ c # b = u @ p @ v" by (auto simp: contains_iff)
  then consider w where "a = u @ w" "w @ c # b = p @ v" | w where "u = a @ w" "c # b = w @ p @ v"
    by (auto simp: append_eq_append_conv2)
  then show ?thesis
  proof cases
    case 1
    then obtain w' where "w = p @ w'"
      using assms(1) by (auto simp: append_eq_append_conv2 Cons_eq_append_conv)
    with 1 show ?thesis by (auto simp: contains_iff)
  next
    case 2
    then show ?thesis
      using assms(1) False by (cases w) (auto simp: contains_iff Cons_eq_append_conv)
  qed
qed

lemma contains_outside:
  assumes "\<And>c. c \<in> set x \<Longrightarrow> c \<notin> set p" and "contains p (a @ x)" and "p \<noteq> []"
  shows "contains p a"
  using assms(1,2)
proof (induction x rule: rev_induct)
  case (snoc c x)
  from contains_around [of c p "a @ x" "[]"] snoc.prems assms(3) have "contains p (a @ x)" by simp
  with snoc show ?case by simp
qed simp

text \<open>\<open>s.matches(p).count()\<close>: non-overlapping occurrences of a non-empty pattern.\<close>

function count_matches :: "string \<Rightarrow> string \<Rightarrow> nat" where
  "count_matches p s =
     (if p = [] then 0
      else case split_once p s of None \<Rightarrow> 0 | Some (before, rest) \<Rightarrow> Suc (count_matches p rest))"
  by pat_completeness auto
termination
  by (relation "measure (length \<circ> snd)") (auto dest: split_once_sound)

declare count_matches.simps [simp del]

section \<open>White space\<close>

lemma dropWhile_ws_append: "\<forall>c \<in> set u. ws c \<Longrightarrow> dropWhile ws (u @ s) = dropWhile ws s"
  by (induction u) auto

lemma trim_rev: "trim s = rev (dropWhile ws (rev (dropWhile ws s)))"
  by (simp add: trim_def trim_end_def trim_start_def)

lemma dropWhile_append_notin:
  "\<exists>c \<in> set s. \<not> P c \<Longrightarrow> dropWhile P (s @ u) = dropWhile P s @ u"
  by (induction s) auto

lemma trim_padded:
  assumes "\<forall>c \<in> set u. ws c" and "\<forall>c \<in> set v. ws c"
  shows "trim (u @ s @ v) = trim s"
proof (cases "\<forall>c \<in> set s. ws c")
  case True
  with assms have "dropWhile ws (u @ s @ v) = []" and "dropWhile ws s = []"
    by (simp_all add: dropWhile_eq_Nil_conv)
  then show ?thesis unfolding trim_rev by (simp only: rev.simps dropWhile.simps)
next
  case False
  with assms have "dropWhile ws (u @ s @ v) = dropWhile ws s @ v"
    using dropWhile_ws_append [of u "s @ v"] dropWhile_append_notin [of s ws v] by simp
  then show ?thesis
    using assms(2) dropWhile_ws_append [of "rev v" "rev (dropWhile ws s)"] by (simp add: trim_rev)
qed

lemma dropWhile_rev_dropWhile:
  "dropWhile P (rev (dropWhile P (rev (dropWhile P s)))) = rev (dropWhile P (rev (dropWhile P s)))"
proof (cases "dropWhile P s")
  case Nil
  then show ?thesis by (simp only: rev.simps dropWhile.simps)
next
  case (Cons a r)
  then have a: "\<not> P a" by (metis hd_dropWhile list.distinct(1) list.sel(1))
  have "\<exists>c \<in> set (rev r @ [a]). \<not> P c" using a by auto
  from a have "dropWhile P (rev r @ [a]) = dropWhile P (rev r) @ [a]"
    by (metis dropWhile_append3 dropWhile_append1 dropWhile_append2)
  with Cons a show ?thesis by simp
qed

lemma trim_trim [simp]: "trim (trim s) = trim s"
  unfolding trim_rev
  by (metis dropWhile_idem dropWhile_rev_dropWhile rev_rev_ident)

text \<open>A text between two apostrophes.\<close>

definition quoted :: "string \<Rightarrow> string" where
  "quoted s = CHR 0x27 # s @ [CHR 0x27]"

text \<open>Decimal rendering of an unsigned integer, as \<open>{}\<close> prints it.\<close>

definition digit_char :: "nat \<Rightarrow> char" where
  "digit_char d = char_of (48 + d)"

fun show_nat :: "nat \<Rightarrow> string" where
  "show_nat n = (if n < 10 then [digit_char n] else show_nat (n div 10) @ [digit_char (n mod 10)])"

declare show_nat.simps [simp del]

lemma of_char_digit: "d < 10 \<Longrightarrow> of_char (digit_char d) = (48 + d :: nat)"
  by (simp add: digit_char_def)

fun dec_val :: "nat \<Rightarrow> string \<Rightarrow> nat" where
  "dec_val acc [] = acc"
| "dec_val acc (c # cs) = dec_val (10 * acc + (of_char c - 48)) cs"

lemma dec_val_append: "dec_val acc (s @ t) = dec_val (dec_val acc s) t"
  by (induction acc s rule: dec_val.induct) auto

lemma dec_val_show_nat [simp]: "dec_val 0 (show_nat n) = n"
proof (induction n rule: show_nat.induct)
  case (1 n)
  show ?case
  proof (cases "n < 10")
    case True
    then show ?thesis by (subst show_nat.simps) (simp add: of_char_digit)
  next
    case False
    with 1 show ?thesis by (subst show_nat.simps) (simp add: dec_val_append of_char_digit)
  qed
qed

lemma show_nat_inject [simp]: "show_nat m = show_nat n \<longleftrightarrow> m = n"
  by (metis dec_val_show_nat)

text \<open>\<open>{:0w}\<close>: zero-padded to at least \<open>w\<close> digits.\<close>

definition show_padded :: "nat \<Rightarrow> nat \<Rightarrow> string" where
  "show_padded w n = replicate (w - length (show_nat n)) (CHR ''0'') @ show_nat n"

lemma dec_val_zeros [simp]: "dec_val 0 (replicate k (CHR ''0'')) = 0"
  by (induction k) (auto simp: of_char_def)

lemma show_padded_inject [simp]: "show_padded w m = show_padded w n \<longleftrightarrow> m = n"
  by (metis dec_val_append dec_val_show_nat dec_val_zeros show_padded_def)

section \<open>Dashes\<close>

definition trim_dashes :: "string \<Rightarrow> string" where
  "trim_dashes s =
     rev (dropWhile (\<lambda>c. c = CHR ''-'') (rev (dropWhile (\<lambda>c. c = CHR ''-'') s)))"

lemma set_trim_dashes: "set (trim_dashes s) \<subseteq> set s"
  unfolding trim_dashes_def by (metis set_dropWhileD set_rev subsetI)

end
