(* ===== verification/Txn.thy ===== *)
theory Txn
  imports Prelude
begin

text \<open>
  The commit log and transactional wrapper of \<open>crates/aquifer/src/txn.rs\<close>: a compare-and-swap
  on a 64-bit sequence number in front of any memory backend. The backend is a parameter (the
  \<open>MemoryBackend\<close> trait): \<open>bstore m b\<close> stores \<open>m\<close> and returns the record or an error message,
  with the backend's next state. Interference of other writers between the snapshot and the
  compare-and-swap is the parameter \<open>env\<close>: \<open>env k\<close> is what the other writers do during attempt
  \<open>k\<close>. Arithmetic on sequence numbers wraps, as in the release profile of the workspace.
\<close>

section \<open>The commit log\<close>

type_synonym txn_seq = u64

datatype txn_error =
    Conflict txn_seq txn_seq  \<comment> \<open>expected, actual\<close>
  | Storage string

text \<open>\<open>CommitLog\<close> holds one atomic counter.\<close>

record commit_log =
  log_seq :: u64

definition new_log :: commit_log where
  "new_log = \<lparr>log_seq = 0\<rparr>"

definition current_seq :: "commit_log \<Rightarrow> txn_seq" where
  "current_seq l = log_seq l"

definition try_commit :: "txn_seq \<Rightarrow> commit_log \<Rightarrow> (txn_error + txn_seq) \<times> commit_log" where
  "try_commit expected l =
     (if log_seq l = expected
      then (Inr (expected + 1), l\<lparr>log_seq := expected + 1\<rparr>)
      else (Inl (Conflict expected (log_seq l)), l))"

section \<open>The transactional memory\<close>

record 'b txn_memory =
  inner :: 'b
  log :: commit_log

definition begin_write :: "'b txn_memory \<Rightarrow> 'm \<Rightarrow> txn_seq \<times> 'm" where
  "begin_write t m = (current_seq (log t), m)"

definition commit ::
  "('m \<Rightarrow> 'b \<Rightarrow> (string + 'r) \<times> 'b) \<Rightarrow> txn_seq \<Rightarrow> 'm \<Rightarrow> 'b txn_memory
     \<Rightarrow> (txn_error + txn_seq) \<times> 'b txn_memory" where
  "commit bstore expected m t =
     (case try_commit expected (log t) of
        (Inl e, l) \<Rightarrow> (Inl e, t\<lparr>log := l\<rparr>)
      | (Inr new_seq, l) \<Rightarrow>
          (case bstore m (inner t) of
             (Inl msg, b) \<Rightarrow> (Inl (Storage msg), t\<lparr>log := l, inner := b\<rparr>)
           | (Inr _, b) \<Rightarrow> (Inr new_seq, t\<lparr>log := l, inner := b\<rparr>)))"

function commit_with_retry ::
  "(nat \<Rightarrow> 'b txn_memory \<Rightarrow> 'b txn_memory) \<Rightarrow> ('m \<Rightarrow> 'b \<Rightarrow> (string + 'r) \<times> 'b)
     \<Rightarrow> 'm \<Rightarrow> nat \<Rightarrow> nat \<Rightarrow> 'b txn_memory \<Rightarrow> (txn_error + txn_seq) \<times> 'b txn_memory" where
  "commit_with_retry env bstore memory max_retries attempts t =
     (let (seq, mem) = begin_write t memory;
          t1 = env attempts t
      in case commit bstore seq mem t1 of
           (Inr new_seq, t2) \<Rightarrow> (Inr new_seq, t2)
         | (Inl (Conflict ex ac), t2) \<Rightarrow>
             (if attempts < max_retries
              then commit_with_retry env bstore memory max_retries (attempts + 1) t2
              else (Inl (Conflict ex ac), t2))
         | (Inl (Storage msg), t2) \<Rightarrow> (Inl (Storage msg), t2))"
  by pat_completeness auto
termination
  by (relation "measure (\<lambda>(env, bstore, memory, max_retries, attempts, t). max_retries - attempts)")
    auto

declare commit_with_retry.simps [simp del]

text \<open>The wrapper's own \<open>MemoryBackend::store\<close>: one snapshot, one compare-and-swap, no retry.\<close>

definition txn_store ::
  "(nat \<Rightarrow> 'b txn_memory \<Rightarrow> 'b txn_memory) \<Rightarrow> ('m \<Rightarrow> 'b \<Rightarrow> (string + 'r) \<times> 'b)
     \<Rightarrow> (txn_error \<Rightarrow> string) \<Rightarrow> 'm \<Rightarrow> 'b txn_memory \<Rightarrow> (string + 'r) \<times> 'b txn_memory" where
  "txn_store env bstore show_err m t =
     (let seq = current_seq (log t);
          t1 = env 0 t
      in case try_commit seq (log t1) of
           (Inl e, l) \<Rightarrow> (Inl (show_err e), t1\<lparr>log := l\<rparr>)
         | (Inr _, l) \<Rightarrow>
             (case bstore m (inner t1) of (r, b) \<Rightarrow> (r, t1\<lparr>log := l, inner := b\<rparr>)))"

section \<open>Lemmas on single operations\<close>

lemma try_commit_Inr_iff:
  "fst (try_commit e l) = Inr n \<longleftrightarrow> log_seq l = e \<and> n = e + 1"
  by (auto simp: try_commit_def)

lemma commit_seq:
  "log_seq (log (snd (commit bstore e m t))) =
     (if log_seq (log t) = e then e + 1 else log_seq (log t))"
  by (auto simp: commit_def try_commit_def split: sum.splits prod.splits)

lemma commit_cases:
  "commit bstore e m t =
     (if log_seq (log t) = e
      then (case bstore m (inner t) of
              (Inl msg, b) \<Rightarrow> (Inl (Storage msg), t\<lparr>log := \<lparr>log_seq = e + 1\<rparr>, inner := b\<rparr>)
            | (Inr _, b) \<Rightarrow> (Inr (e + 1), t\<lparr>log := \<lparr>log_seq = e + 1\<rparr>, inner := b\<rparr>))
      else (Inl (Conflict e (log_seq (log t))), t))"
  by (auto simp: commit_def try_commit_def split: sum.splits prod.splits)

lemma commit_with_retry_step:
  "commit_with_retry env bstore memory mr k t =
     (let t1 = env k t; s = log_seq (log t)
      in if log_seq (log t1) = s then commit bstore s memory t1
         else if k < mr then commit_with_retry env bstore memory mr (k + 1) t1
         else (Inl (Conflict s (log_seq (log t1))), t1))"
  by (subst commit_with_retry.simps)
    (auto simp: begin_write_def current_seq_def commit_cases Let_def split: sum.splits prod.splits)

text \<open>The calls the loop makes: how many times the compare-and-swap runs before it stops.\<close>

lemma commit_with_retry_quiet:
  assumes "k \<le> j" and "j \<le> mr" and "\<And>t. log_seq (log (env j t)) = log_seq (log t)"
  shows "\<exists>i t1. k \<le> i \<and> i \<le> j \<and>
           commit_with_retry env bstore memory mr k t = commit bstore (log_seq (log t1)) memory t1"
  using assms(1)
proof (induction "j - k" arbitrary: k t)
  case 0
  then have "k = j" by simp
  with assms(3) have "commit_with_retry env bstore memory mr k t =
      commit bstore (log_seq (log (env j t))) memory (env j t)"
    by (subst commit_with_retry_step) (simp add: Let_def)
  with \<open>k = j\<close> show ?case by blast
next
  case (Suc d)
  show ?case
  proof (cases "log_seq (log (env k t)) = log_seq (log t)")
    case True
    then have "commit_with_retry env bstore memory mr k t =
        commit bstore (log_seq (log (env k t))) memory (env k t)"
      by (subst commit_with_retry_step) (simp add: Let_def)
    with Suc.prems show ?thesis by blast
  next
    case False
    from Suc.hyps(2) have "k < j" by simp
    with False assms(2) have step: "commit_with_retry env bstore memory mr k t =
        commit_with_retry env bstore memory mr (k + 1) (env k t)"
      by (subst commit_with_retry_step) (simp add: Let_def)
    from Suc.hyps(1) [of "k + 1" "env k t"] Suc.hyps(2) \<open>k < j\<close> step
    show ?thesis by (metis Suc_diff_Suc Suc_leI add.commute add_leD2 diff_Suc_1 plus_1_eq_Suc)
  qed
qed

end
