(* ===== verification/Txn_Concurrent.thy ===== *)
theory Txn_Concurrent
  imports Txn
begin

text \<open>
  Any number of writers sharing one \<open>TransactionalMemory\<close> of \<open>crates/aquifer/src/txn.rs\<close>. A
  writer runs \<open>begin_write\<close>, then \<open>commit\<close>; inside \<open>commit\<close> the compare-and-swap and the
  backend's \<open>store\<close> are two separate actions, with an \<open>await\<close> between them, so the steps of
  different writers interleave there. The state carries the history of commits and of stored
  values, which the code does not keep; \<open>Begun\<close> also remembers how many commits had happened
  when the snapshot was taken.
\<close>

datatype 'm writer =
    Idle
  | Begun txn_seq nat 'm    \<comment> \<open>snapshot, commits so far (history), value\<close>
  | Storing txn_seq 'm      \<comment> \<open>the compare-and-swap succeeded, the store is pending\<close>

record 'm txn_world =
  tw_log :: commit_log
  tw_writers :: "nat \<Rightarrow> 'm writer"
  tw_commits :: "(nat \<times> nat \<times> txn_seq) list"  \<comment> \<open>writer, commits at its snapshot, new sequence\<close>
  tw_stored :: "(txn_seq \<times> 'm) list"           \<comment> \<open>values in the order the backend got them\<close>

definition init_world :: "'m txn_world" where
  "init_world = \<lparr>tw_log = new_log, tw_writers = (\<lambda>_. Idle), tw_commits = [], tw_stored = []\<rparr>"

inductive txn_step :: "'m txn_world \<Rightarrow> 'm txn_world \<Rightarrow> bool" where
  begin_step: "tw_writers w i = Idle \<Longrightarrow>
     txn_step w (w\<lparr>tw_writers := (tw_writers w)
       (i := Begun (current_seq (tw_log w)) (length (tw_commits w)) m)\<rparr>)"
| commit_ok_step: "tw_writers w i = Begun s k m \<Longrightarrow> try_commit s (tw_log w) = (Inr n, l) \<Longrightarrow>
     txn_step w (w\<lparr>tw_log := l, tw_writers := (tw_writers w)(i := Storing n m),
       tw_commits := tw_commits w @ [(i, k, n)]\<rparr>)"
| commit_conflict_step: "tw_writers w i = Begun s k m \<Longrightarrow> try_commit s (tw_log w) = (Inl e, l) \<Longrightarrow>
     txn_step w (w\<lparr>tw_log := l, tw_writers := (tw_writers w)(i := Idle)\<rparr>)"
| store_step: "tw_writers w i = Storing n m \<Longrightarrow>
     txn_step w (w\<lparr>tw_writers := (tw_writers w)(i := Idle), tw_stored := tw_stored w @ [(n, m)]\<rparr>)"
| store_fail_step: "tw_writers w i = Storing n m \<Longrightarrow>
     txn_step w (w\<lparr>tw_writers := (tw_writers w)(i := Idle)\<rparr>)"

inductive_cases txn_stepE: "txn_step w w'"

inductive txn_reachable :: "'m txn_world \<Rightarrow> bool" where
  start: "txn_reachable init_world"
| step: "txn_reachable w \<Longrightarrow> txn_step w w' \<Longrightarrow> txn_reachable w'"

section \<open>The invariant\<close>

text \<open>
  The counter is the number of commits (as a 64-bit word); the \<open>j\<close>-th commit was snapshotted
  when its writer had seen a prefix of the history whose length agrees with \<open>j\<close> up to wrap-around,
  and produced \<open>j + 1\<close>; a writer between \<open>begin_write\<close> and its compare-and-swap holds the counter
  as it was at its snapshot.
\<close>

definition txn_inv :: "'m txn_world \<Rightarrow> bool" where
  "txn_inv w \<longleftrightarrow>
     log_seq (tw_log w) = of_nat (length (tw_commits w)) \<and>
     (\<forall>j < length (tw_commits w). case tw_commits w ! j of (i, k, n) \<Rightarrow>
         k \<le> j \<and> (of_nat k :: u64) = of_nat j \<and> n = of_nat (Suc j)) \<and>
     (\<forall>i s k m. tw_writers w i = Begun s k m \<longrightarrow>
         s = of_nat k \<and> k \<le> length (tw_commits w))"

lemma txn_inv_init: "txn_inv init_world"
  by (simp add: txn_inv_def init_world_def new_log_def)

lemma txn_inv_commit:
  assumes "txn_inv w" and "tw_writers w i = Begun s k m" and "try_commit s (tw_log w) = (Inr n, l)"
  shows "txn_inv (w\<lparr>tw_log := l, tw_writers := (tw_writers w)(i := Storing n m),
           tw_commits := tw_commits w @ [(i, k, n)]\<rparr>)"
proof -
  from assms(3) have s: "log_seq (tw_log w) = s" and n: "n = s + 1" and l: "log_seq l = s + 1"
    by (auto simp: try_commit_def split: if_splits)
  from assms(1,2) have k: "s = of_nat k" "k \<le> length (tw_commits w)"
    unfolding txn_inv_def by blast+
  from assms(1) s have len: "s = of_nat (length (tw_commits w))"
    by (simp add: txn_inv_def)
  with k have eq: "(of_nat k :: u64) = of_nat (length (tw_commits w))" by simp
  have n': "n = of_nat (Suc (length (tw_commits w)))" using n len by simp
  show ?thesis
    using assms(1) l len k eq n'
    by (auto simp: txn_inv_def nth_append less_Suc_eq add.commute le_Suc_eq)
qed

lemma txn_inv_step [inv_pres]: "txn_step w w' \<Longrightarrow> txn_inv w \<Longrightarrow> txn_inv w'"
proof (induction rule: txn_step.induct)
  case (begin_step w i m)
  then show ?case by (auto simp: txn_inv_def current_seq_def)
next
  case (commit_ok_step w i s k m n l)
  then show ?case by (simp add: txn_inv_commit)
next
  case (commit_conflict_step w i s k m e l)
  then have "l = tw_log w" by (auto simp: try_commit_def split: if_splits)
  with commit_conflict_step.prems show ?case by (auto simp: txn_inv_def)
next
  case (store_step w i n m)
  then show ?case by (auto simp: txn_inv_def)
next
  case (store_fail_step w i n m)
  then show ?case by (auto simp: txn_inv_def)
qed

lemma txn_reachable_inv: "txn_reachable w \<Longrightarrow> txn_inv w"
  by (induction rule: txn_reachable.induct) (auto intro: txn_inv_init txn_inv_step)

lemma of_nat_u64_eqD:
  assumes "(of_nat a :: u64) = of_nat b" and "a < 2 ^ 64" and "b < 2 ^ 64"
  shows "a = b"
proof -
  from assms(1) have "unat (of_nat a :: u64) = unat (of_nat b :: u64)" by simp
  with assms(2,3) show ?thesis by (simp add: unat_of_nat)
qed

section \<open>Properties\<close>

text \<open>C25: no lost update. In every reachable state, as long as fewer than \<open>2 ^ 64\<close> commits have
  happened, the \<open>j\<close>-th successful commit was made by a writer whose \<open>begin_write\<close> had seen
  exactly the \<open>j\<close> commits before it: nobody committed between its snapshot and its
  compare-and-swap. Sequence numbers are therefore consecutive and never issued twice.\<close>

theorem commit_without_interference:
  assumes "txn_reachable w" and "length (tw_commits w) < 2 ^ 64"
    and "j < length (tw_commits w)"
  shows "\<exists>i. tw_commits w ! j = (i, j, of_nat (Suc j)) \<and> unat (of_nat (Suc j) :: u64) = Suc j"
proof -
  obtain i k n where c: "tw_commits w ! j = (i, k, n)" by (cases "tw_commits w ! j") auto
  from txn_reachable_inv [OF assms(1)] assms(3) c
  have k: "k \<le> j" "(of_nat k :: u64) = of_nat j" "n = of_nat (Suc j)"
    unfolding txn_inv_def by force+
  from k(1,2) assms(2,3) have "k = j" by (intro of_nat_u64_eqD) simp_all
  moreover from assms(2,3) have "unat (of_nat (Suc j) :: u64) = Suc j"
    by (simp add: unat_of_nat del: of_nat_Suc)
  ultimately show ?thesis using c k(3) by blast
qed

definition one_commit_world :: "nat txn_world" where
  "one_commit_world =
     \<lparr>tw_log = \<lparr>log_seq = 1\<rparr>, tw_writers = (\<lambda>_. Idle)(0 := Storing 1 7),
      tw_commits = [(0, 0, 1)], tw_stored = []\<rparr>"

lemma one_commit_world_reachable: "txn_reachable one_commit_world"
proof -
  let ?w1 = "(init_world :: nat txn_world)\<lparr>tw_writers := (tw_writers (init_world :: nat txn_world))
    (0 := Begun (current_seq (tw_log (init_world :: nat txn_world))) (length (tw_commits (init_world :: nat txn_world))) (7::nat))\<rparr>"
  have r1: "txn_reachable ?w1"
    by (rule txn_reachable.step [OF txn_reachable.start txn_step.begin_step])
      (simp add: init_world_def)
  have r2: "txn_reachable (?w1\<lparr>tw_log := \<lparr>log_seq = 1\<rparr>,
      tw_writers := (tw_writers ?w1)(0 := Storing 1 7),
      tw_commits := tw_commits ?w1 @ [(0, 0, 1)]\<rparr>)"
    by (rule txn_reachable.step [OF r1 txn_step.commit_ok_step])
      (auto simp: init_world_def new_log_def current_seq_def try_commit_def)
  then show ?thesis by (simp add: one_commit_world_def init_world_def new_log_def)
qed

theorem commit_without_interference_witness:
  "\<exists>i. tw_commits one_commit_world ! 0 = (i, 0, of_nat (Suc 0)) \<and> unat (of_nat (Suc 0) :: u64) = Suc 0"
  by (rule commit_without_interference [OF one_commit_world_reachable])
    (simp_all add: one_commit_world_def)

text \<open>the order in which the backend receives values is not the commit order. Two writers can
  commit as numbers 1 and 2 and have their values stored as 2, then 1, because the store follows
  the compare-and-swap without holding it.\<close>

theorem stores_can_invert_commit_order:
  "\<exists>w :: nat txn_world. txn_reachable w \<and> map (\<lambda>(i, k, n). n) (tw_commits w) = [1, 2] \<and>
     map fst (tw_stored w) = [2, 1]"
proof -
  let ?w2 = "one_commit_world"
  let ?w3 = "?w2\<lparr>tw_writers := (tw_writers ?w2)
    (1 := Begun (current_seq (tw_log ?w2)) (length (tw_commits ?w2)) (8::nat))\<rparr>"
  let ?w4 = "?w3\<lparr>tw_log := \<lparr>log_seq = 2\<rparr>, tw_writers := (tw_writers ?w3)(1 := Storing 2 8),
      tw_commits := tw_commits ?w3 @ [(1, 1, 2)]\<rparr>"
  let ?w5 = "?w4\<lparr>tw_writers := (tw_writers ?w4)(1 := Idle), tw_stored := tw_stored ?w4 @ [(2, 8)]\<rparr>"
  let ?w6 = "?w5\<lparr>tw_writers := (tw_writers ?w5)(0 := Idle), tw_stored := tw_stored ?w5 @ [(1, 7)]\<rparr>"
  note defs = one_commit_world_def current_seq_def try_commit_def
  have r3: "txn_reachable ?w3"
    by (rule txn_reachable.step [OF one_commit_world_reachable txn_step.begin_step])
      (simp add: defs)
  have r4: "txn_reachable ?w4"
    by (rule txn_reachable.step [OF r3 txn_step.commit_ok_step]) (auto simp: defs)
  have r5: "txn_reachable ?w5"
    by (rule txn_reachable.step [OF r4 txn_step.store_step]) (simp add: defs)
  have r6: "txn_reachable ?w6"
    by (rule txn_reachable.step [OF r5 txn_step.store_step]) (simp add: defs)
  show ?thesis
    by (rule exI [of _ ?w6]) (use r6 in \<open>simp add: defs\<close>)
qed

text \<open>\<open>commit_with_retry\<close> wins as soon as one of its attempts is left alone. If the other
  writers do not commit during some attempt \<open>j \<le> max_retries\<close>, the call ends with the backend's
  own verdict (a new sequence number or a storage error), never with a conflict, after at most
  \<open>j + 1\<close> attempts.\<close>

theorem commit_with_retry_wins:
  assumes "j \<le> max_retries" and "\<And>t. log_seq (log (env j t)) = log_seq (log t)"
  shows "\<exists>t1. commit_with_retry env bstore memory max_retries 0 t =
               commit bstore (log_seq (log t1)) memory t1 \<and>
             (case fst (bstore memory (inner t1)) of
                Inr _ \<Rightarrow> fst (commit_with_retry env bstore memory max_retries 0 t) =
                           Inr (log_seq (log t1) + 1)
              | Inl msg \<Rightarrow> fst (commit_with_retry env bstore memory max_retries 0 t) =
                           Inl (Storage msg))"
proof -
  from commit_with_retry_quiet [of 0 j max_retries env bstore memory t] assms
  obtain t1 where eq: "commit_with_retry env bstore memory max_retries 0 t =
      commit bstore (log_seq (log t1)) memory t1" by auto
  then show ?thesis
    by (intro exI [of _ t1]) (auto simp: commit_cases split: sum.splits prod.splits)
qed

definition rival_env :: "nat \<Rightarrow> nat list txn_memory \<Rightarrow> nat list txn_memory" where
  "rival_env k t = (if k = 0 then t\<lparr>log := \<lparr>log_seq = log_seq (log t) + 1\<rparr>\<rparr> else t)"

theorem commit_with_retry_wins_witness:
  "fst (commit_with_retry rival_env (\<lambda>m b. (Inr () :: string + unit, m # b)) 5 1 0
     \<lparr>inner = [], log = new_log\<rparr>) = Inr 2"
  using commit_with_retry_wins [of 1 1 rival_env "\<lambda>m b. (Inr () :: string + unit, m # b)" 5
      "\<lparr>inner = [], log = new_log\<rparr>"]
  by (simp add: rival_env_def commit_with_retry_step new_log_def commit_cases)

text \<open>a storage failure still consumes the sequence number. When the backend refuses the value,
  \<open>commit\<close> reports the storage error, yet the log has advanced, so every other writer that holds
  the same snapshot is now refused with a conflict although nothing was stored.\<close>

theorem failed_store_consumes_sequence:
  assumes "log_seq (log t) = s" and "bstore m (inner t) = (Inl msg, b)"
  shows "fst (commit bstore s m t) = Inl (Storage msg) \<and>
         fst (commit bstore s m' (snd (commit bstore s m t))) = Inl (Conflict s (s + 1))"
proof -
  have "s \<noteq> s + 1" by (metis add_cancel_left_right zero_neq_one)
  with assms show ?thesis by (simp add: commit_cases)
qed

theorem failed_store_consumes_sequence_witness:
  "fst (commit (\<lambda>m b. (Inl ''disk full'' :: string + unit, b)) 3 (5::nat)
       (snd (commit (\<lambda>m b. (Inl ''disk full'' :: string + unit, b)) 3 (0::nat)
         \<lparr>inner = (), log = \<lparr>log_seq = 3\<rparr>\<rparr>))) = Inl (Conflict 3 4)"
  using failed_store_consumes_sequence
    [of "\<lparr>inner = (), log = \<lparr>log_seq = 3\<rparr>\<rparr>" 3
      "\<lambda>m b. (Inl ''disk full'' :: string + unit, b)" 0 "''disk full''" "()" "5::nat"]
  by simp

end
