(* ===== verification/BTree.thy ===== *)
theory BTree
  imports Prelude "HOL-Library.Char_ord" "HOL-Library.List_Lexorder"
begin

text \<open>
  \<open>BTreeMap\<close> and \<open>BTreeSet\<close> of Rust's standard library, as key-ordered association lists:
  iteration order is part of what the modelled code observes. Strings are ordered by their
  bytes, as in Rust. The locale \<open>ordered_map\<close> states what the clients rely on; it is interpreted
  on the operations below, and the clients use the interpreted facts.
\<close>

type_synonym ('k, 'v) btree_map = "('k \<times> 'v) list"
type_synonym 'k btree_set = "('k, unit) btree_map"

definition bt_empty :: "('k, 'v) btree_map" where
  "bt_empty = []"

definition bt_get :: "('k, 'v) btree_map \<Rightarrow> 'k \<Rightarrow> 'v option" where
  "bt_get m k = map_of m k"

fun bt_insert :: "'k::linorder \<Rightarrow> 'v \<Rightarrow> ('k, 'v) btree_map \<Rightarrow> ('k, 'v) btree_map" where
  "bt_insert k v [] = [(k, v)]"
| "bt_insert k v ((j, u) # m) =
     (if k < j then (k, v) # (j, u) # m
      else if k = j then (k, v) # m
      else (j, u) # bt_insert k v m)"

definition bt_remove :: "'k \<Rightarrow> ('k, 'v) btree_map \<Rightarrow> ('k, 'v) btree_map" where
  "bt_remove k m = filter (\<lambda>p. fst p \<noteq> k) m"

definition bt_keys :: "('k, 'v) btree_map \<Rightarrow> 'k list" where
  "bt_keys m = map fst m"

definition bt_values :: "('k, 'v) btree_map \<Rightarrow> 'v list" where
  "bt_values m = map snd m"

definition bt_ok :: "('k::linorder, 'v) btree_map \<Rightarrow> bool" where
  "bt_ok m \<longleftrightarrow> sorted_wrt (<) (map fst m)"

section \<open>The interface\<close>

locale ordered_map =
  fixes ok :: "'m \<Rightarrow> bool"
    and empty :: "'m"
    and get :: "'m \<Rightarrow> 'k::linorder \<Rightarrow> 'v option"
    and put :: "'k \<Rightarrow> 'v \<Rightarrow> 'm \<Rightarrow> 'm"
    and del :: "'k \<Rightarrow> 'm \<Rightarrow> 'm"
    and keys :: "'m \<Rightarrow> 'k list"
  assumes ok_empty: "ok empty"
    and ok_put: "ok m \<Longrightarrow> ok (put k v m)"
    and ok_del: "ok m \<Longrightarrow> ok (del k m)"
    and get_empty: "get empty k = None"
    and get_put: "get (put k v m) j = (if j = k then Some v else get m j)"
    and get_del: "get (del k m) j = (if j = k then None else get m j)"
    and keys_sorted: "ok m \<Longrightarrow> sorted_wrt (<) (keys m)"
    and keys_dom: "set (keys m) = dom (get m)"
begin

lemma keys_distinct: "ok m \<Longrightarrow> distinct (keys m)"
  using keys_sorted [of m] strict_sorted_iff by blast

lemma keys_iff: "k \<in> set (keys m) \<longleftrightarrow> (\<exists>v. get m k = Some v)"
  by (auto simp: keys_dom)

lemma length_keys: "ok m \<Longrightarrow> length (keys m) = card (dom (get m))"
  using keys_distinct [of m] distinct_card [of "keys m"] keys_dom by metis

lemma finite_dom: "finite (dom (get m))"
  using keys_dom [of m] by (metis List.finite_set)

lemma dom_put: "dom (get (put k v m)) = insert k (dom (get m))"
  by (auto simp: get_put split: if_splits)

lemma dom_del: "dom (get (del k m)) = dom (get m) - {k}"
  by (auto simp: get_del split: if_splits)

lemma length_put_new: "ok m \<Longrightarrow> get m k = None \<Longrightarrow> length (keys (put k v m)) = Suc (length (keys m))"
  by (simp add: length_keys ok_put dom_put finite_dom domIff)

lemma length_del: "ok m \<Longrightarrow> length (keys (del k m)) \<le> length (keys m)"
  by (simp add: length_keys ok_del dom_del finite_dom card_Diff1_le)

lemma length_del_mem: "ok m \<Longrightarrow> get m k = Some v \<Longrightarrow> Suc (length (keys (del k m))) = length (keys m)"
  using finite_dom [of m] card_Suc_Diff1 [of "dom (get m)" k]
  by (simp add: length_keys ok_del dom_del domI)

end

section \<open>The interpretation\<close>

lemma map_of_bt_insert: "map_of (bt_insert k v m) j = (if j = k then Some v else map_of m j)"
  by (induction k v m rule: bt_insert.induct) auto

lemma set_keys_bt_insert: "fst ` set (bt_insert k v m) = insert k (fst ` set m)"
  by (induction k v m rule: bt_insert.induct) auto

lemma bt_ok_insert: "bt_ok m \<Longrightarrow> bt_ok (bt_insert k v m)"
proof (induction k v m rule: bt_insert.induct)
  case (1 k v)
  then show ?case by (simp add: bt_ok_def)
next
  case (2 k v j u m)
  have set_keys: "set (map fst (bt_insert k v m)) = insert k (fst ` set m)"
    using set_keys_bt_insert [of k v m] by simp
  with 2 show ?case
    by (auto simp: bt_ok_def)
qed

lemma bt_ok_remove: "bt_ok m \<Longrightarrow> bt_ok (bt_remove k m)"
  by (induction m) (auto simp: bt_ok_def bt_remove_def)

lemma map_of_bt_remove: "map_of (bt_remove k m) j = (if j = k then None else map_of m j)"
  by (induction m) (auto simp: bt_remove_def)

interpretation bt: ordered_map bt_ok bt_empty bt_get bt_insert bt_remove bt_keys
proof
  show "bt_ok bt_empty" by (simp add: bt_ok_def bt_empty_def)
  show "bt_ok (bt_insert k v m)" if "bt_ok m" for k :: 'a and v :: 'b and m
    using that by (rule bt_ok_insert)
  show "bt_ok (bt_remove k m)" if "bt_ok m" for k :: 'a and m :: "('a, 'b) btree_map"
    using that by (rule bt_ok_remove)
  show "set (bt_keys m) = dom (bt_get m)" for m :: "('a, 'b) btree_map"
    by (simp add: bt_keys_def bt_get_def [abs_def] dom_map_of_conv_image_fst)
qed (simp_all add: bt_get_def bt_keys_def map_of_bt_insert map_of_bt_remove bt_empty_def bt_ok_def)

lemmas bt_simps = bt.get_empty bt.get_put bt.get_del bt.dom_put bt.dom_del
lemmas bt_oks = bt.ok_empty bt.ok_put bt.ok_del

lemma bt_get_in: "bt_get m k = Some v \<Longrightarrow> (k, v) \<in> set m"
  by (simp add: bt_get_def map_of_SomeD)

lemma bt_in_get: "bt_ok m \<Longrightarrow> (k, v) \<in> set m \<Longrightarrow> bt_get m k = Some v"
  using bt.keys_distinct [of m] by (simp add: bt_get_def bt_keys_def)

section \<open>Sets\<close>

definition bs_insert :: "'k::linorder \<Rightarrow> 'k btree_set \<Rightarrow> 'k btree_set" where
  "bs_insert k s = bt_insert k () s"

definition bs_member :: "'k::linorder \<Rightarrow> 'k btree_set \<Rightarrow> bool" where
  "bs_member k s \<longleftrightarrow> k \<in> set (bt_keys s)"

definition bs_remove :: "'k::linorder \<Rightarrow> 'k btree_set \<Rightarrow> 'k btree_set" where
  "bs_remove k s = bt_remove k s"

definition bs_len :: "'k btree_set \<Rightarrow> nat" where
  "bs_len s = length (bt_keys s)"

lemma bs_member_insert: "bs_member j (bs_insert k s) \<longleftrightarrow> j = k \<or> bs_member j s"
  by (simp add: bs_member_def bs_insert_def bt.keys_dom bt.dom_put)

lemma bs_member_remove: "bs_member j (bs_remove k s) \<longleftrightarrow> j \<noteq> k \<and> bs_member j s"
  by (auto simp: bs_member_def bs_remove_def bt.keys_dom bt.dom_del)

lemma bs_member_empty: "\<not> bs_member j bt_empty"
  by (simp add: bs_member_def bt_keys_def bt_empty_def)

lemma bs_ok: "bt_ok s \<Longrightarrow> bt_ok (bs_insert k s)" "bt_ok s \<Longrightarrow> bt_ok (bs_remove k s)"
  by (simp_all add: bs_insert_def bs_remove_def bt_oks)

lemma bs_len_insert_new: "bt_ok s \<Longrightarrow> \<not> bs_member k s \<Longrightarrow> bs_len (bs_insert k s) = Suc (bs_len s)"
  using bt.length_put_new [of s k "()"] bt.keys_dom [of s]
  by (auto simp: bs_len_def bs_insert_def bs_member_def domIff simp del: not_None_eq)

lemma bs_len_remove_member: "bt_ok s \<Longrightarrow> bs_member k s \<Longrightarrow> Suc (bs_len (bs_remove k s)) = bs_len s"
  using bt.length_del_mem [of s k "()"] by (simp add: bs_len_def bs_remove_def bs_member_def bt.keys_iff)

lemma bs_len_remove: "bt_ok s \<Longrightarrow> bs_len (bs_remove k s) \<le> bs_len s"
  by (simp add: bs_len_def bs_remove_def bt.length_del)

lemma bs_len_empty: "bs_len bt_empty = 0"
  by (simp add: bs_len_def bt_keys_def bt_empty_def)

lemmas bs_simps = bs_member_insert bs_member_remove bs_member_empty bs_len_empty

end
