(* ===== verification/Lanes.thy ===== *)
theory Lanes
  imports BTree
begin

text \<open>
  The lane coordinator of \<open>crates/flume/src/lane.rs\<close>: registration of specialist lanes, task
  assignment with deduplication by id and canonical title, completion, turn accounting and the
  summaries. Turn and token counters are kept at their widths (\<open>u32\<close>, \<open>u64\<close>); additions wrap as
  in the release profile.
\<close>

section \<open>Data\<close>

record lane_budget =
  max_concurrent_tasks :: "nat option"
  max_turns :: "u32 option"
  token_cap :: "u64 option"

definition unlimited :: lane_budget where
  "unlimited = \<lparr>max_concurrent_tasks = None, max_turns = None, token_cap = None\<rparr>"

record lane_contract =
  owned_scope :: string
  non_goals :: "string list"
  budget :: lane_budget
  handoff_to :: "string option"
  allowed_tools :: "string list"
  agent_constraint :: "string option"

definition minimal :: "string \<Rightarrow> lane_contract" where
  "minimal scope =
     \<lparr>owned_scope = scope, non_goals = [], budget = unlimited, handoff_to = None,
      allowed_tools = [], agent_constraint = None\<rparr>"

record lane =
  l_name :: string
  l_definition :: string
  l_contract :: lane_contract

datatype lane_error =
    LaneNotFound string
  | DuplicateTask string string  \<comment> \<open>task, owner\<close>
  | BudgetExceeded string

record lane_task_entry =
  te_task_id :: string
  te_canonical_title :: string
  te_lane_name :: string

record lane_state =
  ls_lane :: lane
  ls_turns_used :: u32
  ls_tokens_used :: u64
  ls_active_task_ids :: "string btree_set"

record lane_coordinator =
  lc_lanes :: "(string, lane_state) btree_map"
  lc_task_owners :: "lane_task_entry list"

record lane_summary =
  sm_name :: string
  sm_definition :: string
  sm_contract :: lane_contract
  sm_active_task_ids :: "string list"
  sm_turns_used :: u32
  sm_tokens_used :: u64

section \<open>Operations\<close>

definition canonical :: "string \<Rightarrow> string" where
  "canonical title = to_ascii_lowercase (trim title)"

definition new_lane_state :: "lane \<Rightarrow> lane_state" where
  "new_lane_state l =
     \<lparr>ls_lane = l, ls_turns_used = 0, ls_tokens_used = 0, ls_active_task_ids = bt_empty\<rparr>"

definition has_task_capacity :: "lane_state \<Rightarrow> bool" where
  "has_task_capacity s =
     (case max_concurrent_tasks (budget (l_contract (ls_lane s))) of
        Some cap \<Rightarrow> bs_len (ls_active_task_ids s) < cap
      | None \<Rightarrow> True)"

definition can_use_turn :: "lane_state \<Rightarrow> bool" where
  "can_use_turn s =
     (case max_turns (budget (l_contract (ls_lane s))) of
        Some cap \<Rightarrow> ls_turns_used s < cap
      | None \<Rightarrow> True)"

definition new_coordinator :: lane_coordinator where
  "new_coordinator = \<lparr>lc_lanes = bt_empty, lc_task_owners = []\<rparr>"

definition register_lane :: "lane \<Rightarrow> lane_coordinator \<Rightarrow> lane_coordinator" where
  "register_lane l c = c\<lparr>lc_lanes := bt_insert (l_name l) (new_lane_state l) (lc_lanes c)\<rparr>"

definition assign_task ::
  "string \<Rightarrow> string \<Rightarrow> string \<Rightarrow> lane_coordinator \<Rightarrow> (lane_error + unit) \<times> lane_coordinator" where
  "assign_task lane_name task_id task_title c =
     (let canonical_title = canonical task_title
      in case List.find (\<lambda>e. te_task_id e = task_id \<or> te_canonical_title e = canonical_title)
                (lc_task_owners c) of
           Some entry \<Rightarrow> (Inl (DuplicateTask task_id (te_lane_name entry)), c)
         | None \<Rightarrow>
             (case bt_get (lc_lanes c) lane_name of
                None \<Rightarrow> (Inl (LaneNotFound lane_name), c)
              | Some st \<Rightarrow>
                  (if \<not> has_task_capacity st
                   then (Inl (BudgetExceeded
                          (''lane '' @ quoted lane_name @ '' concurrent-task cap ('' @
                           show_nat (case max_concurrent_tasks (budget (l_contract (ls_lane st))) of
                                       Some cap \<Rightarrow> cap | None \<Rightarrow> 0) @ '') reached'')), c)
                   else (Inr (),
                     c\<lparr>lc_lanes := bt_insert lane_name
                          (st\<lparr>ls_active_task_ids := bs_insert task_id (ls_active_task_ids st)\<rparr>)
                          (lc_lanes c),
                       lc_task_owners := lc_task_owners c @
                          [\<lparr>te_task_id = task_id, te_canonical_title = canonical_title,
                            te_lane_name = lane_name\<rparr>]\<rparr>))))"

text \<open>The owner entry is removed before the lane is looked up, so a task whose lane is gone loses
  its entry although the call answers \<open>None\<close>.\<close>

definition complete_task ::
  "string \<Rightarrow> u64 \<Rightarrow> lane_coordinator \<Rightarrow> (string \<times> string option) option \<times> lane_coordinator" where
  "complete_task task_id tokens c =
     (case List.extract (\<lambda>e. te_task_id e = task_id) (lc_task_owners c) of
        None \<Rightarrow> (None, c)
      | Some (before, entry, after) \<Rightarrow>
          (let c1 = c\<lparr>lc_task_owners := before @ after\<rparr>
           in case bt_get (lc_lanes c1) (te_lane_name entry) of
                None \<Rightarrow> (None, c1)
              | Some st \<Rightarrow>
                  (Some (te_lane_name entry, handoff_to (l_contract (ls_lane st))),
                   c1\<lparr>lc_lanes := bt_insert (te_lane_name entry)
                        (st\<lparr>ls_active_task_ids := bs_remove task_id (ls_active_task_ids st),
                           ls_turns_used := ls_turns_used st + 1,
                           ls_tokens_used := ls_tokens_used st + tokens\<rparr>)
                        (lc_lanes c1)\<rparr>)))"

definition record_turn ::
  "string \<Rightarrow> lane_coordinator \<Rightarrow> (lane_error + unit) \<times> lane_coordinator" where
  "record_turn lane_name c =
     (case bt_get (lc_lanes c) lane_name of
        None \<Rightarrow> (Inl (LaneNotFound lane_name), c)
      | Some st \<Rightarrow>
          (if \<not> can_use_turn st
           then (Inl (BudgetExceeded
                  (''lane '' @ quoted lane_name @ '' turn budget ('' @
                   show_nat (case max_turns (budget (l_contract (ls_lane st))) of
                               Some cap \<Rightarrow> unat cap | None \<Rightarrow> 0) @ '') exhausted'')), c)
           else (Inr (),
             c\<lparr>lc_lanes := bt_insert lane_name (st\<lparr>ls_turns_used := ls_turns_used st + 1\<rparr>)
                  (lc_lanes c)\<rparr>)))"

definition summary_from_state :: "lane_state \<Rightarrow> lane_summary" where
  "summary_from_state st =
     \<lparr>sm_name = l_name (ls_lane st), sm_definition = l_definition (ls_lane st),
      sm_contract = l_contract (ls_lane st), sm_active_task_ids = bt_keys (ls_active_task_ids st),
      sm_turns_used = ls_turns_used st, sm_tokens_used = ls_tokens_used st\<rparr>"

definition lane_summaries :: "lane_coordinator \<Rightarrow> lane_summary list" where
  "lane_summaries c = map summary_from_state (bt_values (lc_lanes c))"

definition owner_of :: "string \<Rightarrow> lane_coordinator \<Rightarrow> string option" where
  "owner_of task_id c =
     map_option te_lane_name (List.find (\<lambda>e. te_task_id e = task_id) (lc_task_owners c))"

section \<open>The invariant\<close>

text \<open>
  Owner entries have distinct ids and distinct titles; the owner table and the lanes' active
  sets say the same thing; no lane holds more tasks than its cap; lanes are filed under their
  own names.
\<close>

definition lane_ok :: "string \<Rightarrow> lane_state \<Rightarrow> bool" where
  "lane_ok n st \<longleftrightarrow>
     l_name (ls_lane st) = n \<and> bt_ok (ls_active_task_ids st) \<and>
     (\<forall>cap. max_concurrent_tasks (budget (l_contract (ls_lane st))) = Some cap \<longrightarrow>
        bs_len (ls_active_task_ids st) \<le> cap)"

definition owns :: "lane_coordinator \<Rightarrow> string \<Rightarrow> string \<Rightarrow> bool" where
  "owns c n t \<longleftrightarrow> (\<exists>e \<in> set (lc_task_owners c). te_task_id e = t \<and> te_lane_name e = n)"

definition active_in :: "lane_coordinator \<Rightarrow> string \<Rightarrow> string \<Rightarrow> bool" where
  "active_in c n t \<longleftrightarrow>
     (\<exists>st. bt_get (lc_lanes c) n = Some st \<and> bs_member t (ls_active_task_ids st))"

definition lane_inv :: "lane_coordinator \<Rightarrow> bool" where
  "lane_inv c \<longleftrightarrow>
     bt_ok (lc_lanes c) \<and>
     (\<forall>n st. bt_get (lc_lanes c) n = Some st \<longrightarrow> lane_ok n st) \<and>
     distinct (map te_task_id (lc_task_owners c)) \<and>
     distinct (map te_canonical_title (lc_task_owners c)) \<and>
     (\<forall>n t. owns c n t \<longleftrightarrow> active_in c n t)"

lemma lane_inv_new: "lane_inv new_coordinator"
  by (simp add: lane_inv_def new_coordinator_def owns_def active_in_def bt_simps bt_oks)

lemma register_lane_inv [inv_pres]:
  assumes "lane_inv c" and "\<And>t. \<not> owns c (l_name l) t"
  shows "lane_inv (register_lane l c)"
proof -
  have "active_in (register_lane l c) n t \<longleftrightarrow> n \<noteq> l_name l \<and> active_in c n t" for n t
    by (auto simp: register_lane_def active_in_def bt_simps new_lane_state_def bs_simps)
  moreover have "owns (register_lane l c) n t = owns c n t" for n t
    by (simp add: register_lane_def owns_def)
  ultimately show ?thesis using assms
    by (auto simp: lane_inv_def register_lane_def bt_simps bt_oks lane_ok_def new_lane_state_def
        bs_simps)
qed

lemma extract_split:
  "List.extract P xs = Some (as, x, bs) \<Longrightarrow> xs = as @ x # bs \<and> P x \<and> (\<forall>y \<in> set as. \<not> P y)"
  by (auto simp: extract_Some_iff)

text \<open>Filing a new state under a lane's name keeps the invariant when the owner table follows.\<close>

lemma lane_inv_update:
  assumes inv: "lane_inv c" and ok: "lane_ok n st'"
    and ids: "distinct (map te_task_id os)" and titles: "distinct (map te_canonical_title os)"
    and here: "\<And>t. (\<exists>e \<in> set os. te_task_id e = t \<and> te_lane_name e = n) \<longleftrightarrow>
                 bs_member t (ls_active_task_ids st')"
    and there: "\<And>m t. m \<noteq> n \<Longrightarrow>
                 (\<exists>e \<in> set os. te_task_id e = t \<and> te_lane_name e = m) \<longleftrightarrow> owns c m t"
  shows "lane_inv (c\<lparr>lc_lanes := bt_insert n st' (lc_lanes c), lc_task_owners := os\<rparr>)"
    (is "lane_inv ?c")
proof -
  have "owns ?c m t \<longleftrightarrow> active_in ?c m t" for m t
  proof (cases "m = n")
    case True
    then show ?thesis using here [of t] by (simp add: owns_def active_in_def bt_simps)
  next
    case False
    have "active_in ?c m t \<longleftrightarrow> active_in c m t" using False by (simp add: active_in_def bt_simps)
    moreover have "owns c m t \<longleftrightarrow> active_in c m t" using inv by (simp add: lane_inv_def)
    ultimately show ?thesis using there [OF False, of t] by (simp add: owns_def)
  qed
  with inv ok ids titles show ?thesis
    by (simp add: lane_inv_def bt_simps bt_oks)
qed

lemma lane_inv_lane_ok: "lane_inv c \<Longrightarrow> bt_get (lc_lanes c) n = Some st \<Longrightarrow> lane_ok n st"
  by (simp add: lane_inv_def)

lemma lane_inv_owner: "lane_inv c \<Longrightarrow> bt_get (lc_lanes c) n = Some st \<Longrightarrow>
    bs_member t (ls_active_task_ids st) \<longleftrightarrow> (\<exists>e \<in> set (lc_task_owners c). te_task_id e = t \<and> te_lane_name e = n)"
  using owns_def [of c n t] active_in_def [of c n t] by (simp add: lane_inv_def)

lemma assign_task_inv [inv_pres]:
  assumes inv: "lane_inv c"
  shows "lane_inv (snd (assign_task n t title c))"
proof (cases "List.find (\<lambda>e. te_task_id e = t \<or> te_canonical_title e = canonical title)
                (lc_task_owners c)")
  case None
  have fresh: "te_task_id e \<noteq> t" "te_canonical_title e \<noteq> canonical title"
    if "e \<in> set (lc_task_owners c)" for e
    using find_NoneD [OF None that] by simp_all
  then have new_title: "canonical title \<notin> te_canonical_title ` set (lc_task_owners c)"
    by fastforce
  show ?thesis
  proof (cases "bt_get (lc_lanes c) n")
    case None
    with inv \<open>List.find _ _ = None\<close> show ?thesis by (simp add: assign_task_def Let_def)
  next
    case (Some st)
    note st = Some
    show ?thesis
    proof (cases "has_task_capacity st")
      case False
      with inv None st show ?thesis by (simp add: assign_task_def Let_def)
    next
      case True
      have new: "\<not> bs_member t (ls_active_task_ids st)"
        using lane_inv_owner [OF inv st, of t] fresh(1) by auto
      have "lane_ok n (st\<lparr>ls_active_task_ids := bs_insert t (ls_active_task_ids st)\<rparr>)"
        using lane_inv_lane_ok [OF inv st] True new
        by (auto simp: lane_ok_def has_task_capacity_def bs_ok bs_len_insert_new)
      then have "lane_inv (c\<lparr>lc_lanes := bt_insert n
            (st\<lparr>ls_active_task_ids := bs_insert t (ls_active_task_ids st)\<rparr>) (lc_lanes c),
          lc_task_owners := lc_task_owners c @ [\<lparr>te_task_id = t,
            te_canonical_title = canonical title, te_lane_name = n\<rparr>]\<rparr>)"
        using inv fresh(1) new_title lane_inv_owner [OF inv st]
        by (intro lane_inv_update) (auto simp: lane_inv_def bs_simps owns_def)
      with None st True show ?thesis by (simp add: assign_task_def Let_def)
    qed
  qed
qed (use inv in \<open>simp add: assign_task_def Let_def\<close>)

lemma complete_task_inv [inv_pres]:
  assumes inv: "lane_inv c"
  shows "lane_inv (snd (complete_task t k c))"
proof (cases "List.extract (\<lambda>e. te_task_id e = t) (lc_task_owners c)")
  case None
  with inv show ?thesis by (simp add: complete_task_def)
next
  case (Some r)
  then obtain as e bs where r: "List.extract (\<lambda>e. te_task_id e = t) (lc_task_owners c) = Some (as, e, bs)"
    by (cases r) auto
  from extract_split [OF r] have split: "lc_task_owners c = as @ e # bs" and te: "te_task_id e = t"
    by auto
  from inv have dist: "distinct (map te_task_id (as @ e # bs))"
    "distinct (map te_canonical_title (as @ e # bs))"
    unfolding split [symmetric] by (simp_all add: lane_inv_def)
  have others: "te_task_id x \<noteq> t" if "x \<in> set as \<union> set bs" for x
    using that dist(1) te by (auto simp: rev_image_eqI)
  have "owns c (te_lane_name e) t" using split te by (auto simp: owns_def)
  then obtain st where st: "bt_get (lc_lanes c) (te_lane_name e) = Some st"
    using inv by (auto simp: lane_inv_def active_in_def)
  have "lane_ok (te_lane_name e) (st\<lparr>ls_active_task_ids := bs_remove t (ls_active_task_ids st),
      ls_turns_used := ls_turns_used st + 1, ls_tokens_used := ls_tokens_used st + k\<rparr>)"
    using lane_inv_lane_ok [OF inv st] bs_len_remove [of "ls_active_task_ids st" t]
    by (force simp: lane_ok_def bs_ok)
  then have "lane_inv (c\<lparr>lc_lanes := bt_insert (te_lane_name e)
        (st\<lparr>ls_active_task_ids := bs_remove t (ls_active_task_ids st),
          ls_turns_used := ls_turns_used st + 1, ls_tokens_used := ls_tokens_used st + k\<rparr>)
        (lc_lanes c), lc_task_owners := as @ bs\<rparr>)"
    using inv dist others lane_inv_owner [OF inv st] te
    by (intro lane_inv_update) (auto simp: owns_def bs_simps split)
  moreover have "snd (complete_task t k c) = c\<lparr>lc_lanes := bt_insert (te_lane_name e)
        (st\<lparr>ls_active_task_ids := bs_remove t (ls_active_task_ids st),
          ls_turns_used := ls_turns_used st + 1, ls_tokens_used := ls_tokens_used st + k\<rparr>)
        (lc_lanes c), lc_task_owners := as @ bs\<rparr>"
    using r st by (simp add: complete_task_def Let_def)
  ultimately show ?thesis by simp
qed

lemma record_turn_inv [inv_pres]:
  assumes inv: "lane_inv c"
  shows "lane_inv (snd (record_turn n c))"
proof (cases "bt_get (lc_lanes c) n")
  case None
  with inv show ?thesis by (simp add: record_turn_def)
next
  case (Some st)
  have "lane_ok n (st\<lparr>ls_turns_used := ls_turns_used st + 1\<rparr>)"
    using lane_inv_lane_ok [OF inv Some] by (simp add: lane_ok_def)
  then have "lane_inv (c\<lparr>lc_lanes := bt_insert n (st\<lparr>ls_turns_used := ls_turns_used st + 1\<rparr>) (lc_lanes c),
      lc_task_owners := lc_task_owners c\<rparr>)"
    using inv lane_inv_owner [OF inv Some]
    by (intro lane_inv_update) (auto simp: owns_def lane_inv_def)
  with Some inv show ?thesis by (simp add: record_turn_def)
qed

section \<open>Reachable coordinators\<close>

text \<open>Every sequence of calls, as long as a lane name is registered again only while that lane holds
  no task.\<close>

inductive lane_reach :: "lane_coordinator \<Rightarrow> bool" where
  new: "lane_reach new_coordinator"
| register: "lane_reach c \<Longrightarrow> \<forall>t. \<not> owns c (l_name l) t \<Longrightarrow> lane_reach (register_lane l c)"
| assign: "lane_reach c \<Longrightarrow> lane_reach (snd (assign_task n t title c))"
| complete: "lane_reach c \<Longrightarrow> lane_reach (snd (complete_task t k c))"
| turn: "lane_reach c \<Longrightarrow> lane_reach (snd (record_turn n c))"

lemma lane_reach_inv: "lane_reach c \<Longrightarrow> lane_inv c"
  by (induction rule: lane_reach.induct) (simp_all add: lane_inv_new inv_pres)

lemma owner_of_iff:
  assumes "lane_inv c"
  shows "owner_of t c = Some n \<longleftrightarrow> owns c n t"
proof
  assume "owner_of t c = Some n"
  then show "owns c n t" by (auto simp: owner_of_def owns_def dest: find_SomeD)
next
  assume "owns c n t"
  then obtain e where e: "e \<in> set (lc_task_owners c)" "te_task_id e = t" "te_lane_name e = n"
    by (auto simp: owns_def)
  have "List.find (\<lambda>e. te_task_id e = t) (lc_task_owners c) = Some e"
    using assms e by (intro find_unique) (auto simp: lane_inv_def distinct_map inj_on_def)
  with e show "owner_of t c = Some n" by (simp add: owner_of_def)
qed


definition demo_lane :: "nat \<Rightarrow> u32 \<Rightarrow> lane" where
  "demo_lane cap turns =
     \<lparr>l_name = ''tests'', l_definition = ''worker'',
      l_contract = (minimal ''the tests'')\<lparr>budget :=
        \<lparr>max_concurrent_tasks = Some cap, max_turns = Some turns, token_cap = None\<rparr>\<rparr>\<rparr>"

definition demo_coordinator :: lane_coordinator where
  "demo_coordinator =
     snd (assign_task ''tests'' ''task-1'' '' Fix CI'' (register_lane (demo_lane 3 2) new_coordinator))"

lemmas lane_eval = demo_coordinator_def demo_lane_def register_lane_def new_coordinator_def
  assign_task_def complete_task_def record_turn_def new_lane_state_def has_task_capacity_def
  can_use_turn_def bt_empty_def bt_get_def bs_len_def bt_keys_def bs_insert_def bs_remove_def
  bt_remove_def minimal_def owner_of_def Let_def


lemma demo_reach: "lane_reach demo_coordinator"
  unfolding demo_coordinator_def
  by (intro lane_reach.assign lane_reach.register lane_reach.new)
    (simp add: owns_def new_coordinator_def)


section \<open>Assignment and completion\<close>

lemma assign_task_ok:
  "fst (assign_task n t title c) = Inr () \<longleftrightarrow>
     (\<forall>e \<in> set (lc_task_owners c). te_task_id e \<noteq> t \<and> te_canonical_title e \<noteq> canonical title) \<and>
     (\<exists>st. bt_get (lc_lanes c) n = Some st \<and> has_task_capacity st)"
  by (auto simp: assign_task_def Let_def find_None_iff split: option.splits dest: find_SomeD)

lemma assign_task_owners:
  "fst (assign_task n t title c) = Inr () \<Longrightarrow>
     lc_task_owners (snd (assign_task n t title c)) = lc_task_owners c @
       [\<lparr>te_task_id = t, te_canonical_title = canonical title, te_lane_name = n\<rparr>]"
  by (auto simp: assign_task_def Let_def split: option.splits if_splits)

lemma assign_task_duplicate:
  "List.find (\<lambda>e. te_task_id e = t \<or> te_canonical_title e = canonical title) (lc_task_owners c) = Some e \<Longrightarrow>
     assign_task n t title c = (Inl (DuplicateTask t (te_lane_name e)), c)"
  by (simp add: assign_task_def Let_def)

lemma find_append_fresh:
  "\<forall>x \<in> set xs. \<not> P x \<Longrightarrow> P y \<Longrightarrow> List.find P (xs @ [y]) = Some y"
  by (induction xs) auto

text \<open>\<open>assign_task\<close> succeeds exactly when no active task has the id or the canonical title, the
  lane exists and it has a free slot; a call that fails changes nothing; and after a success
  the same task, and any other task whose title differs only by case and outer white space, is
  rejected in every lane with the owning lane named, leaving the coordinator unchanged.\<close>

theorem assign_task_exclusive:
  fixes n t title c
  defines "c' \<equiv> snd (assign_task n t title c)"
  shows "(fst (assign_task n t title c) = Inr () \<longleftrightarrow>
            (\<forall>e \<in> set (lc_task_owners c).
               te_task_id e \<noteq> t \<and> te_canonical_title e \<noteq> canonical title) \<and>
            (\<exists>st. bt_get (lc_lanes c) n = Some st \<and> has_task_capacity st)) \<and>
         (fst (assign_task n t title c) \<noteq> Inr () \<longrightarrow> c' = c) \<and>
         (fst (assign_task n t title c) = Inr () \<and> canonical title' = canonical title \<and>
            (t' = t \<or> (\<forall>e \<in> set (lc_task_owners c). te_task_id e \<noteq> t')) \<longrightarrow>
          assign_task m t' title' c' = (Inl (DuplicateTask t' n), c'))"
proof (intro conjI impI)
  show "fst (assign_task n t title c) \<noteq> Inr () \<Longrightarrow> c' = c"
    by (auto simp: c'_def assign_task_def Let_def split: option.splits if_splits)
next
  assume h: "fst (assign_task n t title c) = Inr () \<and> canonical title' = canonical title \<and>
    (t' = t \<or> (\<forall>e \<in> set (lc_task_owners c). te_task_id e \<noteq> t'))"
  then have "List.find (\<lambda>e. te_task_id e = t' \<or> te_canonical_title e = canonical title')
      (lc_task_owners c') = Some \<lparr>te_task_id = t, te_canonical_title = canonical title, te_lane_name = n\<rparr>"
    using assign_task_ok [of n t title c] assign_task_owners [of n t title c]
    by (auto simp: c'_def intro!: find_append_fresh)
  from assign_task_duplicate [OF this] show "assign_task m t' title' c' = (Inl (DuplicateTask t' n), c')"
    by simp
qed (simp_all add: assign_task_ok)

theorem assign_task_exclusive_witness:
  "assign_task ''docs'' ''task-2'' ''FIX ci'' demo_coordinator =
     (Inl (DuplicateTask ''task-2'' ''tests''), demo_coordinator)"
proof -
  have "assign_task ''docs'' ''task-2'' ''FIX ci''
      (snd (assign_task ''tests'' ''task-1'' '' Fix CI'' (register_lane (demo_lane 3 2) new_coordinator))) =
    (Inl (DuplicateTask ''task-2'' ''tests''),
      snd (assign_task ''tests'' ''task-1'' '' Fix CI'' (register_lane (demo_lane 3 2) new_coordinator)))"
    by (rule assign_task_exclusive [THEN conjunct2, THEN conjunct2, THEN mp]) code_simp
  then show ?thesis by (simp add: demo_coordinator_def)
qed

lemma complete_task_eq:
  assumes inv: "lane_inv c" and own: "owner_of t c = Some n"
  obtains as e bs st where "lc_task_owners c = as @ e # bs" "te_task_id e = t" "te_lane_name e = n"
    "bt_get (lc_lanes c) n = Some st" "bs_member t (ls_active_task_ids st)"
    "\<And>x. x \<in> set as \<union> set bs \<Longrightarrow> te_task_id x \<noteq> t"
    "complete_task t k c =
       (Some (n, handoff_to (l_contract (ls_lane st))),
        c\<lparr>lc_lanes := bt_insert n
            (st\<lparr>ls_active_task_ids := bs_remove t (ls_active_task_ids st),
               ls_turns_used := ls_turns_used st + 1, ls_tokens_used := ls_tokens_used st + k\<rparr>)
            (lc_lanes c), lc_task_owners := as @ bs\<rparr>)"
proof -
  have "owns c n t" using own owner_of_iff [OF inv] by simp
  then have "List.extract (\<lambda>e. te_task_id e = t) (lc_task_owners c) \<noteq> None"
    by (auto simp: extract_None_iff owns_def)
  then obtain as e bs where
    ex: "List.extract (\<lambda>e. te_task_id e = t) (lc_task_owners c) = Some (as, e, bs)" by auto
  from extract_split [OF ex] have split: "lc_task_owners c = as @ e # bs" and te: "te_task_id e = t"
    by auto
  have dist: "distinct (map te_task_id (as @ e # bs))"
    using inv by (simp add: lane_inv_def flip: split)
  have "owns c (te_lane_name e) t" using split te by (auto simp: owns_def)
  then have n: "te_lane_name e = n" using own owner_of_iff [OF inv] by (metis option.inject)
  from inv \<open>owns c n t\<close> obtain st where
    st: "bt_get (lc_lanes c) n = Some st" "bs_member t (ls_active_task_ids st)"
    by (auto simp: lane_inv_def active_in_def)
  have "te_task_id x \<noteq> t" if "x \<in> set as \<union> set bs" for x
    using that dist te by (auto simp: rev_image_eqI)
  with that [OF split te n st] show ?thesis
    using ex st n by (simp add: complete_task_def Let_def)
qed

text \<open>Completing an active task answers its lane and that lane's handoff target, frees the
  slot (the task is active nowhere, the lane has capacity again), counts one turn and the
  reported tokens, and leaves every other task with its owner.\<close>

theorem complete_task_frees_slot:
  assumes reach: "lane_reach c" and own: "owner_of t c = Some n"
  shows "\<exists>st st'. bt_get (lc_lanes c) n = Some st \<and>
           fst (complete_task t k c) = Some (n, handoff_to (l_contract (ls_lane st))) \<and>
           bt_get (lc_lanes (snd (complete_task t k c))) n = Some st' \<and>
           has_task_capacity st' \<and> ls_turns_used st' = ls_turns_used st + 1 \<and>
           ls_tokens_used st' = ls_tokens_used st + k \<and>
           \<not> active_in (snd (complete_task t k c)) m t \<and>
           (\<forall>u. u \<noteq> t \<longrightarrow> owner_of u (snd (complete_task t k c)) = owner_of u c)"
proof -
  have inv: "lane_inv c" using reach by (rule lane_reach_inv)
  from complete_task_eq [OF inv own, of k] obtain as e bs st where
    split: "lc_task_owners c = as @ e # bs" and te: "te_task_id e = t"
    and st: "bt_get (lc_lanes c) n = Some st" and mem: "bs_member t (ls_active_task_ids st)"
    and others: "\<And>x. x \<in> set as \<union> set bs \<Longrightarrow> te_task_id x \<noteq> t"
    and eq: "complete_task t k c =
       (Some (n, handoff_to (l_contract (ls_lane st))),
        c\<lparr>lc_lanes := bt_insert n
            (st\<lparr>ls_active_task_ids := bs_remove t (ls_active_task_ids st),
               ls_turns_used := ls_turns_used st + 1, ls_tokens_used := ls_tokens_used st + k\<rparr>)
            (lc_lanes c), lc_task_owners := as @ bs\<rparr>)" (is "_ = (_, ?c)")
    by metis
  have inv': "lane_inv ?c" using complete_task_inv [OF inv, of t k] eq by simp
  have "\<not> owns ?c m t" using others by (auto simp: owns_def)
  then have gone: "\<not> active_in ?c m t" using inv' by (simp add: lane_inv_def)
  have keep: "owner_of u ?c = owner_of u c" if "u \<noteq> t" for u
  proof -
    have "owns ?c j u \<longleftrightarrow> owns c j u" for j using split te that by (auto simp: owns_def)
    then have "owner_of u ?c = Some j \<longleftrightarrow> owner_of u c = Some j" for j
      using owner_of_iff [OF inv] owner_of_iff [OF inv'] by simp
    then show ?thesis by (metis option.exhaust)
  qed
  have "Suc (bs_len (bs_remove t (ls_active_task_ids st))) = bs_len (ls_active_task_ids st)"
    using lane_inv_lane_ok [OF inv st] mem by (simp add: lane_ok_def bs_len_remove_member)
  then have cap: "has_task_capacity (st\<lparr>ls_active_task_ids := bs_remove t (ls_active_task_ids st),
       ls_turns_used := ls_turns_used st + 1, ls_tokens_used := ls_tokens_used st + k\<rparr>)"
    using lane_inv_lane_ok [OF inv st]
    by (auto simp: has_task_capacity_def lane_ok_def split: option.splits)
  show ?thesis using st gone keep cap by (simp add: eq bt_simps)
qed

theorem complete_task_frees_slot_witness:
  "\<exists>st'. bt_get (lc_lanes (snd (complete_task ''task-1'' 900 demo_coordinator))) ''tests'' = Some st' \<and>
     has_task_capacity st' \<and> \<not> active_in (snd (complete_task ''task-1'' 900 demo_coordinator)) ''docs'' ''task-1''"
proof -
  have "owner_of ''task-1'' demo_coordinator = Some ''tests''"
    by (simp add: lane_eval)
  from complete_task_frees_slot [OF demo_reach this, of 900 "''docs''"] show ?thesis by blast
qed

section \<open>Where the limits do not hold\<close>

lemma record_turn_within_budget:
  "\<lbrakk>bt_get (lc_lanes c) n = Some st; max_turns (budget (l_contract (ls_lane st))) = Some cap;
    ls_turns_used st \<le> cap; bt_get (lc_lanes (snd (record_turn n c))) n = Some st'\<rbrakk> \<Longrightarrow>
   ls_turns_used st' \<le> cap"
  by (auto simp: record_turn_def can_use_turn_def bt_simps inc_le split: if_splits)

text \<open>\<open>record_turn\<close> refuses a turn past a lane's turn budget, but \<open>complete_task\<close> counts a turn
  without asking: a lane with a budget of one turn finishes two tasks and has used two.\<close>

theorem turn_budget_not_enforced_by_completion:
  "let c1 = register_lane (demo_lane 3 1) new_coordinator;
       c2 = snd (assign_task ''tests'' ''a'' ''A'' c1);
       c3 = snd (assign_task ''tests'' ''b'' ''B'' c2);
       c4 = snd (complete_task ''b'' 0 (snd (complete_task ''a'' 0 c3)))
   in map sm_turns_used (lane_summaries c4) = [2] \<and>
      record_turn ''tests'' c4 =
        (Inl (BudgetExceeded (''lane '' @ quoted ''tests'' @ '' turn budget (1) exhausted'')), c4)"
  by code_simp

text \<open>Registering a lane again while it holds a task empties its active set but keeps the owner
  entries, so the lane can take more tasks than its cap, and the dropped task stays blocked as
  a duplicate although no lane has it active.\<close>

theorem reregistration_breaks_cap:
  "let c1 = register_lane (demo_lane 1 9) new_coordinator;
       c2 = snd (assign_task ''tests'' ''a'' ''A'' c1);
       c3 = register_lane (demo_lane 1 9) c2;
       (r, c4) = assign_task ''tests'' ''b'' ''B'' c3
   in r = Inr () \<and> owner_of ''a'' c4 = Some ''tests'' \<and> owner_of ''b'' c4 = Some ''tests'' \<and>
      map sm_active_task_ids (lane_summaries c4) = [[''b'']] \<and>
      fst (assign_task ''tests'' ''a'' ''A'' c3) = Inl (DuplicateTask ''a'' ''tests'')"
  by code_simp

end
