(* ===== verification/Core_Types.thy ===== *)
theory Core_Types
  imports BTree
begin

text \<open>
  The shared vocabulary of \<open>crates/artesian-core\<close>: roles and their aliases, the in-core job queue
  (\<open>roles.rs\<close>), quotas, token accounting and barriers (\<open>coordination.rs\<close>), and the event envelope
  (\<open>event.rs\<close>). A time stamp is an integer count of nanoseconds; an event's JSON payload is a
  type parameter.
\<close>

type_synonym timestamp = int

section \<open>Roles and the job queue\<close>

datatype role = Master | Worker | Judge

definition canonical_alias :: "role \<Rightarrow> string" where
  "canonical_alias r = (case r of Master \<Rightarrow> ''master'' | Worker \<Rightarrow> ''worker'' | Judge \<Rightarrow> ''judge'')"

definition display_name :: "role \<Rightarrow> string" where
  "display_name r = (case r of Master \<Rightarrow> ''Master'' | Worker \<Rightarrow> ''Worker'' | Judge \<Rightarrow> ''Judge'')"

definition aliases :: "role \<Rightarrow> string list" where
  "aliases r = (case r of Master \<Rightarrow> [''master''] | Worker \<Rightarrow> [''worker''] | Judge \<Rightarrow> [''judge''])"

datatype role_parse_error = RoleParseError string

definition role_from_str :: "string \<Rightarrow> role_parse_error + role" where
  "role_from_str input =
     (let other = to_ascii_lowercase (trim input)
      in if other = ''master'' then Inr Master
         else if other = ''worker'' then Inr Worker
         else if other = ''judge'' then Inr Judge
         else Inl (RoleParseError other))"

datatype job_status = JobTodo | JobDoing | JobDone | JobBlocked

record job =
  job_id :: string
  job_title :: string
  job_role :: role
  job_status :: job_status

type_synonym job_queue = "job list"

definition queue_push :: "job \<Rightarrow> job_queue \<Rightarrow> job_queue" where
  "queue_push j q = q @ [j]"

definition queue_pop_next :: "job_queue \<Rightarrow> job option \<times> job_queue" where
  "queue_pop_next q = (case q of [] \<Rightarrow> (None, []) | j # rest \<Rightarrow> (Some j, rest))"

definition queue_len :: "job_queue \<Rightarrow> nat" where
  "queue_len q = length q"

definition queue_is_empty :: "job_queue \<Rightarrow> bool" where
  "queue_is_empty q = (q = [])"

record completed_job =
  cj_job :: job
  cj_commit :: "string option"
  cj_completed_at :: timestamp

section \<open>Quotas, accounting, barriers\<close>

record resource_quota =
  rq_agent_id :: "string option"
  rq_user_id :: "string option"
  max_prompt_tokens :: "u64 option"
  max_requests_per_minute :: "u32 option"

definition default_quota :: resource_quota where
  "default_quota =
     \<lparr>rq_agent_id = None, rq_user_id = None, max_prompt_tokens = None, max_requests_per_minute = None\<rparr>"

record token_accounting =
  ta_agent_id :: string
  ta_session_id :: "string option"
  ta_prompt_tokens :: u64
  ta_completion_tokens :: u64

definition total_tokens :: "token_accounting \<Rightarrow> u64" where
  "total_tokens a = ta_prompt_tokens a + ta_completion_tokens a"

record barrier =
  ba_id :: string
  ba_waits_for :: "string btree_set"

fun bs_from_list :: "'k::linorder list \<Rightarrow> 'k btree_set" where
  "bs_from_list [] = bt_empty"
| "bs_from_list (k # ks) = bs_insert k (bs_from_list ks)"

definition new_barrier :: "string \<Rightarrow> string list \<Rightarrow> barrier" where
  "new_barrier i waits = \<lparr>ba_id = i, ba_waits_for = bs_from_list waits\<rparr>"

definition is_satisfied_by :: "barrier \<Rightarrow> string list \<Rightarrow> bool" where
  "is_satisfied_by b completed =
     (let completed_set = bs_from_list completed in list_all (\<lambda>d. bs_member d completed_set) (bt_keys (ba_waits_for b)))"

section \<open>Events\<close>

datatype event_type =
  TaskAnnounced | TaskClaimed | Ask | ResultEvent | Review | DoneEvent | Verdict | BlockedEvent | StatusEvent | ErrorEvent

record event_sender =
  es_role :: role
  es_agent_id :: string

record 'v event_envelope =
  ev_id :: string
  ev_correlation_id :: string
  ev_timestamp :: timestamp
  ev_sender :: event_sender
  ev_protocol_version :: string
  ev_type :: event_type
  ev_payload :: 'v

definition new_event ::
  "string \<Rightarrow> string \<Rightarrow> event_sender \<Rightarrow> event_type \<Rightarrow> 'v \<Rightarrow> timestamp \<Rightarrow> 'v event_envelope" where
  "new_event i correlation sender ty payload now =
     \<lparr>ev_id = i, ev_correlation_id = correlation, ev_timestamp = now, ev_sender = sender,
      ev_protocol_version = ''0.1'', ev_type = ty, ev_payload = payload\<rparr>"

section \<open>Agents\<close>

text \<open>What a spawn asks for and gives back (\<open>agent.rs\<close>).\<close>

record spawn_request =
  sr_role :: role
  sr_agent :: string
  sr_model :: "string option"
  sr_working_dir :: "string option"
  sr_resume_packet :: "string option"

record agent_session =
  as_id :: string
  as_role :: role
  as_agent :: string

section \<open>Properties\<close>

lemma role_from_str_alias: "a \<in> set (aliases r) \<Longrightarrow> role_from_str a = Inr r"
proof -
  have "role_from_str ''master'' = Inr Master" "role_from_str ''worker'' = Inr Worker"
    "role_from_str ''judge'' = Inr Judge" by code_simp+
  then show "a \<in> set (aliases r) \<Longrightarrow> role_from_str a = Inr r"
    by (auto simp: aliases_def split: role.splits)
qed

text \<open>A queue hands back what was pushed, in the order of the pushes.\<close>

fun drain :: "nat \<Rightarrow> job_queue \<Rightarrow> job list" where
  "drain 0 q = []"
| "drain (Suc n) q = (case queue_pop_next q of (None, q') \<Rightarrow> [] | (Some j, q') \<Rightarrow> j # drain n q')"

lemma drain_all: "length q \<le> n \<Longrightarrow> drain n q = q"
  by (induction n q rule: drain.induct) (auto simp: queue_pop_next_def split: list.splits)

lemma queue_fifo: "drain (queue_len (fold queue_push js [])) (fold queue_push js []) = js"
proof -
  have "fold queue_push js q = q @ js" for q
    by (induction js arbitrary: q) (auto simp: queue_push_def)
  then show ?thesis by (simp add: queue_len_def drain_all)
qed

lemma bs_member_from_list: "bs_member k (bs_from_list ks) \<longleftrightarrow> k \<in> set ks"
  by (induction ks) (simp_all add: bs_simps)

text \<open>A barrier opens exactly when everything it waits for is among the completed ids.\<close>

lemma barrier_opens:
  "is_satisfied_by (new_barrier i waits) completed \<longleftrightarrow> set waits \<subseteq> set completed"
proof -
  have "set (bt_keys (bs_from_list waits)) = set waits"
    using bs_member_from_list [of _ waits] by (auto simp: bs_member_def)
  then show ?thesis
    by (auto simp: is_satisfied_by_def new_barrier_def bs_member_from_list list_all_iff)
qed

end
