(* ===== verification/Task_Store.thy ===== *)
theory Task_Store
  imports Core_Types
begin

text \<open>
  The file-backed task store of \<open>crates/headrace\<close> (\<open>store.rs\<close>, \<open>files.rs\<close>): the task model, the
  front-matter rendering and parsing, and every operation of \<open>FilesTaskStore\<close>.

  The store is a map from the four status directories to their files in \<open>read_dir\<close> order (a new
  file is listed last). Ids contain no path separator and reads and writes themselves succeed;
  a rename reports a missing source. \<open>serde_yaml\<close>, SHA-256 and the RFC 3339 printer are the
  fields of \<open>task_codec\<close>, and every operation takes the clock's answer as an argument. An
  operation runs under the store's mutex, so it is one step of the state.
\<close>

section \<open>The task model\<close>

datatype task_error =
    Io string
  | Encode
  | Json
  | InvalidFile string
  | NotFound string
  | BlockedBy "string list"
  | VerifierFailed string
  | MemoryFailed string

datatype task_status = Todo | Doing | Done | Blocked

definition directory :: "task_status \<Rightarrow> string" where
  "directory s =
     (case s of Todo \<Rightarrow> ''todo'' | Doing \<Rightarrow> ''doing'' | Done \<Rightarrow> ''done'' | Blocked \<Rightarrow> ''blocked'')"

definition is_terminal :: "task_status \<Rightarrow> bool" where
  "is_terminal s = (s = Done \<or> s = Blocked)"

datatype task_kind = Compound | Primitive

record 'y task =
  t_id :: string
  t_title :: string
  t_description :: string
  t_role :: role
  t_status :: task_status
  t_kind :: task_kind
  t_blockers :: "string list"
  t_children :: "string list"
  t_claimed_by :: "string option"
  t_verifier_names :: "string list"
  t_created_at :: timestamp
  t_updated_at :: timestamp
  t_extra :: "(string, 'y) btree_map"

definition is_dispatch_eligible :: "'y task \<Rightarrow> 'y task list \<Rightarrow> bool" where
  "is_dispatch_eligible t tasks \<longleftrightarrow>
     t_status t = Todo \<and>
     list_all (\<lambda>blocker.
       case List.find (\<lambda>candidate. t_id candidate = blocker) tasks of
         Some candidate \<Rightarrow> is_terminal (t_status candidate)
       | None \<Rightarrow> False) (t_blockers t)"

record new_task =
  nt_id :: "string option"
  nt_title :: string
  nt_description :: string
  nt_role :: role
  nt_kind :: task_kind
  nt_blockers :: "string list"
  nt_children :: "string list"
  nt_verifier_names :: "string list"

definition primitive :: "string \<Rightarrow> new_task" where
  "primitive title =
     \<lparr>nt_id = None, nt_title = title, nt_description = [], nt_role = Worker, nt_kind = Primitive,
      nt_blockers = [], nt_children = [], nt_verifier_names = []\<rparr>"

record claim_request =
  cr_task_id :: "string option"
  cr_claimant :: string

record transition_task =
  tt_id :: string
  tt_status :: task_status

section \<open>Front matter\<close>

record 'y task_header =
  h_kind_name :: string
  h_id :: string
  h_title :: string
  h_role :: role
  h_status :: task_status
  h_kind :: task_kind
  h_blockers :: "string list"
  h_children :: "string list"
  h_claimed_by :: "string option"
  h_verifier_names :: "string list"
  h_created_at :: timestamp
  h_updated_at :: timestamp
  h_unknown :: "(string, 'y) btree_map"

record 'y task_codec =
  yaml_enc :: "'y task_header \<Rightarrow> string option"
  yaml_dec :: "string \<Rightarrow> 'y task_header option"
  sha256_hex :: "string \<Rightarrow> string"
  to_rfc3339 :: "timestamp \<Rightarrow> string"

definition nl :: string where
  "nl = [CHR 0x0A]"

definition fence :: string where
  "fence = nl @ ''---'' @ nl"

definition task_header_of :: "'y task \<Rightarrow> 'y task_header" where
  "task_header_of t =
     \<lparr>h_kind_name = ''task'', h_id = t_id t, h_title = t_title t, h_role = t_role t,
      h_status = t_status t, h_kind = t_kind t, h_blockers = t_blockers t,
      h_children = t_children t, h_claimed_by = t_claimed_by t,
      h_verifier_names = t_verifier_names t, h_created_at = t_created_at t,
      h_updated_at = t_updated_at t, h_unknown = t_extra t\<rparr>"

definition render_task :: "'y task_codec \<Rightarrow> 'y task \<Rightarrow> task_error + string" where
  "render_task E t =
     (case yaml_enc E (task_header_of t) of
        None \<Rightarrow> Inl Encode
      | Some yaml \<Rightarrow> Inr (''---'' @ nl @ yaml @ ''---'' @ nl @ nl @ t_description t @ nl))"

definition parse_task :: "'y task_codec \<Rightarrow> string \<Rightarrow> task_error + 'y task" where
  "parse_task E text =
     (case strip_prefix (''---'' @ nl) text of
        None \<Rightarrow> Inl (InvalidFile ''missing task front matter'')
      | Some rest \<Rightarrow>
          (case split_once fence rest of
             None \<Rightarrow> Inl (InvalidFile ''unterminated task front matter'')
           | Some (header, body) \<Rightarrow>
               (case yaml_dec E header of
                  None \<Rightarrow> Inl Encode
                | Some h \<Rightarrow>
                    (if to_ascii_lowercase (h_kind_name h) \<noteq> ''task''
                     then Inl (InvalidFile (''unsupported headwater type: '' @ h_kind_name h))
                     else Inr
                       \<lparr>t_id = h_id h, t_title = h_title h, t_description = trim body,
                        t_role = h_role h, t_status = h_status h, t_kind = h_kind h,
                        t_blockers = h_blockers h, t_children = h_children h,
                        t_claimed_by = h_claimed_by h, t_verifier_names = h_verifier_names h,
                        t_created_at = h_created_at h, t_updated_at = h_updated_at h,
                        t_extra = h_unknown h\<rparr>))))"

section \<open>The directories\<close>

type_synonym task_files = "task_status \<Rightarrow> (string \<times> string) list"

definition no_files :: task_files where
  "no_files = (\<lambda>s. [])"

definition STATUSES :: "task_status list" where
  "STATUSES = [Todo, Doing, Done, Blocked]"

definition file_name :: "string \<Rightarrow> string" where
  "file_name i = i @ ''.md''"

text \<open>\<open>path.extension() == "md"\<close>; a name that is only \<open>.md\<close> has no extension.\<close>

definition has_md_ext :: "string \<Rightarrow> bool" where
  "has_md_ext n \<longleftrightarrow> ends_with ''.md'' n \<and> n \<noteq> ''.md''"

fun put_file :: "string \<Rightarrow> string \<Rightarrow> (string \<times> string) list \<Rightarrow> (string \<times> string) list" where
  "put_file n x [] = [(n, x)]"
| "put_file n x ((m, y) # dir) = (if m = n then (n, x) # dir else (m, y) # put_file n x dir)"

definition fs_write :: "task_status \<Rightarrow> string \<Rightarrow> string \<Rightarrow> task_files \<Rightarrow> task_files" where
  "fs_write s n x fs = fs(s := put_file n x (fs s))"

text \<open>\<open>rename\<close> replaces a file that already has the target's name; \<open>None\<close> is a missing source.\<close>

definition fs_rename ::
  "task_status \<times> string \<Rightarrow> task_status \<times> string \<Rightarrow> task_files \<Rightarrow> task_files option" where
  "fs_rename old new fs =
     (case map_of (fs (fst old)) (snd old) of
        None \<Rightarrow> None
      | Some x \<Rightarrow>
          (if old = new then Some fs
           else Some (fs_write (fst new) (snd new) x
                  (fs(fst old := filter (\<lambda>f. fst f \<noteq> snd old) (fs (fst old)))))))"

definition write_task_at ::
  "'y task_codec \<Rightarrow> task_status \<Rightarrow> string \<Rightarrow> 'y task \<Rightarrow> task_files \<Rightarrow> (task_error + unit) \<times> task_files" where
  "write_task_at E s n t fs =
     (case render_task E t of
        Inl err \<Rightarrow> (Inl err, fs)
      | Inr text \<Rightarrow> (Inr (), fs_write s n text fs))"

definition read_task_at ::
  "'y task_codec \<Rightarrow> task_status \<Rightarrow> string \<Rightarrow> task_files \<Rightarrow> task_error + 'y task" where
  "read_task_at E s n fs =
     (case map_of (fs s) n of
        None \<Rightarrow> Inl (Io ''not found'')
      | Some text \<Rightarrow> parse_task E text)"

text \<open>The front matter says \<open>i\<close> in a markdown file.\<close>

definition holds_id :: "'y task_codec \<Rightarrow> string \<Rightarrow> string \<times> string \<Rightarrow> bool" where
  "holds_id E i f \<longleftrightarrow>
     has_md_ext (fst f) \<and>
     (case parse_task E (snd f) of Inl _ \<Rightarrow> False | Inr t \<Rightarrow> t_id t = i)"

fun find_in_dirs ::
  "'y task_codec \<Rightarrow> string \<Rightarrow> task_files \<Rightarrow> task_status list \<Rightarrow> (task_status \<times> string) option" where
  "find_in_dirs E i fs [] = None"
| "find_in_dirs E i fs (s # ss) =
     (case List.find (holds_id E i) (fs s) of
        Some f \<Rightarrow> Some (s, fst f)
      | None \<Rightarrow> find_in_dirs E i fs ss)"

definition find_path ::
  "'y task_codec \<Rightarrow> string \<Rightarrow> task_files \<Rightarrow> (task_status \<times> string) option" where
  "find_path E i fs =
     (case List.find (\<lambda>s. map_of (fs s) (file_name i) \<noteq> None) STATUSES of
        Some s \<Rightarrow> Some (s, file_name i)
      | None \<Rightarrow> find_in_dirs E i fs STATUSES)"

fun read_dirs ::
  "'y task_codec \<Rightarrow> (string \<times> string) list \<Rightarrow> task_error + 'y task list" where
  "read_dirs E [] = Inr []"
| "read_dirs E (f # files) =
     (if has_md_ext (fst f)
      then (case parse_task E (snd f) of
              Inl err \<Rightarrow> Inl err
            | Inr t \<Rightarrow>
                (case read_dirs E files of
                   Inl err \<Rightarrow> Inl err
                 | Inr ts \<Rightarrow> Inr (t # ts)))
      else read_dirs E files)"

definition list_blocking :: "'y task_codec \<Rightarrow> task_files \<Rightarrow> task_error + 'y task list" where
  "list_blocking E fs =
     (case read_dirs E (concat (map fs STATUSES)) of
        Inl err \<Rightarrow> Inl err
      | Inr ts \<Rightarrow> Inr (sort_key t_id ts))"

section \<open>Operations\<close>

definition generated_task_id :: "'y task_codec \<Rightarrow> string \<Rightarrow> timestamp \<Rightarrow> string" where
  "generated_task_id E title now = ''task-'' @ take 12 (sha256_hex E (title @ to_rfc3339 E now))"

definition create ::
  "'y task_codec \<Rightarrow> timestamp \<Rightarrow> new_task \<Rightarrow> task_files \<Rightarrow> (task_error + 'y task) \<times> task_files" where
  "create E now nt fs =
     (let t = \<lparr>t_id = (case nt_id nt of Some i \<Rightarrow> i | None \<Rightarrow> generated_task_id E (nt_title nt) now),
               t_title = nt_title nt, t_description = nt_description nt, t_role = nt_role nt,
               t_status = Todo, t_kind = nt_kind nt, t_blockers = nt_blockers nt,
               t_children = nt_children nt, t_claimed_by = None,
               t_verifier_names = nt_verifier_names nt, t_created_at = now, t_updated_at = now,
               t_extra = bt_empty\<rparr>
      in if map_of (fs Todo) (file_name (t_id t)) \<noteq> None
         then (Inl (InvalidFile (''task already exists: '' @ t_id t)), fs)
         else (case write_task_at E Todo (file_name (t_id t)) t fs of
                 (Inl err, fs') \<Rightarrow> (Inl err, fs')
               | (Inr _, fs') \<Rightarrow> (Inr t, fs')))"

text \<open>\<open>claim\<close> in the two parts that another process can come between: choosing from the listing,
  and moving the chosen task's file.\<close>

definition claim_candidate ::
  "'y task_codec \<Rightarrow> claim_request \<Rightarrow> task_files \<Rightarrow> task_error + 'y task option" where
  "claim_candidate E req fs =
     (case list_blocking E fs of
        Inl err \<Rightarrow> Inl err
      | Inr tasks \<Rightarrow>
          Inr (List.find (\<lambda>t. is_dispatch_eligible t tasks)
            (filter (\<lambda>t. case cr_task_id req of None \<Rightarrow> True | Some i \<Rightarrow> t_id t = i) tasks)))"

definition claim_move ::
  "'y task_codec \<Rightarrow> timestamp \<Rightarrow> string \<Rightarrow> 'y task \<Rightarrow> task_files \<Rightarrow>
     (task_error + 'y task option) \<times> task_files" where
  "claim_move E now claimant t fs =
     (case find_path E (t_id t) fs of
        None \<Rightarrow> (Inr None, fs)
      | Some old \<Rightarrow>
          (let new = (Doing, snd old);
               t' = t\<lparr>t_status := Doing, t_claimed_by := Some claimant, t_updated_at := now\<rparr>
           in case fs_rename old new fs of
                None \<Rightarrow> (Inr None, fs)
              | Some fs1 \<Rightarrow>
                  (case write_task_at E (fst new) (snd new) t' fs1 of
                     (Inl err, fs2) \<Rightarrow> (Inl err, fs2)
                   | (Inr _, fs2) \<Rightarrow> (Inr (Some t'), fs2))))"

definition claim ::
  "'y task_codec \<Rightarrow> timestamp \<Rightarrow> claim_request \<Rightarrow> task_files \<Rightarrow>
     (task_error + 'y task option) \<times> task_files" where
  "claim E now req fs =
     (case claim_candidate E req fs of
        Inl err \<Rightarrow> (Inl err, fs)
      | Inr None \<Rightarrow> (Inr None, fs)
      | Inr (Some t) \<Rightarrow> claim_move E now (cr_claimant req) t fs)"

definition transition ::
  "'y task_codec \<Rightarrow> timestamp \<Rightarrow> transition_task \<Rightarrow> task_files \<Rightarrow> (task_error + 'y task) \<times> task_files" where
  "transition E now tr fs =
     (case find_path E (tt_id tr) fs of
        None \<Rightarrow> (Inl (NotFound (tt_id tr)), fs)
      | Some (old_status, n) \<Rightarrow>
          (case read_task_at E old_status n fs of
             Inl err \<Rightarrow> (Inl err, fs)
           | Inr t \<Rightarrow>
               (let t' = t\<lparr>t_status := tt_status tr, t_updated_at := now\<rparr>;
                    moved = (if old_status \<noteq> tt_status tr
                             then fs_rename (old_status, n) (tt_status tr, n) fs else Some fs)
                in case moved of
                     None \<Rightarrow> (Inl (Io ''not found''), fs)
                   | Some fs1 \<Rightarrow>
                       (case write_task_at E (tt_status tr) n t' fs1 of
                          (Inl err, fs2) \<Rightarrow> (Inl err, fs2)
                        | (Inr _, fs2) \<Rightarrow> (Inr t', fs2)))))"

definition get_task ::
  "'y task_codec \<Rightarrow> string \<Rightarrow> task_files \<Rightarrow> task_error + 'y task option" where
  "get_task E i fs =
     (case find_path E i fs of
        None \<Rightarrow> Inr None
      | Some (s, n) \<Rightarrow>
          (case read_task_at E s n fs of Inl err \<Rightarrow> Inl err | Inr t \<Rightarrow> Inr (Some t)))"

definition find_tasks ::
  "'y task_codec \<Rightarrow> string \<Rightarrow> task_files \<Rightarrow> task_error + 'y task list" where
  "find_tasks E query fs =
     (case list_blocking E fs of
        Inl err \<Rightarrow> Inl err
      | Inr ts \<Rightarrow>
          Inr (rev (sort_key t_updated_at
            (filter (\<lambda>t. contains (to_ascii_lowercase query)
                (to_ascii_lowercase (t_id t @ '' '' @ t_title t @ '' '' @ t_description t))) ts))))"

datatype 'y import_outcome = Imported "'y task" | SkippedDuplicate "'y task"

fun outcome_task :: "'y import_outcome \<Rightarrow> 'y task" where
  "outcome_task (Imported t) = t"
| "outcome_task (SkippedDuplicate t) = t"

fun imported :: "'y import_outcome \<Rightarrow> bool" where
  "imported (Imported t) = True"
| "imported (SkippedDuplicate t) = False"

definition import_task ::
  "'y task_codec \<Rightarrow> 'y task \<Rightarrow> task_files \<Rightarrow> (task_error + 'y import_outcome) \<times> task_files" where
  "import_task E t fs =
     (case find_path E (t_id t) fs of
        Some (s, n) \<Rightarrow>
          (case read_task_at E s n fs of
             Inl err \<Rightarrow> (Inl err, fs)
           | Inr t' \<Rightarrow> (Inr (SkippedDuplicate t'), fs))
      | None \<Rightarrow>
          (case write_task_at E (t_status t) (file_name (t_id t)) t fs of
             (Inl err, fs') \<Rightarrow> (Inl err, fs')
           | (Inr _, fs') \<Rightarrow> (Inr (Imported t), fs')))"

section \<open>Markdown that is not a task file\<close>

text \<open>A path is its list of components.\<close>

definition is_task_like_path :: "string list \<Rightarrow> bool" where
  "is_task_like_path path \<longleftrightarrow>
     (\<exists>c \<in> set path. to_ascii_lowercase c \<in> set [''task'', ''tasks'', ''todo'', ''doing'', ''done'',
        ''blocked'', ''status'', ''statuses'']) \<or>
     (path \<noteq> [] \<and> (let name = to_ascii_lowercase (last path)
        in name = ''status.md'' \<or> ends_with ''.task.md'' name))"

fun first_heading_in :: "string list \<Rightarrow> string option" where
  "first_heading_in [] = None"
| "first_heading_in (line # rest) =
     (case strip_prefix ''# '' line of
        Some title \<Rightarrow> (if trim title \<noteq> [] then Some (trim title) else first_heading_in rest)
      | None \<Rightarrow> first_heading_in rest)"

definition first_heading :: "string \<Rightarrow> string option" where
  "first_heading text = first_heading_in (lines text)"

definition humanize_stem :: "string \<Rightarrow> string" where
  "humanize_stem stem =
     join '' '' (split_whitespace (map (\<lambda>c. if c = CHR ''-'' \<or> c = CHR ''_'' then CHR '' '' else c) stem))"

fun status_from_path :: "string list \<Rightarrow> task_status option" where
  "status_from_path [] = None"
| "status_from_path (c # path) =
     (let name = to_ascii_lowercase c
      in if name = ''todo'' then Some Todo
         else if name = ''doing'' then Some Doing
         else if name = ''done'' then Some Done
         else if name = ''blocked'' then Some Blocked
         else status_from_path path)"

definition stable_imported_task_id :: "'y task_codec \<Rightarrow> string \<Rightarrow> string" where
  "stable_imported_task_id E text = ''task-'' @ take 12 (sha256_hex E text)"

text \<open>The stem of a file name: the name up to its last dot, unless that dot is its first
  character.\<close>

definition file_stem :: "string \<Rightarrow> string" where
  "file_stem n =
     (let before = rev (tl (dropWhile (\<lambda>c. c \<noteq> CHR ''.'') (rev n)))
      in if CHR ''.'' \<in> set n \<and> before \<noteq> [] then before else n)"

definition inferred_task_from_markdown ::
  "'y task_codec \<Rightarrow> timestamp \<Rightarrow> string list \<Rightarrow> string \<Rightarrow> task_error + 'y task" where
  "inferred_task_from_markdown E now path text =
     (let trimmed = trim text
      in if trimmed = [] then Inl (InvalidFile ''empty task-like markdown'')
         else Inr
           \<lparr>t_id = stable_imported_task_id E trimmed,
            t_title = (case first_heading trimmed of
                         Some title \<Rightarrow> title
                       | None \<Rightarrow> (if path = [] then ''Imported task''
                                  else humanize_stem (file_stem (last path)))),
            t_description = trimmed, t_role = Worker,
            t_status = (case status_from_path path of Some s \<Rightarrow> s | None \<Rightarrow> Todo),
            t_kind = Primitive, t_blockers = [], t_children = [], t_claimed_by = None,
            t_verifier_names = [], t_created_at = now, t_updated_at = now, t_extra = bt_empty\<rparr>)"

definition parse_task_like_markdown ::
  "'y task_codec \<Rightarrow> timestamp \<Rightarrow> string list \<Rightarrow> string \<Rightarrow> task_error + 'y task" where
  "parse_task_like_markdown E now path text =
     (case parse_task E text of
        Inr t \<Rightarrow> Inr t
      | Inl _ \<Rightarrow> inferred_task_from_markdown E now path text)"

end
