(* ===== verification/Task_Facts.thy ===== *)
theory Task_Facts
  imports Task_Store
begin

text \<open>
  What a task file means: the laws of the header codec, and the round trip of a task through its
  file.
\<close>

section \<open>White space and splitting\<close>

lemma split_once_fence:
  assumes "\<not> contains fence (y @ nl)"
  shows "split_once fence (y @ fence @ z) = Some (y, z)"
proof (rule split_once_first)
  fix a b assume eq: "y @ fence @ z = a @ fence @ b"
  show "length y \<le> length a"
  proof (rule ccontr)
    assume "\<not> length y \<le> length a"
    then obtain u where y: "y = a @ u" and u: "u \<noteq> []"
      using eq by (auto simp: append_eq_append_conv2)
    with eq have tail: "u @ fence @ z = fence @ b" by simp
    then obtain u1 where u1: "u = CHR 0x0A # u1" using u by (cases u) (auto simp: fence_def nl_def)
    with tail have t1: "u1 @ fence @ z = ''---'' @ nl @ b" by (simp add: fence_def nl_def)
    then obtain u2 where u2: "u1 = CHR ''-'' # u2" by (cases u1) (auto simp: fence_def nl_def)
    with t1 have t2: "u2 @ fence @ z = ''--'' @ nl @ b" by simp
    then obtain u3 where u3: "u2 = CHR ''-'' # u3" by (cases u2) (auto simp: fence_def nl_def)
    with t2 have t3: "u3 @ fence @ z = ''-'' @ nl @ b" by simp
    then obtain u4 where u4: "u3 = CHR ''-'' # u4" by (cases u3) (auto simp: fence_def nl_def)
    with t3 have t4: "u4 @ fence @ z = nl @ b" by simp
    have "y @ nl = a @ nl @ ''---'' @ u4 @ nl" using y u1 u2 u3 u4 by (simp add: nl_def)
    moreover have "\<exists>w. u4 @ nl = nl @ w" using t4 by (cases u4) (auto simp: nl_def)
    ultimately have "contains fence (y @ nl)"
      unfolding contains_iff fence_def by (metis append.assoc)
    with assms show False by simp
  qed
qed simp

section \<open>The header codec\<close>

definition header_keys :: "string list" where
  "header_keys = [''type'', ''id'', ''title'', ''role'', ''status'', ''kind'', ''blockers'',
     ''children'', ''claimed_by'', ''verifier_names'', ''created_at'', ''updated_at'']"

definition header_ok :: "'y task_header \<Rightarrow> bool" where
  "header_ok h \<longleftrightarrow>
     bt_ok (h_unknown h) \<and> list_all (\<lambda>k. k \<notin> set header_keys) (bt_keys (h_unknown h))"

text \<open>
  What the store relies on in \<open>serde_yaml\<close>: a header whose unknown keys are not the modelled ones
  is printed as a document that ends its last line, holds no line \<open>---\<close>, and reads back as
  itself; and the flattened map of a header that was read holds unknown keys only.
\<close>

definition codec_ok :: "'y task_codec \<Rightarrow> bool" where
  "codec_ok E \<longleftrightarrow>
     (\<forall>h. header_ok h \<longrightarrow>
        (\<exists>y. yaml_enc E h = Some (y @ nl) \<and> \<not> contains fence (y @ nl) \<and> yaml_dec E y = Some h)) \<and>
     (\<forall>y h. yaml_dec E y = Some h \<longrightarrow> header_ok h)"

definition task_ok :: "'y task \<Rightarrow> bool" where
  "task_ok t \<longleftrightarrow> header_ok (task_header_of t)"

lemma task_ok_update [simp]:
  "task_ok (t\<lparr>t_status := s\<rparr>) = task_ok t" "task_ok (t\<lparr>t_claimed_by := c\<rparr>) = task_ok t"
  "task_ok (t\<lparr>t_updated_at := u\<rparr>) = task_ok t" "task_ok (t\<lparr>t_description := d\<rparr>) = task_ok t"
  by (simp_all add: task_ok_def header_ok_def task_header_of_def)

lemma parse_render:
  assumes E: "codec_ok E" and t: "task_ok t"
  obtains x where "render_task E t = Inr x"
    and "parse_task E x = Inr (t\<lparr>t_description := trim (t_description t)\<rparr>)"
proof -
  from E t obtain y where y: "yaml_enc E (task_header_of t) = Some (y @ nl)"
    "\<not> contains fence (y @ nl)" "yaml_dec E y = Some (task_header_of t)"
    by (auto simp: codec_ok_def task_ok_def)
  define x where "x = ''---'' @ nl @ (y @ nl) @ ''---'' @ nl @ nl @ t_description t @ nl"
  have "x = (''---'' @ nl) @ y @ fence @ (nl @ t_description t @ nl)"
    by (simp add: x_def fence_def)
  then have "strip_prefix (''---'' @ nl) x = Some (y @ fence @ (nl @ t_description t @ nl))"
    by (simp only: strip_prefix_Some)
  moreover have "trim (nl @ t_description t @ nl) = trim (t_description t)"
    by (rule trim_padded) (simp_all add: nl_def ws_def)
  moreover have "to_ascii_lowercase ''task'' = ''task''" by code_simp
  ultimately have "parse_task E x = Inr (t\<lparr>t_description := trim (t_description t)\<rparr>)"
    using y by (simp add: parse_task_def split_once_fence task_header_of_def)
  moreover have "render_task E t = Inr x" using y by (simp add: render_task_def x_def)
  ultimately show ?thesis using that by blast
qed

lemma parse_task_ok:
  assumes "codec_ok E" and "parse_task E x = Inr t"
  shows "task_ok t" and "trim (t_description t) = t_description t"
proof -
  from assms(2) obtain y h where h: "yaml_dec E y = Some h" and t: "t_extra t = h_unknown h"
    by (auto simp: parse_task_def split: option.splits prod.splits if_splits)
  from h assms(1) have "header_ok h" by (auto simp: codec_ok_def)
  with t show "task_ok t" by (simp add: task_ok_def header_ok_def task_header_of_def)
  from assms(2) show "trim (t_description t) = t_description t"
    by (auto simp: parse_task_def split: option.splits prod.splits if_splits)
qed

end
