(* ===== verification/Task_Board.thy ===== *)
theory Task_Board
  imports Task_Facts
begin

text \<open>
  The directories' well-formedness, the task board they stand for (a map from ids to tasks), and
  how writing or moving one file changes the board.
\<close>

section \<open>Files by name\<close>

lemma map_of_put_file: "map_of (put_file n x dir) m = (if m = n then Some x else map_of dir m)"
  by (induction n x dir rule: put_file.induct) auto

lemma set_put_file_names: "set (map fst (put_file n x dir)) = insert n (set (map fst dir))"
  by (induction n x dir rule: put_file.induct) auto

lemma distinct_put_file: "distinct (map fst dir) \<Longrightarrow> distinct (map fst (put_file n x dir))"
  by (induction n x dir rule: put_file.induct) (auto simp flip: set_map simp: set_put_file_names)

lemma map_of_filter_name:
  "map_of (filter (\<lambda>f. fst f \<noteq> n) dir) m = (if m = n then None else map_of dir m)"
  by (induction dir) auto

lemma fs_write_at:
  "map_of (fs_write s n x fs s') m = (if s' = s \<and> m = n then Some x else map_of (fs s') m)"
  by (simp add: fs_write_def map_of_put_file)

lemma fs_write_distinct:
  "(\<And>s. distinct (map fst (fs s))) \<Longrightarrow> distinct (map fst (fs_write s n x fs s'))"
  by (simp add: fs_write_def distinct_put_file)

section \<open>Well-formed directories and the board\<close>

definition task_at :: "'y task_codec \<Rightarrow> task_files \<Rightarrow> task_status \<Rightarrow> string \<Rightarrow> 'y task option" where
  "task_at E fs s n =
     (if has_md_ext n
      then (case map_of (fs s) n of
              None \<Rightarrow> None
            | Some x \<Rightarrow> (case parse_task E x of Inl _ \<Rightarrow> None | Inr t \<Rightarrow> Some t))
      else None)"

text \<open>
  File names are distinct, also across the directories; no file is called \<open>.md\<close>; every markdown
  file is a task file whose status is its directory; ids are distinct; and a file named after
  some task's id holds that id.
\<close>

definition fs_ok :: "'y task_codec \<Rightarrow> task_files \<Rightarrow> bool" where
  "fs_ok E fs \<longleftrightarrow>
     (\<forall>s. distinct (map fst (fs s))) \<and>
     (\<forall>s s' n. map_of (fs s) n \<noteq> None \<and> map_of (fs s') n \<noteq> None \<longrightarrow> s = s') \<and>
     (\<forall>s n. map_of (fs s) n \<noteq> None \<longrightarrow>
        n \<noteq> ''.md'' \<and> (has_md_ext n \<longrightarrow> (\<exists>t. task_at E fs s n = Some t \<and> t_status t = s))) \<and>
     (\<forall>s n t s' n' t'. task_at E fs s n = Some t \<and> task_at E fs s' n' = Some t' \<and>
        (t_id t = t_id t' \<or> n = file_name (t_id t')) \<longrightarrow> n = n')"

definition board :: "'y task_codec \<Rightarrow> task_files \<Rightarrow> string \<Rightarrow> 'y task option" where
  "board E fs i =
     (case list_blocking E fs of
        Inl _ \<Rightarrow> None
      | Inr ts \<Rightarrow> List.find (\<lambda>t. t_id t = i) ts)"

definition name_free :: "task_files \<Rightarrow> string \<Rightarrow> bool" where
  "name_free fs n \<longleftrightarrow> list_all (\<lambda>s. map_of (fs s) n = None) STATUSES"

lemma STATUSES_all: "s \<in> set STATUSES"
  by (cases s) (simp_all add: STATUSES_def)

lemma name_free_iff: "name_free fs n \<longleftrightarrow> (\<forall>s. map_of (fs s) n = None)"
  using STATUSES_all by (auto simp: name_free_def list_all_iff)

lemma fs_okD:
  assumes "fs_ok E fs"
  shows fs_ok_distinct: "distinct (map fst (fs s))"
    and fs_ok_one_dir: "map_of (fs s) n = Some x \<Longrightarrow> map_of (fs s') n = Some x' \<Longrightarrow> s = s'"
    and fs_ok_not_md: "map_of (fs s) n = Some x \<Longrightarrow> n \<noteq> ''.md''"
    and fs_ok_parses: "map_of (fs s) n = Some x \<Longrightarrow> has_md_ext n \<Longrightarrow>
      \<exists>t. parse_task E x = Inr t \<and> task_at E fs s n = Some t \<and> t_status t = s"
    and fs_ok_ids: "task_at E fs s n = Some t \<Longrightarrow> task_at E fs s' n' = Some t' \<Longrightarrow>
      t_id t = t_id t' \<Longrightarrow> n = n'"
    and fs_ok_names: "task_at E fs s n = Some t \<Longrightarrow> task_at E fs s' n' = Some t' \<Longrightarrow>
      n = file_name (t_id t') \<Longrightarrow> n = n'"
proof -
  show "distinct (map fst (fs s))" using assms by (simp add: fs_ok_def)
  show "map_of (fs s) n = Some x \<Longrightarrow> map_of (fs s') n = Some x' \<Longrightarrow> s = s'"
    using assms unfolding fs_ok_def by (metis option.distinct(1))
  show "map_of (fs s) n = Some x \<Longrightarrow> n \<noteq> ''.md''"
    using assms unfolding fs_ok_def by (metis option.distinct(1))
  show "\<exists>t. parse_task E x = Inr t \<and> task_at E fs s n = Some t \<and> t_status t = s"
    if "map_of (fs s) n = Some x" "has_md_ext n"
  proof -
    have "map_of (fs s) n \<noteq> None" using that(1) by simp
    with that(2) assms obtain t where "task_at E fs s n = Some t" "t_status t = s"
      unfolding fs_ok_def by blast
    then show ?thesis using that by (auto simp: task_at_def split: sum.splits)
  qed
qed (use assms in \<open>unfold fs_ok_def, blast\<close>)+

lemma task_at_file:
  "task_at E fs s n = Some t \<longleftrightarrow> (\<exists>x. map_of (fs s) n = Some x \<and> has_md_ext n \<and> parse_task E x = Inr t)"
  by (auto simp: task_at_def split: option.splits sum.splits)

lemma task_at_status: "fs_ok E fs \<Longrightarrow> task_at E fs s n = Some t \<Longrightarrow> t_status t = s"
  by (auto simp: task_at_file dest: fs_ok_parses)

lemma task_at_one_dir: "fs_ok E fs \<Longrightarrow> task_at E fs s n = Some t \<Longrightarrow> task_at E fs s' n = Some t' \<Longrightarrow> s = s'"
  by (auto simp: task_at_file dest: fs_ok_one_dir)

lemma task_at_unique:
  assumes "fs_ok E fs" "task_at E fs s n = Some t" "task_at E fs s' n' = Some t'" "t_id t = t_id t'"
  shows "s = s'" "n = n'" "t = t'"
proof -
  show n: "n = n'" using fs_ok_ids [OF assms] .
  show s: "s = s'" using task_at_one_dir [OF assms(1)] assms(2,3) n by blast
  show "t = t'" using assms(2,3) n s by simp
qed

lemma starts_with_iff: "starts_with p s \<longleftrightarrow> (\<exists>r. s = p @ r)"
  by (auto simp: starts_with_def strip_prefix_Some)

lemma ends_with_iff: "ends_with p s \<longleftrightarrow> (\<exists>r. s = r @ p)"
  unfolding ends_with_def starts_with_iff by (metis rev_append rev_rev_ident)

lemma has_md_ext_file_name [simp]: "has_md_ext (file_name i) \<longleftrightarrow> i \<noteq> []"
  by (auto simp: has_md_ext_def file_name_def ends_with_iff)

lemma file_name_inject [simp]: "file_name i = file_name j \<longleftrightarrow> i = j"
  by (simp add: file_name_def)

section \<open>Listing\<close>

lemma read_dirs_ok:
  "(\<And>f. f \<in> set files \<Longrightarrow> has_md_ext (fst f) \<Longrightarrow> \<exists>t. parse_task E (snd f) = Inr t) \<Longrightarrow>
   read_dirs E files = Inr (map (\<lambda>f. projr (parse_task E (snd f))) (filter (\<lambda>f. has_md_ext (fst f)) files))"
proof (induction files)
  case (Cons f files)
  then have "read_dirs E files =
      Inr (map (\<lambda>f. projr (parse_task E (snd f))) (filter (\<lambda>f. has_md_ext (fst f)) files))" by simp
  with Cons(2) [of f] show ?case by auto
qed simp

lemma list_blocking_ok:
  assumes "fs_ok E fs"
  obtains ts where "list_blocking E fs = Inr ts"
    and "\<And>t. t \<in> set ts \<longleftrightarrow> (\<exists>s n. task_at E fs s n = Some t)"
proof -
  let ?files = "concat (map fs STATUSES)"
  have mem: "f \<in> set ?files \<longleftrightarrow> (\<exists>s. map_of (fs s) (fst f) = Some (snd f))" for f
  proof -
    have "f \<in> set ?files \<longleftrightarrow> (\<exists>s. f \<in> set (fs s))" using STATUSES_all by auto
    also have "\<dots> \<longleftrightarrow> (\<exists>s. map_of (fs s) (fst f) = Some (snd f))"
      using fs_ok_distinct [OF assms] by simp
    finally show ?thesis .
  qed
  have parses: "\<And>f. f \<in> set ?files \<Longrightarrow> has_md_ext (fst f) \<Longrightarrow> \<exists>t. parse_task E (snd f) = Inr t"
    using fs_ok_parses [OF assms] mem by blast
  from read_dirs_ok [of ?files E, OF parses] have eq: "list_blocking E fs = Inr (sort_key t_id
      (map (\<lambda>f. projr (parse_task E (snd f))) (filter (\<lambda>f. has_md_ext (fst f)) ?files)))"
    by (simp add: list_blocking_def)
  have "t \<in> set (sort_key t_id (map (\<lambda>f. projr (parse_task E (snd f)))
           (filter (\<lambda>f. has_md_ext (fst f)) ?files))) \<longleftrightarrow> (\<exists>s n. task_at E fs s n = Some t)" for t
  proof -
    have "(\<exists>f. f \<in> set ?files \<and> has_md_ext (fst f) \<and> t = projr (parse_task E (snd f))) \<longleftrightarrow>
        (\<exists>s n. task_at E fs s n = Some t)"
      unfolding mem task_at_file
    proof
      assume "\<exists>f. (\<exists>s. map_of (fs s) (fst f) = Some (snd f)) \<and> has_md_ext (fst f) \<and>
        t = projr (parse_task E (snd f))"
      then obtain f s where f: "map_of (fs s) (fst f) = Some (snd f)" "has_md_ext (fst f)"
        "t = projr (parse_task E (snd f))" by blast
      then have "parse_task E (snd f) = Inr t" using fs_ok_parses [OF assms f(1,2)] by auto
      with f show "\<exists>s n x. map_of (fs s) n = Some x \<and> has_md_ext n \<and> parse_task E x = Inr t"
        by blast
    next
      assume "\<exists>s n x. map_of (fs s) n = Some x \<and> has_md_ext n \<and> parse_task E x = Inr t"
      then obtain s n x where "map_of (fs s) n = Some x" "has_md_ext n" "parse_task E x = Inr t"
        by blast
      then show "\<exists>f. (\<exists>s. map_of (fs s) (fst f) = Some (snd f)) \<and> has_md_ext (fst f) \<and>
        t = projr (parse_task E (snd f))" by (intro exI [of _ "(n, x)"]) auto
    qed
    then show ?thesis by (simp add: image_iff)
  qed
  with eq show ?thesis using that by blast
qed

lemma board_iff:
  assumes "fs_ok E fs"
  shows "board E fs i = Some t \<longleftrightarrow> t_id t = i \<and> (\<exists>s n. task_at E fs s n = Some t)"
proof -
  from list_blocking_ok [OF assms] obtain ts where
    ts: "list_blocking E fs = Inr ts" "\<And>t. t \<in> set ts \<longleftrightarrow> (\<exists>s n. task_at E fs s n = Some t)" by metis
  have "List.find (\<lambda>t. t_id t = i) ts = Some t \<longleftrightarrow> t \<in> set ts \<and> t_id t = i"
  proof
    show "t \<in> set ts \<and> t_id t = i \<Longrightarrow> List.find (\<lambda>t. t_id t = i) ts = Some t"
      using ts(2) task_at_unique(3) [OF assms] by (intro find_unique) blast+
  qed (auto dest: find_SomeD)
  with ts show ?thesis by (auto simp: board_def)
qed

lemma board_None: "fs_ok E fs \<Longrightarrow> board E fs i = None \<longleftrightarrow> (\<forall>s n t. task_at E fs s n = Some t \<longrightarrow> t_id t \<noteq> i)"
  using board_iff [of E fs i] by (metis option.exhaust option.distinct(1))

section \<open>Looking a task up\<close>

lemma find_in_dirs_Some:
  assumes "\<And>s f. s \<in> set ss \<Longrightarrow> f \<in> set (fs s) \<Longrightarrow> holds_id E i f \<Longrightarrow> s = s0 \<and> fst f = n0"
    and "s0 \<in> set ss" "f0 \<in> set (fs s0)" "holds_id E i f0"
  shows "find_in_dirs E i fs ss = Some (s0, n0)"
  using assms
proof (induction ss)
  case (Cons s ss)
  show ?case
  proof (cases "List.find (holds_id E i) (fs s)")
    case None
    with Cons.prems(3,4) have "s \<noteq> s0" by (metis find_NoneD)
    with Cons None show ?thesis by auto
  next
    case (Some f)
    from find_SomeD [OF Some] Cons.prems(1) [of s f] have "s = s0 \<and> fst f = n0" by simp
    with Some show ?thesis by simp
  qed
qed simp

lemma find_in_dirs_None:
  "find_in_dirs E i fs ss = None \<longleftrightarrow> (\<forall>s \<in> set ss. \<forall>f \<in> set (fs s). \<not> holds_id E i f)"
  by (induction ss) (auto simp: find_None_iff split: option.splits dest: find_SomeD)

lemma holds_id_task_at:
  assumes "fs_ok E fs"
  shows "(n, x) \<in> set (fs s) \<and> holds_id E i (n, x) \<longleftrightarrow>
    map_of (fs s) n = Some x \<and> (\<exists>t. task_at E fs s n = Some t \<and> t_id t = i)"
proof -
  have "(n, x) \<in> set (fs s) \<longleftrightarrow> map_of (fs s) n = Some x"
    using fs_ok_distinct [OF assms, of s] by (auto dest: map_of_SomeD)
  then show ?thesis by (auto simp: holds_id_def task_at_file split: sum.splits)
qed

lemma find_path_task:
  assumes ok: "fs_ok E fs" and t: "task_at E fs s n = Some t" "t_id t = i"
  shows "find_path E i fs = Some (s, n)"
proof (cases "List.find (\<lambda>s. map_of (fs s) (file_name i) \<noteq> None) STATUSES")
  case (Some s1)
  from find_SomeD [OF Some] obtain x where x: "map_of (fs s1) (file_name i) = Some x" by auto
  have "i \<noteq> []" using fs_ok_not_md [OF ok x] by (auto simp: file_name_def)
  then obtain t1 where t1: "task_at E fs s1 (file_name i) = Some t1"
    using fs_ok_parses [OF ok x] by auto
  have n: "file_name i = n" using fs_ok_names [OF ok t1 t(1)] t(2) by simp
  have "s1 = s" using task_at_one_dir [OF ok t(1)] t1 n by blast
  with Some n show ?thesis by (simp add: find_path_def)
next
  case None
  from t(1) obtain x where x: "map_of (fs s) n = Some x" by (auto simp: task_at_file)
  have "find_in_dirs E i fs STATUSES = Some (s, n)"
  proof (rule find_in_dirs_Some)
    show "(n, x) \<in> set (fs s)" "holds_id E i (n, x)"
      using holds_id_task_at [OF ok, of n x s i] x t by blast+
    show "s \<in> set STATUSES" by (rule STATUSES_all)
  next
    fix s' f assume f: "f \<in> set (fs s')" "holds_id E i f"
    then obtain t' where "task_at E fs s' (fst f) = Some t'" "t_id t' = i"
      using holds_id_task_at [OF ok, of "fst f" "snd f" s' i] by auto
    from task_at_unique [OF ok this(1) t(1)] this(2) t(2) show "s' = s \<and> fst f = n" by auto
  qed
  with None show ?thesis by (simp add: find_path_def)
qed

lemma find_path_None:
  assumes ok: "fs_ok E fs"
  shows "find_path E i fs = None \<longleftrightarrow> name_free fs (file_name i) \<and> board E fs i = None"
proof -
  have "find_in_dirs E i fs STATUSES = None \<longleftrightarrow> board E fs i = None"
    unfolding find_in_dirs_None board_None [OF ok]
    using STATUSES_all holds_id_task_at [OF ok] task_at_file
    by (metis prod.collapse)
  moreover have "List.find (\<lambda>s. map_of (fs s) (file_name i) \<noteq> None) STATUSES = None \<longleftrightarrow>
      name_free fs (file_name i)"
    unfolding name_free_def list_all_iff find_None_iff by metis
  ultimately show ?thesis
    by (cases "List.find (\<lambda>s. map_of (fs s) (file_name i) \<noteq> None) STATUSES")
      (simp_all add: find_path_def)
qed

end
