(* ===== verification/Task_Ops.thy ===== *)
theory Task_Ops
  imports Task_Board
begin

text \<open>
  What the store's operations do to the task board, on every branch, and the properties of the
  file store: the round trip of a task file, claiming, transitions, creation and import.
\<close>

section \<open>Writing one file\<close>

lemma fs_ok_put:
  assumes ok: "fs_ok E fs"
    and files: "\<And>s m. map_of (fs' s) m =
       (if m = n then (if s = s' then Some x else None) else map_of (fs s) m)"
    and dist: "\<And>s. distinct (map fst (fs' s))"
    and p: "parse_task E x = Inr t'" "t_status t' = s'" "has_md_ext n"
    and others: "\<And>s m t. task_at E fs s m = Some t \<Longrightarrow> m \<noteq> n \<Longrightarrow>
       t_id t \<noteq> t_id t' \<and> m \<noteq> file_name (t_id t') \<and> n \<noteq> file_name (t_id t)"
    and old: "\<And>s t. task_at E fs s n = Some t \<Longrightarrow> t_id t = t_id t'"
  shows "fs_ok E fs'" and "board E fs' = (board E fs)(t_id t' \<mapsto> t')"
proof -
  have at: "task_at E fs' s m = (if m = n then (if s = s' then Some t' else None) else task_at E fs s m)"
    for s m using p by (simp add: task_at_def files)
  show ok': "fs_ok E fs'"
    unfolding fs_ok_def
  proof (intro conjI allI impI)
    show "distinct (map fst (fs' s))" for s by (rule dist)
  next
    fix s1 s2 m assume "map_of (fs' s1) m \<noteq> None \<and> map_of (fs' s2) m \<noteq> None"
    then show "s1 = s2" using fs_ok_one_dir [OF ok, of s1 m _ s2] by (auto simp: files split: if_splits)
  next
    fix s m assume m: "map_of (fs' s) m \<noteq> None"
    show "m \<noteq> ''.md''" using m p(3) fs_ok_not_md [OF ok, of s m]
      by (auto simp: files has_md_ext_def split: if_splits)
    assume "has_md_ext m"
    with m show "\<exists>t. task_at E fs' s m = Some t \<and> t_status t = s"
      using p(2) fs_ok_parses [OF ok, of s m] by (auto simp: files at split: if_splits)
  next
    fix s1 m1 t1 s2 m2 t2
    assume h: "task_at E fs' s1 m1 = Some t1 \<and> task_at E fs' s2 m2 = Some t2 \<and>
      (t_id t1 = t_id t2 \<or> m1 = file_name (t_id t2))"
    show "m1 = m2"
    proof (cases "m1 = n \<or> m2 = n")
      case True
      with h show ?thesis
        using others [of s2 m2 t2] others [of s1 m1 t1] by (auto simp: at split: if_splits)
    next
      case False
      with h show ?thesis
        using fs_ok_ids [OF ok, of s1 m1 t1 s2 m2 t2] fs_ok_names [OF ok, of s1 m1 t1 s2 m2 t2]
        by (auto simp: at)
    qed
  qed
  show "board E fs' = (board E fs)(t_id t' \<mapsto> t')"
  proof (intro ext)
    fix i
    have "board E fs' i = Some t \<longleftrightarrow> ((board E fs)(t_id t' \<mapsto> t')) i = Some t" for t
    proof -
      have "(\<exists>s m. task_at E fs' s m = Some t) \<longleftrightarrow>
          t = t' \<or> (\<exists>s m. m \<noteq> n \<and> task_at E fs s m = Some t)"
        by (auto simp: at)
      moreover have "(\<exists>s m. m \<noteq> n \<and> task_at E fs s m = Some t) \<longleftrightarrow>
          (\<exists>s m. task_at E fs s m = Some t) \<and> t_id t \<noteq> t_id t'"
        using others old by (metis)
      ultimately show ?thesis by (auto simp: board_iff [OF ok] board_iff [OF ok'])
    qed
    then show "board E fs' i = ((board E fs)(t_id t' \<mapsto> t')) i" by (metis option.exhaust)
  qed
qed

text \<open>Rewriting a task's file, moved to the directory of its new status under its own name.\<close>

lemma rewrite_task:
  assumes E: "codec_ok E" and ok: "fs_ok E fs" and t: "task_at E fs s n = Some t"
    and t': "task_ok t'" "t_id t' = t_id t" "trim (t_description t') = t_description t'"
  obtains fs1 fs2 where "fs_rename (s, n) (t_status t', n) fs = Some fs1"
    and "write_task_at E (t_status t') n t' fs1 = (Inr (), fs2)"
    and "fs_ok E fs2" and "board E fs2 = (board E fs)(t_id t \<mapsto> t')"
proof -
  from parse_render [OF E t'(1)] obtain x where x: "render_task E t' = Inr x"
    "parse_task E x = Inr t'" using t'(3) by auto
  from t obtain x0 where x0: "map_of (fs s) n = Some x0" and md: "has_md_ext n"
    by (auto simp: task_at_file)
  then obtain fs1 where fs1: "fs_rename (s, n) (t_status t', n) fs = Some fs1"
    by (cases "s = t_status t'") (simp_all add: fs_rename_def)
  let ?fs2 = "fs_write (t_status t') n x fs1"
  have elsewhere: "map_of (fs r) n = None" if "r \<noteq> s" for r
    using fs_ok_one_dir [OF ok x0, of r] that by (cases "map_of (fs r) n") auto
  have files: "map_of (?fs2 r) m = (if m = n then (if r = t_status t' then Some x else None)
      else map_of (fs r) m)" for r m
    using fs1 x0 elsewhere
    by (auto simp: fs_rename_def fs_write_at map_of_filter_name fs_write_def map_of_put_file
        split: if_splits)
  have "distinct (map fst (fs1 r))" for r
    using fs1 x0 fs_ok_distinct [OF ok]
    by (auto simp: fs_rename_def fs_write_def distinct_put_file distinct_map_filter split: if_splits)
  then have dist: "distinct (map fst (?fs2 r))" for r by (rule fs_write_distinct)
  have others: "t_id u \<noteq> t_id t' \<and> m \<noteq> file_name (t_id t') \<and> n \<noteq> file_name (t_id u)"
    if "task_at E fs r m = Some u" "m \<noteq> n" for r m u
    using fs_ok_ids [OF ok that(1) t] fs_ok_names [OF ok that(1) t] fs_ok_names [OF ok t that(1)]
      that(2) t'(2) by auto
  have old: "t_id u = t_id t'" if "task_at E fs r n = Some u" for r u
    using task_at_one_dir [OF ok that t] that t t'(2) by simp
  note put = fs_ok_put [OF ok files dist x(2) refl md others old]
  from fs1 put x t'(2) show ?thesis by (intro that [of fs1 ?fs2]) (simp_all add: write_task_at_def)
qed

text \<open>Writing a file for a task the store does not have.\<close>

lemma insert_task:
  assumes E: "codec_ok E" and ok: "fs_ok E fs"
    and free: "find_path E (t_id t) fs = None" "t_id t \<noteq> []" and t: "task_ok t"
  obtains fs' where "write_task_at E (t_status t) (file_name (t_id t)) t fs = (Inr (), fs')"
    and "fs_ok E fs'"
    and "board E fs' = (board E fs)(t_id t \<mapsto> t\<lparr>t_description := trim (t_description t)\<rparr>)"
proof -
  let ?t = "t\<lparr>t_description := trim (t_description t)\<rparr>" and ?n = "file_name (t_id t)"
  from parse_render [OF E t] obtain x where x: "render_task E t = Inr x"
    "parse_task E x = Inr ?t" by auto
  let ?fs' = "fs_write (t_status t) ?n x fs"
  from free(1) have name: "\<And>s. map_of (fs s) ?n = None" and new: "board E fs (t_id t) = None"
    by (simp_all add: find_path_None [OF ok] name_free_iff)
  have files: "map_of (?fs' r) m = (if m = ?n then (if r = t_status t then Some x else None)
      else map_of (fs r) m)" for r m
    using name by (simp add: fs_write_at)
  have dist: "distinct (map fst (?fs' r))" for r
    using fs_ok_distinct [OF ok] by (rule fs_write_distinct)
  have absent: "task_at E fs r ?n = None" for r using name by (simp add: task_at_def)
  have others: "t_id u \<noteq> t_id ?t \<and> m \<noteq> file_name (t_id ?t) \<and> ?n \<noteq> file_name (t_id u)"
    if "task_at E fs r m = Some u" "m \<noteq> ?n" for r m u
    using new that unfolding board_None [OF ok] by fastforce
  have put: "fs_ok E ?fs'" "board E ?fs' = (board E fs)(t_id ?t \<mapsto> ?t)"
    using fs_ok_put [OF ok files dist x(2)] free(2) others absent by auto
  from put x show ?thesis by (intro that [of ?fs']) (simp_all add: write_task_at_def)
qed

section \<open>The operations on the board\<close>

lemma board_task_at:
  assumes "fs_ok E fs" "board E fs i = Some t"
  obtains s n where "task_at E fs s n = Some t" "t_id t = i" "find_path E i fs = Some (s, n)"
proof -
  from assms(2) obtain s n where at: "task_at E fs s n = Some t" and i: "t_id t = i"
    by (auto simp: board_iff [OF assms(1)])
  with find_path_task [OF assms(1) at i] that show ?thesis by blast
qed

lemma get_task_board:
  assumes "fs_ok E fs" "board E fs i = Some t"
  shows "get_task E i fs = Inr (Some t)"
proof -
  from board_task_at [OF assms] obtain s n where "task_at E fs s n = Some t"
    "find_path E i fs = Some (s, n)" .
  then show ?thesis by (auto simp: get_task_def read_task_at_def task_at_file)
qed

lemma get_task_absent: "find_path E i fs = None \<Longrightarrow> get_task E i fs = Inr None"
  by (simp add: get_task_def)

lemma board_parsed:
  assumes E: "codec_ok E" and "fs_ok E fs" "board E fs i = Some t"
  shows "task_ok t" "trim (t_description t) = t_description t" "t_id t = i"
  using assms parse_task_ok [OF E] by (auto simp: board_iff task_at_file)

lemma transition_board:
  fixes now :: timestamp
  assumes E: "codec_ok E" and ok: "fs_ok E fs" and t: "board E fs (tt_id tr) = Some t"
  defines "t' \<equiv> t\<lparr>t_status := tt_status tr, t_updated_at := now\<rparr>"
  obtains fs' where "transition E now tr fs = (Inr t', fs')" and "fs_ok E fs'"
    and "board E fs' = (board E fs)(tt_id tr \<mapsto> t')"
proof -
  from board_task_at [OF ok t] obtain s n where at: "task_at E fs s n = Some t"
    and id: "t_id t = tt_id tr" and path: "find_path E (tt_id tr) fs = Some (s, n)" .
  have t': "task_ok t'" "t_id t' = t_id t" "trim (t_description t') = t_description t'"
    using board_parsed [OF E ok t] by (simp_all add: t'_def)
  from rewrite_task [OF E ok at t'] obtain fs1 fs2 where
    fs1: "fs_rename (s, n) (t_status t', n) fs = Some fs1" and
    fs2: "write_task_at E (t_status t') n t' fs1 = (Inr (), fs2)" "fs_ok E fs2"
      "board E fs2 = (board E fs)(t_id t \<mapsto> t')" .
  have read: "read_task_at E s n fs = Inr t" using at by (auto simp: read_task_at_def task_at_file)
  have "(if s \<noteq> tt_status tr then fs_rename (s, n) (tt_status tr, n) fs else Some fs) = Some fs1"
    using fs1 at by (auto simp: t'_def fs_rename_def task_at_file)
  with path read fs2 id have "transition E now tr fs = (Inr t', fs2)"
    by (simp add: transition_def Let_def t'_def)
  with fs2 id that show ?thesis by simp
qed

lemma transition_absent:
  "find_path E (tt_id tr) fs = None \<Longrightarrow> transition E now tr fs = (Inl (NotFound (tt_id tr)), fs)"
  by (simp add: transition_def)

lemma claim_move_board:
  fixes now :: timestamp and who :: string
  assumes E: "codec_ok E" and ok: "fs_ok E fs" and t: "board E fs (t_id t0) = Some t"
    and t0: "task_ok t0" "trim (t_description t0) = t_description t0"
  defines "t' \<equiv> t0\<lparr>t_status := Doing, t_claimed_by := Some who, t_updated_at := now\<rparr>"
  obtains fs' where "claim_move E now who t0 fs = (Inr (Some t'), fs')" and "fs_ok E fs'"
    and "board E fs' = (board E fs)(t_id t0 \<mapsto> t')"
proof -
  from board_task_at [OF ok t] obtain s n where at: "task_at E fs s n = Some t"
    and id: "t_id t = t_id t0" and path: "find_path E (t_id t0) fs = Some (s, n)" .
  have t': "task_ok t'" "t_id t' = t_id t" "trim (t_description t') = t_description t'"
    using t0 id by (simp_all add: t'_def)
  from rewrite_task [OF E ok at t'] obtain fs1 fs2 where
    "fs_rename (s, n) (t_status t', n) fs = Some fs1"
    "write_task_at E (t_status t') n t' fs1 = (Inr (), fs2)" "fs_ok E fs2"
    "board E fs2 = (board E fs)(t_id t \<mapsto> t')" .
  with path id that show ?thesis by (simp add: claim_move_def Let_def t'_def)
qed

text \<open>Eligibility, read off the board.\<close>

definition board_eligible :: "(string \<Rightarrow> 'y task option) \<Rightarrow> 'y task \<Rightarrow> bool" where
  "board_eligible b t \<longleftrightarrow>
     b (t_id t) = Some t \<and> t_status t = Todo \<and>
     (\<forall>i \<in> set (t_blockers t). \<exists>u. b i = Some u \<and> is_terminal (t_status u))"

definition requested :: "claim_request \<Rightarrow> 'y task \<Rightarrow> bool" where
  "requested req t \<longleftrightarrow> (\<forall>i. cr_task_id req = Some i \<longrightarrow> t_id t = i)"

lemma eligible_board:
  assumes ok: "fs_ok E fs" and ts: "list_blocking E fs = Inr ts"
  shows "t \<in> set ts \<and> is_dispatch_eligible t ts \<longleftrightarrow> board_eligible (board E fs) t"
proof -
  have mem: "u \<in> set ts \<longleftrightarrow> board E fs (t_id u) = Some u" for u
    using list_blocking_ok [OF ok] ts board_iff [OF ok] by (metis sum.inject(2))
  have "(case List.find (\<lambda>u. t_id u = i) ts of None \<Rightarrow> False | Some u \<Rightarrow> is_terminal (t_status u)) \<longleftrightarrow>
      (\<exists>u. board E fs i = Some u \<and> is_terminal (t_status u))" for i
    using ts by (simp add: board_def split: option.split)
  then show ?thesis by (simp add: is_dispatch_eligible_def board_eligible_def mem list_all_iff)
qed

lemma claim_candidate_board:
  assumes ok: "fs_ok E fs"
  obtains (none) "claim_candidate E req fs = Inr None"
      "\<And>t. board_eligible (board E fs) t \<Longrightarrow> \<not> requested req t"
    | (some) t where "claim_candidate E req fs = Inr (Some t)" "board_eligible (board E fs) t"
      "requested req t"
proof -
  from list_blocking_ok [OF ok] obtain ts where ts: "list_blocking E fs = Inr ts" by metis
  let ?P = "\<lambda>t. case cr_task_id req of None \<Rightarrow> True | Some i \<Rightarrow> t_id t = i"
  have P: "?P t \<longleftrightarrow> requested req t" for t :: "'a task"
    by (simp add: requested_def split: option.split)
  show ?thesis
  proof (cases "List.find (\<lambda>t. is_dispatch_eligible t ts) (filter ?P ts)")
    case None
    have "\<not> requested req t" if "board_eligible (board E fs) t" for t
      using find_NoneD [OF None, of t] that eligible_board [OF ok ts, of t] P [of t] by auto
    with None ts show ?thesis by (intro none) (simp_all add: claim_candidate_def)
  next
    case (Some t)
    from find_SomeD [OF Some] have "board_eligible (board E fs) t" "requested req t"
      using eligible_board [OF ok ts, of t] P [of t] by auto
    with Some ts show ?thesis by (intro some) (simp_all add: claim_candidate_def)
  qed
qed

lemma claim_board:
  assumes E: "codec_ok E" and ok: "fs_ok E fs"
  obtains (none) "claim E now req fs = (Inr None, fs)"
      "\<And>t. board_eligible (board E fs) t \<Longrightarrow> \<not> requested req t"
    | (some) t fs' where "board_eligible (board E fs) t" "requested req t" "fs_ok E fs'"
      "claim E now req fs =
        (Inr (Some (t\<lparr>t_status := Doing, t_claimed_by := Some (cr_claimant req), t_updated_at := now\<rparr>)), fs')"
      "board E fs' = (board E fs)(t_id t \<mapsto>
        t\<lparr>t_status := Doing, t_claimed_by := Some (cr_claimant req), t_updated_at := now\<rparr>)"
proof (cases rule: claim_candidate_board [OF ok, of req])
  case 1
  then show ?thesis by (intro none) (simp_all add: claim_def)
next
  case (2 t)
  then have b: "board E fs (t_id t) = Some t" by (simp add: board_eligible_def)
  from claim_move_board [OF E ok b board_parsed(1,2) [OF E ok b]] obtain fs' where
    "claim_move E now (cr_claimant req) t fs = (Inr (Some
        (t\<lparr>t_status := Doing, t_claimed_by := Some (cr_claimant req), t_updated_at := now\<rparr>)), fs')"
    "fs_ok E fs'" "board E fs' = (board E fs)(t_id t \<mapsto>
        t\<lparr>t_status := Doing, t_claimed_by := Some (cr_claimant req), t_updated_at := now\<rparr>)" .
  with 2 show ?thesis by (intro some) (simp_all add: claim_def)
qed

end
