(* ===== verification/Demo_Codec.thy ===== *)
theory Demo_Codec
  imports Task_Facts "HOL-Library.Countable"
begin

text \<open>
  A concrete header codec satisfying the laws the store relies on: a header is printed as the
  decimal number of its fields. It shows that the laws can hold, and it is the codec of the
  witnesses.
\<close>

instance role :: countable by countable_datatype
instance task_status :: countable by countable_datatype
instance task_kind :: countable by countable_datatype

type_synonym header_fields =
  "string \<times> string \<times> string \<times> role \<times> task_status \<times> task_kind \<times> string list \<times> string list \<times>
   string option \<times> string list \<times> timestamp \<times> timestamp \<times> (string \<times> unit) list"

fun header_fields :: "unit task_header \<Rightarrow> header_fields" where
  "header_fields \<lparr>h_kind_name = k, h_id = i, h_title = t, h_role = r, h_status = s, h_kind = d,
      h_blockers = b, h_children = c, h_claimed_by = cl, h_verifier_names = v, h_created_at = ca,
      h_updated_at = ua, h_unknown = u\<rparr> = (k, i, t, r, s, d, b, c, cl, v, ca, ua, u)"

fun fields_header :: "header_fields \<Rightarrow> unit task_header" where
  "fields_header (k, i, t, r, s, d, b, c, cl, v, ca, ua, u) =
     \<lparr>h_kind_name = k, h_id = i, h_title = t, h_role = r, h_status = s, h_kind = d,
      h_blockers = b, h_children = c, h_claimed_by = cl, h_verifier_names = v, h_created_at = ca,
      h_updated_at = ua, h_unknown = u\<rparr>"

lemma fields_header_inverse [simp]: "fields_header (header_fields h) = h"
  by (cases h rule: header_fields.cases) simp

definition demo_codec :: "unit task_codec" where
  "demo_codec =
     \<lparr>yaml_enc = (\<lambda>h. Some (show_nat (to_nat (header_fields h)) @ nl)),
      yaml_dec = (\<lambda>y. let h = fields_header (from_nat (dec_val 0 y))
                      in if header_ok h then Some h else None),
      sha256_hex = (\<lambda>s. replicate 64 (CHR ''0'')),
      to_rfc3339 = (\<lambda>n. ''2026-01-01T00:00:00+00:00'')\<rparr>"

lemma show_nat_no_nl: "CHR 0x0A \<notin> set (show_nat n)"
proof (induction n rule: show_nat.induct)
  case (1 n)
  have no: "CHR 0x0A \<noteq> digit_char d" if "d < 10" for d
  proof
    assume "CHR 0x0A = digit_char d"
    then have "(of_char (digit_char d) :: nat) = of_char (CHR 0x0A)" by simp
    with that show False by (simp add: of_char_digit)
  qed
  have "CHR 0x0A \<noteq> digit_char (n mod 10)" by (rule no) simp
  with 1 no [of n] show ?case by (subst show_nat.simps) simp
qed

lemma no_fence: "CHR 0x0A \<notin> set y \<Longrightarrow> \<not> contains fence (y @ nl)"
proof
  assume y: "CHR 0x0A \<notin> set y" and "contains fence (y @ nl)"
  then obtain a b where "y @ nl = a @ fence @ b" by (auto simp: contains_iff)
  then have "count_list (y @ nl) (CHR 0x0A) = count_list (a @ fence @ b) (CHR 0x0A)" by simp
  with y show False by (simp add: nl_def fence_def)
qed

lemma demo_codec_ok: "codec_ok demo_codec"
  by (auto simp: codec_ok_def demo_codec_def Let_def no_fence show_nat_no_nl split: if_splits)

lemma demo_task_ok: "t_extra t = bt_empty \<Longrightarrow> task_ok (t :: unit task)"
  by (simp add: task_ok_def header_ok_def task_header_of_def bt_ok_def bt_keys_def bt_empty_def)

end
