(* ===== verification/Task_Claims.thy ===== *)
theory Task_Claims
  imports Task_Ops Demo_Codec
begin

text \<open>
  The contract every task store offers its clients, as a locale; the verifier gate of
  \<open>crates/headrace/src/verifier.rs\<close>, a client of it; the interpretation on the file store; and
  the properties of the store.
\<close>

section \<open>The verifier gate\<close>

record verifier_outcome =
  vo_name :: string
  vo_passed :: bool
  vo_output :: string

type_synonym 'y verifier = "'y task \<Rightarrow> task_error + verifier_outcome"

fun gate_verify :: "'y verifier list \<Rightarrow> 'y task \<Rightarrow> task_error + verifier_outcome list" where
  "gate_verify [] t = Inr []"
| "gate_verify (v # vs) t =
     (case v t of
        Inl err \<Rightarrow> Inl err
      | Inr outcome \<Rightarrow>
          (if \<not> vo_passed outcome
           then Inl (VerifierFailed (vo_name outcome @ '' failed: '' @ vo_output outcome))
           else (case gate_verify vs t of
                   Inl err \<Rightarrow> Inl err
                 | Inr outcomes \<Rightarrow> Inr (outcome # outcomes))))"

text \<open>\<open>mark_done\<close> works on any store: its \<open>get\<close> and \<open>transition\<close> are arguments.\<close>

definition mark_done ::
  "(string \<Rightarrow> 's \<Rightarrow> task_error + 'y task option) \<Rightarrow>
   (transition_task \<Rightarrow> 's \<Rightarrow> (task_error + 'y task) \<times> 's) \<Rightarrow>
   'y verifier list \<Rightarrow> string \<Rightarrow> 's \<Rightarrow> (task_error + 'y task) \<times> 's" where
  "mark_done get tran verifiers i s =
     (case get i s of
        Inl err \<Rightarrow> (Inl err, s)
      | Inr None \<Rightarrow> (Inl (NotFound i), s)
      | Inr (Some t) \<Rightarrow>
          (case gate_verify verifiers t of
             Inl err \<Rightarrow> (Inl err, s)
           | Inr outcomes \<Rightarrow> tran \<lparr>tt_id = i, tt_status = Done\<rparr> s))"

section \<open>The interface of a task store\<close>

locale task_board_store =
  fixes ok :: "'s \<Rightarrow> bool"
    and view :: "'s \<Rightarrow> string \<Rightarrow> 'y task option"
    and get :: "string \<Rightarrow> 's \<Rightarrow> task_error + 'y task option"
    and tran :: "timestamp \<Rightarrow> transition_task \<Rightarrow> 's \<Rightarrow> (task_error + 'y task) \<times> 's"
    and clm :: "timestamp \<Rightarrow> claim_request \<Rightarrow> 's \<Rightarrow> (task_error + 'y task option) \<times> 's"
  assumes view_id: "ok s \<Longrightarrow> view s i = Some t \<Longrightarrow> t_id t = i"
    and get_view: "ok s \<Longrightarrow> view s i = Some t \<Longrightarrow> get i s = Inr (Some t)"
    and tran_view: "ok s \<Longrightarrow> view s i = Some t \<Longrightarrow>
      \<exists>s'. tran now \<lparr>tt_id = i, tt_status = st\<rparr> s =
             (Inr (t\<lparr>t_status := st, t_updated_at := now\<rparr>), s') \<and> ok s' \<and>
           view s' = (view s)(i \<mapsto> t\<lparr>t_status := st, t_updated_at := now\<rparr>)"
    and claim_view: "ok s \<Longrightarrow>
      (clm now req s = (Inr None, s) \<and> (\<forall>t. board_eligible (view s) t \<longrightarrow> \<not> requested req t)) \<or>
      (\<exists>t t' s'. board_eligible (view s) t \<and> requested req t \<and>
         t' = t\<lparr>t_status := Doing, t_claimed_by := Some (cr_claimant req), t_updated_at := now\<rparr> \<and>
         clm now req s = (Inr (Some t'), s') \<and> ok s' \<and> view s' = (view s)(t_id t \<mapsto> t'))"
begin

lemma claim_ok: "ok s \<Longrightarrow> ok (snd (clm now req s))"
  using claim_view [of s now req] by auto

lemma claim_never_fails: "ok s \<Longrightarrow> \<exists>r. fst (clm now req s) = Inr r"
  using claim_view [of s now req] by auto

lemma claim_eligible:
  assumes "ok s" and "clm now req s = (Inr (Some t'), s')"
  shows "\<exists>t. board_eligible (view s) t \<and> requested req t \<and> view s' = (view s)(t_id t \<mapsto> t') \<and>
    t' = t\<lparr>t_status := Doing, t_claimed_by := Some (cr_claimant req), t_updated_at := now\<rparr>"
  using claim_view [OF assms(1), of now req] assms(2) by auto

text \<open>A task that is not in \<open>todo\<close> is not claimed.\<close>

lemma claim_not_todo:
  assumes "ok s" and "view s i = Some t" and "t_status t \<noteq> Todo"
  shows "clm now \<lparr>cr_task_id = Some i, cr_claimant = who\<rparr> s = (Inr None, s)"
  using claim_view [OF assms(1), of now "\<lparr>cr_task_id = Some i, cr_claimant = who\<rparr>"] assms(2,3)
  by (auto simp: requested_def board_eligible_def)

lemma claim_exclusive:
  assumes "ok s" and "clm now req s = (Inr (Some t'), s')"
  shows "clm now' \<lparr>cr_task_id = Some (t_id t'), cr_claimant = who\<rparr> s' = (Inr None, s')"
proof -
  from claim_eligible [OF assms] obtain t where "view s' = (view s)(t_id t \<mapsto> t')"
    and t': "t' = t\<lparr>t_status := Doing, t_claimed_by := Some (cr_claimant req), t_updated_at := now\<rparr>"
    by blast
  then have "view s' (t_id t') = Some t'" by simp
  moreover have "ok s'" using claim_ok [OF assms(1), of now req] assms(2) by simp
  moreover have "t_status t' \<noteq> Todo" by (simp add: t')
  ultimately show ?thesis by (simp add: claim_not_todo)
qed

lemma mark_done_passed:
  assumes "ok s" "view s i = Some t" "gate_verify vs t = Inr outcomes"
  shows "\<exists>s'. mark_done get (tran now) vs i s = (Inr (t\<lparr>t_status := Done, t_updated_at := now\<rparr>), s') \<and>
    ok s' \<and> view s' = (view s)(i \<mapsto> t\<lparr>t_status := Done, t_updated_at := now\<rparr>)"
  using get_view [OF assms(1,2)] tran_view [OF assms(1,2), of now Done] assms(3)
  by (simp add: mark_done_def)

lemma mark_done_rejected:
  assumes "ok s" "view s i = Some t" "gate_verify vs t = Inl err"
  shows "mark_done get (tran now) vs i s = (Inl err, s)"
  using get_view [OF assms(1,2)] assms(3) by (simp add: mark_done_def)

end

interpretation files: task_board_store
  "\<lambda>fs. codec_ok E \<and> fs_ok E fs" "board E" "get_task E" "transition E" "claim E"
  for E :: "'y task_codec"
proof
  fix s :: task_files and i :: string and t :: "'y task"
  assume ok: "codec_ok E \<and> fs_ok E s" and t: "board E s i = Some t"
  show "t_id t = i" using ok t by (simp add: board_iff)
  show "get_task E i s = Inr (Some t)" using ok t by (simp add: get_task_board)
  show "\<exists>s'. transition E now \<lparr>tt_id = i, tt_status = st\<rparr> s =
      (Inr (t\<lparr>t_status := st, t_updated_at := now\<rparr>), s') \<and> (codec_ok E \<and> fs_ok E s') \<and>
      board E s' = (board E s)(i \<mapsto> t\<lparr>t_status := st, t_updated_at := now\<rparr>)" for now st
    using transition_board [of E s "\<lparr>tt_id = i, tt_status = st\<rparr>" t now] ok t by auto
next
  fix s :: task_files and now :: timestamp and req :: claim_request
  assume ok: "codec_ok E \<and> fs_ok E s"
  show "(claim E now req s = (Inr None, s) \<and>
        (\<forall>t. board_eligible (board E s) t \<longrightarrow> \<not> requested req t)) \<or>
      (\<exists>t t' s'. board_eligible (board E s) t \<and> requested req t \<and>
         t' = t\<lparr>t_status := Doing, t_claimed_by := Some (cr_claimant req), t_updated_at := now\<rparr> \<and>
         claim E now req s = (Inr (Some t'), s') \<and> (codec_ok E \<and> fs_ok E s') \<and>
         board E s' = (board E s)(t_id t \<mapsto> t'))"
    using claim_board [of E s now req] ok by metis
qed

section \<open>Creation and import\<close>

lemma create_board:
  assumes E: "codec_ok E" and ok: "fs_ok E fs" and i: "nt_id nt = Some i" "i \<noteq> []"
    and free: "find_path E i fs = None"
  obtains t fs' where "create E now nt fs = (Inr t, fs')" "fs_ok E fs'"
    "board E fs' = (board E fs)(i \<mapsto> t\<lparr>t_description := trim (t_description t)\<rparr>)"
    "t_id t = i" "t_title t = nt_title nt" "t_description t = nt_description nt" "t_status t = Todo"
    "t_blockers t = nt_blockers nt" "t_claimed_by t = None" "t_created_at t = now"
proof -
  define t :: "'a task" where "t =
    \<lparr>t_id = i, t_title = nt_title nt, t_description = nt_description nt, t_role = nt_role nt,
     t_status = Todo, t_kind = nt_kind nt, t_blockers = nt_blockers nt,
     t_children = nt_children nt, t_claimed_by = None, t_verifier_names = nt_verifier_names nt,
     t_created_at = now, t_updated_at = now, t_extra = bt_empty\<rparr>"
  have "task_ok t"
    by (simp add: t_def task_ok_def header_ok_def task_header_of_def bt_ok_def bt_keys_def bt_empty_def)
  moreover have "find_path E (t_id t) fs = None" "t_id t \<noteq> []" using free i by (simp_all add: t_def)
  ultimately obtain fs' where fs': "write_task_at E (t_status t) (file_name (t_id t)) t fs = (Inr (), fs')"
    "fs_ok E fs'" "board E fs' = (board E fs)(t_id t \<mapsto> t\<lparr>t_description := trim (t_description t)\<rparr>)"
    using insert_task [OF E ok, of t] by metis
  have "map_of (fs Todo) (file_name i) = None"
    using free by (simp add: find_path_None [OF ok] name_free_iff)
  with fs'(1) i have "create E now nt fs = (Inr t, fs')"
    by (simp add: create_def t_def Let_def)
  with fs' show ?thesis by (intro that [of t fs']) (simp_all add: t_def)
qed

lemma import_task_board:
  assumes E: "codec_ok E" and ok: "fs_ok E fs" and t: "task_ok t" "t_id t \<noteq> []"
  obtains (known) u where "import_task E t fs = (Inr (SkippedDuplicate u), fs)"
      "board E fs (t_id t) = Some u"
    | (shadowed) "board E fs (t_id t) = None" "\<not> name_free fs (file_name (t_id t))"
    | (fresh) fs' where "import_task E t fs = (Inr (Imported t), fs')" "fs_ok E fs'"
      "board E fs (t_id t) = None"
      "board E fs' = (board E fs)(t_id t \<mapsto> t\<lparr>t_description := trim (t_description t)\<rparr>)"
proof (cases "board E fs (t_id t)")
  case (Some u)
  from board_task_at [OF ok Some] obtain s n where "task_at E fs s n = Some u"
    "find_path E (t_id t) fs = Some (s, n)" .
  then have "import_task E t fs = (Inr (SkippedDuplicate u), fs)"
    by (auto simp: import_task_def read_task_at_def task_at_file)
  with Some show ?thesis by (rule known [rotated])
next
  case None
  show ?thesis
  proof (cases "name_free fs (file_name (t_id t))")
    case True
    with None have free: "find_path E (t_id t) fs = None" by (simp add: find_path_None [OF ok])
    from insert_task [OF E ok free t(2,1)] obtain fs' where
      "write_task_at E (t_status t) (file_name (t_id t)) t fs = (Inr (), fs')" "fs_ok E fs'"
      "board E fs' = (board E fs)(t_id t \<mapsto> t\<lparr>t_description := trim (t_description t)\<rparr>)" .
    with free None show ?thesis by (intro fresh [of fs']) (simp_all add: import_task_def)
  qed (use None shadowed in blast)
qed

section \<open>A store to run the operations on\<close>

lemma no_files_ok: "fs_ok E no_files"
  by (simp add: fs_ok_def no_files_def task_at_def)

lemma board_no_files: "board E no_files i = None"
  unfolding board_None [OF no_files_ok] by (simp add: no_files_def task_at_def)

lemma find_path_no_files: "find_path E i no_files = None"
  unfolding find_path_None [OF no_files_ok] name_free_iff board_no_files by (simp add: no_files_def)

definition demo_new :: "string \<Rightarrow> new_task" where
  "demo_new i = (primitive ''Fix CI'')\<lparr>nt_id := Some i\<rparr>"

definition demo_files :: task_files where
  "demo_files = snd (create demo_codec 5 (demo_new ''a'') no_files)"

lemma demo_files_board:
  obtains t where "fs_ok demo_codec demo_files" "board demo_codec demo_files = [''a'' \<mapsto> t]"
    "t_id t = ''a''" "t_status t = Todo" "t_blockers t = []"
    "board_eligible (board demo_codec demo_files) t"
proof -
  have no: "board demo_codec no_files = Map.empty" by (rule ext) (rule board_no_files)
  have nt: "nt_id (demo_new ''a'') = Some ''a''" "''a'' \<noteq> []" by (simp_all add: demo_new_def)
  from create_board [OF demo_codec_ok no_files_ok nt find_path_no_files, of 5]
  obtain t fs' where t: "create demo_codec 5 (demo_new ''a'') no_files = (Inr t, fs')"
    "fs_ok demo_codec fs'" "board demo_codec fs' = (board demo_codec no_files)(''a'' \<mapsto>
      t\<lparr>t_description := trim (t_description t)\<rparr>)" "t_id t = ''a''" "t_status t = Todo"
    "t_blockers t = nt_blockers (demo_new ''a'')" by metis
  then show ?thesis
    by (intro that [of "t\<lparr>t_description := trim (t_description t)\<rparr>"])
      (simp_all add: demo_files_def no demo_new_def primitive_def board_eligible_def)
qed

end
