(* ===== verification/Task_Properties.thy ===== *)
theory Task_Properties
  imports Task_Claims
begin

text \<open>
  The properties of the file-backed task store: what a client may rely on, and four behaviours
  that its documentation does not lead one to expect.
\<close>

section \<open>What clients may rely on\<close>

text \<open>C20: Parsing what \<open>render_task\<close> wrote gives the task back, every field unchanged except that the
  description loses its outer white space.\<close>

theorem task_file_round_trip:
  assumes "codec_ok E" and "task_ok t"
  shows "\<exists>x. render_task E t = Inr x \<and>
    parse_task E x = Inr (t\<lparr>t_description := trim (t_description t)\<rparr>)"
  by (rule parse_render [OF assms]) blast

definition demo_task :: "string \<Rightarrow> unit task" where
  "demo_task i =
     \<lparr>t_id = i, t_title = ''Fix CI'', t_description = '' it fails '', t_role = Worker,
      t_status = Todo, t_kind = Primitive, t_blockers = [], t_children = [], t_claimed_by = None,
      t_verifier_names = [], t_created_at = 7, t_updated_at = 7, t_extra = bt_empty\<rparr>"

lemma demo_task_ok': "task_ok (demo_task i)"
  by (rule demo_task_ok) (simp add: demo_task_def)

theorem task_file_round_trip_witness:
  "\<exists>x. render_task demo_codec (demo_task ''a'') = Inr x \<and>
    parse_task demo_codec x = Inr ((demo_task ''a'')\<lparr>t_description := trim '' it fails ''\<rparr>)"
  using task_file_round_trip [OF demo_codec_ok demo_task_ok', of "''a''"]
  by (simp add: demo_task_def)

text \<open>C1: On well-formed directories \<open>claim\<close> never fails. It either answers \<open>None\<close>, changes nothing,
  and then no task that was asked for is eligible; or it takes an eligible task that was asked
  for: in \<open>todo\<close>, every blocker present and finished. That task is then \<open>doing\<close> under the
  claimant's name, every other task is as before, and the directories are well-formed again.\<close>

theorem claim_takes_eligible_task:
  assumes "codec_ok E" and "fs_ok E fs"
  shows "(claim E now req fs = (Inr None, fs) \<and>
            (\<forall>t. board_eligible (board E fs) t \<longrightarrow> \<not> requested req t)) \<or>
         (\<exists>t t' fs'. board_eligible (board E fs) t \<and> requested req t \<and>
            t' = t\<lparr>t_status := Doing, t_claimed_by := Some (cr_claimant req), t_updated_at := now\<rparr> \<and>
            claim E now req fs = (Inr (Some t'), fs') \<and> fs_ok E fs' \<and>
            board E fs' = (board E fs)(t_id t \<mapsto> t'))"
  using files.claim_view [of E fs now req] assms by blast

theorem claim_takes_eligible_task_witness:
  "\<exists>t' fs'. claim demo_codec 9 \<lparr>cr_task_id = Some ''a'', cr_claimant = ''w''\<rparr> demo_files =
     (Inr (Some t'), fs') \<and> t_status t' = Doing \<and> t_claimed_by t' = Some ''w''"
proof -
  obtain t where t: "fs_ok demo_codec demo_files" "board_eligible (board demo_codec demo_files) t"
    "t_id t = ''a''" by (rule demo_files_board)
  then have "requested \<lparr>cr_task_id = Some ''a'', cr_claimant = ''w''\<rparr> t" by (simp add: requested_def)
  with claim_takes_eligible_task [OF demo_codec_ok t(1), of 9 "\<lparr>cr_task_id = Some ''a'', cr_claimant = ''w''\<rparr>"]
    t(2) show ?thesis by fastforce
qed

text \<open>C2: A task that has been claimed cannot be claimed again: a later request for it, by anyone,
  answers \<open>None\<close> and changes nothing.\<close>

theorem claim_is_exclusive:
  assumes "codec_ok E" and "fs_ok E fs" and "claim E now req fs = (Inr (Some t), fs')"
  shows "claim E now' \<lparr>cr_task_id = Some (t_id t), cr_claimant = who\<rparr> fs' = (Inr None, fs')"
  using files.claim_exclusive [of E fs now req t fs'] assms by blast

theorem claim_is_exclusive_witness:
  "\<exists>t fs'. claim demo_codec 9 \<lparr>cr_task_id = None, cr_claimant = ''w''\<rparr> demo_files = (Inr (Some t), fs') \<and>
     claim demo_codec 10 \<lparr>cr_task_id = Some (t_id t), cr_claimant = ''v''\<rparr> fs' = (Inr None, fs')"
proof -
  obtain t where t: "fs_ok demo_codec demo_files" "board_eligible (board demo_codec demo_files) t"
    by (rule demo_files_board)
  then have "requested \<lparr>cr_task_id = None, cr_claimant = ''w''\<rparr> t" by (simp add: requested_def)
  with files.claim_view [of demo_codec demo_files 9 "\<lparr>cr_task_id = None, cr_claimant = ''w''\<rparr>"]
    t demo_codec_ok obtain t' fs' where
    c: "claim demo_codec 9 \<lparr>cr_task_id = None, cr_claimant = ''w''\<rparr> demo_files = (Inr (Some t'), fs')"
    by blast
  from claim_is_exclusive [OF demo_codec_ok t(1) c] c show ?thesis by blast
qed

text \<open>\<open>transition\<close> on a task of the board rewrites exactly its status and time stamp, whatever
  the status was, moves its file, and keeps the directories well-formed; \<open>get\<close> then answers the
  new task.\<close>

theorem transition_updates_task:
  assumes "codec_ok E" and "fs_ok E fs" and "board E fs i = Some t"
  shows "\<exists>fs'. transition E now \<lparr>tt_id = i, tt_status = s\<rparr> fs =
             (Inr (t\<lparr>t_status := s, t_updated_at := now\<rparr>), fs') \<and>
           fs_ok E fs' \<and> board E fs' = (board E fs)(i \<mapsto> t\<lparr>t_status := s, t_updated_at := now\<rparr>) \<and>
           get_task E i fs' = Inr (Some (t\<lparr>t_status := s, t_updated_at := now\<rparr>))"
proof -
  have "codec_ok E \<and> fs_ok E fs" using assms(1,2) by simp
  from files.tran_view [OF this assms(3), of now s] obtain fs' where
    "transition E now \<lparr>tt_id = i, tt_status = s\<rparr> fs = (Inr (t\<lparr>t_status := s, t_updated_at := now\<rparr>), fs')"
    "fs_ok E fs'" "board E fs' = (board E fs)(i \<mapsto> t\<lparr>t_status := s, t_updated_at := now\<rparr>)" by blast
  then show ?thesis by (simp add: get_task_board)
qed

theorem transition_updates_task_witness:
  "\<exists>t fs'. transition demo_codec 9 \<lparr>tt_id = ''a'', tt_status = Blocked\<rparr> demo_files = (Inr t, fs') \<and>
     t_status t = Blocked \<and> get_task demo_codec ''a'' fs' = Inr (Some t)"
proof -
  obtain t where t: "fs_ok demo_codec demo_files" "board demo_codec demo_files = [''a'' \<mapsto> t]"
    by (rule demo_files_board)
  from t(2) have "board demo_codec demo_files ''a'' = Some t" by simp
  from transition_updates_task [OF demo_codec_ok t(1) this, of 9 Blocked] show ?thesis by force
qed

text \<open>Importing a task never replaces one: a task whose id the board has is skipped with the
  existing task answered and nothing changed; otherwise, unless some file already has the
  import's name, it is added and nothing else changes.\<close>

theorem import_never_replaces:
  assumes "codec_ok E" and "fs_ok E fs" and "task_ok t" and "t_id t \<noteq> []"
  shows "(\<exists>u. board E fs (t_id t) = Some u \<and> import_task E t fs = (Inr (SkippedDuplicate u), fs)) \<or>
         (board E fs (t_id t) = None \<and> \<not> name_free fs (file_name (t_id t))) \<or>
         (\<exists>fs'. board E fs (t_id t) = None \<and> import_task E t fs = (Inr (Imported t), fs') \<and>
            fs_ok E fs' \<and>
            board E fs' = (board E fs)(t_id t \<mapsto> t\<lparr>t_description := trim (t_description t)\<rparr>))"
  by (cases rule: import_task_board [OF assms]) blast+

theorem import_never_replaces_witness:
  "\<exists>u. import_task demo_codec (demo_task ''a'') demo_files = (Inr (SkippedDuplicate u), demo_files)"
proof -
  obtain t where t: "fs_ok demo_codec demo_files" "board demo_codec demo_files = [''a'' \<mapsto> t]"
    by (rule demo_files_board)
  have "t_id (demo_task ''a'') = ''a''" "''a'' \<noteq> ([] :: string)" by (simp_all add: demo_task_def)
  with import_never_replaces [OF demo_codec_ok t(1) demo_task_ok', of "''a''"] t(2) show ?thesis
    by (simp only: fun_upd_same) auto
qed




section \<open>Where the store surprises\<close>

text \<open>Claiming is exclusive only inside one process. Two processes that both choose the same
  task from their listings both move it and both are told that it is theirs: the second finds
  the file in \<open>doing\<close> and renames it onto itself.\<close>

theorem two_processes_claim_one_task:
  assumes "codec_ok E" and "fs_ok E fs" and "board_eligible (board E fs) t"
    and "claim_candidate E req1 fs = Inr (Some t)" and "claim_candidate E req2 fs = Inr (Some t)"
  shows "\<exists>t1 t2 fs1 fs2.
           claim_move E now1 (cr_claimant req1) t fs = (Inr (Some t1), fs1) \<and>
           claim_move E now2 (cr_claimant req2) t fs1 = (Inr (Some t2), fs2) \<and>
           t_id t1 = t_id t \<and> t_claimed_by t1 = Some (cr_claimant req1) \<and>
           t_id t2 = t_id t \<and> t_claimed_by t2 = Some (cr_claimant req2) \<and>
           board E fs2 (t_id t) = Some t2"
proof -
  from assms(3) have b: "board E fs (t_id t) = Some t" by (simp add: board_eligible_def)
  note t = board_parsed(1,2) [OF assms(1,2) b]
  obtain fs1 where fs1: "claim_move E now1 (cr_claimant req1) t fs =
      (Inr (Some (t\<lparr>t_status := Doing, t_claimed_by := Some (cr_claimant req1), t_updated_at := now1\<rparr>)), fs1)"
    "fs_ok E fs1" "board E fs1 = (board E fs)(t_id t \<mapsto>
       t\<lparr>t_status := Doing, t_claimed_by := Some (cr_claimant req1), t_updated_at := now1\<rparr>)"
    by (rule claim_move_board [OF assms(1,2) b t])
  have b1: "board E fs1 (t_id t) =
      Some (t\<lparr>t_status := Doing, t_claimed_by := Some (cr_claimant req1), t_updated_at := now1\<rparr>)"
    using fs1(3) by simp
  obtain fs2 where "claim_move E now2 (cr_claimant req2) t fs1 =
      (Inr (Some (t\<lparr>t_status := Doing, t_claimed_by := Some (cr_claimant req2), t_updated_at := now2\<rparr>)), fs2)"
    "fs_ok E fs2" "board E fs2 = (board E fs1)(t_id t \<mapsto>
       t\<lparr>t_status := Doing, t_claimed_by := Some (cr_claimant req2), t_updated_at := now2\<rparr>)"
    by (rule claim_move_board [OF assms(1) fs1(2) b1 t])
  with fs1(1) show ?thesis by auto
qed

lemma demo_candidate:
  obtains t where "board_eligible (board demo_codec demo_files) t" "fs_ok demo_codec demo_files"
    "\<forall>who. claim_candidate demo_codec \<lparr>cr_task_id = None, cr_claimant = who\<rparr> demo_files = Inr (Some t)"
proof -
  obtain t where t: "fs_ok demo_codec demo_files" "board demo_codec demo_files = [''a'' \<mapsto> t]"
    "t_id t = ''a''" "board_eligible (board demo_codec demo_files) t" by (rule demo_files_board)
  have "claim_candidate demo_codec \<lparr>cr_task_id = None, cr_claimant = who\<rparr> demo_files = Inr (Some t)" for who
  proof (cases rule: claim_candidate_board [OF t(1), of "\<lparr>cr_task_id = None, cr_claimant = who\<rparr>"])
    case 1
    with t(4) show ?thesis by (auto simp: requested_def)
  next
    case (2 u)
    then have "u = t" using t(2) by (auto simp: board_eligible_def split: if_splits)
    with 2 show ?thesis by simp
  qed
  with t show ?thesis using that by blast
qed

theorem two_processes_claim_one_task_witness:
  "\<exists>t t1 t2 fs1 fs2.
     claim_candidate demo_codec \<lparr>cr_task_id = None, cr_claimant = ''v''\<rparr> demo_files = Inr (Some t) \<and>
     claim_candidate demo_codec \<lparr>cr_task_id = None, cr_claimant = ''w''\<rparr> demo_files = Inr (Some t) \<and>
     claim_move demo_codec 8 ''v'' t demo_files = (Inr (Some t1), fs1) \<and>
     claim_move demo_codec 9 ''w'' t fs1 = (Inr (Some t2), fs2) \<and>
     t_claimed_by t1 = Some ''v'' \<and> t_claimed_by t2 = Some ''w''"
proof -
  obtain t where t: "board_eligible (board demo_codec demo_files) t" "fs_ok demo_codec demo_files"
    "\<forall>who. claim_candidate demo_codec \<lparr>cr_task_id = None, cr_claimant = who\<rparr> demo_files = Inr (Some t)"
    by (rule demo_candidate)
  from two_processes_claim_one_task [OF demo_codec_ok t(2,1) t(3) [rule_format] t(3) [rule_format], of 8 "''v''" 9 "''w''"] t(3)
  show ?thesis by fastforce
qed

text \<open>\<open>create\<close> looks for an existing task in \<open>todo\<close> only. With the id of a task that is already
  \<open>doing\<close>, \<open>done\<close> or \<open>blocked\<close> it succeeds, and the directories then hold two tasks of one id.\<close>

theorem create_duplicates_started_task:
  assumes "codec_ok E" and "fs_ok E fs" and "board E fs i = Some t" and "t_status t \<noteq> Todo"
    and "map_of (fs Todo) (file_name i) = None" and "i \<noteq> []" and "nt_id nt = Some i"
  shows "\<exists>t' fs' s n u. create E now nt fs = (Inr t', fs') \<and>
           task_at E fs' s n = Some t \<and> t_id t = i \<and> s \<noteq> Todo \<and>
           task_at E fs' Todo (file_name i) = Some u \<and> t_id u = i \<and> t_created_at u = now \<and>
           \<not> fs_ok E fs'"
proof -
  from board_task_at [OF assms(2,3)] obtain s n where at: "task_at E fs s n = Some t" "t_id t = i" .
  have s: "s \<noteq> Todo" using task_at_status [OF assms(2) at(1)] assms(4) by simp
  define u :: "'a task" where "u =
    \<lparr>t_id = i, t_title = nt_title nt, t_description = nt_description nt, t_role = nt_role nt,
     t_status = Todo, t_kind = nt_kind nt, t_blockers = nt_blockers nt,
     t_children = nt_children nt, t_claimed_by = None, t_verifier_names = nt_verifier_names nt,
     t_created_at = now, t_updated_at = now, t_extra = bt_empty\<rparr>"
  have "task_ok u"
    by (simp add: u_def task_ok_def header_ok_def task_header_of_def bt_ok_def bt_keys_def bt_empty_def)
  from parse_render [OF assms(1) this] obtain x where x: "render_task E u = Inr x"
    "parse_task E x = Inr (u\<lparr>t_description := trim (t_description u)\<rparr>)" .
  let ?fs' = "fs_write Todo (file_name i) x fs"
  have "create E now nt fs = (Inr u, ?fs')"
    using x(1) assms(5,7) by (simp add: create_def Let_def write_task_at_def u_def)
  moreover have there: "task_at E ?fs' s n = Some t" using at s by (simp add: task_at_file fs_write_at)
  moreover have here: "task_at E ?fs' Todo (file_name i) = Some (u\<lparr>t_description := trim (t_description u)\<rparr>)"
    using x(2) assms(6) by (simp add: task_at_def fs_write_at)
  moreover have "\<not> fs_ok E ?fs'"
    using task_at_unique(1) [OF _ there here] at(2) s by (auto simp: u_def)
  ultimately show ?thesis using at(2) s by (auto simp: u_def)
qed

theorem create_duplicates_started_task_witness:
  "\<exists>t fs1 t' fs2. claim demo_codec 9 \<lparr>cr_task_id = None, cr_claimant = ''w''\<rparr> demo_files = (Inr (Some t), fs1) \<and>
     create demo_codec 10 (demo_new ''a'') fs1 = (Inr t', fs2) \<and> \<not> fs_ok demo_codec fs2"
proof -
  obtain t where t: "fs_ok demo_codec demo_files" "board demo_codec demo_files = [''a'' \<mapsto> t]"
    "t_id t = ''a''" "board_eligible (board demo_codec demo_files) t" by (rule demo_files_board)
  let ?t = "t\<lparr>t_status := Doing, t_claimed_by := Some ''w'', t_updated_at := 9\<rparr>"
  have req: "requested \<lparr>cr_task_id = None, cr_claimant = ''w''\<rparr> t" by (simp add: requested_def)
  have ok: "codec_ok demo_codec \<and> fs_ok demo_codec demo_files" using demo_codec_ok t(1) by simp
  from files.claim_view [OF ok, of 9 "\<lparr>cr_task_id = None, cr_claimant = ''w''\<rparr>"] t(4) req
  obtain u fs1 where u: "board_eligible (board demo_codec demo_files) u"
    and c: "claim demo_codec 9 \<lparr>cr_task_id = None, cr_claimant = ''w''\<rparr> demo_files =
      (Inr (Some (u\<lparr>t_status := Doing, t_claimed_by := Some ''w'', t_updated_at := 9\<rparr>)), fs1)"
      "fs_ok demo_codec fs1" "board demo_codec fs1 = (board demo_codec demo_files)(t_id u \<mapsto>
        u\<lparr>t_status := Doing, t_claimed_by := Some ''w'', t_updated_at := 9\<rparr>)"
    by (metis claim_request.select_convs(2))
  have "u = t" using u t(2) by (simp add: board_eligible_def split: if_splits)
  with c t(3) have fs1: "claim demo_codec 9 \<lparr>cr_task_id = None, cr_claimant = ''w''\<rparr> demo_files = (Inr (Some ?t), fs1)"
    "fs_ok demo_codec fs1" "board demo_codec fs1 = (board demo_codec demo_files)(''a'' \<mapsto> ?t)" by simp_all
  have todo: "map_of (fs1 Todo) (file_name ''a'') = None"
  proof (rule ccontr)
    assume "map_of (fs1 Todo) (file_name ''a'') \<noteq> None"
    then obtain x where x: "map_of (fs1 Todo) (file_name ''a'') = Some x" by auto
    have "has_md_ext (file_name ''a'')" by simp
    from fs_ok_parses [OF fs1(2) x this] obtain u where
      u: "task_at demo_codec fs1 Todo (file_name ''a'') = Some u" "t_status u = Todo" by blast
    then have "board demo_codec fs1 (t_id u) = Some u" using fs1(2) by (auto simp: board_iff)
    with fs1(3) t(2) u(2) show False by (auto split: if_splits)
  qed
  have "board demo_codec fs1 ''a'' = Some ?t" using fs1(3) by simp
  from create_duplicates_started_task [OF demo_codec_ok fs1(2) this _ todo, of "demo_new ''a''" 10] fs1(1)
  show ?thesis by (force simp: demo_new_def)
qed

text \<open>A file called \<open>i.md\<close> shadows the task with id \<open>i\<close>, whatever its own front matter says:
  when that file holds another task, claiming \<open>i\<close> succeeds, moves that file and overwrites it,
  and the other task is gone from the store.\<close>

theorem claim_destroys_shadowing_task:
  assumes "codec_ok E" and "map_of (fs Todo) (file_name i) = Some x" and "parse_task E x = Inr b"
    and "t_id b \<noteq> i" and "claim_candidate E req fs = Inr (Some a)" and "t_id a = i" and "task_ok a"
    and "\<And>s n t. task_at E fs s n = Some t \<Longrightarrow> t_id t = t_id b \<Longrightarrow> s = Todo \<and> n = file_name i"
  shows "\<exists>a' fs'. claim E now req fs = (Inr (Some a'), fs') \<and> t_id a' = i \<and>
           (\<forall>s n t. task_at E fs' s n = Some t \<longrightarrow> t_id t \<noteq> t_id b)"
proof -
  let ?n = "file_name i"
  let ?a = "a\<lparr>t_status := Doing, t_claimed_by := Some (cr_claimant req), t_updated_at := now\<rparr>"
  have "task_ok ?a" using assms(7) by simp
  from parse_render [OF assms(1) this] obtain y where y: "render_task E ?a = Inr y"
    "parse_task E y = Inr (?a\<lparr>t_description := trim (t_description ?a)\<rparr>)" .
  let ?fs1 = "fs_write Doing ?n x (fs(Todo := filter (\<lambda>f. fst f \<noteq> ?n) (fs Todo)))"
  have "find_path E i fs = Some (Todo, ?n)"
    using assms(2) by (simp add: find_path_def STATUSES_def)
  moreover have "fs_rename (Todo, ?n) (Doing, ?n) fs = Some ?fs1"
    using assms(2) by (simp add: fs_rename_def)
  ultimately have claim: "claim E now req fs = (Inr (Some ?a), fs_write Doing ?n y ?fs1)"
    using assms(5,6) y(1) by (simp add: claim_def claim_move_def Let_def write_task_at_def)
  have "t_id t \<noteq> t_id b" if "task_at E (fs_write Doing ?n y ?fs1) s m = Some t" for s m t
  proof (cases "m = ?n \<and> s \<in> {Todo, Doing}")
    case True
    with that y(2) assms(4,6) show ?thesis
      by (auto simp: task_at_file fs_write_at map_of_filter_name)
  next
    case False
    then have "map_of (fs_write Doing ?n y ?fs1 s) m = map_of (fs s) m"
      by (auto simp: fs_write_at map_of_filter_name)
    with that have "task_at E fs s m = Some t" by (simp add: task_at_file)
    with assms(8) False show ?thesis by blast
  qed
  with claim assms(6) show ?thesis by auto
qed

theorem claim_destroys_shadowing_task_witness:
  "\<exists>fs a' fs'. fs_rename (Todo, ''a.md'') (Todo, ''a.md'') fs \<noteq> None \<and>
     claim demo_codec 9 \<lparr>cr_task_id = Some ''a'', cr_claimant = ''w''\<rparr> fs = (Inr (Some a'), fs') \<and>
     t_id a' = ''a'' \<and> (\<forall>s n t. task_at demo_codec fs' s n = Some t \<longrightarrow> t_id t \<noteq> ''b'')"
proof -
  from parse_render [OF demo_codec_ok demo_task_ok', of "''a''"] obtain xa where
    a: "parse_task demo_codec xa = Inr ((demo_task ''a'')\<lparr>t_description := trim (t_description (demo_task ''a''))\<rparr>)" .
  from parse_render [OF demo_codec_ok demo_task_ok', of "''b''"] obtain xb where
    b: "parse_task demo_codec xb = Inr ((demo_task ''b'')\<lparr>t_description := trim (t_description (demo_task ''b''))\<rparr>)" .
  let ?a = "(demo_task ''a'')\<lparr>t_description := trim (t_description (demo_task ''a''))\<rparr>"
  let ?b = "(demo_task ''b'')\<lparr>t_description := trim (t_description (demo_task ''b''))\<rparr>"
  let ?fs = "no_files(Todo := [(''a.md'', xb), (''x.md'', xa)])"
  have md: "has_md_ext ''a.md''" "has_md_ext ''x.md''" by code_simp+
  have n: "file_name ''a'' = ''a.md''" by (simp add: file_name_def)
  have ids: "t_id ?a = ''a''" "t_id ?b = ''b''" "t_status ?a = Todo" "t_blockers ?a = []"
    by (simp_all add: demo_task_def)
  have "list_blocking demo_codec ?fs = Inr (sort_key t_id [?b, ?a])"
    using md a b by (simp add: list_blocking_def STATUSES_def no_files_def)
  moreover have "sort_key t_id [?b, ?a] = [?a, ?b]" using ids(1,2) by simp
  ultimately have c: "claim_candidate demo_codec \<lparr>cr_task_id = Some ''a'', cr_claimant = ''w''\<rparr> ?fs = Inr (Some ?a)"
    using ids by (simp add: claim_candidate_def is_dispatch_eligible_def)
  have at: "map_of (?fs Todo) (file_name ''a'') = Some xb" by (simp add: n)
  have other: "t_id ?b \<noteq> ''a''" using ids by simp
  have ok: "task_ok ?a" using demo_task_ok' by simp
  have only: "s = Todo \<and> m = file_name ''a''"
    if "task_at demo_codec ?fs s m = Some t" "t_id t = t_id ?b" for s m t
    using that a ids(1,2) by (auto simp: task_at_file n no_files_def split: if_splits)
  from claim_destroys_shadowing_task [where now = 9, OF demo_codec_ok at b other c ids(1) ok only]
  show ?thesis using ids(2) by (intro exI [of _ ?fs]) (simp add: fs_rename_def)
qed

text \<open>One markdown file that is not a task file stops the whole store: \<open>list\<close> fails with its error
  and so does every \<open>claim\<close>, whichever task it asks for.\<close>

theorem malformed_file_stops_claims:
  assumes "(n, x) \<in> set (fs s)" and "has_md_ext n" and "parse_task E x = Inl err"
  shows "\<exists>e. list_blocking E fs = Inl e \<and> claim E now req fs = (Inl e, fs)"
proof -
  have "\<exists>e. read_dirs E files = Inl e" if "(n, x) \<in> set files" for files
    using that assms(2,3) by (induction files) (auto split: sum.split)
  moreover have "(n, x) \<in> set (concat (map fs STATUSES))" using assms(1) STATUSES_all by auto
  ultimately obtain e where "read_dirs E (concat (map fs STATUSES)) = Inl e" by blast
  then show ?thesis by (simp add: list_blocking_def claim_def claim_candidate_def)
qed

theorem malformed_file_stops_claims_witness:
  "\<exists>e. claim demo_codec 9 \<lparr>cr_task_id = Some ''a'', cr_claimant = ''w''\<rparr>
         (demo_files(Done := [(''notes.md'', ''remember the milk'')])) =
       (Inl e, demo_files(Done := [(''notes.md'', ''remember the milk'')]))"
proof -
  have "parse_task demo_codec ''remember the milk'' = Inl (InvalidFile ''missing task front matter'')"
    by (simp add: parse_task_def nl_def)
  moreover have "has_md_ext ''notes.md''" by code_simp
  ultimately show ?thesis
    using malformed_file_stops_claims [of "''notes.md''" "''remember the milk''"
        "demo_files(Done := [(''notes.md'', ''remember the milk'')])" Done demo_codec _ 9
        "\<lparr>cr_task_id = Some ''a'', cr_claimant = ''w''\<rparr>"] by auto
qed

end
