(* ===== verification/Basin.thy ===== *)
theory Basin
  imports Task_Claims
begin

text \<open>
  The orchestration loop of \<open>crates/basin/src/lib.rs\<close>: one reconciliation tick (\<open>run_once\<close>), the
  loop around it (\<open>run_until_idle\<close>), dispatch of a task, quotas, retries and the run log.

  The task store is a record of operations on a state, so the loop is the same for every store.
  A dispatch calls each outside service once (workspace, memory, worker, judge); \<open>services\<close> holds
  their answers as functions of the call's arguments, one such record per task and tick, so
  concurrent dispatches may be answered in any way. The time an event or a store operation sees
  is given by \<open>clock\<close>, indexed by the event counter.
\<close>

section \<open>Data\<close>

datatype json = JNull | JBool bool | JStr string | JArr "json list" | JObj "(string \<times> json) list"

datatype mode = MemoryMode | OrchestrateMode | FullMode | AdvancedMode

datatype topology = Hierarchical | Debate | Router | Pipeline

record orchestrator_config =
  oc_mode :: mode
  oc_repo_root :: string
  oc_concurrency_limit :: nat
  oc_max_retries :: nat
  oc_retry_backoff :: nat  \<comment> \<open>milliseconds\<close>
  oc_memory_limit :: nat
  oc_quotas :: "resource_quota list"
  oc_topology :: topology

definition memory_disabled :: "string \<Rightarrow> orchestrator_config" where
  "memory_disabled root =
     \<lparr>oc_mode = MemoryMode, oc_repo_root = root, oc_concurrency_limit = 1, oc_max_retries = 0,
      oc_retry_backoff = 0, oc_memory_limit = 0, oc_quotas = [], oc_topology = Hierarchical\<rparr>"

record reconcile_report =
  rr_dispatched :: nat
  rr_completed :: nat
  rr_blocked :: nat
  rr_idle :: bool

record run_until_idle_report =
  ri_ticks :: nat
  ri_completed :: nat
  ri_blocked :: nat

record run_log =
  rl_events :: "json event_envelope list"
  rl_token_accounting :: "token_accounting list"
  rl_completed :: "completed_job list"

datatype orchestrator_error =
    Disabled mode
  | TaskFailure task_error
  | MemoryFailure string
  | WorkspaceFailure string
  | AgentFailure string

text \<open>The hash maps of \<open>LoopState\<close>; a missing entry counts as zero.\<close>

record loop_state =
  st_retries :: "string \<Rightarrow> nat option"
  st_prompt_usage :: "string \<Rightarrow> u64 option"
  st_request_counts :: "string \<Rightarrow> u32 option"
  st_event_counter :: u64

record orchestrator =
  o_log :: run_log
  o_state :: loop_state

definition new_orchestrator :: orchestrator where
  "new_orchestrator =
     \<lparr>o_log = \<lparr>rl_events = [], rl_token_accounting = [], rl_completed = []\<rparr>,
      o_state = \<lparr>st_retries = Map.empty, st_prompt_usage = Map.empty,
                 st_request_counts = Map.empty, st_event_counter = 0\<rparr>\<rparr>"

record memory_hit =
  mh_node_id :: string
  mh_content :: string

record 'y services =
  sv_lease :: "string \<Rightarrow> string \<Rightarrow> string + string"
  sv_cleanup :: "string \<Rightarrow> string + unit"
  sv_memory_find :: "string \<Rightarrow> nat \<Rightarrow> string + memory_hit list"
  sv_memory_store :: "string \<Rightarrow> string \<Rightarrow> string \<Rightarrow> string + unit"  \<comment> \<open>content, node, session\<close>
  sv_worker_spawn :: "spawn_request \<Rightarrow> string + agent_session"
  sv_worker_send :: "agent_session \<Rightarrow> string \<Rightarrow> string + string"
  sv_verifiers :: "'y verifier list"
  sv_judge :: "((spawn_request \<Rightarrow> string + agent_session) \<times> (agent_session \<Rightarrow> string \<Rightarrow> string + string)) option"

datatype 'y dispatch_outcome =
    Passed "'y task" string token_accounting
  | Failed "'y task" string

record ('s, 'y) store_ops =
  so_list :: "'s \<Rightarrow> task_error + 'y task list"
  so_claim :: "timestamp \<Rightarrow> claim_request \<Rightarrow> 's \<Rightarrow> (task_error + 'y task option) \<times> 's"
  so_transition :: "timestamp \<Rightarrow> transition_task \<Rightarrow> 's \<Rightarrow> (task_error + 'y task) \<times> 's"

section \<open>Text helpers\<close>

definition estimate_tokens :: "string \<Rightarrow> u64" where
  "estimate_tokens text = of_nat (length (split_whitespace text))"

definition estimate_task_prompt_tokens :: "'y task \<Rightarrow> u64" where
  "estimate_task_prompt_tokens t = estimate_tokens (t_title t @ '' '' @ t_description t)"

definition first_line :: "string \<Rightarrow> string" where
  "first_line content = (case lines content of [] \<Rightarrow> [] | l # _ \<Rightarrow> l)"

definition rejects :: "string \<Rightarrow> bool" where
  "rejects review = (let r = to_ascii_lowercase review in contains ''reject'' r \<or> contains ''fail'' r)"

definition parse_topology :: "string option \<Rightarrow> topology" where
  "parse_topology input =
     (let s = to_ascii_lowercase (case input of Some s \<Rightarrow> s | None \<Rightarrow> ''hierarchical'')
      in if s = ''debate'' then Debate
         else if s = ''router'' then Router
         else if s = ''pipeline'' then Pipeline
         else Hierarchical)"

definition job_from_task :: "'y task \<Rightarrow> job_status \<Rightarrow> job" where
  "job_from_task t s = \<lparr>job_id = t_id t, job_title = t_title t, job_role = t_role t, job_status = s\<rparr>"

definition assemble_worker_prompt :: "'y task \<Rightarrow> memory_hit list \<Rightarrow> string" where
  "assemble_worker_prompt t hits =
     ''Task ID: '' @ t_id t @ nl @ ''Title: '' @ t_title t @ nl @
     ''Role: '' @ canonical_alias (t_role t) @ nl @ nl @
     ''Description:'' @ nl @ t_description t @ nl @
     (if hits = [] then []
      else nl @ ''Relevant memory:'' @ nl @
        concat (map (\<lambda>h. ''- '' @ mh_node_id h @ '': '' @ first_line (mh_content h) @ nl) hits))"

text \<open>\<open>Display\<close> of the errors; the message of the YAML or JSON library inside an error is left out.\<close>

definition task_error_text :: "task_error \<Rightarrow> string" where
  "task_error_text err =
     (case err of
        Io s \<Rightarrow> ''I/O error: '' @ s
      | Encode \<Rightarrow> ''failed to encode task''
      | Json \<Rightarrow> ''failed to decode task payload''
      | InvalidFile s \<Rightarrow> ''task file is invalid: '' @ s
      | NotFound s \<Rightarrow> ''task not found: '' @ s
      | BlockedBy ids \<Rightarrow> ''task is blocked by unfinished tasks: '' @
            ''['' @ join '', '' (map (\<lambda>i. CHR 0x22 # i @ [CHR 0x22]) ids) @ '']''
      | VerifierFailed s \<Rightarrow> ''verifier failed: '' @ s
      | MemoryFailed s \<Rightarrow> ''memory backend failed: '' @ s)"

definition error_text :: "orchestrator_error \<Rightarrow> string" where
  "error_text err =
     (case err of
        Disabled m \<Rightarrow> ''orchestration is disabled in mode '' @
          (case m of MemoryMode \<Rightarrow> ''Memory'' | OrchestrateMode \<Rightarrow> ''Orchestrate''
           | FullMode \<Rightarrow> ''Full'' | AdvancedMode \<Rightarrow> ''Advanced'')
      | TaskFailure e \<Rightarrow> ''task store failed: '' @ task_error_text e
      | MemoryFailure s \<Rightarrow> ''memory backend failed: '' @ s
      | WorkspaceFailure s \<Rightarrow> ''workspace provider failed: '' @ s
      | AgentFailure s \<Rightarrow> ''agent failed: '' @ s)"

section \<open>Dispatching one task\<close>

definition bind_error :: "('e \<Rightarrow> 'f) \<Rightarrow> 'e + 'a \<Rightarrow> ('a \<Rightarrow> 'f + 'b) \<Rightarrow> 'f + 'b" where
  "bind_error wrap r k = (case r of Inl err \<Rightarrow> Inl (wrap err) | Inr x \<Rightarrow> k x)"

definition judge_task ::
  "'y services \<Rightarrow> 'y task \<Rightarrow> string \<Rightarrow> orchestrator_error + string option" where
  "judge_task sv t content =
     (case sv_judge sv of
        None \<Rightarrow> Inr None
      | Some (spawn, send) \<Rightarrow>
          bind_error AgentFailure
            (spawn \<lparr>sr_role = Judge, sr_agent = ''judge'', sr_model = None, sr_working_dir = None,
                    sr_resume_packet = None\<rparr>) (\<lambda>session.
          bind_error AgentFailure
            (send session (''Review task '' @ t_id t @ '' after verifier pass.'' @ nl @ nl @
               ''Worker result:'' @ nl @ content)) (\<lambda>review.
          Inr (if rejects review then Some review else None))))"

definition dispatch_task ::
  "orchestrator_config \<Rightarrow> 'y services \<Rightarrow> 'y task \<Rightarrow> orchestrator_error + 'y dispatch_outcome" where
  "dispatch_task cfg sv t =
     bind_error WorkspaceFailure (sv_lease sv (oc_repo_root cfg) (''worker-'' @ t_id t)) (\<lambda>path.
     bind_error MemoryFailure
       (sv_memory_find sv (t_title t @ '' '' @ t_description t) (oc_memory_limit cfg)) (\<lambda>hits.
     let prompt = assemble_worker_prompt t hits in
     bind_error AgentFailure
       (sv_worker_spawn sv \<lparr>sr_role = Worker, sr_agent = ''worker'', sr_model = None,
          sr_working_dir = Some path, sr_resume_packet = None\<rparr>)
       (\<lambda>session.
     let response = sv_worker_send sv session prompt in
     bind_error WorkspaceFailure (sv_cleanup sv path) (\<lambda>_.
     case response of
       Inl reason \<Rightarrow> Inr (Failed t reason)
     | Inr content \<Rightarrow>
         bind_error MemoryFailure
           (sv_memory_store sv content (''task:'' @ t_id t @ '':worker-result'') (as_id session)) (\<lambda>_.
         case gate_verify (sv_verifiers sv) t of
           Inl err \<Rightarrow> Inr (Failed t (task_error_text err))
         | Inr _ \<Rightarrow>
             bind_error id (judge_task sv t content) (\<lambda>rejection.
             case rejection of
               Some review \<Rightarrow> Inr (Failed t review)
             | None \<Rightarrow>
                 Inr (Passed t content
                   \<lparr>ta_agent_id = ''worker'', ta_session_id = Some (as_id session),
                    ta_prompt_tokens = estimate_tokens prompt,
                    ta_completion_tokens = estimate_tokens content\<rparr>)))))))"

section \<open>The loop's own state\<close>

definition push_event ::
  "(u64 \<Rightarrow> timestamp) \<Rightarrow> string \<Rightarrow> role \<Rightarrow> string \<Rightarrow> event_type \<Rightarrow> json \<Rightarrow> orchestrator \<Rightarrow> orchestrator" where
  "push_event clock correlation role agent ty payload s =
     (let n = st_event_counter (o_state s) + 1
      in s\<lparr>o_state := (o_state s)\<lparr>st_event_counter := n\<rparr>,
           o_log := (o_log s)\<lparr>rl_events := rl_events (o_log s) @
             [new_event (''evt-'' @ show_nat (unat n)) correlation
                \<lparr>es_role = role, es_agent_id = agent\<rparr> ty payload (clock n)]\<rparr>\<rparr>)"

definition or_zero :: "'a::zero option \<Rightarrow> 'a" where
  "or_zero x = (case x of Some n \<Rightarrow> n | None \<Rightarrow> 0)"

definition quota_allows :: "orchestrator_config \<Rightarrow> string \<Rightarrow> u64 \<Rightarrow> loop_state \<Rightarrow> bool" where
  "quota_allows cfg agent_id prompt_tokens st =
     list_all (\<lambda>quota.
       (case rq_agent_id quota of Some quota_agent \<Rightarrow> quota_agent \<noteq> agent_id | None \<Rightarrow> False) \<or>
       (let usage = or_zero (st_prompt_usage st agent_id);
            requests = or_zero (st_request_counts st agent_id)
        in \<not> (case max_prompt_tokens quota of Some m \<Rightarrow> usage + prompt_tokens > m | None \<Rightarrow> False) \<and>
           \<not> (case max_requests_per_minute quota of Some m \<Rightarrow> requests \<ge> m | None \<Rightarrow> False)))
       (oc_quotas cfg)"

definition record_request :: "string \<Rightarrow> u64 \<Rightarrow> orchestrator \<Rightarrow> orchestrator" where
  "record_request agent_id prompt_tokens s =
     s\<lparr>o_state := (o_state s)
        \<lparr>st_prompt_usage := (st_prompt_usage (o_state s))
           (agent_id \<mapsto> or_zero (st_prompt_usage (o_state s) agent_id) + prompt_tokens),
         st_request_counts := (st_request_counts (o_state s))
           (agent_id \<mapsto> or_zero (st_request_counts (o_state s) agent_id) + 1)\<rparr>\<rparr>"

text \<open>The answer comes with the delay slept before it; \<open>saturating_pow\<close> and \<open>saturating_mul\<close> stop at
  the largest \<open>u32\<close> and at the longest duration.\<close>

definition duration_max :: nat where
  "duration_max = (2 ^ 64 - 1) * 1000 + 999"

definition should_retry ::
  "orchestrator_config \<Rightarrow> string \<Rightarrow> orchestrator \<Rightarrow> (bool \<times> nat) \<times> orchestrator" where
  "should_retry cfg task_id s =
     (let retries = or_zero (st_retries (o_state s) task_id)
      in if retries < oc_max_retries cfg
         then ((True, min duration_max
                  (oc_retry_backoff cfg * min (2 ^ 32 - 1) (2 ^ (retries mod 2 ^ 32)))),
               s\<lparr>o_state := (o_state s)
                  \<lparr>st_retries := (st_retries (o_state s))(task_id \<mapsto> retries + 1)\<rparr>\<rparr>)
         else ((False, 0),
               s\<lparr>o_state := (o_state s)\<lparr>st_retries := (st_retries (o_state s))(task_id \<mapsto> retries)\<rparr>\<rparr>))"

section \<open>One tick\<close>

fun claim_loop ::
  "orchestrator_config \<Rightarrow> ('s, 'y) store_ops \<Rightarrow> (u64 \<Rightarrow> timestamp) \<Rightarrow> 'y task list \<Rightarrow> 'y task list \<Rightarrow>
   orchestrator \<Rightarrow> 's \<Rightarrow> (orchestrator_error + 'y task list) \<times> orchestrator \<times> 's" where
  "claim_loop cfg ops clock claimed [] o1 s = (Inr claimed, o1, s)"
| "claim_loop cfg ops clock claimed (t # eligible) o1 s =
     (if length claimed \<ge> oc_concurrency_limit cfg then (Inr claimed, o1, s)
      else let tokens = estimate_task_prompt_tokens t in
        if \<not> quota_allows cfg ''worker'' tokens (o_state o1)
        then claim_loop cfg ops clock claimed eligible
               (push_event clock (t_id t) Master ''basin'' StatusEvent
                  (JObj [(''task_id'', JStr (t_id t)), (''status'', JStr ''quota-exhausted'')]) o1) s
        else
          let o2 = push_event clock (t_id t) Master ''basin'' TaskAnnounced
                     (JObj [(''task_id'', JStr (t_id t)), (''title'', JStr (t_title t))]) o1
          in case so_claim ops (clock (st_event_counter (o_state o2)))
                    \<lparr>cr_task_id = Some (t_id t), cr_claimant = ''basin-worker''\<rparr> s of
               (Inl err, s') \<Rightarrow> (Inl (TaskFailure err), o2, s')
             | (Inr None, s') \<Rightarrow> claim_loop cfg ops clock claimed eligible o2 s'
             | (Inr (Some t'), s') \<Rightarrow>
                 claim_loop cfg ops clock (claimed @ [t']) eligible
                   (push_event clock (t_id t') Worker ''basin-worker'' TaskClaimed
                      (JObj [(''task_id'', JStr (t_id t')),
                             (''claimed_by'', case t_claimed_by t' of Some c \<Rightarrow> JStr c | None \<Rightarrow> JNull)])
                      (record_request ''worker'' tokens o2)) s')"

definition apply_passed ::
  "('s, 'y) store_ops \<Rightarrow> (u64 \<Rightarrow> timestamp) \<Rightarrow> 'y task \<Rightarrow> string \<Rightarrow> token_accounting \<Rightarrow> reconcile_report \<Rightarrow>
   orchestrator \<Rightarrow> 's \<Rightarrow> (orchestrator_error + reconcile_report) \<times> orchestrator \<times> 's" where
  "apply_passed ops clock t content accounting rep o1 s =
     (let o2 = o1\<lparr>o_log := (o_log o1)
                   \<lparr>rl_token_accounting := rl_token_accounting (o_log o1) @ [accounting]\<rparr>\<rparr>;
          o3 = push_event clock (t_id t) Worker ''basin-worker'' ResultEvent
                 (JObj [(''task_id'', JStr (t_id t)), (''content'', JStr content)]) o2;
          o4 = push_event clock (t_id t) Judge ''basin-judge'' Verdict
                 (JObj [(''task_id'', JStr (t_id t)), (''passed'', JBool True)]) o3;
          now = clock (st_event_counter (o_state o4));
          completed = \<lparr>cj_job = job_from_task t JobDone, cj_commit = None, cj_completed_at = now\<rparr>
      in case so_transition ops now \<lparr>tt_id = t_id t, tt_status = Done\<rparr> s of
           (Inl err, s') \<Rightarrow> (Inl (TaskFailure err), o4, s')
         | (Inr t', s') \<Rightarrow>
             (Inr (rep\<lparr>rr_completed := rr_completed rep + 1\<rparr>),
              o4\<lparr>o_state := (o_state o4)\<lparr>st_retries := (st_retries (o_state o4))(t_id t' := None)\<rparr>,
                 o_log := (o_log o4)\<lparr>rl_completed := rl_completed (o_log o4) @ [completed]\<rparr>\<rparr>, s'))"

definition apply_failed ::
  "orchestrator_config \<Rightarrow> ('s, 'y) store_ops \<Rightarrow> (u64 \<Rightarrow> timestamp) \<Rightarrow> 'y task \<Rightarrow> string \<Rightarrow> reconcile_report \<Rightarrow>
   orchestrator \<Rightarrow> 's \<Rightarrow> (orchestrator_error + reconcile_report) \<times> orchestrator \<times> 's" where
  "apply_failed cfg ops clock t reason rep o1 s =
     (let o2 = push_event clock (t_id t) Judge ''basin-judge'' Verdict
                 (JObj [(''task_id'', JStr (t_id t)), (''passed'', JBool False), (''reason'', JStr reason)]) o1
      in case should_retry cfg (t_id t) o2 of
           ((True, delay), o3) \<Rightarrow>
             (case so_transition ops (clock (st_event_counter (o_state o3)))
                     \<lparr>tt_id = t_id t, tt_status = Todo\<rparr> s of
                (Inl err, s') \<Rightarrow> (Inl (TaskFailure err), o3, s')
              | (Inr _, s') \<Rightarrow> (Inr rep, o3, s'))
         | ((False, delay), o3) \<Rightarrow>
             (let o4 = push_event clock (t_id t) Master ''basin'' BlockedEvent
                         (JObj [(''task_id'', JStr (t_id t)), (''reason'', JStr reason)]) o3
              in case so_transition ops (clock (st_event_counter (o_state o4)))
                        \<lparr>tt_id = t_id t, tt_status = Blocked\<rparr> s of
                   (Inl err, s') \<Rightarrow> (Inl (TaskFailure err), o4, s')
                 | (Inr _, s') \<Rightarrow> (Inr (rep\<lparr>rr_blocked := rr_blocked rep + 1\<rparr>), o4, s')))"

fun apply_outcomes ::
  "orchestrator_config \<Rightarrow> ('s, 'y) store_ops \<Rightarrow> (u64 \<Rightarrow> timestamp) \<Rightarrow>
   (orchestrator_error + 'y dispatch_outcome) list \<Rightarrow> reconcile_report \<Rightarrow>
   orchestrator \<Rightarrow> 's \<Rightarrow> (orchestrator_error + reconcile_report) \<times> orchestrator \<times> 's" where
  "apply_outcomes cfg ops clock [] rep o1 s = (Inr rep, o1, s)"
| "apply_outcomes cfg ops clock (outcome # outcomes) rep o1 s =
     (case (case outcome of
              Inl err \<Rightarrow>
                (Inl err, push_event clock ''orchestrator'' Master ''basin'' ErrorEvent
                            (JObj [(''error'', JStr (error_text err))]) o1, s)
            | Inr (Passed t content accounting) \<Rightarrow> apply_passed ops clock t content accounting rep o1 s
            | Inr (Failed t reason) \<Rightarrow> apply_failed cfg ops clock t reason rep o1 s) of
        (Inl err, o2, s') \<Rightarrow> (Inl err, o2, s')
      | (Inr rep', o2, s') \<Rightarrow> apply_outcomes cfg ops clock outcomes rep' o2 s')"

definition run_once ::
  "orchestrator_config \<Rightarrow> ('s, 'y) store_ops \<Rightarrow> (u64 \<Rightarrow> timestamp) \<Rightarrow> ('y task \<Rightarrow> 'y services) \<Rightarrow>
   orchestrator \<Rightarrow> 's \<Rightarrow> (orchestrator_error + reconcile_report) \<times> orchestrator \<times> 's" where
  "run_once cfg ops clock sv o1 s =
     (if oc_mode cfg \<noteq> OrchestrateMode \<and> oc_mode cfg \<noteq> FullMode then (Inl (Disabled (oc_mode cfg)), o1, s)
      else case so_list ops s of
        Inl err \<Rightarrow> (Inl (TaskFailure err), o1, s)
      | Inr tasks \<Rightarrow>
          (let eligible = sort_key t_created_at (filter (\<lambda>t. is_dispatch_eligible t tasks) tasks)
           in case claim_loop cfg ops clock [] eligible o1 s of
                (Inl err, o2, s') \<Rightarrow> (Inl err, o2, s')
              | (Inr [], o2, s') \<Rightarrow>
                  (let doing = map t_id (filter (\<lambda>t. t_status t = Doing) tasks)
                   in (Inr \<lparr>rr_dispatched = 0, rr_completed = 0, rr_blocked = 0, rr_idle = (doing = [])\<rparr>,
                       if doing \<noteq> []
                       then push_event clock ''orchestrator'' Master ''basin'' StatusEvent
                              (JObj [(''status'', JStr ''stalled''), (''doing'', JArr (map JStr doing))]) o2
                       else o2, s'))
              | (Inr (t # ts), o2, s') \<Rightarrow>
                  apply_outcomes cfg ops clock (map (\<lambda>t. dispatch_task cfg (sv t) t) (t # ts))
                    \<lparr>rr_dispatched = length (t # ts), rr_completed = 0, rr_blocked = 0, rr_idle = False\<rparr>
                    o2 s'))"

text \<open>The services answer tick by tick: \<open>sv n\<close> is what they answer when \<open>n\<close> ticks are left.\<close>

fun run_ticks ::
  "orchestrator_config \<Rightarrow> ('s, 'y) store_ops \<Rightarrow> (u64 \<Rightarrow> timestamp) \<Rightarrow> (nat \<Rightarrow> 'y task \<Rightarrow> 'y services) \<Rightarrow>
   nat \<Rightarrow> run_until_idle_report \<Rightarrow> orchestrator \<Rightarrow> 's \<Rightarrow>
   (orchestrator_error + run_until_idle_report) \<times> orchestrator \<times> 's" where
  "run_ticks cfg ops clock sv 0 rep o1 s = (Inr rep, o1, s)"
| "run_ticks cfg ops clock sv (Suc n) rep o1 s =
     (case run_once cfg ops clock (sv n) o1 s of
        (Inl err, o2, s') \<Rightarrow> (Inl err, o2, s')
      | (Inr tick, o2, s') \<Rightarrow>
          (let rep' = \<lparr>ri_ticks = ri_ticks rep + 1, ri_completed = ri_completed rep + rr_completed tick,
                       ri_blocked = ri_blocked rep + rr_blocked tick\<rparr>
           in if rr_idle tick then (Inr rep', o2, s')
              else run_ticks cfg ops clock sv n rep' o2 s'))"

definition run_until_idle ::
  "orchestrator_config \<Rightarrow> ('s, 'y) store_ops \<Rightarrow> (u64 \<Rightarrow> timestamp) \<Rightarrow> (nat \<Rightarrow> 'y task \<Rightarrow> 'y services) \<Rightarrow>
   nat \<Rightarrow> orchestrator \<Rightarrow> 's \<Rightarrow> (orchestrator_error + run_until_idle_report) \<times> orchestrator \<times> 's" where
  "run_until_idle cfg ops clock sv max_ticks o1 s =
     run_ticks cfg ops clock sv max_ticks \<lparr>ri_ticks = 0, ri_completed = 0, ri_blocked = 0\<rparr> o1 s"

section \<open>The dry-run agent\<close>

definition dry_run_spawn :: "string \<Rightarrow> spawn_request \<Rightarrow> string + agent_session" where
  "dry_run_spawn agent_id req =
     Inr \<lparr>as_id = ''dry-run-'' @ canonical_alias (sr_role req) @ ''-'' @ sr_agent req,
          as_role = sr_role req, as_agent = agent_id\<rparr>"

definition dry_run_send :: "agent_session \<Rightarrow> string \<Rightarrow> string + string" where
  "dry_run_send session message = Inr (''dry-run ok: '' @ first_line message)"

end
