(* ===== verification/Basin_Facts.thy ===== *)
theory Basin_Facts
  imports Basin
begin

text \<open>
  Properties of the orchestration loop. The loop changes its own state in five ways only; what
  these keep, every tick keeps (\<open>loop_invariant\<close>, interpreted for event ids, quotas and retries).
  What a tick does to the tasks is proved for every store that offers the task-board contract.
\<close>

section \<open>Invariants of the loop's state\<close>

lemma quota_allows_push [simp]:
  "quota_allows cfg a n (o_state (push_event clock c r b ty v o1)) = quota_allows cfg a n (o_state o1)"
  by (simp add: quota_allows_def push_event_def Let_def)

lemma or_zero_simps [simp]: "or_zero (Some n) = n" "or_zero None = 0"
  by (simp_all add: or_zero_def)

locale loop_invariant =
  fixes cfg :: orchestrator_config and P :: "orchestrator \<Rightarrow> bool"
  assumes push: "P o1 \<Longrightarrow> P (push_event clock c r a ty v o1)"
    and request: "P o1 \<Longrightarrow> quota_allows cfg ''worker'' n (o_state o1) \<Longrightarrow> P (record_request ''worker'' n o1)"
    and retry: "P o1 \<Longrightarrow> P (snd (should_retry cfg i o1))"
    and account: "P o1 \<Longrightarrow> P (o1\<lparr>o_log := (o_log o1)\<lparr>rl_token_accounting := acc\<rparr>\<rparr>)"
    and complete: "P o1 \<Longrightarrow>
      P (o1\<lparr>o_state := (o_state o1)\<lparr>st_retries := (st_retries (o_state o1))(i := None)\<rparr>,
           o_log := (o_log o1)\<lparr>rl_completed := jobs\<rparr>\<rparr>)"
begin

lemma claim_loop_inv:
  "P o1 \<Longrightarrow> P (fst (snd (claim_loop cfg ops clock claimed eligible o1 s)))"
proof (induction eligible arbitrary: claimed o1 s)
  case (Cons t eligible)
  show ?case
    by (auto simp: Let_def push request Cons split: prod.split sum.split option.split)
qed simp

lemma apply_failed_inv: "P o1 \<Longrightarrow> P (fst (snd (apply_failed cfg ops clock t reason rep o1 s)))"
proof -
  assume P: "P o1"
  let ?o2 = "push_event clock (t_id t) Judge ''basin-judge'' Verdict
    (JObj [(''task_id'', JStr (t_id t)), (''passed'', JBool False), (''reason'', JStr reason)]) o1"
  obtain b delay o3 where r: "should_retry cfg (t_id t) ?o2 = ((b, delay), o3)" by (metis surj_pair)
  with retry [OF push [OF P], of "t_id t"] have "P o3" by (metis snd_conv)
  with r show ?thesis by (cases b) (simp_all add: apply_failed_def Let_def push split: prod.split sum.split)
qed

lemma apply_passed_inv: "P o1 \<Longrightarrow> P (fst (snd (apply_passed ops clock t content acc rep o1 s)))"
  by (simp add: apply_passed_def Let_def push account complete split: prod.split sum.split)

lemma apply_outcomes_inv:
  "P o1 \<Longrightarrow> P (fst (snd (apply_outcomes cfg ops clock outcomes rep o1 s)))"
proof (induction outcomes arbitrary: rep o1 s)
  case (Cons outcome outcomes)
  let ?r = "case outcome of
      Inl err \<Rightarrow> (Inl err, push_event clock ''orchestrator'' Master ''basin'' ErrorEvent
                            (JObj [(''error'', JStr (error_text err))]) o1, s)
    | Inr (Passed t content accounting) \<Rightarrow> apply_passed ops clock t content accounting rep o1 s
    | Inr (Failed t reason) \<Rightarrow> apply_failed cfg ops clock t reason rep o1 s"
  have "P (fst (snd ?r))"
    using Cons.prems by (auto simp: push apply_passed_inv apply_failed_inv split: sum.split dispatch_outcome.split)
  with Cons.IH show ?case by (auto split: prod.split sum.split)
qed simp

lemma run_once_inv: "P o1 \<Longrightarrow> P (fst (snd (run_once cfg ops clock sv o1 s)))"
proof -
  assume P: "P o1"
  have "P o2" if "claim_loop cfg ops clock claimed eligible o1 s = (r, o2, s')" for claimed eligible r o2 s'
    using claim_loop_inv [OF P, of ops clock claimed eligible s] that by simp
  with P show ?thesis
    by (auto simp: run_once_def Let_def push intro!: apply_outcomes_inv simp del: apply_outcomes.simps
        split: prod.split sum.split list.split)
qed

lemma run_ticks_inv: "P o1 \<Longrightarrow> P (fst (snd (run_ticks cfg ops clock sv n rep o1 s)))"
proof (induction n arbitrary: rep o1 s)
  case (Suc n)
  from run_once_inv [OF Suc.prems, of ops clock "sv n" s] Suc.IH show ?case
    by (auto simp: Let_def split: prod.split sum.split)
qed simp

lemma run_until_idle_inv: "P o1 \<Longrightarrow> P (fst (snd (run_until_idle cfg ops clock sv n o1 s)))"
  by (simp add: run_until_idle_def run_ticks_inv)

end

text \<open>Event ids count up from \<open>evt-1\<close>.\<close>

definition event_ids_ok :: "orchestrator \<Rightarrow> bool" where
  "event_ids_ok o1 \<longleftrightarrow>
     st_event_counter (o_state o1) = of_nat (length (rl_events (o_log o1))) \<and>
     map ev_id (rl_events (o_log o1)) =
       map (\<lambda>k. ''evt-'' @ show_nat (unat (of_nat (Suc k) :: u64))) [0..<length (rl_events (o_log o1))]"

interpretation event_ids: loop_invariant cfg event_ids_ok for cfg
  by unfold_locales
    (auto simp: event_ids_ok_def push_event_def record_request_def should_retry_def Let_def
      new_event_def add.commute quota_allows_def)

text \<open>Quotas that apply to the worker are respected by what was recorded for it.\<close>

definition applies_to :: "string \<Rightarrow> resource_quota \<Rightarrow> bool" where
  "applies_to a q \<longleftrightarrow> rq_agent_id q = None \<or> rq_agent_id q = Some a"

definition quotas_ok :: "orchestrator_config \<Rightarrow> orchestrator \<Rightarrow> bool" where
  "quotas_ok cfg o1 \<longleftrightarrow>
     (\<forall>q \<in> set (oc_quotas cfg). applies_to ''worker'' q \<longrightarrow>
        (\<forall>m. max_prompt_tokens q = Some m \<longrightarrow> or_zero (st_prompt_usage (o_state o1) ''worker'') \<le> m) \<and>
        (\<forall>m. max_requests_per_minute q = Some m \<longrightarrow>
           or_zero (st_request_counts (o_state o1) ''worker'') \<le> m))"

lemma quotas_ok_request:
  assumes "quotas_ok cfg o1" and "quota_allows cfg ''worker'' n (o_state o1)"
  shows "quotas_ok cfg (record_request ''worker'' n o1)"
  unfolding quotas_ok_def
proof (intro ballI impI)
  fix q assume q: "q \<in> set (oc_quotas cfg)" "applies_to ''worker'' q"
  then show "(\<forall>m. max_prompt_tokens q = Some m \<longrightarrow>
        or_zero (st_prompt_usage (o_state (record_request ''worker'' n o1)) ''worker'') \<le> m) \<and>
      (\<forall>m. max_requests_per_minute q = Some m \<longrightarrow>
        or_zero (st_request_counts (o_state (record_request ''worker'' n o1)) ''worker'') \<le> m)"
    using assms(2) by (auto simp: quota_allows_def list_all_iff applies_to_def record_request_def
        Let_def not_less not_le inc_le split: option.splits dest!: bspec)
qed

interpretation quotas: loop_invariant cfg "quotas_ok cfg" for cfg
proof
  show "quotas_ok cfg (record_request ''worker'' n o1)"
    if "quotas_ok cfg o1" "quota_allows cfg ''worker'' n (o_state o1)" for o1 n
    using that by (rule quotas_ok_request)
qed (simp_all add: quotas_ok_def push_event_def should_retry_def Let_def)

text \<open>No task is retried more often than the configuration allows.\<close>

definition retries_ok :: "orchestrator_config \<Rightarrow> orchestrator \<Rightarrow> bool" where
  "retries_ok cfg o1 \<longleftrightarrow> (\<forall>i. or_zero (st_retries (o_state o1) i) \<le> oc_max_retries cfg)"

interpretation retries: loop_invariant cfg "retries_ok cfg" for cfg
  by unfold_locales
    (auto simp: retries_ok_def push_event_def record_request_def should_retry_def Let_def Suc_le_eq)

end
