(* ===== verification/Basin_Properties.thy ===== *)
theory Basin_Properties
  imports Basin_Facts
begin

text \<open>
  What a tick of the orchestration loop does to the tasks of any store that offers the task-board
  contract, and the properties of the loop on the file store.
\<close>

section \<open>A tick on any store\<close>

fun dispatched_task :: "'y dispatch_outcome \<Rightarrow> 'y task" where
  "dispatched_task (Passed t _ _) = t"
| "dispatched_task (Failed t _) = t"

fun settled :: "'y dispatch_outcome \<Rightarrow> 'y task \<Rightarrow> bool" where
  "settled (Passed t _ _) u = (t_status u = Done)"
| "settled (Failed t _) u = (t_status u = Todo \<or> t_status u = Blocked)"

lemma dispatch_task_outcome:
  "dispatch_task cfg sv t = Inr oc \<Longrightarrow> dispatched_task oc = t"
  by (auto simp: dispatch_task_def bind_error_def Let_def judge_task_def split: sum.splits option.splits if_splits)


definition doing_in :: "(string \<Rightarrow> 'y task option) \<Rightarrow> string set" where
  "doing_in b = {i. \<exists>t. b i = Some t \<and> t_status t = Doing}"

context task_board_store
begin

lemma claim_loop_view:
  assumes "so_claim ops = clm"
  shows "\<lbrakk>ok s; \<forall>t \<in> set claimed. view s (t_id t) = Some t \<and> t_status t = Doing;
     length claimed \<le> oc_concurrency_limit cfg\<rbrakk> \<Longrightarrow>
   \<exists>new o2 s'. claim_loop cfg ops clock claimed eligible o1 s = (Inr (claimed @ new), o2, s') \<and> ok s' \<and>
     length (claimed @ new) \<le> oc_concurrency_limit cfg \<and>
     (\<forall>t \<in> set (claimed @ new). view s' (t_id t) = Some t \<and> t_status t = Doing) \<and>
     (\<forall>i. i \<notin> t_id ` set new \<longrightarrow> view s' i = view s i) \<and>
     (\<forall>i \<in> t_id ` set new. \<exists>t. view s i = Some t \<and> t_status t = Todo)"
proof (induction eligible arbitrary: claimed o1 s)
  case (Cons t eligible)
  let ?n = "estimate_task_prompt_tokens t"
  let ?o2 = "push_event clock (t_id t) Master ''basin'' TaskAnnounced
               (JObj [(''task_id'', JStr (t_id t)), (''title'', JStr (t_title t))]) o1"
  let ?req = "\<lparr>cr_task_id = Some (t_id t), cr_claimant = ''basin-worker''\<rparr>"
  let ?now = "clock (st_event_counter (o_state ?o2))"
  show ?case
  proof (cases "length claimed \<ge> oc_concurrency_limit cfg")
    case True
    with Cons.prems show ?thesis by simp
  next
    case room: False
    show ?thesis
    proof (cases "quota_allows cfg ''worker'' ?n (o_state o1)")
      case False
      with room Cons.IH [OF Cons.prems] show ?thesis by (simp add: Let_def)
    next
      case quota: True
      from claim_view [OF Cons.prems(1), of ?now ?req]
      consider (none) "clm ?now ?req s = (Inr None, s)"
        | (some) u u' s1 where "board_eligible (view s) u" "clm ?now ?req s = (Inr (Some u'), s1)" "ok s1"
          "u' = u\<lparr>t_status := Doing, t_claimed_by := Some ''basin-worker'', t_updated_at := ?now\<rparr>"
          "view s1 = (view s)(t_id u \<mapsto> u')"
        by (metis claim_request.select_convs(2))
      then show ?thesis
      proof cases
        case none
        with room quota assms Cons.IH [OF Cons.prems] show ?thesis by (simp add: Let_def)
      next
        case some
        have u: "view s (t_id u) = Some u" "t_status u = Todo"
          using some(1) by (simp_all add: board_eligible_def)
        have old: "\<forall>v \<in> set (claimed @ [u']). view s1 (t_id v) = Some v \<and> t_status v = Doing"
        proof
          fix v assume v: "v \<in> set (claimed @ [u'])"
          show "view s1 (t_id v) = Some v \<and> t_status v = Doing"
          proof (cases "v = u'")
            case True
            with some(4,5) show ?thesis by simp
          next
            case False
            with v Cons.prems(2) have v: "view s (t_id v) = Some v" "t_status v = Doing" by simp_all
            have "t_id v \<noteq> t_id u"
            proof
              assume "t_id v = t_id u"
              with v(1) u(1) have "v = u" by (metis option.inject)
              with v(2) u(2) show False by simp
            qed
            with v show ?thesis by (simp add: some(5))
          qed
        qed
        have len: "length (claimed @ [u']) \<le> oc_concurrency_limit cfg" using room by simp
        from Cons.IH [OF some(3) old len] obtain new o3 s' where
          "claim_loop cfg ops clock (claimed @ [u']) eligible
             (push_event clock (t_id u') Worker ''basin-worker'' TaskClaimed
                (JObj [(''task_id'', JStr (t_id u')),
                       (''claimed_by'', case t_claimed_by u' of Some c \<Rightarrow> JStr c | None \<Rightarrow> JNull)])
                (record_request ''worker'' ?n ?o2)) s1 = (Inr ((claimed @ [u']) @ new), o3, s')"
          "ok s'" "length ((claimed @ [u']) @ new) \<le> oc_concurrency_limit cfg"
          "\<forall>t \<in> set ((claimed @ [u']) @ new). view s' (t_id t) = Some t \<and> t_status t = Doing"
          "\<forall>i. i \<notin> t_id ` set new \<longrightarrow> view s' i = view s1 i"
          "\<forall>i \<in> t_id ` set new. \<exists>t. view s1 i = Some t \<and> t_status t = Todo" by blast
        note ih = this [unfolded append_assoc append_Cons append_Nil]
        have "\<forall>i \<in> t_id ` set (u' # new). \<exists>t. view s i = Some t \<and> t_status t = Todo"
          using ih(6) some(4,5) u by (auto split: if_splits)
        moreover have "\<forall>i. i \<notin> t_id ` set (u' # new) \<longrightarrow> view s' i = view s i"
          using ih(5) some(4,5) by auto
        moreover have "claim_loop cfg ops clock claimed (t # eligible) o1 s = (Inr (claimed @ (u' # new)), o3, s')"
          using room quota assms some(2) ih(1) by (simp add: Let_def)
        ultimately show ?thesis using ih(2-4) by blast
      qed
    qed
  qed
qed simp

lemma apply_one_view:
  assumes ops: "so_transition ops = tran" and "ok s" and "view s (t_id (dispatched_task oc)) \<noteq> None"
  shows "\<exists>rep' o2 s' u. (case oc of
           Passed t content acc \<Rightarrow> apply_passed ops clock t content acc rep o1 s
         | Failed t reason \<Rightarrow> apply_failed cfg ops clock t reason rep o1 s) = (Inr rep', o2, s') \<and>
       ok s' \<and> view s' = (view s)(t_id (dispatched_task oc) \<mapsto> u) \<and> settled oc u \<and>
       rr_dispatched rep' = rr_dispatched rep \<and> rr_idle rep' = rr_idle rep \<and>
       rr_completed rep' + rr_blocked rep' \<le> Suc (rr_completed rep + rr_blocked rep)"
proof -
  let ?i = "t_id (dispatched_task oc)"
  from assms(3) obtain t0 where t0: "view s ?i = Some t0" by auto
  from tran_view [OF assms(2) t0] have "\<forall>now st. \<exists>t' s'. so_transition ops now \<lparr>tt_id = ?i, tt_status = st\<rparr> s
      = (Inr t', s') \<and> ok s' \<and> view s' = (view s)(?i \<mapsto> t') \<and> t_status t' = st"
    unfolding ops by fastforce
  then obtain f g where fg: "\<And>now st. so_transition ops now \<lparr>tt_id = ?i, tt_status = st\<rparr> s =
      (Inr (f now st), g now st) \<and> ok (g now st) \<and> view (g now st) = (view s)(?i \<mapsto> f now st) \<and>
      t_status (f now st) = st" by metis
  show ?thesis
  proof (cases oc)
    case (Passed t content acc)
    with fg show ?thesis by (auto simp: apply_passed_def Let_def)
  next
    case (Failed t reason)
    let ?o2 = "push_event clock (t_id t) Judge ''basin-judge'' Verdict
      (JObj [(''task_id'', JStr (t_id t)), (''passed'', JBool False), (''reason'', JStr reason)]) o1"
    obtain b delay o3 where "should_retry cfg (t_id t) ?o2 = ((b, delay), o3)" by (metis surj_pair)
    with fg Failed show ?thesis by (cases b) (auto simp: apply_failed_def Let_def)
  qed
qed

lemma apply_outcomes_view:
  assumes "so_transition ops = tran"
  shows "\<lbrakk>ok s; \<forall>oc \<in> set ocs. view s (t_id (dispatched_task oc)) \<noteq> None\<rbrakk> \<Longrightarrow>
   \<exists>rep' o2 s'. apply_outcomes cfg ops clock (map Inr ocs) rep o1 s = (Inr rep', o2, s') \<and> ok s' \<and>
     (\<forall>i. i \<notin> (\<lambda>oc. t_id (dispatched_task oc)) ` set ocs \<longrightarrow> view s' i = view s i) \<and>
     (\<forall>i \<in> (\<lambda>oc. t_id (dispatched_task oc)) ` set ocs.
        \<exists>u. \<exists>oc \<in> set ocs. view s' i = Some u \<and> t_id (dispatched_task oc) = i \<and> settled oc u) \<and>
     rr_dispatched rep' = rr_dispatched rep \<and> rr_idle rep' = rr_idle rep \<and>
     rr_completed rep' + rr_blocked rep' \<le> length ocs + rr_completed rep + rr_blocked rep"
proof (induction ocs arbitrary: rep o1 s)
  case (Cons oc ocs)
  from apply_one_view [OF assms Cons.prems(1), of oc clock rep o1 cfg] Cons.prems(2)
  obtain rep1 o2 s1 u where one: "(case oc of
           Passed t content acc \<Rightarrow> apply_passed ops clock t content acc rep o1 s
         | Failed t reason \<Rightarrow> apply_failed cfg ops clock t reason rep o1 s) = (Inr rep1, o2, s1)"
    and s1: "ok s1" "view s1 = (view s)(t_id (dispatched_task oc) \<mapsto> u)" "settled oc u"
    and rep1: "rr_dispatched rep1 = rr_dispatched rep" "rr_idle rep1 = rr_idle rep"
      "rr_completed rep1 + rr_blocked rep1 \<le> Suc (rr_completed rep + rr_blocked rep)" by auto
  have "\<forall>oc \<in> set ocs. view s1 (t_id (dispatched_task oc)) \<noteq> None"
    using Cons.prems(2) s1(2) by auto
  from Cons.IH [OF s1(1) this, of rep1 o2] obtain rep' o3 s' where
    rest: "apply_outcomes cfg ops clock (map Inr ocs) rep1 o2 s1 = (Inr rep', o3, s')" "ok s'"
    and same: "\<forall>i. i \<notin> (\<lambda>oc. t_id (dispatched_task oc)) ` set ocs \<longrightarrow> view s' i = view s1 i"
    and changed: "\<forall>i \<in> (\<lambda>oc. t_id (dispatched_task oc)) ` set ocs.
        \<exists>u. \<exists>oc \<in> set ocs. view s' i = Some u \<and> t_id (dispatched_task oc) = i \<and> settled oc u"
    and rep': "rr_dispatched rep' = rr_dispatched rep1" "rr_idle rep' = rr_idle rep1"
      "rr_completed rep' + rr_blocked rep' \<le> length ocs + rr_completed rep1 + rr_blocked rep1" by blast
  have "apply_outcomes cfg ops clock (map Inr (oc # ocs)) rep o1 s = (Inr rep', o3, s')"
    using one rest(1) by (cases oc) simp_all
  moreover have "\<forall>i \<in> (\<lambda>oc. t_id (dispatched_task oc)) ` set (oc # ocs).
      \<exists>v. \<exists>oc' \<in> set (oc # ocs). view s' i = Some v \<and> t_id (dispatched_task oc') = i \<and> settled oc' v"
  proof
    fix i assume i: "i \<in> (\<lambda>oc. t_id (dispatched_task oc)) ` set (oc # ocs)"
    show "\<exists>v. \<exists>oc' \<in> set (oc # ocs). view s' i = Some v \<and> t_id (dispatched_task oc') = i \<and> settled oc' v"
    proof (cases "i \<in> (\<lambda>oc. t_id (dispatched_task oc)) ` set ocs")
      case True
      with changed show ?thesis by (meson list.set_intros(2))
    next
      case False
      with i have "i = t_id (dispatched_task oc)" by auto
      with False same s1 show ?thesis by (intro exI [of _ u] bexI [of _ oc]) simp_all
    qed
  qed
  moreover have "\<forall>i. i \<notin> (\<lambda>oc. t_id (dispatched_task oc)) ` set (oc # ocs) \<longrightarrow> view s' i = view s i"
    using same s1(2) by auto
  ultimately show ?case using rest(2) rep' rep1 by auto
qed simp

lemma apply_outcomes_Inr:
  "apply_outcomes cfg ops clock outs rep o1 s = (Inr rep', o2, s') \<Longrightarrow> \<exists>ocs. outs = map Inr ocs"
proof (induction outs arbitrary: rep o1 s)
  case (Cons outcome outs)
  then obtain oc where oc: "outcome = Inr oc" by (cases outcome) auto
  with Cons.prems obtain rep1 o3 s1 where
    "apply_outcomes cfg ops clock outs rep1 o3 s1 = (Inr rep', o2, s')"
    by (auto split: prod.splits sum.splits)
  from Cons.IH [OF this] oc show ?case by (metis list.simps(9))
qed simp

lemma run_once_view:
  assumes ops: "so_claim ops = clm" "so_transition ops = tran" and ok: "ok s"
    and run: "run_once cfg ops clock sv o1 s = (Inr rep, o2, s')"
  shows "ok s'" and "rr_dispatched rep \<le> oc_concurrency_limit cfg"
    and "rr_completed rep + rr_blocked rep \<le> rr_dispatched rep"
    and "doing_in (view s') = doing_in (view s)"
    and "view s' i = Some u \<Longrightarrow> t_status u = Done \<Longrightarrow>
      (\<exists>t. view s i = Some t \<and> t_status t = Done) \<or>
      (\<exists>t content acc. t_id t = i \<and> dispatch_task cfg (sv t) t = Inr (Passed t content acc))"
proof -
  from run obtain tasks where tasks: "so_list ops s = Inr tasks"
    by (auto simp: run_once_def split: if_splits sum.splits)
  define eligible where "eligible = sort_key t_created_at (filter (\<lambda>t. is_dispatch_eligible t tasks) tasks)"
  from claim_loop_view [OF ops(1) ok, of "[]" cfg clock eligible o1] obtain new o3 s1 where
    claim: "claim_loop cfg ops clock [] eligible o1 s = (Inr new, o3, s1)" "ok s1"
      "length new \<le> oc_concurrency_limit cfg"
    and doing: "\<forall>t \<in> set new. view s1 (t_id t) = Some t \<and> t_status t = Doing"
    and frame: "\<forall>i. i \<notin> t_id ` set new \<longrightarrow> view s1 i = view s i"
    and todo: "\<forall>i \<in> t_id ` set new. \<exists>t. view s i = Some t \<and> t_status t = Todo" by auto
  have goal: "ok s' \<and> rr_dispatched rep \<le> oc_concurrency_limit cfg \<and>
    rr_completed rep + rr_blocked rep \<le> rr_dispatched rep \<and> doing_in (view s') = doing_in (view s) \<and>
    (\<forall>i u. view s' i = Some u \<and> t_status u = Done \<longrightarrow>
      (\<exists>t. view s i = Some t \<and> t_status t = Done) \<or>
      (\<exists>t content acc. t_id t = i \<and> dispatch_task cfg (sv t) t = Inr (Passed t content acc)))"
  proof (cases new)
    case Nil
    with run tasks claim frame show ?thesis
      by (auto simp: run_once_def Let_def eligible_def doing_in_def split: if_splits)
  next
    case (Cons t ts)
    let ?outs = "map (\<lambda>t. dispatch_task cfg (sv t) t) new"
    have outs: "apply_outcomes cfg ops clock ?outs
        \<lparr>rr_dispatched = length new, rr_completed = 0, rr_blocked = 0, rr_idle = False\<rparr> o3 s1 =
        (Inr rep, o2, s')"
      using run tasks claim(1) Cons
      by (simp add: run_once_def Let_def eligible_def del: apply_outcomes.simps split: if_splits)
    from apply_outcomes_Inr [OF this] obtain ocs where ocs: "?outs = map Inr ocs" by blast
    have len: "length ocs = length new" using arg_cong [OF ocs, of length] by simp
    have disp: "dispatch_task cfg (sv (new ! k)) (new ! k) = Inr (ocs ! k)" if "k < length new" for k
      using arg_cong [OF ocs, of "\<lambda>l. l ! k"] that len by simp
    then have "dispatched_task (ocs ! k) = new ! k" if "k < length new" for k
      using dispatch_task_outcome that by blast
    then have tasks_of: "map dispatched_task ocs = new" using len by (intro nth_equalityI) simp_all
    then have ids: "(\<lambda>oc. t_id (dispatched_task oc)) ` set ocs = t_id ` set new"
      by (metis image_image list.set_map)
    have passed: "\<exists>t. oc \<in> set ocs \<longrightarrow> dispatch_task cfg (sv t) t = Inr oc \<and> dispatched_task oc = t" for oc
      using disp len dispatch_task_outcome by (metis in_set_conv_nth)
    have "\<forall>oc \<in> set ocs. view s1 (t_id (dispatched_task oc)) \<noteq> None"
      using doing tasks_of by (metis image_eqI list.set_map option.distinct(1))
    from apply_outcomes_view [OF ops(2) claim(2) this, of cfg clock
        "\<lparr>rr_dispatched = length new, rr_completed = 0, rr_blocked = 0, rr_idle = False\<rparr>" o3] outs ocs
    have s': "ok s'" "\<forall>i. i \<notin> t_id ` set new \<longrightarrow> view s' i = view s1 i"
      "\<forall>i \<in> t_id ` set new. \<exists>u. \<exists>oc \<in> set ocs. view s' i = Some u \<and>
         t_id (dispatched_task oc) = i \<and> settled oc u"
      "rr_dispatched rep = length new" "rr_completed rep + rr_blocked rep \<le> length ocs"
      unfolding ids by auto
    have same: "view s' i = view s i" if "i \<notin> t_id ` set new" for i using that frame s'(2) by simp
    have not_doing: "(\<exists>t. view s' i = Some t \<and> t_status t = Doing) \<longleftrightarrow>
        (\<exists>t. view s i = Some t \<and> t_status t = Doing)" for i
    proof (cases "i \<in> t_id ` set new")
      case True
      with s'(3) obtain u oc where "view s' i = Some u" "settled oc u" by blast
      then have "\<not> (\<exists>t. view s' i = Some t \<and> t_status t = Doing)" by (cases oc) auto
      moreover have "\<not> (\<exists>t. view s i = Some t \<and> t_status t = Doing)" using todo True by fastforce
      ultimately show ?thesis by blast
    qed (simp add: same)
    have "(\<exists>t. view s i = Some t \<and> t_status t = Done) \<or>
        (\<exists>t content acc. t_id t = i \<and> dispatch_task cfg (sv t) t = Inr (Passed t content acc))"
      if "view s' i = Some u" "t_status u = Done" for i u
    proof (cases "i \<in> t_id ` set new")
      case True
      with s'(3) that obtain oc where "oc \<in> set ocs" "t_id (dispatched_task oc) = i" "settled oc u" by fastforce
      with passed [of oc] that(2) show ?thesis by (cases oc) auto
    qed (use that same in auto)
    with s'(1,4,5) claim(3) len not_doing show ?thesis by (auto simp: doing_in_def)
  qed
  then show "ok s'" "rr_dispatched rep \<le> oc_concurrency_limit cfg"
    "rr_completed rep + rr_blocked rep \<le> rr_dispatched rep" "doing_in (view s') = doing_in (view s)"
    by simp_all
  from goal show "view s' i = Some u \<Longrightarrow> t_status u = Done \<Longrightarrow>
      (\<exists>t. view s i = Some t \<and> t_status t = Done) \<or>
      (\<exists>t content acc. t_id t = i \<and> dispatch_task cfg (sv t) t = Inr (Passed t content acc))" by blast
qed

lemma run_once_strands:
  assumes ops: "so_claim ops = clm" and ok: "ok s"
    and mode: "oc_mode cfg = OrchestrateMode \<or> oc_mode cfg = FullMode"
    and tasks: "so_list ops s = Inr tasks"
    and claim: "claim_loop cfg ops clock []
      (sort_key t_created_at (filter (\<lambda>t. is_dispatch_eligible t tasks) tasks)) o1 s = (Inr (t # ts), o2, s1)"
    and fails: "dispatch_task cfg (sv t) t = Inl err"
  shows "\<exists>o3. run_once cfg ops clock sv o1 s = (Inl err, o3, s1)"
    and "ok s1" and "\<forall>u \<in> set (t # ts). view s1 (t_id u) = Some u \<and> t_status u = Doing"
proof -
  show "\<exists>o3. run_once cfg ops clock sv o1 s = (Inl err, o3, s1)"
    using mode tasks claim fails by (auto simp: run_once_def Let_def)
  from claim_loop_view [OF ops ok, of "[]" cfg clock
      "sort_key t_created_at (filter (\<lambda>t. is_dispatch_eligible t tasks) tasks)" o1] claim
  have "ok s1 \<and> (\<forall>u \<in> set (t # ts). view s1 (t_id u) = Some u \<and> t_status u = Doing)" by auto
  then show "ok s1" "\<forall>u \<in> set (t # ts). view s1 (t_id u) = Some u \<and> t_status u = Doing"
    by blast+
qed

end

section \<open>The loop on the file store\<close>

definition file_ops :: "'y task_codec \<Rightarrow> (task_files, 'y) store_ops" where
  "file_ops E = \<lparr>so_list = list_blocking E, so_claim = claim E, so_transition = transition E\<rparr>"

lemma file_ops_simps [simp]:
  "so_list (file_ops E) = list_blocking E" "so_claim (file_ops E) = claim E"
  "so_transition (file_ops E) = transition E"
  by (simp_all add: file_ops_def)

text \<open>C13: A tick that answers a report claims no more tasks than the concurrency limit, leaves none of
  them in \<open>doing\<close> (each one is done, blocked or back in \<open>todo\<close>), and touches no other task's
  being in \<open>doing\<close>; the report counts at most as many completions and blocks as dispatches.\<close>

theorem tick_settles_what_it_claims:
  assumes "codec_ok E" and "fs_ok E fs"
    and "run_once cfg (file_ops E) clock sv o1 fs = (Inr rep, o2, fs')"
  shows "fs_ok E fs' \<and> rr_dispatched rep \<le> oc_concurrency_limit cfg \<and>
    rr_completed rep + rr_blocked rep \<le> rr_dispatched rep \<and>
    doing_in (board E fs') = doing_in (board E fs)"
  using files.run_once_view(1-4) [of "file_ops E" E fs cfg clock sv o1 rep o2 fs'] assms by simp

definition demo_config :: orchestrator_config where
  "demo_config =
     \<lparr>oc_mode = OrchestrateMode, oc_repo_root = ''/repo'', oc_concurrency_limit = 2, oc_max_retries = 1,
      oc_retry_backoff = 0, oc_memory_limit = 5,
      oc_quotas = [default_quota\<lparr>max_requests_per_minute := Some 3\<rparr>], oc_topology = Hierarchical\<rparr>"

definition demo_services :: "bool \<Rightarrow> unit task \<Rightarrow> unit services" where
  "demo_services leased t =
     \<lparr>sv_lease = (\<lambda>root name. if leased then Inr ''/repo/wt'' else Inl ''no worktree''),
      sv_cleanup = (\<lambda>p. Inr ()), sv_memory_find = (\<lambda>q n. Inr []),
      sv_memory_store = (\<lambda>c n s. Inr ()), sv_worker_spawn = dry_run_spawn ''w'',
      sv_worker_send = dry_run_send, sv_verifiers = [], sv_judge = None\<rparr>"

lemma demo_dispatch:
  "\<exists>content acc. dispatch_task demo_config (demo_services True t) t = Inr (Passed t content acc)"
  "dispatch_task demo_config (demo_services False t) t = Inl (WorkspaceFailure ''no worktree'')"
  by (simp_all add: dispatch_task_def bind_error_def demo_services_def dry_run_spawn_def
      dry_run_send_def judge_task_def Let_def)

lemma demo_quota: "quota_allows demo_config ''worker'' n (o_state new_orchestrator)"
  by (simp add: quota_allows_def demo_config_def default_quota_def new_orchestrator_def)

lemma demo_limit: "oc_concurrency_limit demo_config = 2"
  by (simp add: demo_config_def)

lemma demo_claim_loop:
  obtains t o2 fs' where "list_blocking demo_codec demo_files = Inr [t]"
    "is_dispatch_eligible t [t]" "fs_ok demo_codec fs'"
    "claim_loop demo_config (file_ops demo_codec) clock [] [t] new_orchestrator demo_files =
      (Inr [t\<lparr>t_status := Doing, t_claimed_by := Some ''basin-worker'', t_updated_at := clock 1\<rparr>], o2, fs')"
    "board demo_codec fs' = [''a'' \<mapsto> t\<lparr>t_status := Doing, t_claimed_by := Some ''basin-worker'', t_updated_at := clock 1\<rparr>]"
    "t_id t = ''a''"
proof -
  obtain t where t: "fs_ok demo_codec demo_files" "board demo_codec demo_files = [''a'' \<mapsto> t]"
    "t_id t = ''a''" "t_status t = Todo" "t_blockers t = []"
    "board_eligible (board demo_codec demo_files) t" by (rule demo_files_board)
  obtain x where x: "demo_files Todo = [(''a.md'', x)]" "demo_files Doing = []" "demo_files Done = []"
    "demo_files Blocked = []"
  proof -
    have "\<forall>t. \<exists>x. render_task demo_codec t = Inr x" by (simp add: render_task_def demo_codec_def)
    then obtain f where f: "\<And>t. render_task demo_codec t = Inr (f t)" by metis
    show ?thesis
      by (rule that) (simp_all add: demo_files_def create_def Let_def no_files_def write_task_at_def
          f fs_write_def demo_new_def primitive_def file_name_def)
  qed
  have md: "has_md_ext ''a.md''" by code_simp
  obtain u where u: "parse_task demo_codec x = Inr u"
    using fs_ok_parses [OF t(1), of Todo "''a.md''" x] md x(1) by auto
  then have l: "list_blocking demo_codec demo_files = Inr [u]"
    using x md by (simp add: list_blocking_def STATUSES_def)
  then have "board demo_codec demo_files (t_id u) = Some u" by (simp add: board_def)
  then have "u = t" using t(2) by (simp split: if_splits)
  with l have l: "list_blocking demo_codec demo_files = Inr [t]" by simp
  have e: "is_dispatch_eligible t [t]" using t(4,5) by (simp add: is_dispatch_eligible_def)
  have cand: "claim_candidate demo_codec \<lparr>cr_task_id = Some ''a'', cr_claimant = w\<rparr> demo_files = Inr (Some t)" for w
    using l e t(3) by (simp add: claim_candidate_def)
  have b: "board demo_codec demo_files (t_id t) = Some t" using t by simp
  obtain fs' where fs': "claim_move demo_codec (clock 1) ''basin-worker'' t demo_files =
      (Inr (Some (t\<lparr>t_status := Doing, t_claimed_by := Some ''basin-worker'', t_updated_at := clock 1\<rparr>)), fs')"
    "fs_ok demo_codec fs'" "board demo_codec fs' = (board demo_codec demo_files)(t_id t \<mapsto>
       t\<lparr>t_status := Doing, t_claimed_by := Some ''basin-worker'', t_updated_at := clock 1\<rparr>)"
    by (rule claim_move_board [OF demo_codec_ok t(1) b board_parsed(1,2) [OF demo_codec_ok t(1) b]])
  have "st_event_counter (o_state (push_event clock c r a ty v new_orchestrator)) = 1" for c r a ty v
    by (simp add: push_event_def Let_def new_orchestrator_def)
  then obtain o2 where "claim_loop demo_config (file_ops demo_codec) clock [] [t] new_orchestrator demo_files =
      (Inr [t\<lparr>t_status := Doing, t_claimed_by := Some ''basin-worker'', t_updated_at := clock 1\<rparr>], o2, fs')"
    using demo_quota fs'(1) cand t(3) by (simp add: Let_def claim_def demo_limit)
  with that l e fs'(2,3) t(2,3) show ?thesis by simp
qed

lemma demo_run:
  obtains rep o2 fs' u where
    "run_once demo_config (file_ops demo_codec) clock (demo_services True) new_orchestrator demo_files =
      (Inr rep, o2, fs')" "board demo_codec fs' ''a'' = Some u" "t_status u = Done"
proof -
  obtain t o2 fs' where t: "list_blocking demo_codec demo_files = Inr [t]"
    "is_dispatch_eligible t [t]" "fs_ok demo_codec fs'"
    "claim_loop demo_config (file_ops demo_codec) clock [] [t] new_orchestrator demo_files =
      (Inr [t\<lparr>t_status := Doing, t_claimed_by := Some ''basin-worker'', t_updated_at := clock 1\<rparr>], o2, fs')"
    "board demo_codec fs' = [''a'' \<mapsto> t\<lparr>t_status := Doing, t_claimed_by := Some ''basin-worker'', t_updated_at := clock 1\<rparr>]"
    "t_id t = ''a''" by (rule demo_claim_loop)
  let ?t = "t\<lparr>t_status := Doing, t_claimed_by := Some ''basin-worker'', t_updated_at := clock 1\<rparr>"
  obtain content acc where d: "dispatch_task demo_config (demo_services True ?t) ?t = Inr (Passed ?t content acc)"
    using demo_dispatch(1) [of ?t] by blast
  have "codec_ok demo_codec \<and> fs_ok demo_codec fs'" using demo_codec_ok t(3) by simp
  moreover have "\<forall>oc \<in> set [Passed ?t content acc]. board demo_codec fs' (t_id (dispatched_task oc)) \<noteq> None"
    using t(5,6) by simp
  ultimately obtain rep o3 fs'' where applied: "apply_outcomes demo_config (file_ops demo_codec) clock
      (map Inr [Passed ?t content acc])
      \<lparr>rr_dispatched = 1, rr_completed = 0, rr_blocked = 0, rr_idle = False\<rparr> o2 fs' = (Inr rep, o3, fs'')"
      and u: "\<exists>u. board demo_codec fs'' ''a'' = Some u \<and> t_status u = Done" using t(6)
    using files.apply_outcomes_view [of "file_ops demo_codec" demo_codec fs' "[Passed ?t content acc]"
        demo_config clock "\<lparr>rr_dispatched = 1, rr_completed = 0, rr_blocked = 0, rr_idle = False\<rparr>" o2]
    by auto
  have "oc_mode demo_config = OrchestrateMode" by (simp add: demo_config_def)
  with applied have "run_once demo_config (file_ops demo_codec) clock (demo_services True) new_orchestrator demo_files =
      (Inr rep, o3, fs'')"
    using t(1,2,4) d by (simp add: run_once_def Let_def del: apply_outcomes.simps)
  with that u show ?thesis by blast
qed

theorem tick_settles_what_it_claims_witness:
  "\<exists>rep o2 fs'. run_once demo_config (file_ops demo_codec) (\<lambda>n. 3) (demo_services True) new_orchestrator demo_files =
     (Inr rep, o2, fs') \<and> rr_dispatched rep \<le> 2 \<and> doing_in (board demo_codec fs') = {}"
proof -
  obtain rep o2 fs' where run: "run_once demo_config (file_ops demo_codec) (\<lambda>n. 3) (demo_services True)
      new_orchestrator demo_files = (Inr rep, o2, fs')" by (rule demo_run)
  obtain t where t: "fs_ok demo_codec demo_files" "board demo_codec demo_files = [''a'' \<mapsto> t]"
    "t_status t = Todo" by (rule demo_files_board)
  then have "doing_in (board demo_codec demo_files) = {}" by (auto simp: doing_in_def split: if_splits)
  with tick_settles_what_it_claims [OF demo_codec_ok t(1) run] run demo_limit show ?thesis by auto
qed



text \<open>When one dispatch of a tick fails with an error (a worktree, the memory, an agent that cannot
  be reached), the tick stops there: the store is as the claims left it, so every task the tick
  claimed stays in \<open>doing\<close>, where no later claim can take it.\<close>

theorem dispatch_error_strands_claimed_tasks:
  assumes "codec_ok E" and "fs_ok E fs"
    and "oc_mode cfg = OrchestrateMode \<or> oc_mode cfg = FullMode"
    and "list_blocking E fs = Inr tasks"
    and "claim_loop cfg (file_ops E) clock []
      (sort_key t_created_at (filter (\<lambda>t. is_dispatch_eligible t tasks) tasks)) o1 fs =
      (Inr (t # ts), o2, fs1)"
    and "dispatch_task cfg (sv t) t = Inl err"
  shows "\<exists>o3. run_once cfg (file_ops E) clock sv o1 fs = (Inl err, o3, fs1) \<and>
    (\<forall>u \<in> set (t # ts). board E fs1 (t_id u) = Some u \<and> t_status u = Doing \<and>
       claim E now \<lparr>cr_task_id = Some (t_id u), cr_claimant = who\<rparr> fs1 = (Inr None, fs1))"
proof -
  have ok: "codec_ok E \<and> fs_ok E fs" using assms by simp
  have l: "so_list (file_ops E) fs = Inr tasks" using assms(4) by simp
  note strands = files.run_once_strands [where ops = "file_ops E" and E = E and sv = sv and t = t,
      OF file_ops_simps(2) ok assms(3) l assms(5,6)]
  have ok1: "codec_ok E \<and> fs_ok E fs1" using strands(2) by simp
  have "claim E now \<lparr>cr_task_id = Some (t_id u), cr_claimant = who\<rparr> fs1 = (Inr None, fs1)"
    if "u \<in> set (t # ts)" for u
  proof -
    from strands(3) that have "board E fs1 (t_id u) = Some u" "t_status u = Doing" by blast+
    then show ?thesis using files.claim_not_todo [OF ok1, of "t_id u" u] by simp
  qed
  with strands show ?thesis by (metis file_ops_simps(2))
qed

theorem dispatch_error_strands_claimed_tasks_witness:
  "\<exists>o3 fs1. run_once demo_config (file_ops demo_codec) (\<lambda>n. 3) (demo_services False) new_orchestrator demo_files =
     (Inl (WorkspaceFailure ''no worktree''), o3, fs1) \<and>
     claim demo_codec 9 \<lparr>cr_task_id = Some ''a'', cr_claimant = ''w''\<rparr> fs1 = (Inr None, fs1)"
proof -
  obtain t o2 fs' where t: "list_blocking demo_codec demo_files = Inr [t]"
    "is_dispatch_eligible t [t]" "fs_ok demo_codec fs'"
    "claim_loop demo_config (file_ops demo_codec) (\<lambda>n. 3) [] [t] new_orchestrator demo_files =
      (Inr [t\<lparr>t_status := Doing, t_claimed_by := Some ''basin-worker'', t_updated_at := 3\<rparr>], o2, fs')"
    "board demo_codec fs' = [''a'' \<mapsto> t\<lparr>t_status := Doing, t_claimed_by := Some ''basin-worker'', t_updated_at := 3\<rparr>]"
    "t_id t = ''a''" by (rule demo_claim_loop [of "\<lambda>n. 3"])
  have c: "claim_loop demo_config (file_ops demo_codec) (\<lambda>n. 3) []
      (sort_key t_created_at (filter (\<lambda>u. is_dispatch_eligible u [t]) [t])) new_orchestrator demo_files =
      (Inr (t\<lparr>t_status := Doing, t_claimed_by := Some ''basin-worker'', t_updated_at := 3\<rparr> # []), o2, fs')"
    using t(2,4) by simp
  have ok: "fs_ok demo_codec demo_files" by (rule demo_files_board)
  have m: "oc_mode demo_config = OrchestrateMode \<or> oc_mode demo_config = FullMode"
    by (simp add: demo_config_def)
  from dispatch_error_strands_claimed_tasks [where now = 9 and who = "''w''" and sv = "demo_services False"
      and t = "t\<lparr>t_status := Doing, t_claimed_by := Some ''basin-worker'', t_updated_at := 3\<rparr>", OF demo_codec_ok ok m t(1) c demo_dispatch(2)]
  show ?thesis using t(6) by auto
qed

section \<open>Quotas, retries, event ids\<close>


text \<open>The run log numbers its events from \<open>evt-1\<close> without gaps, over any number of ticks; ids
  are distinct as long as fewer than \<open>2 ^ 64\<close> events were logged.\<close>

theorem event_ids_count_up:
  fixes cfg ops clock sv n s
  defines "log \<equiv> rl_events (o_log (fst (snd (run_until_idle cfg ops clock sv n new_orchestrator s))))"
  shows "map ev_id log = map (\<lambda>k. ''evt-'' @ show_nat (unat (of_nat (Suc k) :: u64))) [0..<length log] \<and>
    (length log < 2 ^ 64 \<longrightarrow> distinct (map ev_id log))"
proof -
  have "event_ids_ok (fst (snd (run_until_idle cfg ops clock sv n new_orchestrator s)))"
    by (rule event_ids.run_until_idle_inv) (simp add: event_ids_ok_def new_orchestrator_def)
  then have ids: "map ev_id log = map (\<lambda>k. ''evt-'' @ show_nat (unat (of_nat (Suc k) :: u64))) [0..<length log]"
    by (simp add: event_ids_ok_def log_def)
  have "distinct (map ev_id log)" if "length log < 2 ^ 64"
  proof -
    have "unat (of_nat (Suc k) :: u64) = Suc k" if "k < length log" for k
      using that \<open>length log < 2 ^ 64\<close> by (simp add: unat_of_nat del: of_nat_Suc)
    then have "inj_on (\<lambda>k. ''evt-'' @ show_nat (unat (of_nat (Suc k) :: u64))) {0..<length log}"
      by (intro inj_onI) (simp del: of_nat_Suc)
    then show ?thesis unfolding ids by (simp add: distinct_map del: of_nat_Suc)
  qed
  with ids show ?thesis by blast
qed

theorem event_ids_count_up_witness:
  "map ev_id (rl_events (o_log (fst (snd (run_until_idle demo_config (file_ops demo_codec) (\<lambda>n. 3)
      (\<lambda>n. demo_services True) 0 new_orchestrator demo_files))))) = []"
  using event_ids_count_up [of demo_config "file_ops demo_codec" "\<lambda>n. 3" "\<lambda>n. demo_services True" 0 demo_files]
  by (simp add: run_until_idle_def new_orchestrator_def)

text \<open>\<open>max_requests_per_minute\<close> is a limit for the orchestrator's lifetime: its counters are never
  reset, so once they reach the limit no later tick, however long after, claims any task; the
  store stays as it is and nothing is ever completed.\<close>

theorem request_limit_is_for_life:
  assumes "q \<in> set (oc_quotas cfg)" and "applies_to ''worker'' q"
    and "max_requests_per_minute q = Some m"
    and "m \<le> or_zero (st_request_counts (o_state o1) ''worker'')"
  shows "\<exists>r o2. run_until_idle cfg ops clock sv n o1 s = (r, o2, s) \<and>
    (case r of Inl _ \<Rightarrow> True | Inr rep \<Rightarrow> ri_completed rep = 0) \<and>
    st_request_counts (o_state o2) = st_request_counts (o_state o1)"
proof -
  have no: "\<not> quota_allows cfg ''worker'' k (o_state o')"
    if "st_request_counts (o_state o') = st_request_counts (o_state o1)" for k o'
    using assms that by (force simp: quota_allows_def list_all_iff applies_to_def Let_def)
  have claim: "\<exists>o2. claim_loop cfg ops clock [] ts o' s = (Inr [], o2, s) \<and>
      st_request_counts (o_state o2) = st_request_counts (o_state o1)"
    if "st_request_counts (o_state o') = st_request_counts (o_state o1)" for ts o'
    using that
  proof (induction ts arbitrary: o')
    case (Cons t ts)
    have "st_request_counts (o_state (push_event clock c r a ty v o')) = st_request_counts (o_state o1)"
      for c r a ty v using Cons.prems by (simp add: push_event_def Let_def)
    from Cons.IH [OF this] no [OF Cons.prems] Cons.prems show ?case by (simp add: Let_def)
  qed simp
  have tick: "\<exists>r o2. run_once cfg ops clock sv' o' s = (r, o2, s) \<and>
      (case r of Inl _ \<Rightarrow> True | Inr rep \<Rightarrow> rr_completed rep = 0) \<and>
      st_request_counts (o_state o2) = st_request_counts (o_state o1)"
    if o': "st_request_counts (o_state o') = st_request_counts (o_state o1)" for o' sv'
  proof (cases "so_list ops s")
    case (Inr tasks)
    from claim [OF o', of "sort_key t_created_at (filter (\<lambda>t. is_dispatch_eligible t tasks) tasks)"]
    obtain o2 where o2: "claim_loop cfg ops clock []
        (sort_key t_created_at (filter (\<lambda>t. is_dispatch_eligible t tasks) tasks)) o' s = (Inr [], o2, s)"
      "st_request_counts (o_state o2) = st_request_counts (o_state o1)" by blast
    then show ?thesis using Inr o' by (simp add: run_once_def Let_def push_event_def)
  qed (simp add: run_once_def o')
  have "\<exists>r o2. run_ticks cfg ops clock sv n rep o' s = (r, o2, s) \<and>
      (case r of Inl _ \<Rightarrow> True | Inr rep \<Rightarrow> ri_completed rep = 0) \<and>
      st_request_counts (o_state o2) = st_request_counts (o_state o1)"
    if "st_request_counts (o_state o') = st_request_counts (o_state o1)" "ri_completed rep = 0" for rep o'
    using that
  proof (induction n arbitrary: rep o')
    case (Suc n)
    from tick [OF Suc.prems(1), of "sv n"] obtain r o2 where
      r: "run_once cfg ops clock (sv n) o' s = (r, o2, s)"
        "case r of Inl _ \<Rightarrow> True | Inr rep \<Rightarrow> rr_completed rep = 0"
        "st_request_counts (o_state o2) = st_request_counts (o_state o1)" by blast
    show ?case
    proof (cases r)
      case (Inr tick)
      with r(2) Suc.prems(2) have z: "ri_completed \<lparr>ri_ticks = ri_ticks rep + 1,
          ri_completed = ri_completed rep + rr_completed tick,
          ri_blocked = ri_blocked rep + rr_blocked tick\<rparr> = 0" by simp
      from Suc.IH [OF r(3) z] show ?thesis
        using r Inr z by (cases "rr_idle tick") (simp_all add: Let_def)
    qed (use r in simp)
  qed simp
  then show ?thesis by (simp add: run_until_idle_def)
qed

definition spent_orchestrator :: orchestrator where
  "spent_orchestrator = fold (\<lambda>_. record_request ''worker'' 2) [0..<4] new_orchestrator"

theorem request_limit_is_for_life_witness:
  "\<exists>r o2. run_until_idle demo_config (file_ops demo_codec) (\<lambda>n. 3) (\<lambda>n. demo_services True) 50
     spent_orchestrator demo_files = (r, o2, demo_files)"
proof -
  have "or_zero (st_request_counts (o_state spent_orchestrator) ''worker'') = 4"
    by (simp add: spent_orchestrator_def record_request_def new_orchestrator_def upt_rec)
  then show ?thesis
    using request_limit_is_for_life [of "default_quota\<lparr>max_requests_per_minute := Some 3\<rparr>" demo_config 3
        spent_orchestrator "file_ops demo_codec" "\<lambda>n. 3" "\<lambda>n. demo_services True" 50 demo_files]
    by (auto simp: demo_config_def default_quota_def applies_to_def)
qed

end
