(* ===== verification/Memory_Records.thy ===== *)
theory Memory_Records
  imports Core_Types Complex_Main "HOL-Library.Product_Lexorder"
begin

text \<open>
  The vocabulary of the memory engine: crates/aquifer/src types.rs, identity.rs and the relations
  of graph.rs. A stored confidence is an exact rational, a counter a 32-bit word, a time stamp a
  count of nanoseconds. SHA-256 is a parameter.
\<close>

section \<open>Records\<close>

datatype memory_state = Active | Archived | Retracted

datatype memory_error =
    Io_error string | Encode_error string | Toml_error string | Yaml_error string
  | Payload_error string | Invalid_file string | Invalid_confidence rat | Database_error string
  | Backend_error string | Backend_unavailable string | Compat_mismatch string nat string nat
  | Lane_lock_timeout string nat

datatype memory_tier = L0Raw | L1Atom | L2Scenario | L3Project

datatype memory_scope = Shared | Agent | Session | Task

fun scope_as_str :: "memory_scope \<Rightarrow> string" where
  "scope_as_str Shared = ''shared''"
| "scope_as_str Agent = ''agent''"
| "scope_as_str Session = ''session''"
| "scope_as_str Task = ''task''"

record relation =
  rl_subject :: string
  rl_predicate :: string
  rl_object :: string
  rl_source_node_id :: string

definition new_relation :: "string \<Rightarrow> string \<Rightarrow> string \<Rightarrow> string \<Rightarrow> relation" where
  "new_relation subject predicate obj source =
     \<lparr>rl_subject = subject, rl_predicate = predicate, rl_object = obj, rl_source_node_id = source\<rparr>"

type_synonym metadata = "(string, string) btree_map"

record memory_record =
  mr_id :: string
  mr_node_id :: string
  mr_content :: string
  mr_tags :: "string list"
  mr_metadata :: metadata
  mr_tier :: memory_tier
  mr_created_at :: timestamp
  mr_scope :: "memory_scope option"
  mr_agent_id :: "string option"
  mr_session_id :: "string option"
  mr_task_id :: "string option"
  mr_user_id :: "string option"
  mr_project :: "string option"
  mr_source :: "string option"
  mr_author_id :: "string option"
  mr_confidence :: "rat option"
  mr_relations :: "relation list"
  mr_last_access :: "timestamp option"
  mr_access_count :: u32
  mr_useful_count :: u32
  mr_state :: memory_state

definition new_record ::
    "timestamp \<Rightarrow> string \<Rightarrow> string \<Rightarrow> string \<Rightarrow> string list \<Rightarrow> metadata \<Rightarrow> memory_tier \<Rightarrow> memory_record" where
  "new_record now i node_id content tags meta tier =
     \<lparr>mr_id = i, mr_node_id = node_id, mr_content = content, mr_tags = tags, mr_metadata = meta,
      mr_tier = tier, mr_created_at = now, mr_scope = None, mr_agent_id = None, mr_session_id = None,
      mr_task_id = None, mr_user_id = None, mr_project = None, mr_source = None, mr_author_id = None,
      mr_confidence = None, mr_relations = [], mr_last_access = None, mr_access_count = 0,
      mr_useful_count = 0, mr_state = Active\<rparr>"

record store_memory =
  sm_content :: string
  sm_tags :: "string list"
  sm_metadata :: metadata
  sm_tier :: memory_tier
  sm_node_id :: "string option"
  sm_created_at :: "timestamp option"
  sm_scope :: "memory_scope option"
  sm_agent_id :: "string option"
  sm_session_id :: "string option"
  sm_task_id :: "string option"
  sm_user_id :: "string option"
  sm_project :: "string option"
  sm_source :: "string option"
  sm_author_id :: "string option"
  sm_confidence :: "rat option"
  sm_relations :: "relation list"

definition store_atom :: "string \<Rightarrow> store_memory" where
  "store_atom content =
     \<lparr>sm_content = content, sm_tags = [], sm_metadata = bt_empty, sm_tier = L1Atom, sm_node_id = None,
      sm_created_at = None, sm_scope = None, sm_agent_id = None, sm_session_id = None,
      sm_task_id = None, sm_user_id = None, sm_project = None, sm_source = None, sm_author_id = None,
      sm_confidence = None, sm_relations = []\<rparr>"

definition validate_confidence :: "store_memory \<Rightarrow> memory_error + unit" where
  "validate_confidence m =
     (case sm_confidence m of
        Some c \<Rightarrow> if \<not> (0 \<le> c \<and> c \<le> 1) then Inl (Invalid_confidence c) else Inr ()
      | None \<Rightarrow> Inr ())"

record retract_report =
  rr_retracted :: memory_record
  rr_supersede :: memory_record

section \<open>Queries and hits\<close>

record memory_query =
  mq_text :: string
  mq_limit :: nat
  mq_tags :: "string list"
  mq_node_id :: "string option"
  mq_scope :: "memory_scope option"
  mq_agent_id :: "string option"
  mq_session_id :: "string option"
  mq_task_id :: "string option"
  mq_user_id :: "string option"
  mq_project :: "string option"
  mq_include_archived :: bool

definition new_query :: "string \<Rightarrow> memory_query" where
  "new_query txt =
     \<lparr>mq_text = txt, mq_limit = 10, mq_tags = [], mq_node_id = None, mq_scope = None,
      mq_agent_id = None, mq_session_id = None, mq_task_id = None, mq_user_id = None,
      mq_project = None, mq_include_archived = False\<rparr>"

definition with_limit :: "nat \<Rightarrow> memory_query \<Rightarrow> memory_query" where
  "with_limit n q = q\<lparr>mq_limit := n\<rparr>"

definition normalize_project :: "string \<Rightarrow> string option" where
  "normalize_project project = (if trim project \<noteq> [] then Some (trim project) else None)"

definition with_project :: "string \<Rightarrow> memory_query \<Rightarrow> memory_query" where
  "with_project p q = q\<lparr>mq_project := normalize_project p\<rparr>"

definition SHARED_PROJECT :: string where
  "SHARED_PROJECT = ''shared''"

definition effective_project :: "memory_query \<Rightarrow> string" where
  "effective_project q = (case mq_project q of Some p \<Rightarrow> p | None \<Rightarrow> SHARED_PROJECT)"

datatype search_source = Keyword | Vector | Hybrid

record search_hit =
  sh_record :: memory_record
  sh_score :: real
  sh_source :: search_source
  sh_session_distance :: "nat option"

definition keyword_hit :: "memory_record \<Rightarrow> real \<Rightarrow> search_hit" where
  "keyword_hit r score =
     \<lparr>sh_record = r, sh_score = score, sh_source = Keyword, sh_session_distance = None\<rparr>"

text \<open>\<open>annotate_session_distances\<close>: when each session was last written, the sessions in that order,
  and how many sessions lie between a hit and the current one.\<close>

definition seen_session :: "memory_record \<Rightarrow> (string, timestamp) btree_map \<Rightarrow> (string, timestamp) btree_map" where
  "seen_session r seen =
     (case mr_session_id r of
        Some s \<Rightarrow>
          if s = [] then seen
          else bt_insert s (case bt_get seen s of Some t \<Rightarrow> max t (mr_created_at r) | None \<Rightarrow> mr_created_at r) seen
      | None \<Rightarrow> seen)"

definition session_times ::
    "timestamp \<Rightarrow> search_hit list \<Rightarrow> memory_record list \<Rightarrow> string option \<Rightarrow> (string, timestamp) btree_map" where
  "session_times now hits corpus current =
     (let seen = fold seen_session (corpus @ map sh_record hits) bt_empty
      in case current of
           Some s \<Rightarrow> if s \<noteq> [] \<and> bt_get seen s = None then bt_insert s now seen else seen
         | None \<Rightarrow> seen)"

definition session_rank :: "(string \<times> timestamp) list \<Rightarrow> string \<Rightarrow> nat option" where
  "session_rank ordered s = map_of (zip (map fst ordered) [0..<length ordered]) s"

definition session_distance ::
    "(string \<times> timestamp) list \<Rightarrow> nat \<Rightarrow> memory_record \<Rightarrow> nat option" where
  "session_distance ordered current_rank r =
     (case Option.bind (mr_session_id r) (session_rank ordered) of
        Some rank \<Rightarrow> Some (current_rank - rank)
      | None \<Rightarrow>
          (let newer = length (filter (\<lambda>(_, t). t > mr_created_at r) ordered)
           in if newer > 0 then Some newer else None))"

definition annotate_session_distances ::
    "timestamp \<Rightarrow> search_hit list \<Rightarrow> memory_record list \<Rightarrow> string option \<Rightarrow> search_hit list" where
  "annotate_session_distances now hits corpus current =
     (let seen = session_times now hits corpus current
      in if seen = [] then hits
         else
           let ordered = sort_key (\<lambda>(s, t). (t, s)) seen;
               current_rank = (case Option.bind current (session_rank ordered) of
                                 Some r \<Rightarrow> r | None \<Rightarrow> length ordered - 1)
           in map (\<lambda>h. h\<lparr>sh_session_distance := session_distance ordered current_rank (sh_record h)\<rparr>) hits)"

section \<open>Identity\<close>

fun show_tier :: "memory_tier \<Rightarrow> string" where
  "show_tier L0Raw = ''L0Raw''"
| "show_tier L1Atom = ''L1Atom''"
| "show_tier L2Scenario = ''L2Scenario''"
| "show_tier L3Project = ''L3Project''"

text \<open>What \<open>stable_memory_id\<close> feeds to the hash, in its order.\<close>

definition identity_text :: "store_memory \<Rightarrow> string" where
  "identity_text m =
     sm_content m @ show_tier (sm_tier m)
     @ (case sm_node_id m of Some n \<Rightarrow> n | None \<Rightarrow> [])
     @ (case sm_scope m of Some s \<Rightarrow> scope_as_str s | None \<Rightarrow> [])
     @ concat (map (\<lambda>v. case v of Some x \<Rightarrow> x | None \<Rightarrow> [])
         [sm_agent_id m, sm_session_id m, sm_task_id m, sm_user_id m, sm_project m, sm_author_id m])"

definition stable_memory_id :: "(string \<Rightarrow> string) \<Rightarrow> store_memory \<Rightarrow> string" where
  "stable_memory_id hash m = hash (identity_text m)"

section \<open>Relations\<close>

definition MAX_RELATIONS_PER_RECORD :: nat where "MAX_RELATIONS_PER_RECORD = 16"
definition MAX_ENTITY_CHARS :: nat where "MAX_ENTITY_CHARS = 128"
definition MAX_PREDICATE_CHARS :: nat where "MAX_PREDICATE_CHARS = 64"

definition bounded_trim :: "nat \<Rightarrow> string \<Rightarrow> string" where
  "bounded_trim n s = take_chars n (trim s)"

definition normalize_relation :: "string \<Rightarrow> relation \<Rightarrow> relation option" where
  "normalize_relation source r =
     (let r' = \<lparr>rl_subject = bounded_trim MAX_ENTITY_CHARS (rl_subject r),
                rl_predicate = bounded_trim MAX_PREDICATE_CHARS (rl_predicate r),
                rl_object = bounded_trim MAX_ENTITY_CHARS (rl_object r),
                rl_source_node_id = bounded_trim MAX_ENTITY_CHARS source\<rparr>
      in if rl_subject r' = [] \<or> rl_predicate r' = [] \<or> rl_object r' = [] \<or> rl_source_node_id r' = []
         then None else Some r')"

fun normalize_into :: "string \<Rightarrow> relation list \<Rightarrow> relation list \<Rightarrow> relation list" where
  "normalize_into source acc [] = acc"
| "normalize_into source acc (r # rs) =
     (case normalize_relation source r of
        None \<Rightarrow> normalize_into source acc rs
      | Some r' \<Rightarrow>
          (let acc' = (if r' \<in> set acc then acc else acc @ [r'])
           in if length acc' \<ge> MAX_RELATIONS_PER_RECORD then acc' else normalize_into source acc' rs))"

definition normalize_relations :: "relation list \<Rightarrow> string \<Rightarrow> relation list" where
  "normalize_relations rs source = normalize_into source [] rs"

definition normal_relations :: "string \<Rightarrow> relation list \<Rightarrow> bool" where
  "normal_relations source acc \<longleftrightarrow> distinct acc \<and> length acc \<le> MAX_RELATIONS_PER_RECORD
     \<and> set acc \<subseteq> {r. Some r \<in> range (normalize_relation source)}"

lemma normal_relations_step:
  assumes "normal_relations source acc" and "length acc < MAX_RELATIONS_PER_RECORD"
    and "normalize_relation source r = Some r'"
  shows "normal_relations source (if r' \<in> set acc then acc else acc @ [r'])"
proof -
  have "Some r' \<in> range (normalize_relation source)" using assms(3) by (metis rangeI)
  with assms(1,2) show ?thesis by (simp add: normal_relations_def)
qed

lemma normal_relations_into:
  "normal_relations source acc \<Longrightarrow> length acc < MAX_RELATIONS_PER_RECORD
    \<Longrightarrow> normal_relations source (normalize_into source acc rs)"
proof (induction rs arbitrary: acc)
  case (Cons r rs)
  show ?case
  proof (cases "normalize_relation source r")
    case (Some r')
    from normal_relations_step [OF Cons.prems Some] Cons.IH Some show ?thesis
      by (simp add: Let_def not_le)
  qed (use Cons in simp)
qed simp

lemma normal_relations: "normal_relations source (normalize_relations rs source)"
  unfolding normalize_relations_def
  by (rule normal_relations_into) (simp_all add: normal_relations_def MAX_RELATIONS_PER_RECORD_def)

text \<open>A list of relations that normalisation leaves as they are.\<close>

definition relations_ok :: "string \<Rightarrow> relation list \<Rightarrow> bool" where
  "relations_ok source rs \<longleftrightarrow> distinct rs \<and> length rs \<le> MAX_RELATIONS_PER_RECORD
     \<and> list_all (\<lambda>r. normalize_relation source r = Some r) rs"

lemma normalize_into_id:
  "distinct (acc @ rs) \<Longrightarrow> length (acc @ rs) \<le> MAX_RELATIONS_PER_RECORD
    \<Longrightarrow> list_all (\<lambda>r. normalize_relation source r = Some r) rs
    \<Longrightarrow> normalize_into source acc rs = acc @ rs"
proof (induction rs arbitrary: acc)
  case (Cons r rs)
  have new: "r \<notin> set acc" and full: "length (acc @ [r]) \<ge> MAX_RELATIONS_PER_RECORD \<Longrightarrow> rs = []"
    using Cons.prems(1,2) by (cases rs; auto)+
  then show ?case using Cons.IH [of "acc @ [r]"] Cons.prems by (auto simp: Let_def)
qed simp

lemma normalize_relations_id [simp]: "relations_ok source rs \<Longrightarrow> normalize_relations rs source = rs"
  using normalize_into_id [of "[]" rs source] by (simp add: relations_ok_def normalize_relations_def)

lemma relations_ok_Nil [simp]: "relations_ok source []"
  by (simp add: relations_ok_def)

end
