(* ===== verification/Hashing.thy ===== *)
theory Hashing
  imports Prelude
begin

text \<open>
  The 64-bit FNV-1a hash, printed as sixteen hexadecimal digits: the content hash of goals
  (crates/flume/src/loop_core.rs) and the ids of events (crates/aquifer/src/event.rs).
\<close>

unbundle bit_operations_syntax

definition fnv_hash :: "string \<Rightarrow> u64" where
  "fnv_hash text = fold (\<lambda>c h. (h XOR of_nat (of_char c)) * 0x100000001b3) text 0xcbf29ce484222325"

definition hex_digit :: "nat \<Rightarrow> char" where
  "hex_digit d = (if d < 10 then char_of (48 + d) else char_of (87 + d))"

fun hex_digits :: "nat \<Rightarrow> nat \<Rightarrow> string" where
  "hex_digits 0 n = []"
| "hex_digits (Suc w) n = hex_digits w (n div 16) @ [hex_digit (n mod 16)]"

definition stable_content_hash :: "string \<Rightarrow> string" where
  "stable_content_hash text = hex_digits 16 (unat (fnv_hash text))"

end
