(* ===== verification/Loop_Core.thy ===== *)
theory Loop_Core
  imports Memory_Records Hashing
begin

text \<open>
  The autonomous loop of \<open>crates/flume/src/loop_core.rs\<close>: \<open>run_loop_core\<close> with its brakes (wall
  clock, stop file, cancellation, quota checkpoint, remediation budget), the goal packet, the
  worker's environment, the run log and what is stored in memory.

  Everything outside is an input of the turn (\<open>turn_input\<close>): the clock readings in milliseconds,
  the stop file, the cancellation token, the local quota readings, and how the worker and the
  verifier answer the call they are given. The memory backend answers as a function of what the
  loop has stored so far. Writing the run log succeeds. The loop also returns a trace: the log
  entries, the memories stored and the environments given to the worker.
\<close>

section \<open>Constants and text\<close>

definition LOOP_RECALL_LIMIT :: nat where "LOOP_RECALL_LIMIT = 5"
definition LOOP_GOAL_INVARIANT_LIMIT :: nat where "LOOP_GOAL_INVARIANT_LIMIT = 8"
definition LOOP_GOAL_SKILL_LIMIT :: nat where "LOOP_GOAL_SKILL_LIMIT = 2"
definition LOOP_LAST_CHECK_CHARS :: nat where "LOOP_LAST_CHECK_CHARS = 800"
definition LOOP_AUTO_INVARIANT_CHARS :: nat where "LOOP_AUTO_INVARIANT_CHARS = 240"
definition LOOP_REMEDIATION_ATTEMPTS_DEFAULT :: nat where "LOOP_REMEDIATION_ATTEMPTS_DEFAULT = 3"
definition LOOP_FAILURE_TRAIL_REASON_CHARS :: nat where "LOOP_FAILURE_TRAIL_REASON_CHARS = 800"

definition backticked :: "string \<Rightarrow> string" where
  "backticked s = CHR 0x60 # s @ [CHR 0x60]"

definition compact_inline :: "string \<Rightarrow> nat \<Rightarrow> string" where
  "compact_inline text limit = take_chars limit (join '' '' (split_whitespace text))"

section \<open>Data\<close>

record failed_check =
  fc_turn :: nat
  fc_output :: string

record remediation_attempt =
  ra_turn :: nat
  ra_reason :: string
  ra_fix_attempt :: "string option"

record loop_options =
  lo_goal :: string
  lo_worker_cmd :: "string option"
  lo_max_turns :: nat
  lo_max_wall :: "nat option"
  lo_poll :: bool
  lo_learn :: bool
  lo_run_id :: string
  lo_stop_file :: string
  lo_max_remediation :: nat
  lo_warn_pct :: rat
  lo_high_pct :: rat
  lo_checkpoint_on_quota :: bool

record loop_report =
  lr_turns :: nat
  lr_outcome :: string
  lr_why_stopped :: string
  lr_failure_trail :: "remediation_attempt list"

record quota_status =
  qs_agent :: string
  qs_window :: string
  qs_pct :: "rat option"

record quota_event =
  qe_status :: quota_status
  qe_threshold_pct :: rat
  qe_high :: bool

definition quota_threshold_events :: "quota_status list \<Rightarrow> rat \<Rightarrow> rat \<Rightarrow> quota_event list" where
  "quota_threshold_events statuses warn_pct high_pct =
     List.map_filter (\<lambda>status.
       case qs_pct status of
         None \<Rightarrow> None
       | Some pct \<Rightarrow>
           (if pct \<ge> warn_pct
            then Some \<lparr>qe_status = status, qe_threshold_pct = warn_pct, qe_high = (pct \<ge> high_pct)\<rparr>
            else None)) statuses"

datatype log_entry =
    TurnEntry nat string bool string  \<comment> \<open>turn, action, passed, output\<close>
  | RemediationEntry nat nat string "string option"  \<comment> \<open>turn, consecutive failures, reason, fix\<close>
  | QuotaWarning nat quota_event
  | QuotaCheckpoint nat quota_event "string \<times> string"
  | SummaryEntry string nat string  \<comment> \<open>outcome, turns, why\<close>
  | EscalationEntry nat string "remediation_attempt list"

record loop_memory =
  lm_content :: string
  lm_tier :: memory_tier
  lm_tags :: "string list"
  lm_node_id :: "string option"
  lm_session_id :: "string option"
  lm_metadata :: "(string \<times> string) list"
  lm_source :: "string option"

definition atom :: "string \<Rightarrow> loop_memory" where
  "atom content =
     \<lparr>lm_content = content, lm_tier = L1Atom, lm_tags = [], lm_node_id = None,
      lm_session_id = None, lm_metadata = [], lm_source = None\<rparr>"

record loop_backend =
  lb_recall :: "loop_memory list \<Rightarrow> string \<Rightarrow> nat \<Rightarrow> string list option"
  lb_tagged :: "loop_memory list \<Rightarrow> string \<Rightarrow> string \<Rightarrow> nat \<Rightarrow> string list option"
  lb_get_node :: "loop_memory list \<Rightarrow> string \<Rightarrow> bool"
  lb_invariants :: "loop_memory list \<Rightarrow> string \<Rightarrow> nat \<Rightarrow> (string \<times> string option) list option"

datatype worker_answer = WorkerExit bool | WorkerError string | WorkerCancelled
datatype verify_answer = Verified bool string | VerifyError string | VerifyCancelled

record turn_input =
  ti_elapsed :: nat  \<comment> \<open>at the start of the turn\<close>
  ti_elapsed_worker :: nat
  ti_elapsed_verify :: nat
  ti_stop :: bool
  ti_cancel :: bool
  ti_quota :: "quota_status list"
  ti_checkpoint :: "quota_event \<Rightarrow> string + string \<times> string"  \<comment> \<open>session, task\<close>
  ti_worker :: "(string \<times> string) list \<Rightarrow> nat option \<Rightarrow> worker_answer"
  ti_verify :: "nat option \<Rightarrow> verify_answer"

record loop_trace =
  tr_log :: "log_entry list"
  tr_memory :: "loop_memory list"
  tr_worker_env :: "(nat \<times> (string \<times> string) list) list"

record loop_vars =
  lv_last_check :: "string option"
  lv_corrected_failures :: "failed_check list"
  lv_consecutive_failures :: nat
  lv_failure_trail :: "remediation_attempt list"
  lv_last_failure_reason :: "string option"
  lv_warned :: "(string \<times> string) list"
  lv_trace :: loop_trace

definition init_vars :: loop_vars where
  "init_vars =
     \<lparr>lv_last_check = None, lv_corrected_failures = [], lv_consecutive_failures = 0,
      lv_failure_trail = [], lv_last_failure_reason = None, lv_warned = [],
      lv_trace = \<lparr>tr_log = [], tr_memory = [], tr_worker_env = []\<rparr>\<rparr>"

definition log_entry :: "log_entry \<Rightarrow> loop_vars \<Rightarrow> loop_vars" where
  "log_entry x v = v\<lparr>lv_trace := (lv_trace v)\<lparr>tr_log := tr_log (lv_trace v) @ [x]\<rparr>\<rparr>"

definition store_memory :: "loop_memory \<Rightarrow> loop_vars \<Rightarrow> loop_vars" where
  "store_memory m v = v\<lparr>lv_trace := (lv_trace v)\<lparr>tr_memory := tr_memory (lv_trace v) @ [m]\<rparr>\<rparr>"

section \<open>Wall clock\<close>

definition remaining_wall_budget :: "nat \<Rightarrow> nat option \<Rightarrow> nat option" where
  "remaining_wall_budget elapsed max_wall = map_option (\<lambda>m. m - elapsed) max_wall"

definition wall_cap_message :: "nat \<Rightarrow> nat option \<Rightarrow> string \<Rightarrow> string option" where
  "wall_cap_message elapsed max_wall before =
     (case max_wall of
        None \<Rightarrow> None
      | Some m \<Rightarrow>
          (if elapsed \<ge> m
           then Some (''loop exceeded max-wall-secs ('' @ show_nat (m div 1000) @ '') before '' @ before)
           else None))"

section \<open>Memory\<close>

definition loop_recall :: "loop_backend \<Rightarrow> loop_memory list \<Rightarrow> string \<Rightarrow> string" where
  "loop_recall b stored goal =
     (case lb_recall b stored goal (LOOP_RECALL_LIMIT * 3) of
        None \<Rightarrow> []
      | Some hits \<Rightarrow>
          join LF (map (\<lambda>content. ''- '' @ take_chars 280 (replace_all LF '' '' content)) hits))"

definition packet_tag_section ::
  "loop_backend \<Rightarrow> loop_memory list \<Rightarrow> string \<Rightarrow> string \<Rightarrow> nat \<Rightarrow> string \<Rightarrow> string option" where
  "packet_tag_section b stored goal tag limit title =
     (case lb_tagged b stored goal tag limit of
        Some (hit # hits) \<Rightarrow>
          Some (''# '' @ title @ LF @ join LF (map (\<lambda>content. ''- '' @ replace_all LF '' '' content) (hit # hits)))
      | _ \<Rightarrow> None)"

definition opt_list :: "'a option \<Rightarrow> 'a list" where
  "opt_list x = (case x of Some y \<Rightarrow> [y] | None \<Rightarrow> [])"

definition assemble_goal_packet ::
  "loop_backend option \<Rightarrow> loop_memory list \<Rightarrow> string \<Rightarrow> string option \<Rightarrow> string \<Rightarrow> string" where
  "assemble_goal_packet backend stored goal last_check recall =
     join (LF @ LF)
       ([''# Goal'' @ LF @ goal] @
        (case backend of
           None \<Rightarrow> []
         | Some b \<Rightarrow>
             opt_list (packet_tag_section b stored goal ''invariant'' LOOP_GOAL_INVARIANT_LIMIT ''Invariants (must hold)'') @
             opt_list (packet_tag_section b stored goal ''skill'' LOOP_GOAL_SKILL_LIMIT ''Known approach (verified)'') @
             opt_list (packet_tag_section b stored goal ''spec'' LOOP_GOAL_SKILL_LIMIT ''Sharper specs (verified)'')) @
        (case last_check of
           None \<Rightarrow> []
         | Some check \<Rightarrow>
             (if check = [] then []
              else [''# Last failed check'' @ LF @ take_chars LOOP_LAST_CHECK_CHARS check])) @
        (if recall = [] then [] else [''# Relevant memory'' @ LF @ recall]))"

definition poll_or :: "string option \<Rightarrow> string" where
  "poll_or cmd = (case cmd of Some c \<Rightarrow> c | None \<Rightarrow> ''(poll)'')"

definition turn_memory :: "string \<Rightarrow> nat \<Rightarrow> string \<Rightarrow> string option \<Rightarrow> bool \<Rightarrow> loop_memory" where
  "turn_memory run_id turn goal cmd goal_met =
     (atom (''loop '' @ run_id @ '' turn '' @ show_nat turn @ '': ran '' @ backticked (poll_or cmd) @
        '' to verify '' @ backticked goal @ '' -> '' @ (if goal_met then ''goal met'' else ''goal not met'')))
     \<lparr>lm_tier := L0Raw,
      lm_tags := [''loop'', run_id, ''turn-'' @ show_nat turn, if goal_met then ''goal-met'' else ''goal-unmet''],
      lm_session_id := Some run_id\<rparr>"

definition skill_memory :: "string \<Rightarrow> string \<Rightarrow> nat \<Rightarrow> loop_memory" where
  "skill_memory goal cmd turns =
     (atom (''verified approach for '' @ backticked goal @ '': run '' @ backticked cmd @
        '' (passed in '' @ show_nat turns @ '' turn(s))''))
     \<lparr>lm_tier := L2Scenario, lm_tags := [''skill'', ''verified'']\<rparr>"

definition spec_memory :: "string \<Rightarrow> string option \<Rightarrow> nat \<Rightarrow> loop_memory" where
  "spec_memory goal cmd turns =
     (atom (''sharper spec for future runs: make '' @ backticked goal @
        '' pass without weakening the check; preserve project invariants and use '' @
        backticked (poll_or cmd) @ '' as the previously verified action.''))
     \<lparr>lm_tier := L2Scenario, lm_tags := [''spec'', ''verified''],
      lm_metadata := [(''turns'', show_nat turns)]\<rparr>"

definition store_auto_invariant ::
  "loop_backend \<Rightarrow> string \<Rightarrow> string option \<Rightarrow> failed_check \<Rightarrow> loop_vars \<Rightarrow> loop_vars" where
  "store_auto_invariant b goal cmd failure v =
     (let action = compact_inline (poll_or cmd) LOOP_AUTO_INVARIANT_CHARS;
          inline = compact_inline (fc_output failure) LOOP_AUTO_INVARIANT_CHARS;
          check = (if inline = [] then goal else inline);
          canonical = ''goal='' @ goal @ LF @ ''action='' @ action @ LF @ ''check='' @ check;
          content_hash = stable_content_hash canonical;
          node_id = ''auto-invariant:'' @ content_hash;
          stored = tr_memory (lv_trace v)
      in if lb_get_node b stored node_id then v
         else if (case lb_invariants b stored canonical (LOOP_GOAL_INVARIANT_LIMIT * 3) of
                    Some hits \<Rightarrow> list_ex (\<lambda>(n, h). h = Some content_hash \<or> n = node_id) hits
                  | None \<Rightarrow> False) then v
         else store_memory
           ((atom (''auto-invariant: do not treat '' @ backticked action @ '' as complete until '' @
               backticked goal @ '' passes - it broke '' @ backticked goal @ '' at turn '' @
               show_nat (fc_turn failure) @ '': '' @ check))
            \<lparr>lm_tier := L3Project, lm_tags := [''invariant'', ''auto-invariant''],
             lm_node_id := Some node_id, lm_metadata := [(''content_hash'', content_hash)],
             lm_source := Some ''artesian-loop''\<rparr>) v)"

definition store_learned ::
  "loop_options \<Rightarrow> loop_backend option \<Rightarrow> nat \<Rightarrow> loop_vars \<Rightarrow> loop_vars" where
  "store_learned opts backend turn v =
     (case backend of
        None \<Rightarrow> v
      | Some b \<Rightarrow>
          (if \<not> lo_learn opts then v
           else let v1 = (case lo_worker_cmd opts of
                            Some cmd \<Rightarrow> store_memory (skill_memory (lo_goal opts) cmd turn) v
                          | None \<Rightarrow> v);
                    v2 = store_memory (spec_memory (lo_goal opts) (lo_worker_cmd opts) turn) v1
                in fold (store_auto_invariant b (lo_goal opts) (lo_worker_cmd opts))
                     (lv_corrected_failures v2) v2))"

section \<open>Finishing\<close>

definition error_outcome :: "string \<Rightarrow> string" where
  "error_outcome reason = (if contains ''wall-clock budget'' reason then ''wall-cap'' else ''error'')"

definition finish_loop_early :: "string \<Rightarrow> nat \<Rightarrow> string \<Rightarrow> loop_vars \<Rightarrow> loop_report \<times> loop_vars" where
  "finish_loop_early outcome turns reason v =
     (\<lparr>lr_turns = turns, lr_outcome = outcome, lr_why_stopped = reason, lr_failure_trail = []\<rparr>,
      log_entry (SummaryEntry outcome turns reason) v)"

definition finish_loop_escalation :: "nat \<Rightarrow> loop_vars \<Rightarrow> loop_report \<times> loop_vars" where
  "finish_loop_escalation turns v =
     (let trail = lv_failure_trail v;
          compact = map (\<lambda>a. ''turn '' @ show_nat (ra_turn a) @ '': '' @ ra_reason a) trail;
          why = ''escalated: '' @ show_nat (length trail) @
            '' remediation attempt(s) exhausted; failures: ['' @ join ''; '' compact @ '']''
      in (\<lparr>lr_turns = turns, lr_outcome = ''escalated'', lr_why_stopped = why, lr_failure_trail = trail\<rparr>,
          log_entry (EscalationEntry turns why trail) v))"

section \<open>One turn\<close>

text \<open>A stage either ends the run with a report or goes on.\<close>

datatype 'a stage = Finished "loop_report \<times> loop_vars" | Proceed 'a

definition warn_quota :: "nat \<Rightarrow> quota_event \<Rightarrow> loop_vars \<Rightarrow> loop_vars" where
  "warn_quota turn event v =
     (let key = (qs_agent (qe_status event), qs_window (qe_status event))
      in if key \<in> set (lv_warned v) then v
         else log_entry (QuotaWarning turn event) (v\<lparr>lv_warned := key # lv_warned v\<rparr>))"

text \<open>The checks at the start of a turn, in order: wall clock, stop file, cancellation, quota. A
  checkpoint that cannot be written ends the run with an error (\<open>Inl\<close>).\<close>

definition turn_gate ::
  "loop_options \<Rightarrow> nat \<Rightarrow> turn_input \<Rightarrow> loop_vars \<Rightarrow> string + loop_vars stage" where
  "turn_gate opts turn ti v =
     (case wall_cap_message (ti_elapsed ti) (lo_max_wall opts) (''turn '' @ show_nat turn) of
        Some reason \<Rightarrow> Inr (Finished (finish_loop_early ''wall-cap'' (turn - 1) reason v))
      | None \<Rightarrow>
          (if ti_stop ti
           then Inr (Finished (finish_loop_early ''stopped'' (turn - 1)
                  (''loop stopped by sentinel '' @ lo_stop_file opts) v))
           else if ti_cancel ti
           then Inr (Finished (finish_loop_early ''cancelled'' (turn - 1) ''loop cancelled by client'' v))
           else
             (let events = quota_threshold_events (ti_quota ti) (lo_warn_pct opts) (lo_high_pct opts);
                  v1 = fold (warn_quota turn) events v;
                  checkpoint = (case List.find qe_high events of
                                  Some event \<Rightarrow> Some event
                                | None \<Rightarrow> (if lo_checkpoint_on_quota opts
                                           then (case events of [] \<Rightarrow> None | event # _ \<Rightarrow> Some event)
                                           else None))
              in case checkpoint of
                   None \<Rightarrow> Inr (Proceed v1)
                 | Some event \<Rightarrow>
                     (case ti_checkpoint ti event of
                        Inl err \<Rightarrow> Inl err
                      | Inr (session, task) \<Rightarrow>
                          Inr (Finished (finish_loop_early ''quota-checkpoint'' (turn - 1)
                            (''quota near limit - resume with another agent via '' @
                             backticked ''artesian session resume'' @ ''; checkpoint session='' @
                             session @ '' task='' @ task)
                            (log_entry (QuotaCheckpoint turn event (session, task)) v1)))))))"

definition worker_env ::
  "loop_options \<Rightarrow> nat \<Rightarrow> string \<Rightarrow> string \<Rightarrow> string option \<Rightarrow> (string \<times> string) list" where
  "worker_env opts turn packet recall directive =
     [(''ARTESIAN_PACKET'', packet), (''ARTESIAN_RECALL'', recall), (''ARTESIAN_GOAL'', lo_goal opts),
      (''ARTESIAN_RUN_ID'', lo_run_id opts), (''ARTESIAN_TURN'', show_nat turn)] @
     (case directive of Some d \<Rightarrow> [(''ARTESIAN_LAST_FAILURE'', d)] | None \<Rightarrow> [])"

definition turn_act ::
  "loop_options \<Rightarrow> loop_backend option \<Rightarrow> nat \<Rightarrow> turn_input \<Rightarrow> loop_vars \<Rightarrow> loop_vars stage" where
  "turn_act opts backend turn ti v =
     (let stored = tr_memory (lv_trace v);
          recall = (case backend of Some b \<Rightarrow> loop_recall b stored (lo_goal opts) | None \<Rightarrow> []);
          packet = assemble_goal_packet backend stored (lo_goal opts) (lv_last_check v) recall
      in if lo_poll opts then Proceed v
         else case lo_worker_cmd opts of
           None \<Rightarrow> Proceed v
         | Some cmd \<Rightarrow>
             (let env = worker_env opts turn packet recall (lv_last_failure_reason v);
                  v1 = v\<lparr>lv_trace := (lv_trace v)
                         \<lparr>tr_worker_env := tr_worker_env (lv_trace v) @ [(turn, env)]\<rparr>\<rparr>
              in case ti_worker ti env (remaining_wall_budget (ti_elapsed_worker ti) (lo_max_wall opts)) of
                   WorkerExit _ \<Rightarrow> Proceed v1
                 | WorkerCancelled \<Rightarrow>
                     Finished (finish_loop_early ''cancelled'' (turn - 1) ''cancelled during worker execution'' v1)
                 | WorkerError reason \<Rightarrow>
                     Finished (finish_loop_early (error_outcome reason) (turn - 1) reason v1)))"

text \<open>The em dash of the directive is three bytes.\<close>

definition directive :: "string \<Rightarrow> string" where
  "directive reason =
     ''PREVIOUS ATTEMPT FAILED '' @ [CHR 0xE2, CHR 0x80, CHR 0x94] @ '' fix exactly this:'' @ LF @ reason @ LF"

definition record_failure :: "loop_options \<Rightarrow> nat \<Rightarrow> string \<Rightarrow> loop_vars \<Rightarrow> loop_vars" where
  "record_failure opts turn output v =
     (let n = lv_consecutive_failures v + 1;
          reason = compact_inline output LOOP_FAILURE_TRAIL_REASON_CHARS;
          v1 = v\<lparr>lv_consecutive_failures := n,
                lv_corrected_failures := lv_corrected_failures v @ [\<lparr>fc_turn = turn, fc_output = output\<rparr>],
                lv_failure_trail := lv_failure_trail v @
                  [\<lparr>ra_turn = turn, ra_reason = reason, ra_fix_attempt = lo_worker_cmd opts\<rparr>]\<rparr>;
          v2 = (if n > 1 then log_entry (RemediationEntry turn n reason (lo_worker_cmd opts)) v1 else v1)
      in v2\<lparr>lv_last_check := Some (''turn '' @ show_nat turn @ '': '' @ backticked (lo_goal opts) @
               '' failed'' @ LF @ output),
            lv_last_failure_reason := Some (directive reason)\<rparr>)"

definition turn_settle ::
  "loop_options \<Rightarrow> loop_backend option \<Rightarrow> nat \<Rightarrow> bool \<Rightarrow> string \<Rightarrow> loop_vars \<Rightarrow> loop_vars stage" where
  "turn_settle opts backend turn goal_met output v =
     (let v1 = log_entry (TurnEntry turn (poll_or (lo_worker_cmd opts)) goal_met
                 (compact_inline output LOOP_LAST_CHECK_CHARS)) v;
          v2 = (if goal_met
                then v1\<lparr>lv_consecutive_failures := 0, lv_last_failure_reason := None, lv_last_check := None\<rparr>
                else record_failure opts turn output v1);
          v3 = (case backend of
                  Some _ \<Rightarrow> store_memory (turn_memory (lo_run_id opts) turn (lo_goal opts)
                              (lo_worker_cmd opts) goal_met) v2
                | None \<Rightarrow> v2)
      in if \<not> goal_met \<and> lo_max_remediation opts > 0 \<and> lv_consecutive_failures v3 \<ge> lo_max_remediation opts
         then Finished (finish_loop_escalation turn v3)
         else if goal_met
         then Finished (finish_loop_early ''success'' turn ''goal held'' (store_learned opts backend turn v3))
         else Proceed v3)"

definition turn_verify ::
  "loop_options \<Rightarrow> loop_backend option \<Rightarrow> nat \<Rightarrow> turn_input \<Rightarrow> loop_vars \<Rightarrow> loop_vars stage" where
  "turn_verify opts backend turn ti v =
     (case ti_verify ti (remaining_wall_budget (ti_elapsed_verify ti) (lo_max_wall opts)) of
        VerifyCancelled \<Rightarrow>
          Finished (finish_loop_early ''cancelled'' (turn - 1) ''cancelled during goal verification'' v)
      | VerifyError reason \<Rightarrow> Finished (finish_loop_early (error_outcome reason) (turn - 1) reason v)
      | Verified goal_met output \<Rightarrow> turn_settle opts backend turn goal_met output v)"

definition run_turn ::
  "loop_options \<Rightarrow> loop_backend option \<Rightarrow> nat \<Rightarrow> turn_input \<Rightarrow> loop_vars \<Rightarrow> string + loop_vars stage" where
  "run_turn opts backend turn ti v =
     (case turn_gate opts turn ti v of
        Inl err \<Rightarrow> Inl err
      | Inr (Finished r) \<Rightarrow> Inr (Finished r)
      | Inr (Proceed v1) \<Rightarrow>
          (case turn_act opts backend turn ti v1 of
             Finished r \<Rightarrow> Inr (Finished r)
           | Proceed v2 \<Rightarrow> Inr (turn_verify opts backend turn ti v2)))"

section \<open>The loop\<close>

text \<open>\<open>inputs k\<close> is the input of turn \<open>k\<close>; the first argument counts the turns left.\<close>

fun run_turns ::
  "nat \<Rightarrow> loop_options \<Rightarrow> loop_backend option \<Rightarrow> (nat \<Rightarrow> turn_input) \<Rightarrow> nat \<Rightarrow> loop_vars \<Rightarrow>
     string + loop_report \<times> loop_vars" where
  "run_turns 0 opts backend inputs turn v =
     Inr (finish_loop_early ''max-turns'' (lo_max_turns opts)
       (''loop reached max-turns ('' @ show_nat (lo_max_turns opts) @ '') without the goal holding'') v)"
| "run_turns (Suc n) opts backend inputs turn v =
     (case run_turn opts backend turn (inputs turn) v of
        Inl err \<Rightarrow> Inl err
      | Inr (Finished r) \<Rightarrow> Inr r
      | Inr (Proceed v') \<Rightarrow> run_turns n opts backend inputs (turn + 1) v')"

text \<open>The initial check: two clock readings and the verifier's answer.\<close>

record initial_input =
  ii_elapsed :: nat
  ii_elapsed_verify :: nat
  ii_verify :: "nat option \<Rightarrow> string + bool \<times> string"

definition run_loop_core ::
  "loop_options \<Rightarrow> loop_backend option \<Rightarrow> initial_input \<Rightarrow> (nat \<Rightarrow> turn_input) \<Rightarrow>
     string + loop_report \<times> loop_vars" where
  "run_loop_core opts backend ii inputs =
     (case wall_cap_message (ii_elapsed ii) (lo_max_wall opts) ''initial check'' of
        Some reason \<Rightarrow> Inr (finish_loop_early ''wall-cap'' 0 reason init_vars)
      | None \<Rightarrow>
          (case ii_verify ii (remaining_wall_budget (ii_elapsed_verify ii) (lo_max_wall opts)) of
             Inl reason \<Rightarrow> Inr (finish_loop_early (error_outcome reason) 0 reason init_vars)
           | Inr (goal_met, output) \<Rightarrow>
               (if goal_met then Inr (finish_loop_early ''success'' 0 ''goal already held'' init_vars)
                else run_turns (lo_max_turns opts) opts backend inputs 1 init_vars)))"

end
