(* ===== verification/Loop_Properties.thy ===== *)
theory Loop_Properties
  imports Loop_Core
begin

text \<open>
  Properties of the autonomous loop. \<open>turn_inv\<close> is what holds after \<open>k\<close> turns that all failed; a
  turn either keeps it with one more failure or ends the run with a report that fits one of the
  endings (\<open>ends_well\<close>).
\<close>

section \<open>What a turn changes\<close>

definition env_directive :: "(string \<times> string) list \<Rightarrow> string option" where
  "env_directive env = map_of env ''ARTESIAN_LAST_FAILURE''"

lemma env_directive_worker_env [simp]: "env_directive (worker_env opts turn packet recall d) = d"
  by (simp add: env_directive_def worker_env_def split: option.split)

text \<open>The verifier's answer in turn \<open>k\<close>.\<close>

definition verdict :: "loop_options \<Rightarrow> (nat \<Rightarrow> turn_input) \<Rightarrow> nat \<Rightarrow> verify_answer" where
  "verdict opts inputs k =
     ti_verify (inputs k) (remaining_wall_budget (ti_elapsed_verify (inputs k)) (lo_max_wall opts))"

definition is_end :: "log_entry \<Rightarrow> bool" where
  "is_end x = (case x of SummaryEntry _ _ _ \<Rightarrow> True | EscalationEntry _ _ _ \<Rightarrow> True | _ \<Rightarrow> False)"

definition failure_of :: "loop_options \<Rightarrow> nat \<Rightarrow> string \<Rightarrow> remediation_attempt" where
  "failure_of opts k out =
     \<lparr>ra_turn = k, ra_reason = compact_inline out LOOP_FAILURE_TRAIL_REASON_CHARS,
      ra_fix_attempt = lo_worker_cmd opts\<rparr>"

text \<open>The plain record of a turn, which is kept whether or not the goal held.\<close>

definition turn_record :: "loop_options \<Rightarrow> loop_memory \<Rightarrow> bool" where
  "turn_record opts m \<longleftrightarrow>
     (\<exists>t met. m = turn_memory (lo_run_id opts) t (lo_goal opts) (lo_worker_cmd opts) met)"

definition fresh_or_directive :: "remediation_attempt list \<Rightarrow> nat \<Rightarrow> string option" where
  "fresh_or_directive trail t = (if t = 1 then None else Some (directive (ra_reason (trail ! (t - 2)))))"

definition turn_inv :: "loop_options \<Rightarrow> (nat \<Rightarrow> turn_input) \<Rightarrow> nat \<Rightarrow> loop_vars \<Rightarrow> bool" where
  "turn_inv opts inputs k v \<longleftrightarrow>
     lv_consecutive_failures v = k \<and> length (lv_failure_trail v) = k \<and>
     (\<forall>j < k. \<exists>out. verdict opts inputs (Suc j) = Verified False out \<and>
        lv_failure_trail v ! j = failure_of opts (Suc j) out) \<and>
     lv_last_failure_reason v =
       (if k = 0 then None else Some (directive (ra_reason (lv_failure_trail v ! (k - 1))))) \<and>
     (\<forall>(t, env) \<in> set (tr_worker_env (lv_trace v)). 1 \<le> t \<and> t \<le> k \<and>
        env_directive env = fresh_or_directive (lv_failure_trail v) t) \<and>
     (\<forall>x \<in> set (tr_log (lv_trace v)). \<not> is_end x) \<and>
     (\<forall>m \<in> set (tr_memory (lv_trace v)). turn_record opts m)"

text \<open>The loop variables the later stages read, apart from the trace, are those before the gate.\<close>

definition same_but_log :: "loop_vars \<Rightarrow> loop_vars \<Rightarrow> bool" where
  "same_but_log v v' \<longleftrightarrow>
     lv_consecutive_failures v' = lv_consecutive_failures v \<and>
     lv_failure_trail v' = lv_failure_trail v \<and>
     lv_last_failure_reason v' = lv_last_failure_reason v \<and>
     tr_worker_env (lv_trace v') = tr_worker_env (lv_trace v) \<and>
     tr_memory (lv_trace v') = tr_memory (lv_trace v) \<and>
     (\<exists>extra. tr_log (lv_trace v') = tr_log (lv_trace v) @ extra \<and> (\<forall>x \<in> set extra. \<not> is_end x))"

lemma same_but_log_refl: "same_but_log v v"
  by (simp add: same_but_log_def)

lemma same_but_log_trans: "same_but_log u v \<Longrightarrow> same_but_log v w \<Longrightarrow> same_but_log u w"
  by (fastforce simp: same_but_log_def)

lemma warn_quota_same: "same_but_log v (warn_quota turn event v)"
  by (simp add: warn_quota_def same_but_log_def log_entry_def is_end_def Let_def)

lemma fold_warn_quota_same: "same_but_log v (fold (warn_quota turn) events v)"
proof (induction events arbitrary: v)
  case (Cons e es)
  show ?case using same_but_log_trans [OF warn_quota_same Cons.IH] by simp
qed (simp add: same_but_log_refl)

lemma turn_inv_same: "turn_inv opts inputs k v \<Longrightarrow> same_but_log v v' \<Longrightarrow> turn_inv opts inputs k v'"
  unfolding turn_inv_def same_but_log_def by (elim conjE exE, intro conjI) auto

section \<open>How a run ends\<close>

text \<open>
  A finished run: the report's turns and outcome, its summary as the only end of the log, and what
  was injected into the workers and learned.
\<close>

definition early_outcomes :: "string list" where
  "early_outcomes = [''wall-cap'', ''stopped'', ''cancelled'', ''quota-checkpoint'', ''error'']"

definition log_closed :: "loop_report \<Rightarrow> loop_vars \<Rightarrow> bool" where
  "log_closed rep v \<longleftrightarrow>
     (\<exists>front end. tr_log (lv_trace v) = front @ [end] \<and> (\<forall>x \<in> set front. \<not> is_end x) \<and>
        end = (if lr_outcome rep = ''escalated''
               then EscalationEntry (lr_turns rep) (lr_why_stopped rep) (lr_failure_trail rep)
               else SummaryEntry (lr_outcome rep) (lr_turns rep) (lr_why_stopped rep)))"

definition failed_so_far :: "loop_options \<Rightarrow> (nat \<Rightarrow> turn_input) \<Rightarrow> remediation_attempt list \<Rightarrow> bool" where
  "failed_so_far opts inputs trail \<longleftrightarrow>
     (\<forall>j < length trail. \<exists>out. verdict opts inputs (Suc j) = Verified False out \<and>
        trail ! j = failure_of opts (Suc j) out)"

definition ends_well :: "loop_options \<Rightarrow> (nat \<Rightarrow> turn_input) \<Rightarrow> nat \<Rightarrow> loop_report \<Rightarrow> loop_vars \<Rightarrow> bool" where
  "ends_well opts inputs k rep v \<longleftrightarrow>
     log_closed rep v \<and>
     (lr_outcome rep \<in> set early_outcomes \<and> lr_turns rep = k \<and> lr_failure_trail rep = [] \<or>
      lr_outcome rep = ''success'' \<and> lr_turns rep = Suc k \<and> lr_failure_trail rep = [] \<and>
        (\<exists>out. verdict opts inputs (Suc k) = Verified True out) \<or>
      lr_outcome rep = ''escalated'' \<and> lr_turns rep = Suc k \<and> lo_max_remediation opts = Suc k \<and>
        length (lr_failure_trail rep) = Suc k \<and> failed_so_far opts inputs (lr_failure_trail rep)) \<and>
     failed_so_far opts inputs (lv_failure_trail v) \<and> length (lv_failure_trail v) \<le> Suc k \<and>
     (\<forall>(t, env) \<in> set (tr_worker_env (lv_trace v)). 1 \<le> t \<and> t \<le> Suc k \<and>
        t \<le> Suc (length (lv_failure_trail v)) \<and>
        env_directive env = fresh_or_directive (lv_failure_trail v) t) \<and>
     (lr_outcome rep \<noteq> ''success'' \<longrightarrow> (\<forall>m \<in> set (tr_memory (lv_trace v)). turn_record opts m))"

text \<open>Ending early from a state that satisfies the invariant, possibly with one more worker call.\<close>

lemma finish_early_ends_well:
  assumes inv: "turn_inv opts inputs k v" and o1: "outcome \<in> set early_outcomes"
    and v': "lv_failure_trail v' = lv_failure_trail v" "tr_memory (lv_trace v') = tr_memory (lv_trace v)"
      "\<exists>extra. tr_log (lv_trace v') = tr_log (lv_trace v) @ extra \<and> (\<forall>x \<in> set extra. \<not> is_end x)"
      "\<forall>(t, env) \<in> set (tr_worker_env (lv_trace v')). (t, env) \<in> set (tr_worker_env (lv_trace v)) \<or>
         t = Suc k \<and> env_directive env = lv_last_failure_reason v"
    and r: "finish_loop_early outcome k reason v' = (rep, w)"
  shows "ends_well opts inputs k rep w"
proof -
  from r have rep: "rep = \<lparr>lr_turns = k, lr_outcome = outcome, lr_why_stopped = reason, lr_failure_trail = []\<rparr>"
    and w: "w = log_entry (SummaryEntry outcome k reason) v'" by (simp_all add: finish_loop_early_def)
  have no: "outcome \<noteq> ''escalated''" "outcome \<noteq> ''success''" using o1 by (auto simp: early_outcomes_def)
  have "\<forall>x \<in> set (tr_log (lv_trace v')). \<not> is_end x" using inv v'(3) by (auto simp: turn_inv_def)
  then have "log_closed rep w" using no by (simp add: log_closed_def rep w log_entry_def)
  moreover have "1 \<le> t \<and> t \<le> Suc k \<and> t \<le> Suc (length (lv_failure_trail w)) \<and>
      env_directive env = fresh_or_directive (lv_failure_trail w) t"
    if "(t, env) \<in> set (tr_worker_env (lv_trace w))" for t env
  proof -
    from that v'(4) consider "(t, env) \<in> set (tr_worker_env (lv_trace v))"
      | "t = Suc k" "env_directive env = lv_last_failure_reason v" by (auto simp: w log_entry_def)
    then show ?thesis
    proof cases
      case 1
      with inv show ?thesis by (fastforce simp: turn_inv_def w log_entry_def v')
    next
      case 2
      with inv show ?thesis
        by (cases k) (auto simp: turn_inv_def w log_entry_def v' fresh_or_directive_def)
    qed
  qed
  ultimately show ?thesis
    using inv o1 no by (auto simp: ends_well_def rep w log_entry_def v' turn_inv_def failed_so_far_def)
qed

lemma error_outcome_early: "error_outcome reason \<in> set early_outcomes"
  by (simp add: error_outcome_def early_outcomes_def)

section \<open>The stages of a turn\<close>

lemma gate_ends_well:
  assumes inv: "turn_inv opts inputs k v"
    and g: "turn_gate opts (Suc k) ti v = Inr (Finished (rep, w))"
  shows "ends_well opts inputs k rep w"
proof -
  let ?events = "quota_threshold_events (ti_quota ti) (lo_warn_pct opts) (lo_high_pct opts)"
  let ?v1 = "fold (warn_quota (Suc k)) ?events v"
  note s1 = fold_warn_quota_same [of v "Suc k" ?events, unfolded same_but_log_def]
  have "\<exists>outcome reason v'. finish_loop_early outcome k reason v' = (rep, w) \<and>
      outcome \<in> set early_outcomes \<and>
      (v' = v \<or> (\<exists>e c. v' = log_entry (QuotaCheckpoint (Suc k) e c) ?v1))"
    using g by (force simp: turn_gate_def Let_def early_outcomes_def
        split: option.splits if_splits sum.splits prod.splits list.splits)
  then obtain outcome reason v' where r: "finish_loop_early outcome k reason v' = (rep, w)"
    "outcome \<in> set early_outcomes"
    and v': "v' = v \<or> (\<exists>e c. v' = log_entry (QuotaCheckpoint (Suc k) e c) ?v1)" by blast
  have "lv_failure_trail v' = lv_failure_trail v" "tr_memory (lv_trace v') = tr_memory (lv_trace v)"
    "tr_worker_env (lv_trace v') = tr_worker_env (lv_trace v)"
    using v' s1 by (auto simp: log_entry_def)
  moreover have "\<exists>extra. tr_log (lv_trace v') = tr_log (lv_trace v) @ extra \<and> (\<forall>x \<in> set extra. \<not> is_end x)"
  proof -
    from s1 obtain extra where e: "tr_log (lv_trace ?v1) = tr_log (lv_trace v) @ extra"
      "\<forall>x \<in> set extra. \<not> is_end x" by blast
    from v' show ?thesis
    proof
      assume "\<exists>e c. v' = log_entry (QuotaCheckpoint (Suc k) e c) ?v1"
      then obtain e c where "v' = log_entry (QuotaCheckpoint (Suc k) e c) ?v1" by blast
      with e show ?thesis
        by (intro exI [of _ "extra @ [QuotaCheckpoint (Suc k) e c]"]) (auto simp: log_entry_def is_end_def)
    qed simp
  qed
  ultimately show ?thesis by (intro finish_early_ends_well [OF inv r(2) _ _ _ _ r(1)]) auto
qed

lemma gate_proceeds: "turn_gate opts turn ti v = Inr (Proceed v') \<Longrightarrow> same_but_log v v'"
  by (auto simp: turn_gate_def Let_def fold_warn_quota_same same_but_log_refl
      split: option.splits if_splits sum.splits prod.splits list.splits)

definition acted :: "nat \<Rightarrow> loop_vars \<Rightarrow> loop_vars \<Rightarrow> bool" where
  "acted k v v' \<longleftrightarrow>
     lv_consecutive_failures v' = lv_consecutive_failures v \<and>
     lv_failure_trail v' = lv_failure_trail v \<and>
     tr_memory (lv_trace v') = tr_memory (lv_trace v) \<and> tr_log (lv_trace v') = tr_log (lv_trace v) \<and>
     (\<forall>(t, env) \<in> set (tr_worker_env (lv_trace v')). (t, env) \<in> set (tr_worker_env (lv_trace v)) \<or>
         t = Suc k \<and> env_directive env = lv_last_failure_reason v)"

lemma act_proceeds: "turn_act opts backend (Suc k) ti v = Proceed v' \<Longrightarrow> acted k v v'"
  by (auto simp: turn_act_def acted_def Let_def split: option.splits if_splits worker_answer.splits)

lemma act_ends_well:
  assumes inv: "turn_inv opts inputs k v"
    and a: "turn_act opts backend (Suc k) ti v = Finished (rep, w)"
  shows "ends_well opts inputs k rep w"
proof -
  from a obtain env outcome reason where "finish_loop_early outcome k reason
      (v\<lparr>lv_trace := (lv_trace v)\<lparr>tr_worker_env := tr_worker_env (lv_trace v) @ [(Suc k, env)]\<rparr>\<rparr>) = (rep, w)"
    "outcome \<in> set early_outcomes" "env_directive env = lv_last_failure_reason v"
    by (auto simp: turn_act_def Let_def error_outcome_early
        split: option.splits if_splits worker_answer.splits)
      (auto simp: early_outcomes_def)
  then show ?thesis by (intro finish_early_ends_well [OF inv _ _ _ _ _]) auto
qed

lemma fresh_or_directive_append:
  "1 \<le> t \<Longrightarrow> t \<le> Suc (length trail) \<Longrightarrow> fresh_or_directive (trail @ [a]) t = fresh_or_directive trail t"
  by (auto simp: fresh_or_directive_def nth_append)

lemma acted_env:
  assumes inv: "turn_inv opts inputs k v" and a: "acted k v v'"
    and e: "(t, env) \<in> set (tr_worker_env (lv_trace v'))"
  shows "1 \<le> t" "t \<le> Suc k" "env_directive env = fresh_or_directive (lv_failure_trail v) t"
proof -
  from a e consider "(t, env) \<in> set (tr_worker_env (lv_trace v))"
    | "t = Suc k" "env_directive env = lv_last_failure_reason v" by (auto simp: acted_def)
  then have "1 \<le> t \<and> t \<le> Suc k \<and> env_directive env = fresh_or_directive (lv_failure_trail v) t"
  proof cases
    case 1
    with inv show ?thesis by (fastforce simp: turn_inv_def)
  next
    case 2
    with inv show ?thesis by (cases k) (auto simp: turn_inv_def fresh_or_directive_def)
  qed
  then show "1 \<le> t" "t \<le> Suc k" "env_directive env = fresh_or_directive (lv_failure_trail v) t" by auto
qed

text \<open>A failed verification, before the escalation check.\<close>

lemma record_failure_simps [simp]:
  "lv_consecutive_failures (record_failure opts turn out v) = Suc (lv_consecutive_failures v)"
  "lv_failure_trail (record_failure opts turn out v) = lv_failure_trail v @ [failure_of opts turn out]"
  "lv_last_failure_reason (record_failure opts turn out v) =
     Some (directive (compact_inline out LOOP_FAILURE_TRAIL_REASON_CHARS))"
  "tr_memory (lv_trace (record_failure opts turn out v)) = tr_memory (lv_trace v)"
  "tr_worker_env (lv_trace (record_failure opts turn out v)) = tr_worker_env (lv_trace v)"
  by (simp_all add: record_failure_def Let_def log_entry_def failure_of_def)

lemma record_failure_log:
  "\<exists>extra. tr_log (lv_trace (record_failure opts turn out v)) = tr_log (lv_trace v) @ extra \<and>
     (\<forall>x \<in> set extra. \<not> is_end x)"
  by (simp add: record_failure_def Let_def log_entry_def is_end_def)

text \<open>The state after the verdict, before deciding how to go on.\<close>

lemma settled_state:
  assumes inv: "turn_inv opts inputs k v" and a: "acted k v v'"
    and verdict: "verdict opts inputs (Suc k) = Verified met out"
    and b: "v3 = (case backend of
        Some _ \<Rightarrow> store_memory (turn_memory (lo_run_id opts) (Suc k) (lo_goal opts) (lo_worker_cmd opts) met) v2
      | None \<Rightarrow> v2)"
    and v2: "v2 = (if met
        then (log_entry e v')\<lparr>lv_consecutive_failures := 0, lv_last_failure_reason := None, lv_last_check := None\<rparr>
        else record_failure opts (Suc k) out (log_entry e v'))"
    and e: "\<not> is_end e"
  shows "lv_consecutive_failures v3 = (if met then 0 else Suc k)"
    and "lv_failure_trail v3 = lv_failure_trail v @ (if met then [] else [failure_of opts (Suc k) out])"
    and "lv_last_failure_reason v3 = (if met then None
        else Some (directive (compact_inline out LOOP_FAILURE_TRAIL_REASON_CHARS)))"
    and "failed_so_far opts inputs (lv_failure_trail v3)"
    and "\<forall>x \<in> set (tr_log (lv_trace v3)). \<not> is_end x"
    and "\<forall>m \<in> set (tr_memory (lv_trace v3)). turn_record opts m"
    and "\<forall>(t, env) \<in> set (tr_worker_env (lv_trace v3)). 1 \<le> t \<and> t \<le> Suc k \<and>
        env_directive env = fresh_or_directive (lv_failure_trail v3) t"
proof -
  note i = inv [unfolded turn_inv_def] and a' = a [unfolded acted_def]
  show "lv_consecutive_failures v3 = (if met then 0 else Suc k)"
    and trail: "lv_failure_trail v3 = lv_failure_trail v @ (if met then [] else [failure_of opts (Suc k) out])"
    and "lv_last_failure_reason v3 = (if met then None
        else Some (directive (compact_inline out LOOP_FAILURE_TRAIL_REASON_CHARS)))"
    using i a' by (auto simp: b v2 store_memory_def log_entry_def split: option.split)
  show "failed_so_far opts inputs (lv_failure_trail v3)"
    unfolding failed_so_far_def
  proof (intro allI impI)
    fix j assume j: "j < length (lv_failure_trail v3)"
    show "\<exists>out. verdict opts inputs (Suc j) = Verified False out \<and>
        lv_failure_trail v3 ! j = failure_of opts (Suc j) out"
    proof (cases "j < k")
      case True
      with i trail show ?thesis by (auto simp: nth_append)
    next
      case False
      with j i trail have "j = k" "\<not> met" by (auto split: if_splits)
      with i trail verdict show ?thesis by (auto simp: nth_append)
    qed
  qed
  have "\<exists>extra. tr_log (lv_trace v2) = tr_log (lv_trace (log_entry e v')) @ extra \<and> (\<forall>x \<in> set extra. \<not> is_end x)"
    using record_failure_log [of opts "Suc k" out "log_entry e v'"] by (simp add: v2)
  then obtain extra where extra: "tr_log (lv_trace v2) = tr_log (lv_trace (log_entry e v')) @ extra"
    "\<forall>x \<in> set extra. \<not> is_end x" by blast
  have "tr_log (lv_trace v3) = tr_log (lv_trace v2)" by (simp add: b store_memory_def split: option.split)
  with extra i a' e show "\<forall>x \<in> set (tr_log (lv_trace v3)). \<not> is_end x"
    by (auto simp: log_entry_def)
  have "tr_memory (lv_trace v2) = tr_memory (lv_trace v)" using a' by (simp add: v2 log_entry_def)
  with i show "\<forall>m \<in> set (tr_memory (lv_trace v3)). turn_record opts m"
    by (auto simp: b store_memory_def turn_record_def split: option.split)
  have env: "tr_worker_env (lv_trace v3) = tr_worker_env (lv_trace v')"
    by (simp add: b v2 store_memory_def log_entry_def split: option.split)
  have len: "length (lv_failure_trail v) = k" using i by simp
  show "\<forall>(t, env) \<in> set (tr_worker_env (lv_trace v3)). 1 \<le> t \<and> t \<le> Suc k \<and>
        env_directive env = fresh_or_directive (lv_failure_trail v3) t"
  proof clarify
    fix t en assume "(t, en) \<in> set (tr_worker_env (lv_trace v3))"
    with env have "(t, en) \<in> set (tr_worker_env (lv_trace v'))" by simp
    from acted_env [OF inv a this] len trail fresh_or_directive_append [of t "lv_failure_trail v"]
    show "1 \<le> t \<and> t \<le> Suc k \<and> env_directive en = fresh_or_directive (lv_failure_trail v3) t" by auto
  qed
qed

lemma learned_keeps:
  "lv_failure_trail (store_learned opts backend turn v) = lv_failure_trail v \<and>
   tr_log (lv_trace (store_learned opts backend turn v)) = tr_log (lv_trace v) \<and>
   tr_worker_env (lv_trace (store_learned opts backend turn v)) = tr_worker_env (lv_trace v)"
proof -
  have one: "lv_failure_trail (store_auto_invariant b goal cmd f u) = lv_failure_trail u \<and>
      tr_log (lv_trace (store_auto_invariant b goal cmd f u)) = tr_log (lv_trace u) \<and>
      tr_worker_env (lv_trace (store_auto_invariant b goal cmd f u)) = tr_worker_env (lv_trace u)"
    for b goal cmd f u by (simp add: store_auto_invariant_def Let_def store_memory_def)
  have all: "lv_failure_trail (fold (store_auto_invariant b goal cmd) fs u) = lv_failure_trail u \<and>
      tr_log (lv_trace (fold (store_auto_invariant b goal cmd) fs u)) = tr_log (lv_trace u) \<and>
      tr_worker_env (lv_trace (fold (store_auto_invariant b goal cmd) fs u)) = tr_worker_env (lv_trace u)"
    for b goal cmd fs u by (induction fs arbitrary: u) (simp_all add: one)
  show ?thesis by (simp add: store_learned_def Let_def all store_memory_def split: option.split)
qed

lemma verify_stage:
  assumes inv: "turn_inv opts inputs k v" and a: "acted k v v'"
    and bound: "lo_max_remediation opts > 0 \<longrightarrow> k < lo_max_remediation opts"
    and st: "turn_verify opts backend (Suc k) (inputs (Suc k)) v' = st"
  shows "case st of
      Finished (rep, w) \<Rightarrow> ends_well opts inputs k rep w
    | Proceed w \<Rightarrow> turn_inv opts inputs (Suc k) w \<and> (lo_max_remediation opts > 0 \<longrightarrow> Suc k < lo_max_remediation opts)"
proof (cases "verdict opts inputs (Suc k)")
  case (Verified met out)
  define e where "e = TurnEntry (Suc k) (poll_or (lo_worker_cmd opts)) met (compact_inline out LOOP_LAST_CHECK_CHARS)"
  define v2 where "v2 = (if met
        then (log_entry e v')\<lparr>lv_consecutive_failures := 0, lv_last_failure_reason := None, lv_last_check := None\<rparr>
        else record_failure opts (Suc k) out (log_entry e v'))"
  define v3 where "v3 = (case backend of
        Some _ \<Rightarrow> store_memory (turn_memory (lo_run_id opts) (Suc k) (lo_goal opts) (lo_worker_cmd opts) met) v2
      | None \<Rightarrow> v2)"
  note s = settled_state [OF inv a Verified v3_def v2_def, unfolded e_def is_end_def, simplified]
  have len: "length (lv_failure_trail v) = k" using inv by (simp add: turn_inv_def)
  have st': "turn_settle opts backend (Suc k) met out v' = (if \<not> met \<and> lo_max_remediation opts > 0 \<and> lv_consecutive_failures v3 \<ge> lo_max_remediation opts
         then Finished (finish_loop_escalation (Suc k) v3)
         else if met
         then Finished (finish_loop_early ''success'' (Suc k) ''goal held'' (store_learned opts backend (Suc k) v3))
         else Proceed v3)"
    unfolding turn_settle_def Let_def v3_def v2_def e_def by (rule refl)
  have st: "st = turn_settle opts backend (Suc k) met out v'"
    using st Verified by (simp add: turn_verify_def verdict_def)
  have ends: "\<not> is_end x" if "x \<in> set (tr_log (lv_trace v3))" for x
    using s(5) that by (auto simp: is_end_def)
  show ?thesis
  proof (cases met)
    case True
    define w where "w = log_entry (SummaryEntry ''success'' (Suc k) ''goal held'') (store_learned opts backend (Suc k) v3)"
    have st: "st = Finished (\<lparr>lr_turns = Suc k, lr_outcome = ''success'', lr_why_stopped = ''goal held'',
        lr_failure_trail = []\<rparr>, w)"
      using st st' True by (simp add: finish_loop_early_def w_def)
    have w: "lv_failure_trail w = lv_failure_trail v3" "tr_worker_env (lv_trace w) = tr_worker_env (lv_trace v3)"
      "tr_log (lv_trace w) = tr_log (lv_trace v3) @ [SummaryEntry ''success'' (Suc k) ''goal held'']"
      using learned_keeps [of opts backend "Suc k" v3] by (simp_all add: w_def log_entry_def)
    show ?thesis using True s(2,4,7) len ends Verified
      by (auto simp: st ends_well_def log_closed_def w)
  next
    case False
    show ?thesis
    proof (cases "lo_max_remediation opts > 0 \<and> lo_max_remediation opts \<le> Suc k")
      case True
      obtain rep w where fin: "finish_loop_escalation (Suc k) v3 = (rep, w)" by fastforce
      then have rep: "lr_turns rep = Suc k" "lr_outcome rep = ''escalated''" "lr_failure_trail rep = lv_failure_trail v3"
        and w: "w = log_entry (EscalationEntry (Suc k) (lr_why_stopped rep) (lv_failure_trail v3)) v3"
        by (auto simp: finish_loop_escalation_def Let_def)
      have "st = Finished (rep, w)" using st st' False True s(1) fin by simp
      moreover have "lo_max_remediation opts = Suc k" using True bound by simp
      ultimately show ?thesis using False s(2,4,6,7) len ends rep
        by (auto simp: ends_well_def log_closed_def w log_entry_def)
    next
      case no: False
      then have "st = Proceed v3" using st st' False s(1) by auto
      moreover have "turn_inv opts inputs (Suc k) v3"
        using False s len ends by (auto simp: turn_inv_def failed_so_far_def nth_append failure_of_def)
      ultimately show ?thesis using no by auto
    qed
  qed
next
  case (VerifyError reason)
  then have "st = Finished (finish_loop_early (error_outcome reason) k reason v')"
    using st by (simp add: turn_verify_def verdict_def)
  then show ?thesis using a
    by (auto intro!: finish_early_ends_well [OF inv error_outcome_early] simp: acted_def finish_loop_early_def)
next
  case VerifyCancelled
  then have "st = Finished (finish_loop_early ''cancelled'' k ''cancelled during goal verification'' v')"
    using st by (simp add: turn_verify_def verdict_def)
  then show ?thesis using a
    by (auto intro!: finish_early_ends_well [OF inv, of "''cancelled''"] simp: acted_def finish_loop_early_def early_outcomes_def)
qed

section \<open>The run\<close>

definition ran_out :: "loop_options \<Rightarrow> (nat \<Rightarrow> turn_input) \<Rightarrow> loop_report \<Rightarrow> loop_vars \<Rightarrow> bool" where
  "ran_out opts inputs rep w \<longleftrightarrow>
     lr_outcome rep = ''max-turns'' \<and> lr_turns rep = lo_max_turns opts \<and> lr_failure_trail rep = [] \<and>
     log_closed rep w \<and>
     (\<exists>v. turn_inv opts inputs (lo_max_turns opts) v \<and> lv_failure_trail w = lv_failure_trail v \<and>
        tr_memory (lv_trace w) = tr_memory (lv_trace v) \<and>
        tr_worker_env (lv_trace w) = tr_worker_env (lv_trace v))"

lemma run_turns_end:
  "\<lbrakk>turn_inv opts inputs k v; lo_max_remediation opts > 0 \<longrightarrow> k < lo_max_remediation opts;
    n + k = lo_max_turns opts; run_turns n opts backend inputs (Suc k) v = Inr (rep, w)\<rbrakk> \<Longrightarrow>
   (\<exists>j. k \<le> j \<and> j < lo_max_turns opts \<and>
      (lo_max_remediation opts > 0 \<longrightarrow> j < lo_max_remediation opts) \<and> ends_well opts inputs j rep w) \<or>
   ran_out opts inputs rep w \<and> (lo_max_remediation opts > 0 \<longrightarrow> lo_max_turns opts < lo_max_remediation opts)"
proof (induction n arbitrary: k v)
  case 0
  have "\<forall>x \<in> set (tr_log (lv_trace v)). \<not> is_end x" using 0(1) by (simp add: turn_inv_def)
  with 0 show ?case
    by (auto simp: ran_out_def finish_loop_early_def log_closed_def log_entry_def intro!: exI [of _ v])
next
  case (Suc n)
  from Suc.prems(4) obtain st where st: "run_turn opts backend (Suc k) (inputs (Suc k)) v = Inr st"
    by (auto split: sum.splits)
  have k: "k < lo_max_turns opts" using Suc.prems(3) by simp
  note inv = Suc.prems(1)
  from st obtain g where g: "turn_gate opts (Suc k) (inputs (Suc k)) v = Inr g"
    by (auto simp: run_turn_def split: sum.splits)
  show ?case
  proof (cases g)
    case (Finished r)
    with st g Suc.prems(4) have "turn_gate opts (Suc k) (inputs (Suc k)) v = Inr (Finished (rep, w))"
      by (auto simp: run_turn_def)
    from gate_ends_well [OF inv this] k Suc.prems(2) show ?thesis by auto
  next
    case (Proceed v1)
    with g have inv1: "turn_inv opts inputs k v1" using turn_inv_same [OF inv gate_proceeds] by simp
    show ?thesis
    proof (cases "turn_act opts backend (Suc k) (inputs (Suc k)) v1")
      case (Finished r)
      with st g Proceed Suc.prems(4) have "turn_act opts backend (Suc k) (inputs (Suc k)) v1 = Finished (rep, w)"
        by (auto simp: run_turn_def)
      from act_ends_well [OF inv1 this] k Suc.prems(2) show ?thesis by auto
    next
      case (Proceed v2)
      let ?st = "turn_verify opts backend (Suc k) (inputs (Suc k)) v2"
      have run: "run_turn opts backend (Suc k) (inputs (Suc k)) v = Inr ?st"
        using g \<open>g = Proceed v1\<close> Proceed by (simp add: run_turn_def)
      note v = verify_stage [OF inv1 act_proceeds [OF Proceed] Suc.prems(2), of backend, OF refl]
      show ?thesis
      proof (cases ?st)
        case (Finished r)
        with run Suc.prems(4) have "r = (rep, w)" by simp
        with v Finished k Suc.prems(2) show ?thesis by auto
      next
        case (Proceed v3)
        with v have inv3: "turn_inv opts inputs (Suc k) v3"
          "lo_max_remediation opts > 0 \<longrightarrow> Suc k < lo_max_remediation opts" by simp_all
        have "run_turns n opts backend inputs (Suc (Suc k)) v3 = Inr (rep, w)"
          using run Proceed Suc.prems(4) by simp
        from Suc.IH [OF inv3 _ this] Suc.prems(3) show ?thesis
          by (auto intro: Suc_leD)
      qed
    qed
  qed
qed

lemma init_turn_inv: "turn_inv opts inputs 0 init_vars"
  by (simp add: turn_inv_def init_vars_def)

lemma init_ends:
  "run_loop_core opts backend ii inputs = Inr (rep, w) \<Longrightarrow>
   (lr_turns rep = 0 \<and> lr_failure_trail rep = [] \<and> log_closed rep w \<and> tr_worker_env (lv_trace w) = [] \<and>
      tr_memory (lv_trace w) = [] \<and>
      (lr_outcome rep \<in> set early_outcomes \<or> lr_outcome rep = ''success'' \<and>
         (\<exists>out. ii_verify ii (remaining_wall_budget (ii_elapsed_verify ii) (lo_max_wall opts)) = Inr (True, out)))) \<or>
   run_turns (lo_max_turns opts) opts backend inputs 1 init_vars = Inr (rep, w)"
  by (auto simp: run_loop_core_def finish_loop_early_def init_vars_def log_closed_def log_entry_def
      error_outcome_def early_outcomes_def split: option.splits sum.splits if_splits prod.splits)

lemma loop_cases:
  assumes "run_loop_core opts backend ii inputs = Inr (rep, w)"
  obtains (initial) "lr_turns rep = 0" "lr_failure_trail rep = []" "log_closed rep w"
      "tr_worker_env (lv_trace w) = []" "tr_memory (lv_trace w) = []"
      "lr_outcome rep \<in> set early_outcomes \<or> lr_outcome rep = ''success'' \<and>
         (\<exists>out. ii_verify ii (remaining_wall_budget (ii_elapsed_verify ii) (lo_max_wall opts)) = Inr (True, out))"
    | (turn) j where "j < lo_max_turns opts" "lo_max_remediation opts > 0 \<longrightarrow> j < lo_max_remediation opts"
      "ends_well opts inputs j rep w"
    | (max_turns) "ran_out opts inputs rep w"
      "lo_max_remediation opts > 0 \<longrightarrow> lo_max_turns opts \<le> lo_max_remediation opts"
proof -
  from init_ends [OF assms] show ?thesis
  proof
    assume run: "run_turns (lo_max_turns opts) opts backend inputs 1 init_vars = Inr (rep, w)"
    have "lo_max_remediation opts > 0 \<longrightarrow> 0 < lo_max_remediation opts" by simp
    from run_turns_end [OF init_turn_inv this, of "lo_max_turns opts" backend inputs rep w] run
    show ?thesis by (auto intro: turn max_turns)
  qed (auto intro: initial)
qed

section \<open>Running it\<close>

definition demo_opts :: "bool \<Rightarrow> nat \<Rightarrow> loop_options" where
  "demo_opts poll remediation =
     \<lparr>lo_goal = ''cargo test'', lo_worker_cmd = (if poll then None else Some ''fix''), lo_max_turns = 10,
      lo_max_wall = None, lo_poll = poll, lo_learn = True, lo_run_id = ''loop-1'',
      lo_stop_file = ''STOP'', lo_max_remediation = remediation, lo_warn_pct = 80, lo_high_pct = 95,
      lo_checkpoint_on_quota = False\<rparr>"

text \<open>A goal that holds from turn 4 on.\<close>

definition demo_input :: "nat \<Rightarrow> turn_input" where
  "demo_input k =
     \<lparr>ti_elapsed = 0, ti_elapsed_worker = 0, ti_elapsed_verify = 0, ti_stop = False, ti_cancel = False,
      ti_quota = [], ti_checkpoint = (\<lambda>e. Inl ''none''), ti_worker = (\<lambda>env b. WorkerExit True),
      ti_verify = (\<lambda>b. Verified (4 \<le> k) ''2 tests failed'')\<rparr>"

definition demo_initial :: initial_input where
  "demo_initial = \<lparr>ii_elapsed = 0, ii_elapsed_verify = 0, ii_verify = (\<lambda>b. Inr (False, ''red''))\<rparr>"

definition outcome_of :: "string + loop_report \<times> loop_vars \<Rightarrow> (string \<times> nat) option" where
  "outcome_of r = (case r of Inl _ \<Rightarrow> None | Inr (rep, w) \<Rightarrow> Some (lr_outcome rep, lr_turns rep))"

lemma demo_runs:
  obtains rep w where "run_loop_core (demo_opts False 3) None demo_initial demo_input = Inr (rep, w)"
    "lr_outcome rep = ''escalated''"
proof -
  have "outcome_of (run_loop_core (demo_opts False 3) None demo_initial demo_input) = Some (''escalated'', 3)"
    by code_simp
  then show ?thesis using that by (auto simp: outcome_of_def split: sum.splits)
qed

lemma demo_success:
  obtains rep w where "run_loop_core (demo_opts False 0) None demo_initial demo_input = Inr (rep, w)"
    "lr_outcome rep = ''success''" "lr_turns rep = 4"
proof -
  have "outcome_of (run_loop_core (demo_opts False 0) None demo_initial demo_input) = Some (''success'', 4)"
    by code_simp
  then show ?thesis using that by (auto simp: outcome_of_def split: sum.splits)
qed

lemma demo_worker_turns:
  obtains rep w env where "run_loop_core (demo_opts False 0) None demo_initial demo_input = Inr (rep, w)"
    "(2, env) \<in> set (tr_worker_env (lv_trace w))"
proof -
  have "(case run_loop_core (demo_opts False 0) None demo_initial demo_input of
      Inl _ \<Rightarrow> [] | Inr (rep, w) \<Rightarrow> map fst (tr_worker_env (lv_trace w))) = [1, 2, 3, 4]"
    by code_simp
  moreover obtain rep w where run: "run_loop_core (demo_opts False 0) None demo_initial demo_input = Inr (rep, w)"
    by (rule demo_success)
  ultimately have "2 \<in> fst ` set (tr_worker_env (lv_trace w))"
    using image_set [of fst "tr_worker_env (lv_trace w)"] by simp
  with run that show ?thesis by fastforce
qed

section \<open>Properties\<close>

text \<open>C29: The loop is bounded and always accounts for itself: it stops after at most \<open>max_turns\<close> turns
  and, when the remediation budget is not zero, after at most that many; and its run log ends
  with the one summary of the run, which carries the report's outcome, turns and reason.\<close>

theorem loop_is_bounded:
  assumes "run_loop_core opts backend ii inputs = Inr (rep, w)"
  shows "lr_turns rep \<le> lo_max_turns opts \<and>
    (lo_max_remediation opts > 0 \<longrightarrow> lr_turns rep \<le> lo_max_remediation opts) \<and> log_closed rep w"
  using assms by (cases rule: loop_cases) (auto simp: ends_well_def ran_out_def)

theorem loop_is_bounded_witness:
  "\<exists>rep w. run_loop_core (demo_opts False 3) None demo_initial demo_input = Inr (rep, w) \<and>
     lr_turns rep \<le> 3 \<and> log_closed rep w"
proof -
  obtain rep w where run: "run_loop_core (demo_opts False 3) None demo_initial demo_input = Inr (rep, w)"
    by (rule demo_runs)
  from loop_is_bounded [OF run] run show ?thesis by (auto simp: demo_opts_def)
qed

text \<open>C30: The loop reports success only on the verifier's word: either the initial check passed and no
  turn ran, or the verifier passed in the very turn that is reported last. Without success
  nothing is learned: memory holds only the plain records of turns.\<close>

theorem loop_success_is_verified:
  assumes "run_loop_core opts backend ii inputs = Inr (rep, w)"
  shows "(lr_outcome rep = ''success'' \<longrightarrow>
     lr_turns rep = 0 \<and>
       (\<exists>out. ii_verify ii (remaining_wall_budget (ii_elapsed_verify ii) (lo_max_wall opts)) = Inr (True, out)) \<or>
     1 \<le> lr_turns rep \<and> lr_turns rep \<le> lo_max_turns opts \<and>
       (\<exists>out. verdict opts inputs (lr_turns rep) = Verified True out)) \<and>
   (lr_outcome rep \<noteq> ''success'' \<longrightarrow> (\<forall>m \<in> set (tr_memory (lv_trace w)). turn_record opts m))"
  using assms
proof (cases rule: loop_cases)
  case (turn j)
  then show ?thesis by (auto simp: ends_well_def early_outcomes_def)
next
  case max_turns
  then show ?thesis by (auto simp: ran_out_def turn_inv_def)
qed (auto simp: early_outcomes_def)

theorem loop_success_is_verified_witness:
  "\<exists>rep w out. run_loop_core (demo_opts False 0) None demo_initial demo_input = Inr (rep, w) \<and>
     lr_turns rep = 4 \<and> verdict (demo_opts False 0) demo_input 4 = Verified True out"
proof -
  obtain rep w where run: "run_loop_core (demo_opts False 0) None demo_initial demo_input = Inr (rep, w)"
    "lr_outcome rep = ''success''" "lr_turns rep = 4" by (rule demo_success)
  from loop_success_is_verified [OF run(1)] run show ?thesis by auto
qed

text \<open>The loop escalates exactly at its remediation budget: the report's trail then lists every
  turn in order, each with the verifier's output of that turn (compacted) and the worker command,
  and every one of those verifications failed.\<close>

theorem escalation_carries_every_failure:
  assumes "run_loop_core opts backend ii inputs = Inr (rep, w)" and "lr_outcome rep = ''escalated''"
  shows "0 < lo_max_remediation opts \<and> lr_turns rep = lo_max_remediation opts \<and>
    length (lr_failure_trail rep) = lo_max_remediation opts \<and>
    (\<forall>j < lo_max_remediation opts. \<exists>out. verdict opts inputs (Suc j) = Verified False out \<and>
       lr_failure_trail rep ! j = failure_of opts (Suc j) out)"
  using assms(1)
proof (cases rule: loop_cases)
  case (turn j)
  with assms(2) show ?thesis by (auto simp: ends_well_def early_outcomes_def failed_so_far_def)
qed (use assms(2) in \<open>auto simp: early_outcomes_def ran_out_def\<close>)

theorem escalation_carries_every_failure_witness:
  "\<exists>rep w. run_loop_core (demo_opts False 3) None demo_initial demo_input = Inr (rep, w) \<and>
     length (lr_failure_trail rep) = 3"
proof -
  obtain rep w where run: "run_loop_core (demo_opts False 3) None demo_initial demo_input = Inr (rep, w)"
    "lr_outcome rep = ''escalated''" by (rule demo_runs)
  from escalation_carries_every_failure [OF run] run(1) show ?thesis by (auto simp: demo_opts_def)
qed

text \<open>Retries are informed. In every run the worker of turn 1 gets no \<open>ARTESIAN_LAST_FAILURE\<close>, and the
  worker of a later turn gets the directive made from what the verifier said in the turn just
  before.\<close>

theorem retries_are_informed:
  assumes "run_loop_core opts backend ii inputs = Inr (rep, w)"
    and "(t, env) \<in> set (tr_worker_env (lv_trace w))"
  shows "(t = 1 \<and> env_directive env = None) \<or>
    (t > 1 \<and> (\<exists>out. verdict opts inputs (t - 1) = Verified False out \<and>
       env_directive env = Some (directive (compact_inline out LOOP_FAILURE_TRAIL_REASON_CHARS))))"
proof -
  have key: ?thesis
    if f: "failed_so_far opts inputs trail" and t: "1 \<le> t" "t \<le> Suc (length trail)"
      and d: "env_directive env = fresh_or_directive trail t" for trail
  proof (cases "t = 1")
    case False
    with t have "t - 2 < length trail" "Suc (t - 2) = t - 1" by auto
    with f obtain out where "verdict opts inputs (t - 1) = Verified False out"
      "trail ! (t - 2) = failure_of opts (t - 1) out" unfolding failed_so_far_def by metis
    with d t False show ?thesis by (auto simp: fresh_or_directive_def failure_of_def)
  qed (use d in \<open>simp add: fresh_or_directive_def\<close>)
  from assms(1) show ?thesis
  proof (cases rule: loop_cases)
    case (turn j)
    have f: "failed_so_far opts inputs (lv_failure_trail w)"
      using turn(3) unfolding ends_well_def by (elim conjE)
    have all: "\<forall>(t, env) \<in> set (tr_worker_env (lv_trace w)). 1 \<le> t \<and> t \<le> Suc j \<and>
        t \<le> Suc (length (lv_failure_trail w)) \<and>
        env_directive env = fresh_or_directive (lv_failure_trail w) t"
      using turn(3) unfolding ends_well_def by (elim conjE)
    from bspec [OF all assms(2)] show ?thesis by (intro key [OF f]) simp_all
  next
    case max_turns
    then obtain v where v: "turn_inv opts inputs (lo_max_turns opts) v"
      "(t, env) \<in> set (tr_worker_env (lv_trace v))" using assms(2) unfolding ran_out_def by metis
    have f: "failed_so_far opts inputs (lv_failure_trail v)"
      and l: "length (lv_failure_trail v) = lo_max_turns opts"
      using v(1) by (simp_all add: turn_inv_def failed_so_far_def)
    have all: "\<forall>(t, env) \<in> set (tr_worker_env (lv_trace v)). 1 \<le> t \<and> t \<le> lo_max_turns opts \<and>
        env_directive env = fresh_or_directive (lv_failure_trail v) t"
      using v(1) unfolding turn_inv_def by (elim conjE)
    from bspec [OF all v(2)] l show ?thesis by (intro key [OF f]) simp_all
  qed (use assms(2) in simp)
qed

theorem retries_are_informed_witness:
  "\<exists>rep w env d. run_loop_core (demo_opts False 0) None demo_initial demo_input = Inr (rep, w) \<and>
     (2, env) \<in> set (tr_worker_env (lv_trace w)) \<and> env_directive env = Some d"
proof -
  obtain rep w env where run: "run_loop_core (demo_opts False 0) None demo_initial demo_input = Inr (rep, w)"
    "(2, env) \<in> set (tr_worker_env (lv_trace w))" by (rule demo_worker_turns)
  from retries_are_informed [OF run] run show ?thesis by auto
qed

text \<open>With the default remediation budget of three, the loop never uses a turn after the third
  whatever \<open>max_turns\<close> says, and this includes poll mode, where nothing is remediated: polling for
  a goal that comes true at the fourth check is given up after three, while with escalation
  disabled the same poll succeeds in turn four.\<close>

theorem polling_gives_up_after_three_checks:
  "outcome_of (run_loop_core (demo_opts True LOOP_REMEDIATION_ATTEMPTS_DEFAULT) None demo_initial demo_input) =
     Some (''escalated'', 3) \<and>
   outcome_of (run_loop_core (demo_opts True 0) None demo_initial demo_input) = Some (''success'', 4)"
  by code_simp

end
