(* ===== verification/Receipts.thy ===== *)
theory Receipts
  imports Lanes Core_Types
begin

text \<open>
  Spawn and return receipts of \<open>crates/flume/src/receipts.rs\<close>: budgets and the fail-closed
  admission check, run labels and task boundaries, and the receipt writer with its id sequence.

  The world of the writer is the file contents by path and, in each process, the registry of
  sequence counters by path. Cost in dollars (\<open>f64\<close>) and free-form JSON are type parameters: no
  modelled code computes with them. A serialised receipt is one line of text, given by the caller.
\<close>

section \<open>Budgets and records\<close>

datatype stop_reason =
  StopDone | BudgetTokens | BudgetToolCalls | BudgetTime | BudgetCost | GateRejected | StopError | Killed

record 'c budget_envelope =
  be_max_tokens :: "u64 option"
  be_max_tool_calls :: "u64 option"
  be_max_wall_time_ms :: "u64 option"
  be_max_cost_usd :: "'c option"

definition empty_budget :: "'c budget_envelope" where
  "empty_budget =
     \<lparr>be_max_tokens = None, be_max_tool_calls = None, be_max_wall_time_ms = None, be_max_cost_usd = None\<rparr>"

definition budget_is_empty :: "'c budget_envelope \<Rightarrow> bool" where
  "budget_is_empty b \<longleftrightarrow>
     be_max_tokens b = None \<and> be_max_tool_calls b = None \<and>
     be_max_wall_time_ms b = None \<and> be_max_cost_usd b = None"

definition budget_of_lane :: "lane_budget \<Rightarrow> 'c budget_envelope" where
  "budget_of_lane b =
     \<lparr>be_max_tokens = token_cap b, be_max_tool_calls = map_option (\<lambda>t. ucast t) (max_turns b),
      be_max_wall_time_ms = None, be_max_cost_usd = None\<rparr>"

record 'c consumed =
  co_tokens :: "u64 option"
  co_tool_calls :: "u64 option"
  co_wall_time_ms :: "u64 option"
  co_cost_usd :: "'c option"

record distilled =
  di_tokens :: "u64 option"
  di_reference :: "string option"

record gate_decision =
  gd_admitted :: bool
  gd_reason :: "string option"

record ('c, 'j) spawn_receipt =
  sp_kind :: string
  sp_receipt_id :: string
  sp_ts :: timestamp
  sp_parent :: string
  sp_role :: "string option"
  sp_harness :: "string option"
  sp_model :: "string option"
  sp_task_boundary :: string
  sp_budget :: "'c budget_envelope"
  sp_tool_allowlist :: "string list"
  sp_schema_hash :: "string option"
  sp_extra :: 'j

record ('c, 'j) return_receipt =
  re_kind :: string
  re_receipt_id :: string
  re_ts :: timestamp
  re_spawn_ref :: string
  re_stop_reason :: stop_reason
  re_consumed :: "'c consumed"
  re_distilled :: "distilled option"
  re_trace_ref :: "string option"
  re_gate :: "gate_decision option"
  re_extra :: 'j

definition RECEIPT_TASK_BOUNDARY_CHARS :: nat where
  "RECEIPT_TASK_BOUNDARY_CHARS = 200"

definition task_boundary_from_instruction :: "string \<Rightarrow> string" where
  "task_boundary_from_instruction instruction =
     take_chars RECEIPT_TASK_BOUNDARY_CHARS
       (trim (case lines instruction of [] \<Rightarrow> [] | l # _ \<Rightarrow> l))"

record 'c receipts_config =
  rc_fail_closed :: bool
  rc_default_budget :: "'c budget_envelope option"
  rc_fsync :: bool

definition truthy :: "string option \<Rightarrow> bool" where
  "truthy value =
     (case value of
        None \<Rightarrow> False
      | Some v \<Rightarrow> to_ascii_lowercase (trim v) \<in> set [''1'', ''true'', ''yes'', ''on''])"

definition receipts_config_from_env :: "string option \<Rightarrow> 'c receipts_config" where
  "receipts_config_from_env v = \<lparr>rc_fail_closed = truthy v, rc_default_budget = None, rc_fsync = False\<rparr>"

definition check_admission :: "'c budget_envelope \<Rightarrow> bool \<Rightarrow> string + unit" where
  "check_admission b fail_closed =
     (if fail_closed \<and> budget_is_empty b
      then Inl (''no budget dimension declared in any of budget/max_tokens/max_tool_calls/'' @
                ''max_wall_time_ms/max_cost_usd, and receipts.fail_closed is enabled'')
      else Inr ())"

text \<open>The explicit budget, else the configured default, else none; a missing wall-time limit comes from
  the binding's timeout in seconds (a saturating product).\<close>

definition saturating_mul :: "u64 \<Rightarrow> u64 \<Rightarrow> u64" where
  "saturating_mul a b = of_nat (min (unat a * unat b) (2 ^ 64 - 1))"

definition resolve_receipt_budget ::
  "'c budget_envelope option \<Rightarrow> u64 option \<Rightarrow> 'c receipts_config \<Rightarrow> 'c budget_envelope" where
  "resolve_receipt_budget declared timeout_seconds cfg =
     (let b = (case declared of
                 Some b \<Rightarrow> b
               | None \<Rightarrow> (case rc_default_budget cfg of Some b \<Rightarrow> b | None \<Rightarrow> empty_budget))
      in if be_max_wall_time_ms b = None
         then b\<lparr>be_max_wall_time_ms := map_option (\<lambda>s. saturating_mul s 1000) timeout_seconds\<rparr>
         else b)"

definition classify_stop_reason :: "string \<Rightarrow> stop_reason" where
  "classify_stop_reason msg = (if contains ''timed out'' msg then BudgetTime else StopError)"

section \<open>The writer\<close>

text \<open>A character that is not ASCII becomes one dash: its continuation bytes vanish.\<close>

definition sanitize_run_label :: "string \<Rightarrow> string" where
  "sanitize_run_label run =
     (let cleaned = trim_dashes (map (\<lambda>c.
            if is_ascii_alphanumeric c \<or> c = CHR ''-'' \<or> c = CHR ''_'' then c else CHR ''-'')
            (filter (\<lambda>c. \<not> utf8_cont c) run))
      in if cleaned = [] then ''adhoc'' else cleaned)"

record receipts_world =
  rw_files :: "string \<Rightarrow> string list option"  \<comment> \<open>lines by path\<close>
  rw_seq :: "string \<Rightarrow> u64 option"  \<comment> \<open>this process's registry\<close>

record receipt_writer =
  wr_path :: string
  wr_run :: string
  wr_fsync :: bool

definition count_existing_lines :: "string list option \<Rightarrow> u64" where
  "count_existing_lines contents =
     (case contents of
        None \<Rightarrow> 0
      | Some ls \<Rightarrow> of_nat (length (filter (\<lambda>l. trim l \<noteq> []) ls)))"

definition shared_state :: "string \<Rightarrow> receipts_world \<Rightarrow> receipts_world" where
  "shared_state path w =
     (case rw_seq w path of
        Some _ \<Rightarrow> w
      | None \<Rightarrow> w\<lparr>rw_seq := (rw_seq w)(path \<mapsto> count_existing_lines (rw_files w path))\<rparr>)"

definition open_writer ::
  "string \<Rightarrow> string \<Rightarrow> bool \<Rightarrow> receipts_world \<Rightarrow> receipt_writer \<times> receipts_world" where
  "open_writer dir run fsync w =
     (let label = sanitize_run_label run;
          path = dir @ ''/receipts-'' @ label @ ''.jsonl''
      in (\<lparr>wr_path = path, wr_run = label, wr_fsync = fsync\<rparr>, shared_state path w))"

definition next_receipt_id :: "receipt_writer \<Rightarrow> receipts_world \<Rightarrow> string \<times> receipts_world" where
  "next_receipt_id wr w =
     (let seq = (case rw_seq w (wr_path wr) of Some n \<Rightarrow> n | None \<Rightarrow> 0) + 1
      in (''rc_'' @ wr_run wr @ ''_'' @ show_padded 6 (unat seq),
          w\<lparr>rw_seq := (rw_seq w)(wr_path wr \<mapsto> seq)\<rparr>))"

definition append_line :: "receipt_writer \<Rightarrow> string \<Rightarrow> receipts_world \<Rightarrow> receipts_world" where
  "append_line wr line w =
     w\<lparr>rw_files := (rw_files w)(wr_path wr \<mapsto>
        (case rw_files w (wr_path wr) of Some ls \<Rightarrow> ls | None \<Rightarrow> []) @ [line])\<rparr>"

text \<open>A new process starts with an empty registry and the files as they are.\<close>

definition restart :: "receipts_world \<Rightarrow> receipts_world" where
  "restart w = w\<lparr>rw_seq := Map.empty\<rparr>"

section \<open>One run file over time\<close>

text \<open>
  What happens to one open run file: some dispatch mints an id, some dispatch appends a (non-blank)
  line, or the process is replaced by a new one that opens the file again. \<open>minted\<close> lists the ids.
\<close>

datatype receipt_event = Mint | Append string | Reopen

fun receipt_run ::
  "receipt_writer \<Rightarrow> receipt_event list \<Rightarrow> receipts_world \<Rightarrow> string list \<Rightarrow> string list \<times> receipts_world" where
  "receipt_run wr [] w minted = (minted, w)"
| "receipt_run wr (Mint # es) w minted =
     (case next_receipt_id wr w of (i, w') \<Rightarrow> receipt_run wr es w' (minted @ [i]))"
| "receipt_run wr (Append line # es) w minted = receipt_run wr es (append_line wr line w) minted"
| "receipt_run wr (Reopen # es) w minted =
     receipt_run wr es (shared_state (wr_path wr) (restart w)) minted"

text \<open>Every \<open>Reopen\<close> finds at least as many lines as ids were minted before it.\<close>

fun written_before_reopen :: "nat \<Rightarrow> nat \<Rightarrow> receipt_event list \<Rightarrow> bool" where
  "written_before_reopen ids ls [] = True"
| "written_before_reopen ids ls (Mint # es) = written_before_reopen (Suc ids) ls es"
| "written_before_reopen ids ls (Append line # es) =
     (trim line \<noteq> [] \<and> written_before_reopen ids (Suc ls) es)"
| "written_before_reopen ids ls (Reopen # es) = (ids \<le> ls \<and> written_before_reopen ls ls es)"

end
