(* ===== verification/Receipts_Properties.thy ===== *)
theory Receipts_Properties
  imports Receipts
begin

text \<open>
  What the receipt writer promises about ids, within a process and across restarts of it, and the
  case in which a restart mints an id again.
\<close>

definition receipt_id :: "string \<Rightarrow> nat \<Rightarrow> string" where
  "receipt_id run k = ''rc_'' @ run @ ''_'' @ show_padded 6 k"

lemma receipt_id_inject [simp]: "receipt_id run j = receipt_id run k \<longleftrightarrow> j = k"
  by (simp add: receipt_id_def)

definition written :: "string list option \<Rightarrow> nat" where
  "written contents =
     (case contents of None \<Rightarrow> 0 | Some ls \<Rightarrow> length (filter (\<lambda>l. trim l \<noteq> []) ls))"

lemma count_existing_written: "count_existing_lines contents = of_nat (written contents)"
  by (simp add: count_existing_lines_def written_def split: option.splits)

text \<open>\<open>at_count wr w c l\<close>: the counter of the file is \<open>c\<close> and the file holds \<open>l\<close> receipts.\<close>

definition at_count :: "receipt_writer \<Rightarrow> receipts_world \<Rightarrow> nat \<Rightarrow> nat \<Rightarrow> bool" where
  "at_count wr w c l \<longleftrightarrow>
     rw_seq w (wr_path wr) = Some (of_nat c) \<and> written (rw_files w (wr_path wr)) = l"

lemma at_count_mint:
  assumes "at_count wr w c l" and "Suc c < 2 ^ 64"
  shows "fst (next_receipt_id wr w) = receipt_id (wr_run wr) (Suc c)"
    and "at_count wr (snd (next_receipt_id wr w)) (Suc c) l"
proof -
  have "unat (of_nat c + 1 :: u64) = Suc c"
  proof -
    have "unat (of_nat (Suc c) :: u64) = Suc c"
      using take_bit_nat_eq_self [OF assms(2)] by (simp add: unsigned_of_nat del: of_nat_Suc)
    then show ?thesis by (simp add: add.commute)
  qed
  then show "fst (next_receipt_id wr w) = receipt_id (wr_run wr) (Suc c)"
    using assms(1) by (simp add: next_receipt_id_def at_count_def receipt_id_def)
  show "at_count wr (snd (next_receipt_id wr w)) (Suc c) l"
    using assms(1) by (simp add: next_receipt_id_def at_count_def Let_def add.commute)
qed

lemma at_count_append:
  "at_count wr w c l \<Longrightarrow> trim line \<noteq> [] \<Longrightarrow> at_count wr (append_line wr line w) c (Suc l)"
  by (auto simp: at_count_def append_line_def written_def split: option.splits)

lemma at_count_open:
  "written (rw_files w (wr_path wr)) = l \<Longrightarrow> at_count wr (shared_state (wr_path wr) (restart w)) l l"
  by (simp add: at_count_def shared_state_def restart_def count_existing_written)

lemma at_count_reopen:
  "at_count wr w c l \<Longrightarrow> at_count wr (shared_state (wr_path wr) (restart w)) l l"
  by (rule at_count_open) (simp add: at_count_def)

text \<open>The ids of a run are those of a strictly increasing list of numbers above the counter.\<close>

lemma receipt_run_ids:
  assumes "at_count wr w c l" and "written_before_reopen c l es" and "max c l + length es < 2 ^ 64"
  shows "\<exists>ks. fst (receipt_run wr es w ids) = ids @ map (receipt_id (wr_run wr)) ks \<and>
           sorted_wrt (<) ks \<and> (\<forall>k \<in> set ks. c < k)"
  using assms
proof (induction wr es w ids arbitrary: c l rule: receipt_run.induct)
  case (1 wr w ids)
  show ?case by (intro exI [of _ "[]"]) simp
next
  case (2 wr es w ids)
  have small: "Suc c < 2 ^ 64" using "2.prems"(3) by simp
  note mint = at_count_mint [OF "2.prems"(1) small]
  have bound: "max (Suc c) l + length es < 2 ^ 64" using "2.prems"(3) by simp
  have step: "receipt_run wr (Mint # es) w ids =
      receipt_run wr es (snd (next_receipt_id wr w)) (ids @ [receipt_id (wr_run wr) (Suc c)])"
    using mint(1) by (simp add: case_prod_beta)
  from "2.prems"(2) have wb: "written_before_reopen (Suc c) l es" by simp
  from "2.IH" [OF prod.collapse mint(2) wb bound] mint(1)
  obtain ks where ks: "fst (receipt_run wr es (snd (next_receipt_id wr w))
        (ids @ [receipt_id (wr_run wr) (Suc c)])) =
      (ids @ [receipt_id (wr_run wr) (Suc c)]) @ map (receipt_id (wr_run wr)) ks"
    and "sorted_wrt (<) ks" and "\<forall>k \<in> set ks. Suc c < k"
    by auto
  then show ?case
    unfolding step by (intro exI [of _ "Suc c # ks"]) auto
next
  case (3 wr line es w ids)
  from "3.prems"(2) have "trim line \<noteq> []" and wb: "written_before_reopen c (Suc l) es" by simp_all
  have bound: "max c (Suc l) + length es < 2 ^ 64" using "3.prems"(3) by simp
  from "3.IH" [OF at_count_append [OF "3.prems"(1) \<open>trim line \<noteq> []\<close>] wb bound]
  show ?case by simp
next
  case (4 wr es w ids)
  from "4.prems"(2) have "c \<le> l" and wb: "written_before_reopen l l es" by simp_all
  have bound: "max l l + length es < 2 ^ 64" using "4.prems"(3) by simp
  from "4.IH" [OF at_count_reopen [OF "4.prems"(1)] wb bound] \<open>c \<le> l\<close>
  show ?case by force
qed

lemma open_writer_at_count:
  assumes "open_writer dir run fsync (restart w) = (wr, w')"
  shows "at_count wr w' (written (rw_files w (wr_path wr))) (written (rw_files w (wr_path wr)))"
    and "wr_run wr = sanitize_run_label run"
  using assms at_count_open [of w wr, OF refl] by (auto simp: open_writer_def Let_def)

section \<open>Properties\<close>

text \<open>C31: Receipt ids never repeat. A process opens the receipt file of a run and mints ids and appends
  lines in any interleaving, and new processes take over whenever every minted id has been written.
  Then all ids are \<open>rc_<label>_<number>\<close> with strictly increasing numbers above the number of
  receipts the file held at the start, as long as the counter stays below 2^64.\<close>

theorem receipt_ids_count_up:
  assumes "open_writer dir run fsync (restart w) = (wr, w')"
    and "written_before_reopen (written (rw_files w (wr_path wr))) (written (rw_files w (wr_path wr))) es"
    and "written (rw_files w (wr_path wr)) + length es < 2 ^ 64"
  shows "\<exists>ks. fst (receipt_run wr es w' []) = map (receipt_id (sanitize_run_label run)) ks \<and>
           sorted_wrt (<) ks \<and> (\<forall>k \<in> set ks. written (rw_files w (wr_path wr)) < k) \<and>
           distinct (fst (receipt_run wr es w' []))"
proof -
  from receipt_run_ids [OF open_writer_at_count(1) [OF assms(1)] assms(2), of "[]"] assms(3)
  obtain ks where "fst (receipt_run wr es w' []) = map (receipt_id (wr_run wr)) ks"
    and ks: "sorted_wrt (<) ks" "\<forall>k \<in> set ks. written (rw_files w (wr_path wr)) < k"
    by auto
  moreover from ks(1) have "distinct ks" by (simp add: strict_sorted_iff)
  ultimately show ?thesis
    using open_writer_at_count(2) [OF assms(1)] by (auto simp: distinct_map intro!: inj_onI)
qed

definition demo_world :: receipts_world where
  "demo_world =
     \<lparr>rw_files = [''spawns/receipts-crew.jsonl'' \<mapsto> [''{one}'', ''{two}'']], rw_seq = Map.empty\<rparr>"

definition demo_writer :: receipt_writer where
  "demo_writer = \<lparr>wr_path = ''spawns/receipts-crew.jsonl'', wr_run = ''crew'', wr_fsync = False\<rparr>"

definition demo_events :: "receipt_event list" where
  "demo_events = [Mint, Append ''{three}'', Reopen, Mint, Mint, Append ''{four}'']"

lemma demo_label: "sanitize_run_label ''crew!'' = ''crew''"
  by code_simp

lemma demo_open:
  "open_writer ''spawns'' ''crew!'' False (restart demo_world) =
     (demo_writer, shared_state ''spawns/receipts-crew.jsonl'' (restart demo_world))"
  by (simp add: open_writer_def demo_label demo_writer_def Let_def)

lemma demo_written: "written (rw_files demo_world (wr_path demo_writer)) = 2"
  by (simp add: demo_world_def demo_writer_def written_def trim_def trim_start_def trim_end_def ws_def)

lemma demo_written_before: "written_before_reopen 2 2 demo_events"
  by code_simp

theorem receipt_ids_count_up_witness:
  "distinct (fst (receipt_run demo_writer demo_events
     (shared_state ''spawns/receipts-crew.jsonl'' (restart demo_world)) []))"
proof -
  have "2 + length demo_events < 2 ^ 64" by (simp add: demo_events_def)
  with receipt_ids_count_up [OF demo_open, of demo_events, unfolded demo_written, OF demo_written_before]
  show ?thesis by blast
qed

text \<open>A restart can mint an id twice. When a process mints an id and is replaced before the receipt
  is written, the next process takes its counter from the lines of the file and mints the same id
  again.\<close>

theorem unwritten_id_is_minted_again:
  "\<exists>i. fst (receipt_run wr [Mint, Reopen, Mint] (shared_state (wr_path wr) (restart w)) []) = [i, i]"
  by (simp add: next_receipt_id_def shared_state_def restart_def Let_def)

end
