(* ===== verification/Redaction.thy ===== *)
theory Redaction
  imports Prelude
begin

text \<open>
  Secret redaction of \<open>crates/flume/src/lib.rs\<close>: every team message and every worker event passes
  through \<open>redact_secrets\<close>. The loops over a cursor are recursion on the rest of the input. Both
  passes are only called with the constant prefixes and keys of \<open>redact_secrets\<close>, none of them
  empty; the model leaves the input alone for an empty one.
\<close>

section \<open>The passes\<close>

definition redacted :: string where
  "redacted = ''[REDACTED]''"

definition token_char :: "char \<Rightarrow> bool" where
  "token_char c \<longleftrightarrow> is_ascii_alphanumeric c \<or> c \<in> set ''_-.''"

function redact_prefixed_token :: "string \<Rightarrow> string \<Rightarrow> string" where
  "redact_prefixed_token pre input =
     (if pre = [] then input
      else case split_once pre input of
             None \<Rightarrow> input
           | Some (before, rest) \<Rightarrow>
               before @ redacted @ redact_prefixed_token pre (dropWhile token_char rest))"
  by pat_completeness auto
termination
proof (relation "measure (length \<circ> snd)")
  fix pre input :: string and x before rest
  assume "pre \<noteq> []" and "split_once pre input = Some x" and "(before, rest) = x"
  then have "input = before @ pre @ rest" by (auto dest: split_once_sound)
  with \<open>pre \<noteq> []\<close> show "((pre, dropWhile token_char rest), pre, input) \<in> measure (length \<circ> snd)"
    by (auto intro!: le_less_trans [OF length_dropWhile_le])
qed simp

declare redact_prefixed_token.simps [simp del]

definition key_separator :: "char \<Rightarrow> bool" where
  "key_separator c \<longleftrightarrow> c \<in> set [CHR 0x20, CHR 0x09, CHR '':'', CHR ''='']"

definition value_char :: "char \<Rightarrow> bool" where
  "value_char c \<longleftrightarrow> \<not> ws c \<and> c \<notin> set [CHR '','', CHR '';'', CHR 0x22, CHR 0x27]"

text \<open>The search is in the lower-case copy, which has the same length.\<close>

function redact_key_value_token :: "string \<Rightarrow> string \<Rightarrow> string" where
  "redact_key_value_token key input =
     (if key = [] then input
      else case split_once key (to_ascii_lowercase input) of
             None \<Rightarrow> input
           | Some (before, _) \<Rightarrow>
               let start = length before;
                   rest = drop (start + length key) input;
                   head = take (start + length key) input;
                   seps = takeWhile key_separator rest;
                   val = dropWhile key_separator rest
               in if seps = [] then head @ redact_key_value_token key rest
                  else head @ seps @ redacted @ redact_key_value_token key (dropWhile value_char val))"
  by pat_completeness auto
termination
proof (relation "measure (length \<circ> snd)", goal_cases)
  case 1
  then show ?case by simp
next
  case (2 key input x before uu start rest head seps val)
  then have "to_ascii_lowercase input = before @ key @ uu" by (auto dest: split_once_sound)
  from arg_cong [OF this, of length] 2(1) have "length rest < length input"
    by (simp add: to_ascii_lowercase_def 2)
  then show ?case by simp
next
  case (3 key input x before uu start rest head seps val)
  then have "to_ascii_lowercase input = before @ key @ uu" by (auto dest: split_once_sound)
  from arg_cong [OF this, of length] 3(1) have "length rest < length input"
    by (simp add: to_ascii_lowercase_def 3)
  moreover have "length (dropWhile value_char val) \<le> length rest"
    using length_dropWhile_le [of value_char val] length_dropWhile_le [of key_separator rest]
    by (simp add: 3)
  ultimately show ?case by simp
qed

declare redact_key_value_token.simps [simp del]

definition token_prefixes :: "string list" where
  "token_prefixes = [''sk-'', ''ghp_'', ''gho_'', ''github_pat_'', ''xoxb-'', ''xoxp-'', ''hf_'']"

definition secret_keys :: "string list" where
  "secret_keys =
     [''api_key'', ''api-key'', ''apikey'', ''access_token'', ''access-token'', ''authorization'',
      ''bearer'', ''password'', ''secret'', ''token'']"

definition redact_secrets :: "string \<Rightarrow> string" where
  "redact_secrets input =
     fold redact_key_value_token secret_keys (fold redact_prefixed_token token_prefixes input)"

section \<open>No token prefix survives\<close>

definition plain :: "string \<Rightarrow> bool" where
  "plain p \<longleftrightarrow> p \<noteq> [] \<and> CHR ''['' \<notin> set p \<and> CHR '']'' \<notin> set p \<and> \<not> contains p ''REDACTED''"

lemma contains_around_redacted:
  assumes "plain p" and "contains p (a @ redacted @ b)"
  shows "contains p a \<or> contains p b"
proof -
  have "a @ redacted @ b = a @ CHR ''['' # ''REDACTED'' @ CHR '']'' # b" by (simp add: redacted_def)
  with assms have "contains p a \<or> contains p (''REDACTED'' @ CHR '']'' # b)"
    using contains_around [of "CHR ''[''" p a] by (simp add: plain_def)
  with assms(1) show ?thesis
    using contains_around [of "CHR '']''" p "''REDACTED''" b] by (auto simp: plain_def)
qed

lemma contains_dropWhile: "contains p (dropWhile P s) \<Longrightarrow> contains p s"
  by (metis append_Nil2 contains_appendI takeWhile_dropWhile_id)

lemma prefixed_absent: "\<not> contains p s \<Longrightarrow> redact_prefixed_token p s = s"
  by (subst redact_prefixed_token.simps) (simp add: split_once_None [symmetric])

lemma prefixed_step:
  "split_once p s = Some (before, rest) \<Longrightarrow> p \<noteq> [] \<Longrightarrow>
    redact_prefixed_token p s = before @ redacted @ redact_prefixed_token p (dropWhile token_char rest)"
  by (subst redact_prefixed_token.simps) simp

lemma key_value_absent: "\<not> contains k (to_ascii_lowercase s) \<Longrightarrow> redact_key_value_token k s = s"
  by (subst redact_key_value_token.simps) (simp add: split_once_None [symmetric])

lemma key_value_step:
  "split_once k (to_ascii_lowercase s) = Some (before, x) \<Longrightarrow> k \<noteq> [] \<Longrightarrow>
    head = take (length before + length k) s \<Longrightarrow> rest = drop (length before + length k) s \<Longrightarrow>
    redact_key_value_token k s =
      (if takeWhile key_separator rest = [] then head @ redact_key_value_token k rest
       else head @ takeWhile key_separator rest @ redacted @
         redact_key_value_token k (dropWhile value_char (dropWhile key_separator rest)))"
  by (subst redact_key_value_token.simps) (simp add: Let_def)

text \<open>Neither pass introduces a new occurrence of a plain text.\<close>

lemma prefixed_introduces_nothing:
  assumes "plain p" and "contains p (redact_prefixed_token q s)"
  shows "contains p s"
  using assms(2)
proof (induction q s rule: redact_prefixed_token.induct)
  case (1 q s)
  show ?case
  proof (cases "q = [] \<or> split_once q s = None")
    case True
    with "1.prems" show ?thesis
      by (subst (asm) redact_prefixed_token.simps) (auto split: if_splits)
  next
    case False
    then obtain before rest where q: "q \<noteq> []" and sp: "split_once q s = Some (before, rest)" by auto
    from contains_around_redacted [OF assms(1)] "1.prems" [unfolded prefixed_step [OF sp q]]
    have "contains p before \<or> contains p rest"
      using "1.IH" [OF q sp refl] contains_dropWhile by blast
    with split_once_sound [OF sp] show ?thesis
      using contains_appendI [of p before "[]"] contains_appendI [of p rest _ "[]"]
      by (metis append.assoc append_Nil append_Nil2)
  qed
qed

lemma prefixed_removes: "plain p \<Longrightarrow> \<not> contains p (redact_prefixed_token p s)"
proof (induction p s rule: redact_prefixed_token.induct)
  case (1 p s)
  show ?case
  proof (cases "contains p s")
    case False
    then show ?thesis by (simp add: prefixed_absent)
  next
    case True
    then obtain before rest where sp: "split_once p s = Some (before, rest)"
      by (auto simp: contains_def)
    have "p \<noteq> []" using "1.prems" by (simp add: plain_def)
    from split_once_before [OF sp this] have "\<not> contains p before" .
    moreover have "\<not> contains p (redact_prefixed_token p (dropWhile token_char rest))"
      using "1.IH" [OF \<open>p \<noteq> []\<close> sp refl "1.prems"] .
    ultimately show ?thesis
      unfolding prefixed_step [OF sp \<open>p \<noteq> []\<close>] using contains_around_redacted [OF "1.prems"] by blast
  qed
qed

lemma key_value_introduces_nothing:
  assumes "plain p" and "contains p (u @ redact_key_value_token k s)"
  shows "contains p (u @ s)"
  using assms(2)
proof (induction k s arbitrary: u rule: redact_key_value_token.induct)
  case (1 k s)
  show ?case
  proof (cases "k = [] \<or> \<not> contains k (to_ascii_lowercase s)")
    case True
    with "1.prems" show ?thesis
      by (auto simp: key_value_absent redact_key_value_token.simps [of "[]"])
  next
    case False
    then obtain before x where k: "k \<noteq> []"
      and sp: "split_once k (to_ascii_lowercase s) = Some (before, x)"
      by (auto simp: contains_def)
    define n where "n = length before + length k"
    define seps where "seps = takeWhile key_separator (drop n s)"
    define val where "val = dropWhile value_char (dropWhile key_separator (drop n s))"
    have s: "s = take n s @ seps @ dropWhile key_separator (drop n s)"
      by (simp add: seps_def)
    note step = key_value_step [OF sp k refl refl, folded n_def, folded seps_def, folded val_def]
    note IH = "1.IH" [OF k sp refl refl, folded n_def, OF refl refl refl refl,
        folded seps_def, folded val_def]
    show ?thesis
    proof (cases "seps = []")
      case True
      from "1.prems" True have "contains p ((u @ take n s) @ redact_key_value_token k (drop n s))"
        by (simp add: step)
      from IH(1) [OF True this] show ?thesis by simp
    next
      case False
      from "1.prems" False
      have "contains p ((u @ take n s @ seps) @ redacted @ redact_key_value_token k val)"
        by (simp add: step)
      from contains_around_redacted [OF assms(1) this] show ?thesis
      proof
        assume "contains p (u @ take n s @ seps)"
        from contains_appendI [OF this, of "[]"] s show ?thesis by (metis append.assoc append_Nil)
      next
        assume "contains p (redact_key_value_token k val)"
        with IH(2) [OF False, of "[]"] have "contains p val" by simp
        then have "contains p (dropWhile key_separator (drop n s))"
          unfolding val_def by (rule contains_dropWhile)
        from contains_appendI [OF this, of "u @ take n s @ seps" "[]"] s show ?thesis
          by (metis append.assoc append_Nil2)
      qed
    qed
  qed
qed

lemma fold_prefixed_introduces_nothing:
  "plain p \<Longrightarrow> contains p (fold redact_prefixed_token qs s) \<Longrightarrow> contains p s"
  by (induction qs arbitrary: s) (auto dest: prefixed_introduces_nothing)

lemma fold_key_value_introduces_nothing:
  "plain p \<Longrightarrow> contains p (fold redact_key_value_token ks s) \<Longrightarrow> contains p s"
proof (induction ks arbitrary: s)
  case (Cons k ks)
  then have "contains p ([] @ redact_key_value_token k s)" by simp
  from key_value_introduces_nothing [OF Cons.prems(1) this] show ?case by simp
qed simp

lemma fold_prefixed_removes:
  "plain p \<Longrightarrow> p \<in> set qs \<Longrightarrow> \<not> contains p (fold redact_prefixed_token qs s)"
proof (induction qs arbitrary: s)
  case (Cons q qs)
  then show ?case
    using fold_prefixed_introduces_nothing [OF Cons.prems(1), of qs "redact_prefixed_token q s"]
    by (auto simp: prefixed_removes)
qed simp

lemma token_prefixes_plain: "list_all plain token_prefixes"
  by code_simp

lemma token_prefixes_removed:
  "list_all (\<lambda>p. \<not> contains p (redact_secrets input)) token_prefixes"
proof -
  have "\<not> contains p (redact_secrets input)" if p: "p \<in> set token_prefixes" for p
  proof -
    have "plain p" using token_prefixes_plain p by (simp add: list_all_iff)
    from fold_prefixed_removes [OF this p] fold_key_value_introduces_nothing [OF this]
    show ?thesis by (auto simp: redact_secrets_def)
  qed
  then show ?thesis by (simp add: list_all_iff)
qed

section \<open>Properties\<close>

text \<open>C32: No recognised secret token survives redaction: whatever the message, the text that leaves
  \<open>redact_secrets\<close> contains none of the seven token prefixes.\<close>

theorem no_token_prefix_survives:
  "list_all (\<lambda>p. \<not> contains p (redact_secrets input)) token_prefixes"
  by (rule token_prefixes_removed)

section \<open>What the key pass leaves\<close>

lemma contains_outside_mid:
  assumes "x \<noteq> []" and "\<And>c. c \<in> set x \<Longrightarrow> c \<notin> set p" and "contains p (a @ x @ b)"
  shows "contains p a \<or> contains p b"
  using assms
proof (induction x arbitrary: a)
  case (Cons c x)
  then have "contains p a \<or> contains p (x @ b)"
    using contains_around [of c p a "x @ b"] by simp
  then show ?case
    using Cons.IH [of "[]"] Cons.prems by (cases "x = []") auto
qed simp

lemma show_nat_digits: "show_nat n \<noteq> [] \<and> list_all is_ascii_digit (show_nat n)"
proof (induction n rule: show_nat.induct)
  case (1 n)
  have "is_ascii_digit (digit_char d)" if "d < 10" for d
    using that by (simp add: is_ascii_digit_def of_char_digit)
  with 1 show ?case by (subst (1 2) show_nat.simps) auto
qed

lemma lower_digits: "list_all is_ascii_digit x \<Longrightarrow> to_ascii_lowercase x = x"
  by (auto simp: list_all_iff to_ascii_lowercase_def is_ascii_digit_def ascii_lower_def Let_def
      intro!: map_idI)

definition digit_free :: "string \<Rightarrow> bool" where
  "digit_free p \<longleftrightarrow> list_all (\<lambda>c. \<not> is_ascii_digit c) p"

lemma number_absent:
  assumes "digit_free p" and "\<not> contains p a" and "\<not> contains p b"
  shows "\<not> contains p (a @ show_nat n @ b)"
  using contains_outside_mid [of "show_nat n" p a b] show_nat_digits [of n] assms
  by (auto simp: digit_free_def list_all_iff)

lemma lower_around: "to_ascii_lowercase (a @ show_nat n @ b) =
    to_ascii_lowercase a @ show_nat n @ to_ascii_lowercase b"
  using lower_digits [of "show_nat n"] show_nat_digits [of n] by (simp add: to_ascii_lowercase_def)

lemma fold_same: "(\<And>p. p \<in> set ps \<Longrightarrow> f p s = s) \<Longrightarrow> fold f ps s = s"
  by (induction ps) auto

lemma prefixes_pass:
  "list_all (\<lambda>p. digit_free p \<and> \<not> contains p a \<and> \<not> contains p b) ps \<Longrightarrow>
    fold redact_prefixed_token ps (a @ show_nat n @ b) = a @ show_nat n @ b"
  by (rule fold_same) (auto simp: list_all_iff number_absent intro!: prefixed_absent)

lemma keys_pass:
  "list_all (\<lambda>k. digit_free k \<and> \<not> contains k (to_ascii_lowercase a) \<and>
      \<not> contains k (to_ascii_lowercase b)) ks \<Longrightarrow>
    fold redact_key_value_token ks (a @ show_nat n @ b) = a @ show_nat n @ b"
  by (rule fold_same) (auto simp: list_all_iff lower_around number_absent intro!: key_value_absent)

lemma keys_split:
  "secret_keys = take 5 secret_keys @ ''authorization'' # drop 6 secret_keys"
  "secret_keys = take 7 secret_keys @ ''password'' # drop 8 secret_keys"
  "secret_keys = [] @ ''api_key'' # drop 1 secret_keys"
  by code_simp+

text \<open>Redaction of a text around a number that no pass but one key touches.\<close>

definition untouched :: "string list \<Rightarrow> string \<Rightarrow> string \<Rightarrow> bool" where
  "untouched ps a b \<longleftrightarrow>
     list_all (\<lambda>p. digit_free p \<and> \<not> contains p (to_ascii_lowercase a) \<and>
       \<not> contains p (to_ascii_lowercase b)) ps"

lemma redact_one_key:
  assumes "list_all (\<lambda>p. digit_free p \<and> \<not> contains p a \<and> \<not> contains p b) token_prefixes"
    and "secret_keys = ks @ k # ls" and "untouched ks a b" and "untouched ls a' b'"
    and "redact_key_value_token k (a @ show_nat n @ b) = a' @ show_nat n @ b'"
  shows "redact_secrets (a @ show_nat n @ b) = a' @ show_nat n @ b'"
  using assms keys_pass [where ks = ks and a = a and b = b and n = n]
    keys_pass [where ks = ls and a = a' and b = b' and n = n]
  unfolding redact_secrets_def assms(2) by (simp add: prefixes_pass untouched_def)

lemma number_chars: "c \<in> set (show_nat n) \<Longrightarrow> value_char c \<and> \<not> key_separator c"
  using show_nat_digits [of n]
  by (auto simp: list_all_iff is_ascii_digit_def value_char_def key_separator_def ws_def Let_def)

lemma lower_append: "to_ascii_lowercase (x @ y) = to_ascii_lowercase x @ to_ascii_lowercase y"
  by (simp add: to_ascii_lowercase_def)

lemma split_once_head: "split_once k (k @ x) = Some ([], x)"
  by (rule split_once_first) auto

lemma dropWhile_number: "dropWhile key_separator (show_nat n @ b) = show_nat n @ b"
  using number_chars [of _ n] show_nat_digits [of n] by (cases "show_nat n") auto

text \<open>A key at the start of the text, followed by separators and a value (\<open>val\<close>), then \<open>rest\<close>.\<close>

lemma key_value_at_start:
  assumes "to_ascii_lowercase key = k" and "k \<noteq> []"
    and "list_all key_separator seps" and "seps \<noteq> []"
    and "rest \<noteq> []" and "\<not> key_separator (hd (val @ rest))"
    and "list_all value_char val" and "\<not> value_char (hd rest)"
    and "\<not> contains k (to_ascii_lowercase rest)"
  shows "redact_key_value_token k (key @ seps @ val @ rest) = key @ seps @ redacted @ rest"
proof -
  have len: "length k = length key" using assms(1) by (auto simp: to_ascii_lowercase_def)
  have tw: "takeWhile key_separator (seps @ val @ rest) = seps"
    using assms(3,5,6) by (cases "val @ rest") (auto simp: list_all_iff takeWhile_append2)
  have dw: "dropWhile key_separator (seps @ val @ rest) = val @ rest"
    using assms(3,5,6) by (cases "val @ rest") (auto simp: list_all_iff dropWhile_append2)
  have dv: "dropWhile value_char (val @ rest) = rest"
    using assms(5,7,8) by (cases rest) (auto simp: list_all_iff dropWhile_append2)
  have "split_once k (to_ascii_lowercase (key @ seps @ val @ rest)) =
      Some ([], to_ascii_lowercase (seps @ val @ rest))"
    using assms(1) by (simp add: lower_append split_once_head)
  from key_value_step [OF this assms(2) refl refl] show ?thesis
    by (simp add: len tw dw dv assms(4) key_value_absent [OF assms(9)])
qed

lemma bearer_step:
  "redact_key_value_token ''authorization'' (''Authorization: Bearer '' @ show_nat n @ []) =
     ''Authorization: [REDACTED] '' @ show_nat n @ []"
proof -
  have absent: "\<not> contains ''authorization'' (to_ascii_lowercase ('' '' @ show_nat n @ []))"
    unfolding lower_around by (rule number_absent; code_simp)
  have "redact_key_value_token ''authorization''
      (''Authorization'' @ '': '' @ ''Bearer'' @ ('' '' @ show_nat n @ [])) =
    ''Authorization'' @ '': '' @ redacted @ ('' '' @ show_nat n @ [])"
    by (rule key_value_at_start [OF _ _ _ _ _ _ _ _ absent])
       (code_simp | simp add: key_separator_def value_char_def ws_def)+
  then show ?thesis by (simp add: redacted_def)
qed

lemma quoted_step:
  "redact_key_value_token ''password'' (''password=\"'' @ show_nat n @ ''\"'') =
     ''password=[REDACTED]\"'' @ show_nat n @ ''\"''"
proof -
  have absent: "\<not> contains ''password'' (to_ascii_lowercase (''\"'' @ show_nat n @ ''\"''))"
    unfolding lower_around by (rule number_absent; code_simp)
  have "redact_key_value_token ''password''
      (''password'' @ ''='' @ [] @ (''\"'' @ show_nat n @ ''\"'')) =
    ''password'' @ ''='' @ redacted @ (''\"'' @ show_nat n @ ''\"'')"
    by (rule key_value_at_start [OF _ _ _ _ _ _ _ _ absent])
       (code_simp | simp add: key_separator_def value_char_def ws_def)+
  then show ?thesis by (simp add: redacted_def)
qed

lemma json_step:
  "redact_key_value_token ''api_key'' (''{\"api_key\":\"'' @ show_nat n @ ''\"}'') =
     ''{\"api_key\":\"'' @ show_nat n @ ''\"}''"
proof -
  have absent: "\<not> contains ''api_key'' (to_ascii_lowercase (''\":\"'' @ show_nat n @ ''\"}''))"
    unfolding lower_around by (rule number_absent; code_simp)
  have lower: "to_ascii_lowercase ''{\"api_key\":\"'' = ''{\"'' @ ''api_key'' @ ''\":\"''"
    by code_simp
  have "split_once ''api_key'' (to_ascii_lowercase (''{\"api_key\":\"'' @ show_nat n @ ''\"}'')) =
      Some (''{\"'', ''\":\"'' @ show_nat n @ to_ascii_lowercase ''\"}'')"
    unfolding lower_around lower by simp
  from key_value_step [OF this _ refl refl] show ?thesis
    using key_value_absent [OF absent] by (simp add: key_separator_def)
qed

text \<open>The key pass leaves some credentials in the text. The token of an \<open>Authorization: Bearer\<close>
  header survives, because the first key takes the word \<open>Bearer\<close> for its value; a quoted value
  survives behind the marker; and a JSON member is not touched at all. Shown for every decimal
  number as the credential.\<close>

theorem credentials_left_by_redaction:
  "redact_secrets (''Authorization: Bearer '' @ show_nat n @ []) =
     ''Authorization: [REDACTED] '' @ show_nat n @ [] \<and>
   redact_secrets (''password=\"'' @ show_nat n @ ''\"'') =
     ''password=[REDACTED]\"'' @ show_nat n @ ''\"'' \<and>
   redact_secrets (''{\"api_key\":\"'' @ show_nat n @ ''\"}'') = ''{\"api_key\":\"'' @ show_nat n @ ''\"}''"
proof (intro conjI)
  show "redact_secrets (''Authorization: Bearer '' @ show_nat n @ []) =
     ''Authorization: [REDACTED] '' @ show_nat n @ []"
    by (rule redact_one_key [OF _ keys_split(1) _ _ bearer_step]; code_simp)
  show "redact_secrets (''password=\"'' @ show_nat n @ ''\"'') =
     ''password=[REDACTED]\"'' @ show_nat n @ ''\"''"
    by (rule redact_one_key [OF _ keys_split(2) _ _ quoted_step]; code_simp)
  show "redact_secrets (''{\"api_key\":\"'' @ show_nat n @ ''\"}'') = ''{\"api_key\":\"'' @ show_nat n @ ''\"}''"
    by (rule redact_one_key [OF _ keys_split(3) _ _ json_step]; code_simp)
qed

end
