(* ===== verification/Ratios.thy ===== *)
theory Ratios
  imports Prelude Complex_Main
begin

text \<open>
  Floating-point scores as exact rationals: clamping, and the decimal text of a score with a fixed
  number of digits (\<open>{:.3}\<close>), which Rust rounds to the nearest digit and, on a tie, to the even one;
  and the overlap of two texts as the Jaccard similarity of their sets of words, in which every
  non-ASCII character counts as a letter without lower case.
\<close>

definition clamp01 :: "rat \<Rightarrow> rat" where
  "clamp01 x = max 0 (min x 1)"

lemma clamp01_range [simp]: "0 \<le> clamp01 x" "clamp01 x \<le> 1"
  by (auto simp: clamp01_def)

lemma clamp01_id [simp]: "0 \<le> x \<Longrightarrow> x \<le> 1 \<Longrightarrow> clamp01 x = x"
  by (simp add: clamp01_def)

definition round_half_even :: "rat \<Rightarrow> int" where
  "round_half_even x =
     (let n = \<lfloor>x\<rfloor>; r = x - of_int n
      in if r < 1/2 \<or> (r = 1/2 \<and> even n) then n else n + 1)"

definition show_fixed :: "nat \<Rightarrow> rat \<Rightarrow> string" where
  "show_fixed d x =
     (let n = nat (round_half_even (\<bar>x\<bar> * 10 ^ d))
      in (if x < 0 then ''-'' else []) @ show_nat (n div 10 ^ d) @
         (if d = 0 then [] else ''.'' @ show_padded d (n mod 10 ^ d)))"

lemma show_fixed_examples:
  "show_fixed 3 (1/5) = ''0.200''" "show_fixed 2 (5/8) = ''0.62''" "show_fixed 2 (-1/3) = ''-0.33''"
  "show_fixed 1 (199/200) = ''1.0''"
  by code_simp+

text \<open>A machine counter that stops at the largest \<open>usize\<close>.\<close>

definition usize_max :: nat where
  "usize_max = 2 ^ 64 - 1"

definition saturating_add :: "nat \<Rightarrow> nat \<Rightarrow> nat" where
  "saturating_add a b = min usize_max (a + b)"

section \<open>Word sets\<close>

definition alphanumeric :: "char \<Rightarrow> bool" where
  "alphanumeric c \<longleftrightarrow> is_ascii_alphanumeric c \<or> (of_char c :: nat) \<ge> 128"

fun split_unless :: "(char \<Rightarrow> bool) \<Rightarrow> string \<Rightarrow> string \<Rightarrow> string list" where
  "split_unless p acc [] = [rev acc]"
| "split_unless p acc (c # cs) =
     (if p c then split_unless p (c # acc) cs else rev acc # split_unless p [] cs)"

definition word_set :: "string \<Rightarrow> string set" where
  "word_set text =
     set (filter (\<lambda>w. length w > 2) (split_unless alphanumeric [] (to_ascii_lowercase text)))"

definition jaccard :: "string set \<Rightarrow> string set \<Rightarrow> rat" where
  "jaccard left right =
     (if card (left \<union> right) = 0 then 0
      else of_nat (card (left \<inter> right)) / of_nat (card (left \<union> right)))"

end
