(* ===== verification/Routing.thy ===== *)
theory Routing
  imports Receipts Task_Store Ratios
begin

text \<open>
  The pure half of \<open>crates/flume/src/lib.rs\<close>: the difficulty gate, capability manifests, routing
  and native-subagent profiles, role definitions, and delegations. \<open>f32\<close> values are rationals (a
  profile or a caller gives finite numbers), and decoding the YAML header of a role definition is
  a parameter.
\<close>

section \<open>Capabilities\<close>

definition MUTATING_CAPABILITIES :: "string list" where
  "MUTATING_CAPABILITIES = [''bash'', ''edit'', ''execute'', ''shell'', ''write'']"

definition normalize_capability :: "string \<Rightarrow> string" where
  "normalize_capability capability = to_ascii_lowercase (trim capability)"

definition normalize_capabilities :: "string list \<Rightarrow> string list" where
  "normalize_capabilities capabilities =
     remdups_adj (sort (filter (\<lambda>c. c \<noteq> []) (map normalize_capability capabilities)))"

definition covers_capabilities :: "string list \<Rightarrow> string list \<Rightarrow> bool" where
  "covers_capabilities manifest required =
     (if required = [] then True
      else (let m = normalize_capabilities manifest; r = normalize_capabilities required
            in list_all (\<lambda>capability. list_ex (\<lambda>item. item = capability) m) r))"

definition is_mutating_capability :: "string \<Rightarrow> bool" where
  "is_mutating_capability capability =
     (let c = normalize_capability capability in list_ex (\<lambda>mutating. c = mutating) MUTATING_CAPABILITIES)"

definition is_mutating_tool :: "string \<Rightarrow> bool" where
  "is_mutating_tool tool =
     (let t = normalize_capability tool
      in list_ex (\<lambda>mutating. t = mutating \<or> contains mutating t) MUTATING_CAPABILITIES)"

definition strip_mutating_capabilities :: "string list \<Rightarrow> string list" where
  "strip_mutating_capabilities capabilities = filter (\<lambda>c. \<not> is_mutating_capability c) capabilities"

definition strip_mutating_tools :: "string list \<Rightarrow> string list" where
  "strip_mutating_tools tools = filter (\<lambda>t. \<not> is_mutating_tool t) tools"

section \<open>The difficulty gate\<close>

datatype routing_tier = Trivial | Standard | Hard

definition tier_as_str :: "routing_tier \<Rightarrow> string" where
  "tier_as_str t = (case t of Trivial \<Rightarrow> ''trivial'' | Standard \<Rightarrow> ''standard'' | Hard \<Rightarrow> ''hard'')"

record difficulty_signals =
  estimated_tokens :: nat
  subgoal_count :: nat
  prior_failure_rate :: rat
  high_stakes :: bool

definition estimate_task_tokens :: "string \<Rightarrow> nat" where
  "estimate_task_tokens task =
     (let by_chars = (char_count task + 3) div 4;
          by_words = length (split_whitespace task)
      in max (max by_chars by_words) 1)"

definition listed_line :: "string \<Rightarrow> bool" where
  "listed_line line \<longleftrightarrow>
     starts_with ''- '' line \<or> starts_with ''* '' line \<or>
     (case line of [] \<Rightarrow> False | first # _ \<Rightarrow> is_ascii_digit first) \<and> CHR ''.'' \<in> set line"

definition estimate_subgoal_count :: "string \<Rightarrow> nat" where
  "estimate_subgoal_count task =
     (let lower = to_ascii_lowercase task;
          marker_count = sum_list (map (\<lambda>marker. count_matches marker lower)
            ['' and '', '' then '', '' plus '', '' also '', '';'']);
          listed_count = length (filter listed_line (map trim_start (lines task)))
      in max marker_count (listed_count - 1))"

definition high_stakes_terms :: "string list" where
  "high_stakes_terms =
     [''auth'', ''credential'', ''delete'', ''deploy'', ''financial'', ''legal'', ''medical'',
      ''migration'', ''payment'', ''production'', ''release'', ''secret'', ''security'']"

definition has_high_stakes_terms :: "string \<Rightarrow> bool" where
  "has_high_stakes_terms task =
     (let lower = to_ascii_lowercase task in list_ex (\<lambda>t. contains t lower) high_stakes_terms)"

definition classify_task_difficulty :: "string \<Rightarrow> rat \<Rightarrow> routing_tier \<times> difficulty_signals" where
  "classify_task_difficulty task rate =
     (let tokens = estimate_task_tokens task;
          subgoals = estimate_subgoal_count task;
          stakes = has_high_stakes_terms task;
          r = clamp01 rate;
          tier = (if \<not> stakes \<and> tokens \<le> 64 \<and> subgoals \<le> 1 \<and> r < 1/5 then Trivial
                  else if stakes \<or> tokens \<ge> 600 \<or> subgoals \<ge> 4 \<or> r \<ge> 1/2 then Hard
                  else Standard)
      in (tier, \<lparr>estimated_tokens = tokens, subgoal_count = subgoals, prior_failure_rate = r,
                 high_stakes = stakes\<rparr>))"

section \<open>Bindings and profiles\<close>

record agent_binding =
  ab_role :: role
  ab_agent :: string
  ab_model :: "string option"
  ab_command :: "string option"
  ab_args :: "string list"
  ab_timeout_seconds :: "u64 option"

record agent_model =
  am_id :: string
  am_reachable :: bool

record agent_catalog_entry =
  ce_agent :: string
  ce_reachable :: bool
  ce_models :: "agent_model list"

text \<open>The fields of a catalog that the runtime reads.\<close>

type_synonym agent_catalog = "agent_catalog_entry list"

definition validate_binding_model :: "agent_binding \<Rightarrow> agent_catalog \<Rightarrow> string + unit" where
  "validate_binding_model binding catalog =
     (case ab_model binding of
        None \<Rightarrow> Inr ()
      | Some model \<Rightarrow>
          (case List.find (\<lambda>entry. ce_agent entry = ab_agent binding) catalog of
             None \<Rightarrow> Inl (''agent '' @ quoted (ab_agent binding) @
               '' is not in the model catalog; run `artesian agents refresh`'')
           | Some entry \<Rightarrow>
               (if list_ex (\<lambda>c. am_id c = model \<and> am_reachable c) (ce_models entry) then Inr ()
                else let available = join '', '' (map am_id (filter am_reachable (ce_models entry)))
                     in Inl (''model '' @ quoted model @ '' is unavailable for agent '' @
                       quoted (ab_agent binding) @ ''; available models: '' @
                       (if available = []
                        then ''<none>; run `artesian agents refresh` or configure a supported model''
                        else available)))))"

record agent_routing_profile =
  rp_role :: role
  rp_agent :: string
  rp_model :: "string option"
  rp_capabilities :: "string list"
  rp_cost_weight :: "rat option"
  rp_perf_estimate :: "rat option"
  rp_read_only_auditor :: bool
  rp_frontier :: bool

definition effective_capabilities :: "agent_routing_profile \<Rightarrow> string list" where
  "effective_capabilities p =
     (let capabilities = normalize_capabilities (rp_capabilities p)
      in if rp_read_only_auditor p then strip_mutating_capabilities capabilities else capabilities)"

definition cost_weight :: "agent_routing_profile \<Rightarrow> rat" where
  "cost_weight p = max (case rp_cost_weight p of Some w \<Rightarrow> w | None \<Rightarrow> 1) 0"

definition perf_estimate :: "agent_routing_profile \<Rightarrow> rat" where
  "perf_estimate p = clamp01 (case rp_perf_estimate p of Some e \<Rightarrow> e | None \<Rightarrow> 1)"

definition is_declared :: "agent_routing_profile \<Rightarrow> bool" where
  "is_declared p \<longleftrightarrow>
     rp_capabilities p \<noteq> [] \<or> rp_cost_weight p \<noteq> None \<or> rp_perf_estimate p \<noteq> None \<or>
     rp_read_only_auditor p \<or> rp_frontier p"

record routing_config =
  ro_profiles :: "agent_routing_profile list"
  ro_cost_epsilon :: rat
  ro_trace_limit :: nat

definition default_routing :: routing_config where
  "default_routing = \<lparr>ro_profiles = [], ro_cost_epsilon = 1/10, ro_trace_limit = 1000\<rparr>"

definition routing_is_active :: "routing_config \<Rightarrow> bool" where
  "routing_is_active c = list_ex is_declared (ro_profiles c)"

text \<open>A profile fits a binding of its role and agent unless both name a model and differ.\<close>

definition model_fits :: "string option \<Rightarrow> string option \<Rightarrow> bool" where
  "model_fits profile binding \<longleftrightarrow> profile = None \<or> binding = None \<or> profile = binding"

definition routing_profile_for :: "routing_config \<Rightarrow> agent_binding \<Rightarrow> agent_routing_profile option" where
  "routing_profile_for c b =
     List.find (\<lambda>p. model_fits (rp_model p) (ab_model b))
       (filter (\<lambda>p. rp_role p = ab_role b \<and> rp_agent p = ab_agent b) (ro_profiles c))"

definition effective_trace_limit :: "routing_config \<Rightarrow> nat" where
  "effective_trace_limit c = max (ro_trace_limit c) 1"

section \<open>Native subagents\<close>

datatype native_kind = NativeClaude | NativeCodex | NativeOpencode

record native_detection =
  nd_claude :: bool
  nd_codex :: bool
  nd_opencode :: bool

text \<open>Underscores and spaces become dashes.\<close>

definition normalize_agent_id :: "string \<Rightarrow> string" where
  "normalize_agent_id agent_id =
     map (\<lambda>c. if c = CHR ''_'' \<or> c = CHR '' '' then CHR ''-'' else c) (to_ascii_lowercase (trim agent_id))"

text \<open>\<open>basename\<close> is \<open>Path::file_name\<close> of the command.\<close>

definition detect_native_subagent_runtime ::
  "(string \<Rightarrow> string) \<Rightarrow> string \<Rightarrow> string \<Rightarrow> native_detection \<Rightarrow> native_kind option" where
  "detect_native_subagent_runtime basename agent_id command d =
     (let agent = normalize_agent_id agent_id;
          cmd = normalize_agent_id (basename command);
          claude = [''claude'', ''claude-code'']
      in if agent \<in> set claude \<and> cmd \<in> set claude \<and> nd_claude d then Some NativeClaude
         else if agent = ''codex'' \<and> cmd = ''codex'' \<and> nd_codex d then Some NativeCodex
         else if agent = ''opencode'' \<and> cmd = ''opencode'' \<and> nd_opencode d then Some NativeOpencode
         else None)"

record native_profile =
  np_role :: role
  np_agent :: string
  np_model :: "string option"
  np_native_subagents :: bool

record native_config =
  nc_enabled :: bool
  nc_profiles :: "native_profile list"
  nc_detection :: native_detection

definition native_profile_for :: "native_config \<Rightarrow> agent_binding \<Rightarrow> native_profile option" where
  "native_profile_for c b =
     List.find (\<lambda>p. model_fits (np_model p) (ab_model b))
       (filter (\<lambda>p. np_role p = ab_role b \<and> np_agent p = ab_agent b) (nc_profiles c))"

datatype dispatch_strategy = FreshProcess | NativeSubagent native_kind

definition select_delegation_dispatch_strategy ::
  "(string \<Rightarrow> string) \<Rightarrow> native_config \<Rightarrow> agent_binding \<Rightarrow> dispatch_strategy" where
  "select_delegation_dispatch_strategy basename c b =
     (if \<not> nc_enabled c then FreshProcess
      else
        (let command = (case ab_command b of Some cmd \<Rightarrow> cmd | None \<Rightarrow> ab_agent b);
             detected = detect_native_subagent_runtime basename (ab_agent b) command (nc_detection c);
             advertised = (case native_profile_for c b of Some p \<Rightarrow> np_native_subagents p | None \<Rightarrow> False)
         in case detected of
              Some kind \<Rightarrow> NativeSubagent kind
            | None \<Rightarrow>
                (if advertised
                 then (let agent = to_ascii_lowercase (trim (ab_agent b))
                       in if agent = ''claude'' \<or> agent = ''claude-code'' then NativeSubagent NativeClaude
                          else if agent = ''codex'' then NativeSubagent NativeCodex
                          else if agent = ''opencode'' then NativeSubagent NativeOpencode
                          else FreshProcess)
                 else FreshProcess)))"

section \<open>Role definitions\<close>

datatype definition_source = Artesian | ClaudeInterop

definition source_as_str :: "definition_source \<Rightarrow> string" where
  "source_as_str s = (case s of Artesian \<Rightarrow> ''artesian'' | ClaudeInterop \<Rightarrow> ''claude-interop'')"

record role_definition =
  rd_name :: string
  rd_kind :: role
  rd_description :: string
  rd_agent :: "string option"
  rd_model :: "string option"
  rd_allow_tools :: "string list"
  rd_prompt_addendum :: string
  rd_source :: definition_source
  rd_path :: string

datatype tool_list = ToolItems "string list" | ToolCsv string

record definition_frontmatter =
  df_name :: "string option"
  df_kind :: "string option"
  df_description :: "string option"
  df_agent :: "string option"
  df_model :: "string option"
  df_allow_tools :: "tool_list option"
  df_tools :: "tool_list option"

text \<open>\<open>s.split(',')\<close>.\<close>

fun split_commas :: "string \<Rightarrow> string \<Rightarrow> string list" where
  "split_commas acc [] = [rev acc]"
| "split_commas acc (c # cs) =
     (if c = CHR '','' then rev acc # split_commas [] cs else split_commas (c # acc) cs)"

fun into_vec :: "tool_list \<Rightarrow> string list" where
  "into_vec (ToolItems items) = filter (\<lambda>item. item \<noteq> []) (map trim items)"
| "into_vec (ToolCsv items) = filter (\<lambda>item. item \<noteq> []) (map trim (split_commas [] items))"

datatype flume_error =
  FlumeIo string | Yaml string | InvalidDefinition string | TeamNotFound string | TeammateNotFound string
  | TaskNotFound string | PlanApprovalRequired string | AdmissionPaused string string | AgentFailed string
  | TaskFailed task_error | LaneDuplicate string | LaneBudgetExceeded string | ReceiptRefused string

definition split_frontmatter :: "string \<Rightarrow> flume_error + string \<times> string" where
  "split_frontmatter text =
     (case strip_prefix (''---'' @ nl) text of
        None \<Rightarrow> Inl (InvalidDefinition ''missing YAML frontmatter'')
      | Some rest \<Rightarrow>
          (case split_once fence rest of
             None \<Rightarrow> Inl (InvalidDefinition ''unterminated YAML frontmatter'')
           | Some hb \<Rightarrow> Inr hb))"

definition empty_to_none :: "string \<Rightarrow> string option" where
  "empty_to_none value = (let v = trim value in if v = [] then None else Some v)"

definition required_header :: "string option \<Rightarrow> string \<Rightarrow> string \<Rightarrow> flume_error + string" where
  "required_header value name path =
     (case Option.bind value empty_to_none of
        None \<Rightarrow> Inl (InvalidDefinition (path @ '' missing required `'' @ name @ ''`''))
      | Some v \<Rightarrow> Inr v)"

text \<open>The text of a \<open>RoleParseError\<close> is that of \<open>roles.rs\<close>.\<close>

fun role_error_text :: "role_parse_error \<Rightarrow> string" where
  "role_error_text (RoleParseError input) =
     ''unknown role alias: '' @ input"

definition parse_kind :: "string \<Rightarrow> flume_error + role" where
  "parse_kind input =
     (case role_from_str input of Inl e \<Rightarrow> Inl (InvalidDefinition (role_error_text e)) | Inr r \<Rightarrow> Inr r)"

definition infer_kind :: "string \<Rightarrow> role" where
  "infer_kind name0 =
     (let name = to_ascii_lowercase name0
      in if contains ''judge'' name \<or> contains ''review'' name then Judge
         else if contains ''master'' name \<or> contains ''lead'' name \<or> contains ''coordinator'' name then Master
         else Worker)"

definition parse_role_definition ::
  "(string \<Rightarrow> string + definition_frontmatter) \<Rightarrow> string \<Rightarrow> string \<Rightarrow> definition_source \<Rightarrow>
     flume_error + role_definition" where
  "parse_role_definition yaml path text source =
     (case split_frontmatter text of
        Inl e \<Rightarrow> Inl e
      | Inr (header_text, body) \<Rightarrow>
     (case yaml header_text of
        Inl e \<Rightarrow> Inl (Yaml e)
      | Inr header \<Rightarrow>
     (case required_header (df_name header) ''name'' path of
        Inl e \<Rightarrow> Inl e
      | Inr name \<Rightarrow>
     (case required_header (df_description header) ''description'' path of
        Inl e \<Rightarrow> Inl e
      | Inr description \<Rightarrow>
     (case (case source of
              Artesian \<Rightarrow>
                (case required_header (df_kind header) ''kind'' path of
                   Inl e \<Rightarrow> Inl e
                 | Inr kind \<Rightarrow> parse_kind kind)
            | ClaudeInterop \<Rightarrow>
                (case df_kind header of Some kind \<Rightarrow> parse_kind kind | None \<Rightarrow> Inr (infer_kind name))) of
        Inl e \<Rightarrow> Inl e
      | Inr kind \<Rightarrow>
          Inr \<lparr>rd_name = name, rd_kind = kind, rd_description = description,
               rd_agent = Option.bind (df_agent header) empty_to_none,
               rd_model = Option.bind (df_model header) empty_to_none,
               rd_allow_tools =
                 (case (case df_allow_tools header of Some t \<Rightarrow> Some t | None \<Rightarrow> df_tools header) of
                    Some t \<Rightarrow> into_vec t | None \<Rightarrow> []),
               rd_prompt_addendum = trim body, rd_source = source, rd_path = path\<rparr>)))))"

text \<open>The files of a definition directory by name (\<open>None\<close>: it does not exist). Comparing two paths
  by their components agrees with comparing their texts here: both directories lie under one root.\<close>

fun parse_all ::
  "(string \<Rightarrow> string + definition_frontmatter) \<Rightarrow> string \<Rightarrow> definition_source \<Rightarrow>
     (string \<times> string) list \<Rightarrow> flume_error + role_definition list" where
  "parse_all yaml dir source [] = Inr []"
| "parse_all yaml dir source ((name, text) # files) =
     (case parse_role_definition yaml (dir @ ''/'' @ name) text source of
        Inl e \<Rightarrow> Inl e
      | Inr d \<Rightarrow>
          (case parse_all yaml dir source files of Inl e \<Rightarrow> Inl e | Inr ds \<Rightarrow> Inr (d # ds)))"

definition load_definition_dir ::
  "(string \<Rightarrow> string + definition_frontmatter) \<Rightarrow> string \<Rightarrow> (string \<times> string) list option \<Rightarrow>
     definition_source \<Rightarrow> flume_error + role_definition list" where
  "load_definition_dir yaml dir contents source =
     (case contents of
        None \<Rightarrow> Inr []
      | Some files \<Rightarrow> parse_all yaml dir source (sort_key fst (filter (\<lambda>f. has_md_ext (fst f)) files)))"

definition load_role_definitions ::
  "(string \<Rightarrow> string + definition_frontmatter) \<Rightarrow> string \<Rightarrow> (string \<times> string) list option \<Rightarrow>
     (string \<times> string) list option \<Rightarrow> flume_error + role_definition list" where
  "load_role_definitions yaml base agent_files claude_files =
     (case load_definition_dir yaml (base @ ''/.agent/agents'') agent_files Artesian of
        Inl e \<Rightarrow> Inl e
      | Inr ds \<Rightarrow>
          (case load_definition_dir yaml (base @ ''/.claude/agents'') claude_files ClaudeInterop of
             Inl e \<Rightarrow> Inl e
           | Inr cs \<Rightarrow> Inr (sort_key rd_name (sort_key rd_path (ds @ cs)))))"

section \<open>Delegations\<close>

record ('c, 's) delegation =
  de_binding :: agent_binding
  de_instruction :: string
  de_resume_packet :: "string option"
  de_allowed_tools :: "string list"
  de_session_context :: "'s option"
  de_budget :: "'c budget_envelope option"

definition new_delegation :: "agent_binding \<Rightarrow> string \<Rightarrow> ('c, 's) delegation" where
  "new_delegation binding instruction =
     \<lparr>de_binding = binding, de_instruction = instruction, de_resume_packet = None,
      de_allowed_tools = [], de_session_context = None, de_budget = None\<rparr>"

definition with_resume_packet :: "string \<Rightarrow> ('c, 's) delegation \<Rightarrow> ('c, 's) delegation" where
  "with_resume_packet packet d = d\<lparr>de_resume_packet := Some packet\<rparr>"

definition with_lane_budget :: "lane_budget \<Rightarrow> ('c, 's) delegation \<Rightarrow> ('c, 's) delegation" where
  "with_lane_budget b d = d\<lparr>de_budget := Some (budget_of_lane b)\<rparr>"

definition delegation_from_definition ::
  "role_definition \<Rightarrow> agent_binding \<Rightarrow> string \<Rightarrow> ('c, 's) delegation" where
  "delegation_from_definition d binding task_content =
     (new_delegation binding
        (if rd_prompt_addendum d = [] then task_content
         else rd_prompt_addendum d @ nl @ nl @ task_content))
     \<lparr>de_allowed_tools := rd_allow_tools d\<rparr>"

end
