(* ===== verification/Routing_Properties.thy ===== *)
theory Routing_Properties
  imports Routing Task_Facts
begin

text \<open>
  Capability manifests as sets, the difficulty gate as a monotone function, and the well-formedness of
  parsed role definitions.
\<close>

section \<open>Capabilities\<close>

definition capability_set :: "string list \<Rightarrow> string set" where
  "capability_set cs = {c. c \<noteq> [] \<and> c \<in> normalize_capability ` set cs}"

lemma set_normalize [simp]: "set (normalize_capabilities cs) = capability_set cs"
  by (auto simp: normalize_capabilities_def capability_set_def)

lemma normalize_sorted: "sorted (normalize_capabilities cs) \<and> distinct (normalize_capabilities cs)"
  by (simp add: normalize_capabilities_def sorted_distinct_remdups_adj)

lemma ascii_lower_idem [simp]: "ascii_lower (ascii_lower c) = ascii_lower c"
proof -
  have "(of_char c :: nat) < 256" by (rule of_char_mod_256 [THEN subst]) simp
  then show ?thesis by (auto simp: ascii_lower_def Let_def)
qed

lemma ws_code: "ws c \<longleftrightarrow> (of_char c :: nat) \<in> {32, 10, 9, 13, 11, 12}"
  by (simp add: ws_def flip: of_char_eq_iff [where ?'a = nat])

lemma ws_ascii_lower [simp]: "ws (ascii_lower c) = ws c"
  by (simp add: ws_code ascii_lower_def Let_def)

lemma dropWhile_lower: "dropWhile ws (map ascii_lower s) = map ascii_lower (dropWhile ws s)"
  by (simp add: dropWhile_map o_def)

lemma trim_lower: "trim (to_ascii_lowercase s) = to_ascii_lowercase (trim s)"
  by (simp add: trim_rev to_ascii_lowercase_def dropWhile_lower rev_map)

lemma normalize_idem [simp]: "normalize_capability (normalize_capability c) = normalize_capability c"
  by (simp add: normalize_capability_def trim_lower) (simp add: to_ascii_lowercase_def)

lemma mutating_normal: "c \<in> normalize_capability ` A \<Longrightarrow>
  is_mutating_capability c \<longleftrightarrow> c \<in> set MUTATING_CAPABILITIES"
  by (auto simp: is_mutating_capability_def list_ex_iff)

section \<open>The difficulty gate\<close>

fun tier_rank :: "routing_tier \<Rightarrow> nat" where
  "tier_rank Trivial = 0"
| "tier_rank Standard = 1"
| "tier_rank Hard = 2"

lemma clamp_mono: "x \<le> y \<Longrightarrow> clamp01 x \<le> clamp01 y"
  by (auto simp: clamp01_def max_def min_def)

text \<open>A worse history never makes a task look easier.\<close>

lemma tier_mono: "x \<le> y \<Longrightarrow>
  tier_rank (fst (classify_task_difficulty task x)) \<le> tier_rank (fst (classify_task_difficulty task y))"
  using clamp_mono [of x y] by (auto simp: classify_task_difficulty_def Let_def)

lemma high_stakes_hard: "has_high_stakes_terms task \<Longrightarrow> fst (classify_task_difficulty task r) = Hard"
  by (simp add: classify_task_difficulty_def Let_def)

section \<open>Role definitions\<close>

definition proper :: "string \<Rightarrow> bool" where
  "proper s \<longleftrightarrow> s \<noteq> [] \<and> trim s = s"

definition proper_option :: "string option \<Rightarrow> bool" where
  "proper_option x \<longleftrightarrow> (case x of None \<Rightarrow> True | Some s \<Rightarrow> proper s)"

definition definition_ok :: "role_definition \<Rightarrow> bool" where
  "definition_ok d \<longleftrightarrow>
     proper (rd_name d) \<and> proper (rd_description d) \<and> proper_option (rd_agent d) \<and>
     proper_option (rd_model d) \<and> list_all proper (rd_allow_tools d) \<and>
     trim (rd_prompt_addendum d) = rd_prompt_addendum d"

lemma empty_to_none_proper: "empty_to_none s = Some t \<Longrightarrow> proper t"
  by (auto simp: empty_to_none_def proper_def Let_def split: if_splits)

lemma bind_proper: "proper_option (Option.bind x empty_to_none)"
  by (cases x) (auto simp: proper_option_def empty_to_none_proper split: option.splits)

lemma required_proper: "required_header x name path = Inr s \<Longrightarrow> proper s"
  using bind_proper [of x] by (auto simp: required_header_def proper_option_def split: option.splits)

lemma into_vec_proper: "list_all proper (into_vec t)"
  by (cases t) (auto simp: list_all_iff proper_def)

lemma parse_definition_ok: "parse_role_definition yaml path text source = Inr d \<Longrightarrow> definition_ok d"
  by (auto simp: parse_role_definition_def definition_ok_def bind_proper into_vec_proper
      dest!: required_proper split: sum.splits option.splits definition_source.splits)

lemma parse_all_ok: "parse_all yaml dir source files = Inr ds \<Longrightarrow> list_all definition_ok ds"
  by (induction yaml dir source files arbitrary: ds rule: parse_all.induct)
     (auto dest: parse_definition_ok split: sum.splits)

lemma load_dir_ok: "load_definition_dir yaml dir files source = Inr ds \<Longrightarrow> list_all definition_ok ds"
  by (auto simp: load_definition_dir_def intro: parse_all_ok split: option.splits)

section \<open>Properties\<close>

text \<open>Capability manifests behave as sets of normalised names. A manifest covers a requirement
  exactly when its set contains the required one, whatever the order, case, padding or repetitions;
  and the effective capabilities of a profile list its set in order without repetitions, less the
  mutating ones for a read-only auditor.\<close>

theorem capabilities_are_sets:
  "(covers_capabilities manifest required \<longleftrightarrow> capability_set required \<subseteq> capability_set manifest) \<and>
   sorted (effective_capabilities p) \<and> distinct (effective_capabilities p) \<and>
   set (effective_capabilities p) =
     capability_set (rp_capabilities p) - (if rp_read_only_auditor p then set MUTATING_CAPABILITIES else {})"
proof (intro conjI)
  show "covers_capabilities manifest required \<longleftrightarrow> capability_set required \<subseteq> capability_set manifest"
    by (auto simp: covers_capabilities_def Let_def list_all_iff list_ex_iff capability_set_def [of "[]"])
  show "sorted (effective_capabilities p)" "distinct (effective_capabilities p)"
    using normalize_sorted [of "rp_capabilities p"]
    by (simp_all add: effective_capabilities_def strip_mutating_capabilities_def Let_def sorted_wrt_filter)
  show "set (effective_capabilities p) =
     capability_set (rp_capabilities p) - (if rp_read_only_auditor p then set MUTATING_CAPABILITIES else {})"
    using mutating_normal [of _ "set (rp_capabilities p)"]
    by (auto simp: effective_capabilities_def strip_mutating_capabilities_def Let_def capability_set_def)
qed

text \<open>C36: Loaded role definitions are well-formed: names, descriptions, agents, models and tools are
  non-empty and without outer white space, and the definitions come in the order of their names,
  those of one name in the order of their paths.\<close>

theorem loaded_definitions_are_well_formed:
  assumes "load_role_definitions yaml base agent_files claude_files = Inr ds"
  shows "list_all definition_ok ds \<and> sorted (map rd_name ds) \<and>
    sorted (map rd_path (filter (\<lambda>d. rd_name d = n) ds))"
proof -
  from assms obtain as bs where "list_all definition_ok as" "list_all definition_ok bs"
    and ds: "ds = sort_key rd_name (sort_key rd_path (as @ bs))"
    by (auto simp: load_role_definitions_def dest!: load_dir_ok split: sum.splits)
  moreover have "filter (\<lambda>d. rd_name d = n) ds = filter (\<lambda>d. rd_name d = n) (sort_key rd_path (as @ bs))"
    unfolding ds by (rule sort_key_stable)
  moreover have "sorted (map rd_path (filter (\<lambda>d. rd_name d = n) (sort_key rd_path (as @ bs))))"
    by (intro sorted_filter) simp
  moreover have "sorted (map rd_name ds)" unfolding ds by simp
  ultimately show ?thesis by (auto simp: list_all_iff)
qed

definition demo_yaml :: "string \<Rightarrow> string + definition_frontmatter" where
  "demo_yaml header = Inr
     \<lparr>df_name = Some header, df_kind = Some ''judge'', df_description = Some '' reviews '', df_agent = Some [],
      df_model = None, df_allow_tools = Some (ToolCsv ''read, ,grep''), df_tools = None\<rparr>"

definition demo_role_file :: string where
  "demo_role_file = ''---'' @ nl @ ''critic '' @ fence @ ''Be strict.'' @ nl"

theorem loaded_definitions_are_well_formed_witness:
  "\<exists>ds. load_role_definitions demo_yaml ''repo'' (Some [(''b.md'', demo_role_file)]) None = Inr ds \<and>
     list_all definition_ok ds \<and> map rd_name ds = [''critic''] \<and> map rd_allow_tools ds = [[''read'', ''grep'']]"
proof -
  have "map_sum id (map (\<lambda>d. (rd_name d, rd_allow_tools d)))
      (load_role_definitions demo_yaml ''repo'' (Some [(''b.md'', demo_role_file)]) None) =
    Inr [(''critic'', [''read'', ''grep''])]"
    by code_simp
  then obtain ds where ds: "load_role_definitions demo_yaml ''repo'' (Some [(''b.md'', demo_role_file)]) None = Inr ds"
    "map (\<lambda>d. (rd_name d, rd_allow_tools d)) ds = [(''critic'', [''read'', ''grep''])]"
    by (auto simp: map_sum_def split: sum.splits)
  with loaded_definitions_are_well_formed [OF ds(1)] show ?thesis by auto
qed

end
