(* ===== verification/Dispatch.thy ===== *)
theory Dispatch
  imports Routing Redaction Receipts_Properties
begin

text \<open>
  One delegation from start to end (\<open>execute_delegation_via_process\<close> of \<open>crates/flume/src/lib.rs\<close>):
  the admission check, the spawn receipt, the worker process, the redaction of what comes back, and
  the return receipt.

  The worker process is outside: it answers the spawn with a session or an error text, and the
  message with a response or an error text after a list of events. The disk decides whether opening
  the receipt file and each append succeed. A receipt is written as the line \<open>enc\<close> gives for it.
  Besides its result the dispatch tells whether the process was asked to spawn, and with what.
\<close>

section \<open>The process configuration\<close>

record flume_config =
  fc_repo_root :: string
  fc_registry_dir :: string
  fc_bindings :: "agent_binding list"
  fc_catalog :: agent_catalog
  fc_definitions :: "role_definition list"
  fc_max_teammates :: nat
  fc_max_concurrent_spawns :: nat
  fc_max_lifetime :: nat  \<comment> \<open>seconds\<close>
  fc_termination_grace :: nat

record process_config =
  pc_agent_id :: string
  pc_command :: string
  pc_args :: "string list"
  pc_env :: "(string \<times> string) list"
  pc_working_dir :: "string option"
  pc_timeout :: nat
  pc_max_lifetime :: nat
  pc_termination_grace :: nat
  pc_registry_dir :: string
  pc_max_concurrent_spawns :: nat
  pc_static_models :: "string list"
  pc_default_model :: "string option"

definition apply_native_hints :: "process_config \<Rightarrow> native_kind \<Rightarrow> process_config" where
  "apply_native_hints c kind =
     (let c1 = c\<lparr>pc_env := pc_env c @ [(''ARTESIAN_NATIVE_SUBAGENTS'', ''1'')]\<rparr>
      in case kind of
           NativeOpencode \<Rightarrow>
             c1\<lparr>pc_env := pc_env c1 @ [(''OPENCODE_EXPERIMENTAL_BACKGROUND_SUBAGENTS'', ''1'')]\<rparr>
         | _ \<Rightarrow> c1)"

definition process_agent_config_for_binding ::
  "flume_config \<Rightarrow> agent_binding \<Rightarrow> native_kind option \<Rightarrow> process_config" where
  "process_agent_config_for_binding cfg b native =
     (let c = \<lparr>pc_agent_id = ab_agent b,
               pc_command = (case ab_command b of Some cmd \<Rightarrow> cmd | None \<Rightarrow> ab_agent b),
               pc_args = ab_args b, pc_env = [], pc_working_dir = Some (fc_repo_root cfg),
               pc_timeout = (case ab_timeout_seconds b of Some t \<Rightarrow> unat t | None \<Rightarrow> 120),
               pc_max_lifetime = fc_max_lifetime cfg,
               pc_termination_grace = fc_termination_grace cfg,
               pc_registry_dir = fc_registry_dir cfg,
               pc_max_concurrent_spawns = max (fc_max_concurrent_spawns cfg) 1,
               pc_static_models =
                 (case List.find (\<lambda>e. ce_agent e = ab_agent b) (fc_catalog cfg) of
                    Some e \<Rightarrow> map am_id (filter am_reachable (ce_models e)) | None \<Rightarrow> []),
               pc_default_model = ab_model b\<rparr>
      in case native of Some kind \<Rightarrow> apply_native_hints c kind | None \<Rightarrow> c)"

section \<open>The dispatch\<close>

record worker_event =
  we_kind :: string
  we_text :: string
  we_raw :: string

record team_worker_event =
  twe_team_id :: string
  twe_teammate :: string
  twe_kind :: string
  twe_text :: string
  twe_raw :: string

definition push_worker_event ::
  "string \<Rightarrow> string \<Rightarrow> worker_event \<Rightarrow> team_worker_event list \<Rightarrow> team_worker_event list" where
  "push_worker_event team teammate e events =
     events @ [\<lparr>twe_team_id = team, twe_teammate = teammate, twe_kind = we_kind e,
                twe_text = redact_secrets (we_text e), twe_raw = redact_secrets (we_raw e)\<rparr>]"

record team_execution =
  te_response :: string
  te_events :: "team_worker_event list"

datatype ('c, 'j) receipt = SpawnR "('c, 'j) spawn_receipt" | ReturnR "('c, 'j) return_receipt"

record worker_process =
  wp_spawn :: "process_config \<Rightarrow> spawn_request \<Rightarrow> string + agent_session"
  wp_send :: "process_config \<Rightarrow> agent_session \<Rightarrow> string \<Rightarrow> (string + string) \<times> worker_event list"

record ('c, 'j) dispatch_env =
  dx_config :: "'c receipts_config"
  dx_open_error :: "string option"
  dx_spawn_write_error :: "string option"
  dx_return_written :: bool
  dx_trace_written :: bool
  dx_spawn_ts :: timestamp
  dx_return_ts :: timestamp
  dx_elapsed_ms :: u64
  dx_count_tokens :: "string \<Rightarrow> u64"
  dx_no_extra :: 'j
  dx_enc :: "('c, 'j) receipt \<Rightarrow> string"

definition teammate_prefix :: "string \<Rightarrow> string \<Rightarrow> string" where
  "teammate_prefix team teammate = ''team '' @ quoted team @ '' teammate '' @ quoted teammate @ '': ''"

definition spawn_receipt_for ::
  "('c, 'j) dispatch_env \<Rightarrow> ('c, 's) delegation \<Rightarrow> string \<Rightarrow> ('c, 'j) spawn_receipt" where
  "spawn_receipt_for dx d i =
     \<lparr>sp_kind = ''spawn'', sp_receipt_id = i, sp_ts = dx_spawn_ts dx, sp_parent = ''root'',
      sp_role = Some (canonical_alias (ab_role (de_binding d))), sp_harness = Some (ab_agent (de_binding d)),
      sp_model = ab_model (de_binding d),
      sp_task_boundary = task_boundary_from_instruction (de_instruction d),
      sp_budget = resolve_receipt_budget (de_budget d) (ab_timeout_seconds (de_binding d)) (dx_config dx),
      sp_tool_allowlist = de_allowed_tools d, sp_schema_hash = None, sp_extra = dx_no_extra dx\<rparr>"

definition return_receipt_for ::
  "('c, 'j) dispatch_env \<Rightarrow> string \<Rightarrow> string \<Rightarrow> string \<Rightarrow> stop_reason \<Rightarrow> string option \<Rightarrow> ('c, 'j) return_receipt" where
  "return_receipt_for dx registry_dir i spawn_ref reason distilled_source =
     \<lparr>re_kind = ''return'', re_receipt_id = i, re_ts = dx_return_ts dx, re_spawn_ref = spawn_ref,
      re_stop_reason = reason,
      re_consumed = \<lparr>co_tokens = None, co_tool_calls = None,
                     co_wall_time_ms = Some (dx_elapsed_ms dx), co_cost_usd = None\<rparr>,
      re_distilled = map_option (\<lambda>text. \<lparr>di_tokens = Some (dx_count_tokens dx text), di_reference = None\<rparr>)
                       distilled_source,
      re_trace_ref = (if dx_trace_written dx then Some (registry_dir @ ''/'' @ i @ ''.trace.jsonl'') else None),
      re_gate = None, re_extra = dx_no_extra dx\<rparr>"

definition write_return_receipt ::
  "('c, 'j) dispatch_env \<Rightarrow> string \<Rightarrow> receipt_writer option \<Rightarrow> ('c, 'j) spawn_receipt option \<Rightarrow>
     stop_reason \<Rightarrow> string option \<Rightarrow> receipts_world \<Rightarrow> receipts_world" where
  "write_return_receipt dx registry_dir writer spawn reason distilled_source w =
     (case (writer, spawn) of
        (Some wr, Some sp) \<Rightarrow>
          (case next_receipt_id wr w of
             (i, w1) \<Rightarrow>
               (if dx_return_written dx
                then append_line wr (dx_enc dx (ReturnR
                       (return_receipt_for dx registry_dir i (sp_receipt_id sp) reason distilled_source))) w1
                else w1))
      | _ \<Rightarrow> w)"

text \<open>The receipt part: refusal, or the writer and the spawn receipt if they could be had.\<close>

definition open_receipts ::
  "('c, 'j) dispatch_env \<Rightarrow> flume_config \<Rightarrow> ('c, 's) delegation \<Rightarrow> string \<Rightarrow> string \<Rightarrow> receipts_world \<Rightarrow>
     (flume_error + receipt_writer option \<times> ('c, 'j) spawn_receipt option) \<times> receipts_world" where
  "open_receipts dx cfg d team teammate w =
     (let rc = dx_config dx;
          receipt_budget = resolve_receipt_budget (de_budget d) (ab_timeout_seconds (de_binding d)) rc
      in case check_admission receipt_budget (rc_fail_closed rc) of
           Inl reason \<Rightarrow> (Inl (ReceiptRefused (teammate_prefix team teammate @ reason)), w)
         | Inr _ \<Rightarrow>
             (case dx_open_error dx of
                Some err \<Rightarrow>
                  (if rc_fail_closed rc
                   then (Inl (ReceiptRefused (teammate_prefix team teammate @
                          ''receipts.jsonl unavailable: '' @ err)), w)
                   else (Inr (None, None), w))
              | None \<Rightarrow>
                  (case open_writer (fc_registry_dir cfg) team (rc_fsync rc) w of
                     (wr, w1) \<Rightarrow>
                       (case next_receipt_id wr w1 of
                          (i, w2) \<Rightarrow>
                            (let sp = spawn_receipt_for dx d i
                             in case dx_spawn_write_error dx of
                                  None \<Rightarrow> (Inr (Some wr, Some sp), append_line wr (dx_enc dx (SpawnR sp)) w2)
                                | Some err \<Rightarrow>
                                    (if rc_fail_closed rc
                                     then (Inl (ReceiptRefused (teammate_prefix team teammate @
                                            ''failed to write spawn receipt: '' @ err)), w2)
                                     else (Inr (Some wr, None), w2)))))))"

definition spawn_request_for :: "flume_config \<Rightarrow> ('c, 's) delegation \<Rightarrow> spawn_request" where
  "spawn_request_for cfg d =
     \<lparr>sr_role = ab_role (de_binding d), sr_agent = ab_agent (de_binding d),
      sr_model = ab_model (de_binding d), sr_working_dir = Some (fc_repo_root cfg),
      sr_resume_packet = de_resume_packet d\<rparr>"

text \<open>The text of an \<open>AgentError\<close> is given by the process; \<open>Agent\<close> errors carry it.\<close>

definition execute_delegation_via_process ::
  "('c, 'j) dispatch_env \<Rightarrow> worker_process \<Rightarrow> flume_config \<Rightarrow> ('c, 's) delegation \<Rightarrow> dispatch_strategy \<Rightarrow>
     string \<Rightarrow> string \<Rightarrow> receipts_world \<Rightarrow>
     (flume_error + team_execution) \<times> (process_config \<times> spawn_request \<times> string) option \<times> receipts_world" where
  "execute_delegation_via_process dx wp cfg d strategy team teammate w =
     (let native = (case strategy of FreshProcess \<Rightarrow> None | NativeSubagent kind \<Rightarrow> Some kind)
      in case open_receipts dx cfg d team teammate w of
           (Inl err, w1) \<Rightarrow> (Inl err, None, w1)
         | (Inr (writer, spawn), w1) \<Rightarrow>
             (let pc = process_agent_config_for_binding cfg (de_binding d) native;
                  req = spawn_request_for cfg d;
                  asked = Some (pc, req, de_instruction d);
                  ret = write_return_receipt dx (fc_registry_dir cfg) writer spawn
              in case wp_spawn wp pc req of
                   Inl err \<Rightarrow> (Inl (AgentFailed err), asked, ret (classify_stop_reason err) None w1)
                 | Inr session \<Rightarrow>
                     (case wp_send wp pc session (de_instruction d) of
                        (response, raw_events) \<Rightarrow>
                          (let events = fold (push_worker_event team teammate) raw_events []
                           in case response of
                                Inr content \<Rightarrow>
                                  (Inr \<lparr>te_response = redact_secrets content, te_events = events\<rparr>, asked,
                                   ret StopDone (Some content) w1)
                              | Inl err \<Rightarrow>
                                  (Inl (AgentFailed err), asked, ret (classify_stop_reason err) None w1)))))"

definition execute_delegation ::
  "(string \<Rightarrow> string) \<Rightarrow> native_config \<Rightarrow> ('c, 'j) dispatch_env \<Rightarrow> worker_process \<Rightarrow> flume_config \<Rightarrow>
     ('c, 's) delegation \<Rightarrow> string \<Rightarrow> string \<Rightarrow> receipts_world \<Rightarrow>
     (flume_error + team_execution) \<times> (process_config \<times> spawn_request \<times> string) option \<times> receipts_world" where
  "execute_delegation basename natives dx wp cfg d team teammate w =
     execute_delegation_via_process dx wp cfg d
       (select_delegation_dispatch_strategy basename natives (de_binding d)) team teammate w"

end
