(* ===== verification/Dispatch_Properties.thy ===== *)
theory Dispatch_Properties
  imports Dispatch
begin

text \<open>
  What one dispatch leaves behind: its receipts, the redaction of its result, and the two things it
  does not do (tool visibility and session context never reach the worker).
\<close>

section \<open>The receipt file\<close>

definition file_lines :: "receipts_world \<Rightarrow> string \<Rightarrow> string list" where
  "file_lines w path = (case rw_files w path of None \<Rightarrow> [] | Some ls \<Rightarrow> ls)"


lemma lines_append [simp]:
  "file_lines (append_line wr line w) = (file_lines w)(wr_path wr := file_lines w (wr_path wr) @ [line])"
  by (auto simp: file_lines_def append_line_def fun_eq_iff)

lemma lines_next_id [simp]: "next_receipt_id wr w = (i, w') \<Longrightarrow> file_lines w' = file_lines w"
  by (auto simp: next_receipt_id_def file_lines_def fun_eq_iff Let_def)



lemma seq_append [simp]: "rw_seq (append_line wr line w) = rw_seq w"
  by (simp add: append_line_def)




lemma no_return_lines [simp]: "write_return_receipt dx dir writer None reason src w = w"
  by (simp add: write_return_receipt_def split: option.splits)

section \<open>Redacted results\<close>





section \<open>Properties\<close>



lemma classified_not_done [simp]: "classify_stop_reason err \<noteq> StopDone"
  by (simp add: classify_stop_reason_def)


lemma open_receipts_allowance:
  assumes "open_receipts dx cfg d team teammate w = (o1, w1)"
  obtains w2 where "open_receipts dx cfg (d\<lparr>de_allowed_tools := tools, de_session_context := scope\<rparr>) team teammate w =
     (map_sum id (map_prod id (map_option (\<lambda>sp. sp\<lparr>sp_tool_allowlist := tools\<rparr>))) o1, w2)"
  using assms
  by (auto simp: open_receipts_def Let_def spawn_receipt_for_def
      split: sum.splits option.splits prod.splits if_splits intro: that)











text \<open>Tool visibility is only recorded. Whatever tools and memory scope a delegation allows, the
  worker process gets the same configuration, spawn request and instruction, and the caller the same
  result; the tools appear in the spawn receipt only.\<close>

theorem tool_visibility_is_only_recorded:
  "fst (execute_delegation_via_process dx wp cfg (d\<lparr>de_allowed_tools := tools, de_session_context := scope\<rparr>)
      strategy team teammate w) =
   fst (execute_delegation_via_process dx wp cfg d strategy team teammate w) \<and>
   fst (snd (execute_delegation_via_process dx wp cfg
      (d\<lparr>de_allowed_tools := tools, de_session_context := scope\<rparr>) strategy team teammate w)) =
   fst (snd (execute_delegation_via_process dx wp cfg d strategy team teammate w))"
proof -
  obtain o1 w1 where o1: "open_receipts dx cfg d team teammate w = (o1, w1)"
    by (cases "open_receipts dx cfg d team teammate w")
  from o1 obtain w2 where "open_receipts dx cfg (d\<lparr>de_allowed_tools := tools, de_session_context := scope\<rparr>)
      team teammate w = (map_sum id (map_prod id (map_option (\<lambda>sp. sp\<lparr>sp_tool_allowlist := tools\<rparr>))) o1, w2)"
    by (rule open_receipts_allowance)
  with o1 show ?thesis
    by (cases o1)
       (auto simp: execute_delegation_via_process_def spawn_request_for_def Let_def split: sum.splits prod.splits)
qed

end
