(* ===== verification/Team_Runtime.thy ===== *)
theory Team_Runtime
  imports Dispatch
begin

text \<open>
  Agent teams (\<open>TeamRuntime\<close> of \<open>crates/flume/src/lib.rs\<close>): teams, teammates, the shared task board,
  plan approval, the message pool, lanes and presence. Every public operation that changes the
  runtime is here, and \<open>team_step\<close> is one call of any of them.

  The state of a call is the runtime together with the task files and the receipts
  (\<open>team_world\<close>). Clock readings, the worker process and the process registry are arguments.
\<close>

section \<open>State\<close>

datatype team_status = TeamIdle | TeamActive | TeamComplete | TeamCleanedUp
datatype teammate_status = MateIdle | MateActive | MatePaused | MateComplete

record teammate_state =
  tm_definition :: role_definition
  tm_binding :: agent_binding
  tm_session :: "agent_session option"
  tm_status :: teammate_status
  tm_paused_reason :: "string option"

record teammate_record =
  tmr_name :: string
  tmr_kind :: role
  tmr_agent :: string
  tmr_model :: "string option"
  tmr_status :: teammate_status
  tmr_paused_reason :: "string option"

definition teammate_record_of :: "teammate_state \<Rightarrow> teammate_record" where
  "teammate_record_of t =
     \<lparr>tmr_name = rd_name (tm_definition t), tmr_kind = rd_kind (tm_definition t),
      tmr_agent = ab_agent (tm_binding t), tmr_model = ab_model (tm_binding t),
      tmr_status = tm_status t, tmr_paused_reason = tm_paused_reason t\<rparr>"

text \<open>The JSON payloads of team events, by their shape.\<close>

datatype team_payload =
    ClaimedPayload string string  \<comment> \<open>task, teammate\<close>
  | ReviewPayload string bool  \<comment> \<open>task, approved\<close>
  | DonePayload string
  | MessagePayload string "string option" "string option" string "bool option"
      \<comment> \<open>from, to, task, content, approved\<close>

record team_state =
  te_id :: string
  te_name :: string
  te_status :: team_status
  te_max_teammates :: nat
  te_plan_approval_required :: bool
  te_plan_approval_roles :: "string list"
  te_teammates :: "(string, teammate_state) btree_map"
  te_log :: "team_payload event_envelope list"
  te_task_definitions :: "(string, string) btree_map"
  te_approved_plans :: "string btree_set"
  te_lanes :: lane_coordinator

record team_record =
  ter_id :: string
  ter_name :: string
  ter_status :: team_status
  ter_max_teammates :: nat
  ter_plan_approval_required :: bool
  ter_plan_approval_roles :: "string list"
  ter_teammates :: "teammate_record list"
  ter_events :: "team_payload event_envelope list"

definition team_record_of :: "team_state \<Rightarrow> team_record" where
  "team_record_of t =
     \<lparr>ter_id = te_id t, ter_name = te_name t, ter_status = te_status t,
      ter_max_teammates = te_max_teammates t, ter_plan_approval_required = te_plan_approval_required t,
      ter_plan_approval_roles = te_plan_approval_roles t,
      ter_teammates = map teammate_record_of (bt_values (te_teammates t)), ter_events = te_log t\<rparr>"

definition active_teammates :: "team_state \<Rightarrow> nat" where
  "active_teammates t = length (filter (\<lambda>m. tm_status m \<noteq> MatePaused) (bt_values (te_teammates t)))"

record team_runtime =
  tr_config :: flume_config
  tr_natives :: native_config
  tr_teams :: "(string, team_state) btree_map"
  tr_event_counter :: u64

definition new_runtime :: "flume_config \<Rightarrow> team_runtime" where
  "new_runtime cfg =
     \<lparr>tr_config = cfg,
      tr_natives = \<lparr>nc_enabled = False, nc_profiles = [],
                    nc_detection = \<lparr>nd_claude = False, nd_codex = False, nd_opencode = False\<rparr>\<rparr>,
      tr_teams = bt_empty, tr_event_counter = 0\<rparr>"

record team_world =
  tw_runtime :: team_runtime
  tw_files :: task_files
  tw_receipts :: receipts_world

section \<open>Requests\<close>

record team_create =
  tc_id :: "string option"
  tc_name :: string
  tc_max_teammates :: "nat option"
  tc_plan_approval_required :: bool
  tc_plan_approval_roles :: "string list"

record team_task_add =
  tta_team_id :: string
  tta_title :: string
  tta_description :: string
  tta_definition :: "string option"
  tta_blockers :: "string list"

record team_task_claim =
  ttc_team_id :: string
  ttc_task_id :: "string option"
  ttc_teammate :: string

record team_task_complete =
  ttf_team_id :: string
  ttf_task_id :: string
  ttf_reviewer :: string
  ttf_approved :: bool

datatype message_kind = AskKind | ResultKind | ReviewKind | DoneKind

fun message_event_type :: "message_kind \<Rightarrow> event_type" where
  "message_event_type AskKind = Ask"
| "message_event_type ResultKind = ResultEvent"
| "message_event_type ReviewKind = Review"
| "message_event_type DoneKind = DoneEvent"

record team_message =
  tms_team_id :: string
  tms_from :: string
  tms_to :: "string option"
  tms_kind :: message_kind
  tms_content :: string
  tms_task_id :: "string option"
  tms_approved :: "bool option"
  tms_execute :: bool
  tms_resume_packet :: "string option"

record message_outcome =
  mo_event :: "team_payload event_envelope"
  mo_response :: "string option"
  mo_worker_events :: "team_worker_event list"

section \<open>Lookups\<close>

definition find_definition :: "string \<Rightarrow> team_runtime \<Rightarrow> flume_error + role_definition" where
  "find_definition name rt =
     (case List.find (\<lambda>d. rd_name d = name) (fc_definitions (tr_config rt)) of
        Some d \<Rightarrow> Inr d
      | None \<Rightarrow> Inl (InvalidDefinition (''unknown role definition: '' @ name)))"

definition find_team :: "string \<Rightarrow> team_runtime \<Rightarrow> flume_error + team_state" where
  "find_team i rt = (case bt_get (tr_teams rt) i of Some t \<Rightarrow> Inr t | None \<Rightarrow> Inl (TeamNotFound i))"

text \<open>What \<open>team_mut\<close> is used for: replace the team filed under \<open>i\<close>.\<close>

definition put_team :: "string \<Rightarrow> team_state \<Rightarrow> team_runtime \<Rightarrow> team_runtime" where
  "put_team i t rt = rt\<lparr>tr_teams := bt_insert i t (tr_teams rt)\<rparr>"

definition teammate_role :: "string \<Rightarrow> string \<Rightarrow> team_runtime \<Rightarrow> role option" where
  "teammate_role team name rt =
     (case bt_get (tr_teams rt) team of
        None \<Rightarrow> None
      | Some t \<Rightarrow> map_option (\<lambda>m. rd_kind (tm_definition m)) (bt_get (te_teammates t) name))"

definition default_worker_definition_name :: "team_runtime \<Rightarrow> string option" where
  "default_worker_definition_name rt =
     map_option rd_name (List.find (\<lambda>d. rd_kind d = Worker) (fc_definitions (tr_config rt)))"

definition binding_for_definition :: "role_definition \<Rightarrow> team_runtime \<Rightarrow> flume_error + agent_binding" where
  "binding_for_definition d rt =
     (let bindings = fc_bindings (tr_config rt);
          by_agent = (case rd_agent d of
                        Some agent \<Rightarrow> List.find (\<lambda>b. ab_agent b = agent) bindings
                      | None \<Rightarrow> None);
          base = (case by_agent of
                    Some b \<Rightarrow> Some b
                  | None \<Rightarrow> List.find (\<lambda>b. ab_role b = rd_kind d) bindings)
      in case (case rd_agent d of Some agent \<Rightarrow> Some agent | None \<Rightarrow> map_option ab_agent base) of
           None \<Rightarrow> Inl (InvalidDefinition (''definition '' @ quoted (rd_name d) @
                    '' has no agent and no '' @ canonical_alias (rd_kind d) @ '' binding is configured''))
         | Some agent \<Rightarrow>
             (if \<not> list_ex (\<lambda>e. ce_agent e = agent \<and> ce_reachable e) (fc_catalog (tr_config rt))
              then Inl (AgentFailed (''agent '' @ quoted agent @
                     '' is not reachable in the catalog; run `artesian agents refresh`''))
              else
                (let b = \<lparr>ab_role = rd_kind d, ab_agent = agent,
                          ab_model = (case rd_model d of
                                        Some m \<Rightarrow> Some m
                                      | None \<Rightarrow> Option.bind base ab_model),
                          ab_command = Option.bind base ab_command,
                          ab_args = (case base of Some x \<Rightarrow> ab_args x | None \<Rightarrow> []),
                          ab_timeout_seconds = Option.bind base ab_timeout_seconds\<rparr>
                 in case validate_binding_model b (fc_catalog (tr_config rt)) of
                      Inl err \<Rightarrow> Inl (AgentFailed (''agent is unavailable: '' @ err))
                    | Inr _ \<Rightarrow> Inr b)))"

text \<open>The counter moves even when the team is unknown.\<close>

definition push_team_event ::
  "string \<Rightarrow> string \<Rightarrow> role \<Rightarrow> string \<Rightarrow> event_type \<Rightarrow> team_payload \<Rightarrow> timestamp \<Rightarrow> team_runtime \<Rightarrow>
     (flume_error + team_payload event_envelope) \<times> team_runtime" where
  "push_team_event team correlation r agent ty payload now rt =
     (let n = tr_event_counter rt + 1;
          rt1 = rt\<lparr>tr_event_counter := n\<rparr>;
          e = new_event (''team-evt-'' @ show_nat (unat n)) correlation
                \<lparr>es_role = r, es_agent_id = agent\<rparr> ty payload now
      in case find_team team rt1 of
           Inl err \<Rightarrow> (Inl err, rt1)
         | Inr t \<Rightarrow> (Inr e, put_team team (t\<lparr>te_log := te_log t @ [e]\<rparr>) rt1))"

section \<open>Teams and teammates\<close>

text \<open>A name without letters and digits gets an id from the clock in milliseconds.\<close>

definition stable_team_id :: "nat \<Rightarrow> string \<Rightarrow> string" where
  "stable_team_id millis name =
     (let i = trim_dashes (map (\<lambda>c. if is_ascii_alphanumeric c then ascii_lower c else CHR ''-'')
                (filter (\<lambda>c. \<not> utf8_cont c) name))
      in if i = [] then ''team-'' @ show_nat millis else i)"

definition create_team :: "nat \<Rightarrow> team_create \<Rightarrow> team_runtime \<Rightarrow> team_record \<times> team_runtime" where
  "create_team millis req rt =
     (let i = (case tc_id req of Some x \<Rightarrow> x | None \<Rightarrow> stable_team_id millis (tc_name req));
          t = \<lparr>te_id = i, te_name = tc_name req, te_status = TeamIdle,
               te_max_teammates =
                 max (case tc_max_teammates req of Some m \<Rightarrow> m
                      | None \<Rightarrow> fc_max_teammates (tr_config rt)) 1,
               te_plan_approval_required = tc_plan_approval_required req,
               te_plan_approval_roles = tc_plan_approval_roles req, te_teammates = bt_empty,
               te_log = [], te_task_definitions = bt_empty, te_approved_plans = bt_empty,
               te_lanes = new_coordinator\<rparr>
      in (team_record_of t, put_team i t rt))"

definition admit_teammate :: "string \<Rightarrow> string \<Rightarrow> teammate_state \<Rightarrow> bool \<Rightarrow> team_runtime \<Rightarrow> team_runtime" where
  "admit_teammate team name m activate rt =
     (case find_team team rt of
        Inl _ \<Rightarrow> rt
      | Inr t \<Rightarrow>
          put_team team
            (t\<lparr>te_teammates := bt_insert name m (te_teammates t),
               te_status := (if activate then TeamActive else te_status t)\<rparr>) rt)"

text \<open>The registry sweep before the spawn is best effort and does not touch the runtime.\<close>

definition spawn_teammate ::
  "worker_process \<Rightarrow> string \<Rightarrow> string \<Rightarrow> team_runtime \<Rightarrow> (flume_error + teammate_record) \<times> team_runtime" where
  "spawn_teammate wp team name rt =
     (case find_definition name rt of
        Inl err \<Rightarrow> (Inl err, rt)
      | Inr d \<Rightarrow>
     (case binding_for_definition d rt of
        Inl err \<Rightarrow> (Inl err, rt)
      | Inr b \<Rightarrow>
     (case find_team team rt of
        Inl err \<Rightarrow> (Inl err, rt)
      | Inr t \<Rightarrow>
          (if active_teammates t \<ge> te_max_teammates t
           then (let m = \<lparr>tm_definition = d, tm_binding = b, tm_session = None, tm_status = MatePaused,
                          tm_paused_reason = Some ''team teammate cap reached''\<rparr>
                 in (Inr (teammate_record_of m), admit_teammate team (rd_name d) m False rt))
           else
             (case wp_spawn wp (process_agent_config_for_binding (tr_config rt) b None)
                     \<lparr>sr_role = rd_kind d, sr_agent = ab_agent b, sr_model = ab_model b,
                      sr_working_dir = Some (fc_repo_root (tr_config rt)), sr_resume_packet = None\<rparr> of
                Inl err \<Rightarrow> (Inl (AgentFailed err), rt)
              | Inr session \<Rightarrow>
                  (let m = \<lparr>tm_definition = d, tm_binding = b, tm_session = Some session,
                            tm_status = MateIdle, tm_paused_reason = None\<rparr>
                   in (Inr (teammate_record_of m), admit_teammate team (rd_name d) m True rt)))))))"

definition team_status_of :: "string \<Rightarrow> team_runtime \<Rightarrow> flume_error + team_record" where
  "team_status_of team rt =
     (case find_team team rt of Inl err \<Rightarrow> Inl err | Inr t \<Rightarrow> Inr (team_record_of t))"

text \<open>\<open>terminated\<close>: whether the registry could stop this owner's processes.\<close>

definition cleanup :: "string option \<Rightarrow> string \<Rightarrow> team_runtime \<Rightarrow> (flume_error + team_record) \<times> team_runtime" where
  "cleanup terminate_error team rt =
     (case terminate_error of
        Some err \<Rightarrow> (Inl (AgentFailed err), rt)
      | None \<Rightarrow>
          (case find_team team rt of
             Inl err \<Rightarrow> (Inl err, rt)
           | Inr t \<Rightarrow>
               (let t' = t\<lparr>te_teammates := map (\<lambda>(n, m). (n, m\<lparr>tm_status := MateComplete, tm_session := None\<rparr>))
                                            (te_teammates t),
                           te_status := TeamCleanedUp\<rparr>
                in (Inr (team_record_of t'), put_team team t' rt))))"

section \<open>The task board\<close>

definition add_task ::
  "'y task_codec \<Rightarrow> timestamp \<Rightarrow> team_task_add \<Rightarrow> team_runtime \<Rightarrow> task_files \<Rightarrow>
     (flume_error + 'y task) \<times> team_runtime \<times> task_files" where
  "add_task E now req rt fs =
     (let name = (case tta_definition req of
                    Some n \<Rightarrow> Some n
                  | None \<Rightarrow> default_worker_definition_name rt);
          role = (case name of
                    None \<Rightarrow> Worker
                  | Some n \<Rightarrow> (case find_definition n rt of Inr d \<Rightarrow> rd_kind d | Inl _ \<Rightarrow> Worker))
      in case create E now ((primitive (tta_title req))
                \<lparr>nt_description := tta_description req, nt_role := role, nt_blockers := tta_blockers req\<rparr>) fs of
           (Inl err, fs') \<Rightarrow> (Inl (TaskFailed err), rt, fs')
         | (Inr t, fs') \<Rightarrow>
             (case find_team (tta_team_id req) rt of
                Inl err \<Rightarrow> (Inl err, rt, fs')
              | Inr team \<Rightarrow>
                  (Inr t,
                   (case name of
                      None \<Rightarrow> rt
                    | Some n \<Rightarrow>
                        put_team (tta_team_id req)
                          (team\<lparr>te_task_definitions := bt_insert (t_id t) n (te_task_definitions team)\<rparr>) rt),
                   fs')))"

definition requires_plan_approval :: "team_task_claim \<Rightarrow> team_runtime \<Rightarrow> flume_error + bool" where
  "requires_plan_approval req rt =
     (case find_team (ttc_team_id req) rt of
        Inl err \<Rightarrow> Inl err
      | Inr t \<Rightarrow>
          (case ttc_task_id req of
             None \<Rightarrow> Inr False
           | Some i \<Rightarrow>
               (if bs_member i (te_approved_plans t) then Inr False
                else Inr (te_plan_approval_required t \<or>
                  (case bt_get (te_task_definitions t) i of
                     Some d \<Rightarrow> d \<in> set (te_plan_approval_roles t)
                   | None \<Rightarrow> False)))))"

definition claim_task ::
  "'y task_codec \<Rightarrow> timestamp \<Rightarrow> team_task_claim \<Rightarrow> team_runtime \<Rightarrow> task_files \<Rightarrow>
     (flume_error + 'y task option) \<times> team_runtime \<times> task_files" where
  "claim_task E now req rt fs =
     (case requires_plan_approval req rt of
        Inl err \<Rightarrow> (Inl err, rt, fs)
      | Inr needed \<Rightarrow>
          (case (needed, ttc_task_id req) of
             (True, Some i) \<Rightarrow> (Inl (PlanApprovalRequired i), rt, fs)
           | _ \<Rightarrow>
               (case claim E now \<lparr>cr_task_id = ttc_task_id req, cr_claimant = ttc_teammate req\<rparr> fs of
                  (Inl err, fs') \<Rightarrow> (Inl (TaskFailed err), rt, fs')
                | (Inr None, fs') \<Rightarrow> (Inr None, rt, fs')
                | (Inr (Some t), fs') \<Rightarrow>
                    (case push_team_event (ttc_team_id req) (t_id t)
                            (case teammate_role (ttc_team_id req) (ttc_teammate req) rt of
                               Some r \<Rightarrow> r | None \<Rightarrow> Worker)
                            (ttc_teammate req) TaskClaimed (ClaimedPayload (t_id t) (ttc_teammate req)) now rt of
                       (Inl err, rt') \<Rightarrow> (Inl err, rt', fs')
                     | (Inr _, rt') \<Rightarrow> (Inr (Some t), rt', fs')))))"

definition finish_task ::
  "'y task_codec \<Rightarrow> timestamp \<Rightarrow> team_task_complete \<Rightarrow> team_runtime \<Rightarrow> task_files \<Rightarrow>
     (flume_error + 'y task) \<times> team_runtime \<times> task_files" where
  "finish_task E now req rt fs =
     (let reviewer_role = (case teammate_role (ttf_team_id req) (ttf_reviewer req) rt of
                             Some r \<Rightarrow> r | None \<Rightarrow> Master)
      in if reviewer_role \<noteq> Judge \<and> reviewer_role \<noteq> Master
         then (Inl (InvalidDefinition ''only judge or master teammates may complete a task''), rt, fs)
         else
           (case transition E now \<lparr>tt_id = ttf_task_id req,
                    tt_status = (if ttf_approved req then Done else Blocked)\<rparr> fs of
              (Inl err, fs') \<Rightarrow> (Inl (TaskFailed err), rt, fs')
            | (Inr t, fs') \<Rightarrow>
                (case push_team_event (ttf_team_id req) (ttf_task_id req) reviewer_role (ttf_reviewer req)
                        Review (ReviewPayload (ttf_task_id req) (ttf_approved req)) now rt of
                   (Inl err, rt1) \<Rightarrow> (Inl err, rt1, fs')
                 | (Inr _, rt1) \<Rightarrow>
                     (if \<not> ttf_approved req then (Inr t, rt1, fs')
                      else
                        (case push_team_event (ttf_team_id req) (t_id t) reviewer_role (ttf_reviewer req)
                                DoneEvent (DonePayload (t_id t)) now rt1 of
                           (Inl err, rt2) \<Rightarrow> (Inl err, rt2, fs')
                         | (Inr _, rt2) \<Rightarrow> (Inr t, rt2, fs'))))))"

section \<open>Messages\<close>

definition delegation_for_teammate ::
  "string \<Rightarrow> string \<Rightarrow> string \<Rightarrow> string option \<Rightarrow> team_runtime \<Rightarrow> flume_error + ('c, 's) delegation" where
  "delegation_for_teammate team name content resume_packet rt =
     (case find_team team rt of
        Inl err \<Rightarrow> Inl err
      | Inr t \<Rightarrow>
          (case bt_get (te_teammates t) name of
             None \<Rightarrow> Inl (TeammateNotFound name)
           | Some m \<Rightarrow>
               (if tm_status m = MatePaused
                then Inl (AdmissionPaused name
                       (case tm_paused_reason m of Some r \<Rightarrow> r | None \<Rightarrow> ''paused''))
                else
                  (let d = delegation_from_definition (tm_definition m) (tm_binding m) content
                   in Inr (case resume_packet of Some p \<Rightarrow> with_resume_packet p d | None \<Rightarrow> d)))))"

definition approve_plan :: "team_message \<Rightarrow> team_runtime \<Rightarrow> team_runtime" where
  "approve_plan req rt =
     (case (tms_kind req, tms_approved req, tms_task_id req) of
        (ReviewKind, Some True, Some i) \<Rightarrow>
          (case find_team (tms_team_id req) rt of
             Inl _ \<Rightarrow> rt
           | Inr t \<Rightarrow>
               put_team (tms_team_id req) (t\<lparr>te_approved_plans := bs_insert i (te_approved_plans t)\<rparr>) rt)
      | _ \<Rightarrow> rt)"

definition message ::
  "(string \<Rightarrow> string) \<Rightarrow> ('c, 'j) dispatch_env \<Rightarrow> worker_process \<Rightarrow> timestamp \<Rightarrow> team_message \<Rightarrow>
     team_runtime \<Rightarrow> receipts_world \<Rightarrow>
     (flume_error + message_outcome) \<times> team_runtime \<times> receipts_world" where
  "message basename dx wp now req rt rw =
     (case push_team_event (tms_team_id req)
             (case tms_task_id req of Some i \<Rightarrow> i | None \<Rightarrow> tms_team_id req)
             (case teammate_role (tms_team_id req) (tms_from req) rt of Some r \<Rightarrow> r | None \<Rightarrow> Worker)
             (tms_from req) (message_event_type (tms_kind req))
             (MessagePayload (tms_from req) (tms_to req) (tms_task_id req)
                (redact_secrets (tms_content req)) (tms_approved req)) now rt of
        (Inl err, rt1) \<Rightarrow> (Inl err, rt1, rw)
      | (Inr e, rt1) \<Rightarrow>
          (let rt2 = approve_plan req rt1
           in if \<not> tms_execute req
              then (Inr \<lparr>mo_event = e, mo_response = None, mo_worker_events = []\<rparr>, rt2, rw)
              else
                (case tms_to req of
                   None \<Rightarrow> (Inl (TeammateNotFound ''execute requires a target teammate''), rt2, rw)
                 | Some to \<Rightarrow>
                     (case delegation_for_teammate (tms_team_id req) to (tms_content req)
                             (tms_resume_packet req) rt2 of
                        Inl err \<Rightarrow> (Inl err, rt2, rw)
                      | Inr d \<Rightarrow>
                          (case execute_delegation basename (tr_natives rt2) dx wp (tr_config rt2)
                                  (d :: ('c, unit) delegation) (tms_team_id req) to rw of
                             (Inl err, asked, rw') \<Rightarrow> (Inl err, rt2, rw')
                           | (Inr ex, asked, rw') \<Rightarrow>
                               (Inr \<lparr>mo_event = e, mo_response = Some (te_response ex),
                                     mo_worker_events = te_events ex\<rparr>, rt2, rw'))))))"

section \<open>Lanes and presence\<close>

definition add_lane :: "string \<Rightarrow> lane \<Rightarrow> team_runtime \<Rightarrow> (flume_error + lane_summary) \<times> team_runtime" where
  "add_lane team l rt =
     (case find_team team rt of
        Inl err \<Rightarrow> (Inl err, rt)
      | Inr t \<Rightarrow>
          (Inr \<lparr>sm_name = l_name l, sm_definition = l_definition l, sm_contract = l_contract l,
                sm_active_task_ids = [], sm_turns_used = 0, sm_tokens_used = 0\<rparr>,
           put_team team (t\<lparr>te_lanes := register_lane l (te_lanes t)\<rparr>) rt))"

text \<open>The \<open>Display\<close> texts of a \<open>LaneError\<close> (\<open>lane.rs\<close>).\<close>

fun lane_error_text :: "lane_error \<Rightarrow> string" where
  "lane_error_text (LaneNotFound name) = ''lane '' @ quoted name @ '' not found''"
| "lane_error_text (DuplicateTask task owner) =
     ''duplicate task: task '' @ quoted task @ '' is already active in lane '' @ quoted owner"
| "lane_error_text (BudgetExceeded why) = ''lane budget exceeded: '' @ why"

fun lane_error_as_flume :: "lane_error \<Rightarrow> flume_error" where
  "lane_error_as_flume (DuplicateTask task owner) = LaneDuplicate (lane_error_text (DuplicateTask task owner))"
| "lane_error_as_flume (BudgetExceeded why) = LaneBudgetExceeded (lane_error_text (BudgetExceeded why))"
| "lane_error_as_flume (LaneNotFound name) = InvalidDefinition (lane_error_text (LaneNotFound name))"

definition assign_task_to_lane ::
  "string \<Rightarrow> string \<Rightarrow> string \<Rightarrow> string \<Rightarrow> team_runtime \<Rightarrow> (flume_error + lane_summary) \<times> team_runtime" where
  "assign_task_to_lane team lane task title rt =
     (case find_team team rt of
        Inl err \<Rightarrow> (Inl err, rt)
      | Inr t \<Rightarrow>
          (case assign_task lane task title (te_lanes t) of
             (Inl err, c) \<Rightarrow> (Inl (lane_error_as_flume err), put_team team (t\<lparr>te_lanes := c\<rparr>) rt)
           | (Inr _, c) \<Rightarrow>
               ((case List.find (\<lambda>s. sm_name s = lane) (lane_summaries c) of
                   Some s \<Rightarrow> Inr s
                 | None \<Rightarrow> Inl (InvalidDefinition (''lane '' @ quoted lane @ '' disappeared after assignment''))),
                put_team team (t\<lparr>te_lanes := c\<rparr>) rt)))"

definition team_lane_summaries :: "string \<Rightarrow> team_runtime \<Rightarrow> flume_error + lane_summary list" where
  "team_lane_summaries team rt =
     (case find_team team rt of Inl err \<Rightarrow> Inl err | Inr t \<Rightarrow> Inr (lane_summaries (te_lanes t)))"

record teammate_presence =
  tp_name :: string
  tp_lane :: "string option"
  tp_status :: string
  tp_active_task_ids :: "string list"

record presence_snapshot =
  ps_team_id :: string
  ps_lanes :: "lane_summary list"
  ps_teammates :: "teammate_presence list"
  ps_total_active_tasks :: nat
  ps_spawns_active :: nat
  ps_spawns_cap :: nat

fun status_text :: "teammate_status \<Rightarrow> string" where
  "status_text MateIdle = ''idle''"
| "status_text MateActive = ''active''"
| "status_text MatePaused = ''paused''"
| "status_text MateComplete = ''complete''"

text \<open>\<open>alive\<close>: the registered spawns whose process group lives (0 when the registry cannot be read).\<close>

definition presence :: "nat \<Rightarrow> string \<Rightarrow> team_runtime \<Rightarrow> flume_error + presence_snapshot" where
  "presence alive team rt =
     (case find_team team rt of
        Inl err \<Rightarrow> Inl err
      | Inr t \<Rightarrow>
          (let summaries = lane_summaries (te_lanes t);
               lane_tasks = map_of (rev (map (\<lambda>s. (sm_name s, sm_active_task_ids s)) summaries));
               mates = map (\<lambda>(name, m).
                 let lane = map_option sm_name
                       (List.find (\<lambda>s. sm_definition s = rd_name (tm_definition m)) summaries)
                 in \<lparr>tp_name = name, tp_lane = lane, tp_status = status_text (tm_status m),
                     tp_active_task_ids =
                       (case Option.bind lane lane_tasks of Some ids \<Rightarrow> ids | None \<Rightarrow> [])\<rparr>) (te_teammates t)
           in Inr \<lparr>ps_team_id = team, ps_lanes = summaries, ps_teammates = mates,
                   ps_total_active_tasks = sum_list (map (\<lambda>s. length (sm_active_task_ids s)) summaries),
                   ps_spawns_active = alive, ps_spawns_cap = fc_max_concurrent_spawns (tr_config rt)\<rparr>))"

end
