(* ===== verification/Team_Facts.thy ===== *)
theory Team_Facts
  imports Team_Runtime
begin

text \<open>
  One call of the team runtime as a step (\<open>team_call\<close>), runs as lists of calls, and the contract of an
  invariant of the teams: the locale \<open>team_invariant\<close> names the few ways in which any operation
  changes a team, and gives that every run keeps a predicate that survives them. Three invariants
  are interpreted: the cap on live teammates, the origin of approved plans, and the slots of lanes.
\<close>

section \<open>Calls and runs\<close>

datatype ('c, 'j) team_call =
    CallCreate nat team_create
  | CallSpawn worker_process string string
  | CallCleanup "string option" string
  | CallAddTask timestamp team_task_add
  | CallClaim timestamp team_task_claim
  | CallFinish timestamp team_task_complete
  | CallMessage "string \<Rightarrow> string" "('c, 'j) dispatch_env" worker_process timestamp team_message
  | CallAddLane string lane
  | CallAssign string string string string

fun team_step :: "'y task_codec \<Rightarrow> ('c, 'j) team_call \<Rightarrow> team_world \<Rightarrow> team_world" where
  "team_step E (CallCreate millis req) w = w\<lparr>tw_runtime := snd (create_team millis req (tw_runtime w))\<rparr>"
| "team_step E (CallSpawn wp team name) w = w\<lparr>tw_runtime := snd (spawn_teammate wp team name (tw_runtime w))\<rparr>"
| "team_step E (CallCleanup err team) w = w\<lparr>tw_runtime := snd (cleanup err team (tw_runtime w))\<rparr>"
| "team_step E (CallAddTask now req) w =
     (case add_task E now req (tw_runtime w) (tw_files w) of
        (_, rt, fs) \<Rightarrow> w\<lparr>tw_runtime := rt, tw_files := fs\<rparr>)"
| "team_step E (CallClaim now req) w =
     (case claim_task E now req (tw_runtime w) (tw_files w) of
        (_, rt, fs) \<Rightarrow> w\<lparr>tw_runtime := rt, tw_files := fs\<rparr>)"
| "team_step E (CallFinish now req) w =
     (case finish_task E now req (tw_runtime w) (tw_files w) of
        (_, rt, fs) \<Rightarrow> w\<lparr>tw_runtime := rt, tw_files := fs\<rparr>)"
| "team_step E (CallMessage basename dx wp now req) w =
     (case message basename dx wp now req (tw_runtime w) (tw_receipts w) of
        (_, rt, rw) \<Rightarrow> w\<lparr>tw_runtime := rt, tw_receipts := rw\<rparr>)"
| "team_step E (CallAddLane team l) w = w\<lparr>tw_runtime := snd (add_lane team l (tw_runtime w))\<rparr>"
| "team_step E (CallAssign team lane task title) w =
     w\<lparr>tw_runtime := snd (assign_task_to_lane team lane task title (tw_runtime w))\<rparr>"

definition team_run :: "'y task_codec \<Rightarrow> ('c, 'j) team_call list \<Rightarrow> team_world \<Rightarrow> team_world" where
  "team_run E calls w = fold (team_step E) calls w"

definition start_world :: "flume_config \<Rightarrow> task_files \<Rightarrow> receipts_world \<Rightarrow> team_world" where
  "start_world cfg fs rw = \<lparr>tw_runtime = new_runtime cfg, tw_files = fs, tw_receipts = rw\<rparr>"

section \<open>What operations do to teams\<close>

definition get_team :: "team_runtime \<Rightarrow> string \<Rightarrow> team_state option" where
  "get_team rt i = bt_get (tr_teams rt) i"

lemma get_put_team [simp]: "get_team (put_team i t rt) j = (if j = i then Some t else get_team rt j)"
  by (simp add: get_team_def put_team_def bt_simps)

lemma find_team_get: "find_team i rt = Inr t \<longleftrightarrow> get_team rt i = Some t"
  by (simp add: find_team_def get_team_def split: option.splits)

lemma get_team_counter [simp]: "get_team (rt\<lparr>tr_event_counter := n\<rparr>) i = get_team rt i"
  by (simp add: get_team_def)

lemma get_team_new [simp]: "get_team (new_runtime cfg) i = None"
  by (simp add: get_team_def new_runtime_def bt_simps)

definition every_team :: "(string \<Rightarrow> team_state \<Rightarrow> bool) \<Rightarrow> team_runtime \<Rightarrow> bool" where
  "every_team P rt \<longleftrightarrow> (\<forall>i t. get_team rt i = Some t \<longrightarrow> P i t)"

lemma every_teamD: "every_team P rt \<Longrightarrow> get_team rt i = Some t \<Longrightarrow> P i t"
  by (simp add: every_team_def)

lemma every_team_put: "every_team P rt \<Longrightarrow> P i t \<Longrightarrow> every_team P (put_team i t rt)"
  by (simp add: every_team_def)

definition fresh_team :: "team_state \<Rightarrow> bool" where
  "fresh_team t \<longleftrightarrow> te_teammates t = bt_empty \<and> te_approved_plans t = bt_empty \<and> te_lanes t = new_coordinator"

definition cleaned :: "team_state \<Rightarrow> team_state" where
  "cleaned t = t\<lparr>te_teammates := map (\<lambda>(n, m). (n, m\<lparr>tm_status := MateComplete, tm_session := None\<rparr>))
     (te_teammates t), te_status := TeamCleanedUp\<rparr>"

definition approves :: "string \<Rightarrow> string \<Rightarrow> ('c, 'j) team_call \<Rightarrow> bool" where
  "approves team i c \<longleftrightarrow>
     (case c of
        CallMessage basename dx wp now req \<Rightarrow>
          tms_team_id req = team \<and> tms_kind req = ReviewKind \<and> tms_approved req = Some True \<and>
          tms_task_id req = Some i
      | _ \<Rightarrow> False)"

section \<open>Invariants of teams\<close>

locale team_invariant =
  fixes P :: "string \<Rightarrow> team_state \<Rightarrow> bool"
    and allowed :: "('c, 'j) team_call \<Rightarrow> bool"
  assumes created: "allowed (CallCreate millis req) \<Longrightarrow> fresh_team t \<Longrightarrow>
      i = (case tc_id req of Some x \<Rightarrow> x | None \<Rightarrow> stable_team_id millis (tc_name req)) \<Longrightarrow> P i t"
    and logged: "P i t \<Longrightarrow> P i (t\<lparr>te_log := es\<rparr>)"
    and defined: "P i t \<Longrightarrow> P i (t\<lparr>te_task_definitions := ds\<rparr>)"
    and admitted: "P i t \<Longrightarrow> tm_status m = MatePaused \<or> active_teammates t < te_max_teammates t \<Longrightarrow>
      P i (t\<lparr>te_teammates := bt_insert n m (te_teammates t), te_status := s\<rparr>)"
    and cleaned_up: "P i t \<Longrightarrow> P i (cleaned t)"
    and approved: "allowed c \<Longrightarrow> approves i k c \<Longrightarrow> P i t \<Longrightarrow>
      P i (t\<lparr>te_approved_plans := bs_insert k (te_approved_plans t)\<rparr>)"
    and lane_added: "allowed (CallAddLane i l) \<Longrightarrow> P i t \<Longrightarrow> P i (t\<lparr>te_lanes := register_lane l (te_lanes t)\<rparr>)"
    and lane_assigned: "P i t \<Longrightarrow> P i (t\<lparr>te_lanes := snd (assign_task lane x title (te_lanes t))\<rparr>)"
begin

lemma push_keeps:
  "every_team P rt \<Longrightarrow> every_team P (snd (push_team_event team correlation r agent ty payload now rt))"
  by (auto simp: push_team_event_def Let_def every_team_def find_team_get logged split: sum.splits)

lemma create_keeps:
  "every_team P rt \<Longrightarrow> allowed (CallCreate millis req) \<Longrightarrow> every_team P (snd (create_team millis req rt))"
  by (auto simp: create_team_def Let_def fresh_team_def intro!: every_team_put created)

lemma admitted_paused:
  "P i t \<Longrightarrow> tm_status m = MatePaused \<Longrightarrow> P i (t\<lparr>te_teammates := bt_insert n m (te_teammates t)\<rparr>)"
  using admitted [where i = i and t = t and m = m and n = n and s = "te_status t"] by (cases t) simp

lemma spawn_keeps: "every_team P rt \<Longrightarrow> every_team P (snd (spawn_teammate wp team name rt))"
  by (auto simp: spawn_teammate_def admit_teammate_def Let_def find_team_get
      intro!: every_team_put admitted admitted_paused dest: every_teamD split: sum.splits)

lemma cleanup_keeps: "every_team P rt \<Longrightarrow> every_team P (snd (cleanup err team rt))"
  by (auto simp: cleanup_def Let_def find_team_get cleaned_def [symmetric]
      intro!: every_team_put cleaned_up dest: every_teamD split: sum.splits option.splits)

lemma add_task_keeps: "every_team P rt \<Longrightarrow> add_task E now req rt fs = (r, rt', fs') \<Longrightarrow> every_team P rt'"
  by (auto simp: add_task_def Let_def find_team_get
      intro!: every_team_put defined dest: every_teamD split: sum.splits prod.splits option.splits)

lemma claim_keeps:
  assumes "every_team P rt" and "claim_task E now req rt fs = (r, rt', fs')"
  shows "every_team P rt'"
proof -
  from assms(2) have "rt' = rt \<or>
      (\<exists>c role ty p. rt' = snd (push_team_event (ttc_team_id req) c role (ttc_teammate req) ty p now rt))"
    by (auto simp: claim_task_def split: sum.splits prod.splits option.splits bool.splits) (metis snd_conv)+
  with assms(1) push_keeps show ?thesis by auto
qed

lemma finish_keeps:
  assumes "every_team P rt" and "finish_task E now req rt fs = (r, rt', fs')"
  shows "every_team P rt'"
proof -
  let ?push = "\<lambda>c role ty p rt. snd (push_team_event (ttf_team_id req) c role (ttf_reviewer req) ty p now rt)"
  from assms(2) have "rt' = rt \<or> (\<exists>c role ty p. rt' = ?push c role ty p rt) \<or>
      (\<exists>c role ty p c' role' ty' p'. rt' = ?push c' role' ty' p' (?push c role ty p rt))"
    by (auto simp: finish_task_def Let_def split: sum.splits prod.splits if_splits) (metis snd_conv)+
  with assms(1) push_keeps show ?thesis by auto
qed

lemma approve_keeps:
  assumes "every_team P rt" and "allowed (CallMessage basename dx wp now req)"
  shows "every_team P (approve_plan req rt)"
proof -
  have "P i (t\<lparr>te_approved_plans := bs_insert k (te_approved_plans t)\<rparr>)"
    if "tms_kind req = ReviewKind" "tms_approved req = Some True" "tms_task_id req = Some k"
      "tms_team_id req = i" "get_team rt i = Some t" for i k t
    using that every_teamD [OF assms(1)] by (intro approved [OF assms(2)]) (auto simp: approves_def)
  with assms(1) show ?thesis
    by (auto simp: approve_plan_def find_team_get intro!: every_team_put
        split: message_kind.splits option.splits bool.splits sum.splits)
qed

lemma message_keeps:
  assumes "every_team P rt" and "allowed (CallMessage basename dx wp now req)"
    and "message basename dx wp now req rt rw = (r, rt', rw')"
  shows "every_team P rt'"
proof -
  obtain res rt1 where push: "push_team_event (tms_team_id req)
             (case tms_task_id req of Some i \<Rightarrow> i | None \<Rightarrow> tms_team_id req)
             (case teammate_role (tms_team_id req) (tms_from req) rt of Some r \<Rightarrow> r | None \<Rightarrow> Worker)
             (tms_from req) (message_event_type (tms_kind req))
             (MessagePayload (tms_from req) (tms_to req) (tms_task_id req)
                (redact_secrets (tms_content req)) (tms_approved req)) now rt = (res, rt1)" (is "?p = _")
    by (cases ?p)
  with push_keeps [OF assms(1)] have "every_team P rt1" by (metis snd_conv)
  moreover from assms(3) have "rt' = rt1 \<or> rt' = approve_plan req rt1"
    unfolding message_def push
    by (auto simp: Let_def split: sum.splits prod.splits option.splits if_splits)
  ultimately show ?thesis using approve_keeps [OF _ assms(2)] by auto
qed

lemma add_lane_keeps:
  "every_team P rt \<Longrightarrow> allowed (CallAddLane team l) \<Longrightarrow> every_team P (snd (add_lane team l rt))"
  by (auto simp: add_lane_def find_team_get intro!: every_team_put lane_added dest: every_teamD
      split: sum.splits)

lemma assign_keeps: "every_team P rt \<Longrightarrow> every_team P (snd (assign_task_to_lane team lane task title rt))"
  using lane_assigned [of team _ lane task title]
  by (auto simp: assign_task_to_lane_def find_team_get intro!: every_team_put dest: every_teamD
      split: sum.splits prod.splits) (metis every_teamD snd_conv)+

lemma step_keeps:
  assumes "every_team P (tw_runtime w)" and "allowed c"
  shows "every_team P (tw_runtime (team_step E c w))"
  using assms
  by (cases c)
     (auto split: prod.splits intro: create_keeps spawn_keeps cleanup_keeps add_task_keeps claim_keeps
       finish_keeps message_keeps add_lane_keeps assign_keeps)

lemma run_keeps:
  "every_team P (tw_runtime w) \<Longrightarrow> list_all allowed calls \<Longrightarrow>
    every_team P (tw_runtime (team_run E calls w))"
  by (induction calls arbitrary: w) (auto simp: team_run_def step_keeps)

end

end
