(* ===== verification/Team_Properties.thy ===== *)
theory Team_Properties
  imports Team_Facts Task_Claims
begin

text \<open>
  The promises of agent teams: the cap on live teammates, plan approval, who may complete a task, and
  lanes; together with the calls that get round them.
\<close>

section \<open>Live teammates\<close>

definition live :: "teammate_state \<Rightarrow> bool" where
  "live m \<longleftrightarrow> tm_status m = MateIdle \<or> tm_status m = MateActive"

definition live_count :: "team_state \<Rightarrow> nat" where
  "live_count t = length (filter live (bt_values (te_teammates t)))"

lemma count_values:
  "bt_ok m \<Longrightarrow> length (filter P (bt_values m)) = card {n. \<exists>v. bt_get m n = Some v \<and> P v}"
proof (induction m)
  case Nil
  then show ?case by (simp add: bt_values_def bt_get_def)
next
  case (Cons p m)
  obtain k v where p: "p = (k, v)" by (cases p)
  from Cons.prems have ok: "bt_ok m" and new: "bt_get m k = None"
    by (auto simp: bt_ok_def p bt_get_def map_of_eq_None_iff)
  have "{n. \<exists>w. bt_get (p # m) n = Some w \<and> P w} =
      (if P v then insert k {n. \<exists>w. bt_get m n = Some w \<and> P w} else {n. \<exists>w. bt_get m n = Some w \<and> P w})"
    using new by (auto simp: p bt_get_def)
  moreover have "finite {n. \<exists>w. bt_get m n = Some w \<and> P w}"
    by (rule finite_subset [OF _ bt.finite_dom [of m]]) auto
  ultimately show ?case
    using Cons.IH [OF ok] new by (auto simp: p bt_values_def)
qed

lemma count_insert:
  assumes "bt_ok m"
  shows "length (filter P (bt_values (bt_insert n v m))) \<le> length (filter P (bt_values m)) + (if P v then 1 else 0)"
proof -
  let ?S = "\<lambda>m. {n. \<exists>v. bt_get m n = Some v \<and> P v}"
  have fin: "finite (?S m)" by (rule finite_subset [OF _ bt.finite_dom [of m]]) auto
  have "?S (bt_insert n v m) \<subseteq> (if P v then insert n (?S m) else ?S m)"
    by (auto simp: bt_simps split: if_splits)
  then have "card (?S (bt_insert n v m)) \<le> card (if P v then insert n (?S m) else ?S m)"
    by (rule card_mono [rotated]) (use fin in simp)
  also have "\<dots> \<le> card (?S m) + (if P v then 1 else 0)" by (simp add: card_insert_le_m1 card_insert_if fin)
  finally show ?thesis by (simp add: count_values assms bt.ok_put)
qed

definition capped :: "string \<Rightarrow> team_state \<Rightarrow> bool" where
  "capped i t \<longleftrightarrow> bt_ok (te_teammates t) \<and> live_count t \<le> te_max_teammates t"

lemma capped_admit:
  assumes "capped i t" and "tm_status m = MatePaused \<or> active_teammates t < te_max_teammates t"
  shows "capped i (t\<lparr>te_teammates := bt_insert n m (te_teammates t), te_status := s\<rparr>)"
proof -
  have ok: "bt_ok (te_teammates t)" using assms(1) by (simp add: capped_def)
  have "live_count t \<le> active_teammates t"
    unfolding live_count_def active_teammates_def by (rule length_filter_mono) (auto simp: live_def)
  moreover have "length (filter live (bt_values (bt_insert n m (te_teammates t)))) \<le>
      live_count t + (if live m then 1 else 0)"
    unfolding live_count_def by (rule count_insert [OF ok])
  ultimately show ?thesis
    using assms ok by (auto simp: capped_def live_count_def bt_oks live_def split: if_splits)
qed

lemma capped_cleaned: "capped i t \<Longrightarrow> capped i (cleaned t)"
proof -
  let ?f = "\<lambda>m. m\<lparr>tm_status := MateComplete, tm_session := None\<rparr>"
  have "map fst (map (\<lambda>(n, m). (n, ?f m)) xs) = map fst xs"
    and "filter live (map snd (map (\<lambda>(n, m). (n, ?f m)) xs)) = []" for xs :: "(string \<times> teammate_state) list"
    by (induction xs) (auto simp: live_def)
  then show "capped i t \<Longrightarrow> capped i (cleaned t)"
    by (simp add: capped_def cleaned_def bt_ok_def live_count_def bt_values_def del: map_map list.map_comp)
qed

interpretation cap: team_invariant capped "\<lambda>_. True"
  by unfold_locales
     (simp_all add: capped_admit capped_cleaned, simp_all add: capped_def fresh_team_def live_count_def
       bt_values_def bt_ok_def bt_empty_def)

section \<open>Where approvals come from\<close>

definition approved_in :: "('c, 'j) team_call set \<Rightarrow> string \<Rightarrow> team_state \<Rightarrow> bool" where
  "approved_in A i t \<longleftrightarrow> (\<forall>k. bs_member k (te_approved_plans t) \<longrightarrow> (\<exists>c \<in> A. approves i k c))"

interpretation plans: team_invariant "approved_in A" "\<lambda>c. c \<in> A" for A :: "('c, 'j) team_call set"
  by unfold_locales (auto simp: approved_in_def fresh_team_def cleaned_def bs_simps)

section \<open>Slots of lanes\<close>

definition holds :: "string \<Rightarrow> lane \<Rightarrow> string set \<Rightarrow> lane_coordinator \<Rightarrow> bool" where
  "holds name l X c \<longleftrightarrow>
     (\<exists>st. bt_get (lc_lanes c) name = Some st \<and> ls_lane st = l \<and>
       (\<forall>x \<in> X. bs_member x (ls_active_task_ids st)))"

lemma holds_assign: "holds name l X c \<Longrightarrow> holds name l X (snd (assign_task lane x title c))"
  by (auto simp: holds_def assign_task_def Let_def bt_simps bs_simps split: option.splits)

lemma holds_register: "holds name l X c \<Longrightarrow> l_name l' \<noteq> name \<Longrightarrow> holds name l X (register_lane l' c)"
  by (auto simp: holds_def register_lane_def bt_simps)

definition slot_held :: "string \<Rightarrow> string \<Rightarrow> lane \<Rightarrow> string set \<Rightarrow> string \<Rightarrow> team_state \<Rightarrow> bool" where
  "slot_held team name l X i t \<longleftrightarrow> (i = team \<longrightarrow> holds name l X (te_lanes t))"

text \<open>The calls that do not set up the team or the lane anew.\<close>

definition keeps_setup :: "string \<Rightarrow> string \<Rightarrow> ('c, 'j) team_call \<Rightarrow> bool" where
  "keeps_setup team name c =
     (case c of
        CallCreate millis req \<Rightarrow>
          (case tc_id req of Some i \<Rightarrow> i | None \<Rightarrow> stable_team_id millis (tc_name req)) \<noteq> team
      | CallAddLane i l \<Rightarrow> i \<noteq> team \<or> l_name l \<noteq> name
      | _ \<Rightarrow> True)"

interpretation slots: team_invariant "slot_held team name l X" "keeps_setup team name"
  for team name :: string and l :: lane and X :: "string set"
  by unfold_locales
     (auto simp: slot_held_def cleaned_def keeps_setup_def intro: holds_assign holds_register)

lemma held_lane_full:
  assumes "holds name l X c" and "max_concurrent_tasks (budget (l_contract l)) = Some cap"
    and "finite X" and "cap \<le> card X"
  shows "\<exists>err. assign_task name x title c = (Inl err, c)"
proof -
  from assms(1) obtain st where st: "bt_get (lc_lanes c) name = Some st" "ls_lane st = l"
    "X \<subseteq> set (bt_keys (ls_active_task_ids st))"
    by (auto simp: holds_def bs_member_def)
  from st(3) have "card X \<le> bs_len (ls_active_task_ids st)"
    unfolding bs_len_def using card_mono [OF _ st(3)] card_length [of "bt_keys (ls_active_task_ids st)"] by simp
  with assms(2,4) st(2) have "\<not> has_task_capacity st" by (simp add: has_task_capacity_def)
  with st(1) show ?thesis by (auto simp: assign_task_def Let_def split: option.splits)
qed

section \<open>Demonstration runs\<close>

definition demo_definition :: "string \<Rightarrow> role \<Rightarrow> role_definition" where
  "demo_definition name kind =
     \<lparr>rd_name = name, rd_kind = kind, rd_description = ''demo'', rd_agent = Some ''codex'', rd_model = None,
      rd_allow_tools = [], rd_prompt_addendum = [], rd_source = Artesian, rd_path = name\<rparr>"

definition demo_team_config :: flume_config where
  "demo_team_config =
     \<lparr>fc_repo_root = ''repo'', fc_registry_dir = ''spawns'', fc_bindings = [],
      fc_catalog = [\<lparr>ce_agent = ''codex'', ce_reachable = True, ce_models = []\<rparr>],
      fc_definitions = [demo_definition ''ann'' Worker, demo_definition ''bob'' Worker],
      fc_max_teammates = 4, fc_max_concurrent_spawns = 4, fc_max_lifetime = 1800, fc_termination_grace = 2\<rparr>"

definition demo_worker :: worker_process where
  "demo_worker =
     \<lparr>wp_spawn = (\<lambda>_ req. Inr \<lparr>as_id = ''s'', as_role = sr_role req, as_agent = sr_agent req\<rparr>),
      wp_send = (\<lambda>_ _ text. (Inr text, []))\<rparr>"

definition demo_create :: "(nat, nat) team_call" where
  "demo_create = CallCreate 0 \<lparr>tc_id = Some ''crew'', tc_name = ''Crew'', tc_max_teammates = Some 1,
     tc_plan_approval_required = True, tc_plan_approval_roles = []\<rparr>"

definition demo_calls :: "(nat, nat) team_call list" where
  "demo_calls = [demo_create, CallSpawn demo_worker ''crew'' ''ann'', CallSpawn demo_worker ''crew'' ''bob'']"

definition demo_start :: team_world where
  "demo_start = start_world demo_team_config demo_files \<lparr>rw_files = Map.empty, rw_seq = Map.empty\<rparr>"

abbreviation demo_run :: "(nat, nat) team_call list \<Rightarrow> team_world" where
  "demo_run calls \<equiv> team_run demo_codec calls demo_start"

lemmas run_simps = team_run_def demo_create_def create_team_def demo_start_def start_world_def
  new_runtime_def get_team_def put_team_def bt_simps Let_def

lemma demo_created:
  obtains t where "get_team (tw_runtime (demo_run [demo_create])) ''crew'' = Some t"
    "te_plan_approval_required t" "te_max_teammates t = 1"
  by (simp add: run_simps)

lemma demo_spawned:
  "map_option (\<lambda>t. (te_max_teammates t, map (\<lambda>(n, m). (n, tm_status m)) (te_teammates t)))
     (get_team (tw_runtime (demo_run demo_calls)) ''crew'') =
   Some (1, [(''ann'', MateIdle), (''bob'', MatePaused)])"
  by code_simp

lemma start_every_team: "every_team P (tw_runtime (start_world cfg fs rw))"
  by (simp add: every_team_def start_world_def)

lemma push_log:
  assumes "get_team rt team = Some t"
  obtains e rt' where "push_team_event team c r agent ty p now rt = (Inr e, rt')" "ev_type e = ty"
    "get_team rt' team = Some (t\<lparr>te_log := te_log t @ [e]\<rparr>)"
proof -
  have "find_team team (rt\<lparr>tr_event_counter := tr_event_counter rt + 1\<rparr>) = Inr t"
    using assms by (simp add: find_team_get)
  then show ?thesis by (simp add: that push_team_event_def new_event_def Let_def)
qed

lemma push_unknown:
  assumes "get_team rt team = None"
  shows "fst (push_team_event team c r agent ty p now rt) = Inl (TeamNotFound team)"
  using assms by (simp add: push_team_event_def find_team_def get_team_def Let_def)

section \<open>Properties\<close>

text \<open>C18: No team ever has more live teammates than its cap: after any sequence of calls on a new
  runtime, with any answers of the worker processes.\<close>

theorem teammates_are_capped:
  assumes "get_team (tw_runtime (team_run E calls (start_world cfg fs rw))) i = Some t"
  shows "live_count t \<le> te_max_teammates t"
  using every_teamD [OF cap.run_keeps [OF start_every_team] assms] by (simp add: capped_def list_all_iff)

theorem teammates_are_capped_witness:
  "\<exists>t. get_team (tw_runtime (demo_run demo_calls)) ''crew'' = Some t \<and>
     length (te_teammates t) = 2 \<and> live_count t \<le> 1"
proof -
  from demo_spawned obtain t where t: "get_team (tw_runtime (demo_run demo_calls)) ''crew'' = Some t"
    "te_max_teammates t = 1" "map (\<lambda>(n, m). (n, tm_status m)) (te_teammates t) =
      [(''ann'', MateIdle), (''bob'', MatePaused)]" by auto
  from arg_cong [OF t(3), of length] have "length (te_teammates t) = 2" by simp
  with teammates_are_capped [OF t(1) [unfolded demo_start_def]] t(1,2) show ?thesis by auto
qed

text \<open>C15: Plan approval guards claims by task id. In a team that requires it, after any sequence of calls,
  a claim of a given task is refused and changes nothing, unless the calls contain an approving
  review of that task in that team.\<close>

theorem claims_by_id_need_approval:
  assumes "get_team (tw_runtime w) team = Some t" and "te_plan_approval_required t"
    and "w = team_run E calls (start_world cfg fs rw)"
  shows "claim_task E now \<lparr>ttc_team_id = team, ttc_task_id = Some i, ttc_teammate = who\<rparr> (tw_runtime w) (tw_files w) =
      (Inl (PlanApprovalRequired i), tw_runtime w, tw_files w) \<or> (\<exists>c \<in> set calls. approves team i c)"
proof (cases "bs_member i (te_approved_plans t)")
  case True
  have "every_team (approved_in (set calls)) (tw_runtime w)"
    unfolding assms(3) by (intro plans.run_keeps start_every_team) (simp add: list_all_iff)
  from every_teamD [OF this assms(1)] True show ?thesis by (auto simp: approved_in_def)
next
  case False
  with assms(1,2) show ?thesis
    by (simp add: claim_task_def requires_plan_approval_def find_team_get [THEN iffD2])
qed

theorem claims_by_id_need_approval_witness:
  "fst (claim_task demo_codec 9 \<lparr>ttc_team_id = ''crew'', ttc_task_id = Some ''a'', ttc_teammate = ''ann''\<rparr>
     (tw_runtime (demo_run [demo_create])) demo_files) = Inl (PlanApprovalRequired ''a'')"
proof -
  obtain t where "get_team (tw_runtime (demo_run [demo_create])) ''crew'' = Some t"
    "te_plan_approval_required t" by (rule demo_created)
  from claims_by_id_need_approval [OF this demo_start_def [THEN arg_cong [where f = "team_run demo_codec [demo_create]"]],
      of 9 "''a''" "''ann''"]
  show ?thesis by (simp add: approves_def demo_create_def team_run_def demo_start_def start_world_def)
qed

text \<open>Plan approval has two ways round it. A claim that names no task gets whatever the board gives,
  also when the team requires approval; and a review message counts as approval whoever sends it,
  the claimant itself or a name that is no teammate.\<close>

theorem plan_approval_has_ways_round:
  assumes "get_team rt team = Some t"
  shows "fst (claim_task E now \<lparr>ttc_team_id = team, ttc_task_id = None, ttc_teammate = who\<rparr> rt fs) =
      map_sum TaskFailed id (fst (claim E now \<lparr>cr_task_id = None, cr_claimant = who\<rparr> fs)) \<and>
    requires_plan_approval \<lparr>ttc_team_id = team, ttc_task_id = Some i, ttc_teammate = who\<rparr>
      (fst (snd (message basename dx wp now
        \<lparr>tms_team_id = team, tms_from = sender, tms_to = None, tms_kind = ReviewKind, tms_content = text,
         tms_task_id = Some i, tms_approved = Some True, tms_execute = False, tms_resume_packet = None\<rparr> rt rw))) =
      Inr False"
proof
  show "fst (claim_task E now \<lparr>ttc_team_id = team, ttc_task_id = None, ttc_teammate = who\<rparr> rt fs) =
      map_sum TaskFailed id (fst (claim E now \<lparr>cr_task_id = None, cr_claimant = who\<rparr> fs))"
  proof -
    obtain r fs' where c: "claim E now \<lparr>cr_task_id = None, cr_claimant = who\<rparr> fs = (r, fs')" by (rule prod.exhaust)
    have "\<exists>e. fst (push_team_event team c role agent ty p now rt) = Inr e" for c role agent ty p
      by (rule push_log [OF assms, of c role agent ty p now]) simp
    then show ?thesis
      using assms c
      by (auto simp: claim_task_def requires_plan_approval_def find_team_get [THEN iffD2]
          split: sum.splits option.splits prod.splits) (metis fst_conv sum.distinct(1))+
  qed
  obtain e rt' where push: "push_team_event team i
      (case teammate_role team sender rt of Some r \<Rightarrow> r | None \<Rightarrow> Worker) sender Review
      (MessagePayload sender None (Some i) (redact_secrets text) (Some True)) now rt = (Inr e, rt')"
    "get_team rt' team = Some (t\<lparr>te_log := te_log t @ [e]\<rparr>)"
    by (rule push_log [OF assms])
  then show "requires_plan_approval \<lparr>ttc_team_id = team, ttc_task_id = Some i, ttc_teammate = who\<rparr>
      (fst (snd (message basename dx wp now
        \<lparr>tms_team_id = team, tms_from = sender, tms_to = None, tms_kind = ReviewKind, tms_content = text,
         tms_task_id = Some i, tms_approved = Some True, tms_execute = False, tms_resume_packet = None\<rparr> rt rw))) =
      Inr False"
    by (simp add: message_def approve_plan_def find_team_get [THEN iffD2] requires_plan_approval_def bs_simps)
qed

theorem plan_approval_has_ways_round_witness:
  "\<exists>t'. fst (claim_task demo_codec 9 \<lparr>ttc_team_id = ''crew'', ttc_task_id = None, ttc_teammate = ''ann''\<rparr>
     (tw_runtime (demo_run [demo_create])) demo_files) = Inr (Some t')"
proof -
  obtain t where t: "get_team (tw_runtime (demo_run [demo_create])) ''crew'' = Some t"
    by (rule demo_created)
  obtain u where u: "fs_ok demo_codec demo_files" "board_eligible (board demo_codec demo_files) u"
    by (rule demo_files_board)
  have "requested \<lparr>cr_task_id = None, cr_claimant = ''ann''\<rparr> u" by (simp add: requested_def)
  with files.claim_view [of demo_codec demo_files 9 "\<lparr>cr_task_id = None, cr_claimant = ''ann''\<rparr>"]
    u demo_codec_ok
  obtain t' where "fst (claim demo_codec 9 \<lparr>cr_task_id = None, cr_claimant = ''ann''\<rparr> demo_files) = Inr (Some t')"
    by fastforce
  with conjunct1 [OF plan_approval_has_ways_round [OF t, of demo_codec 9 "''ann''" demo_files]]
  show ?thesis by auto
qed

text \<open>C17: Completion refines the task board. A worker teammate may not complete a task, and nothing
  changes. Any other reviewer moves the task, approved to done and rejected to blocked, with
  everything else on the board as it was, and the team's log gets the review (and, approved, the
  done event).\<close>

theorem completion_needs_a_reviewer:
  assumes "codec_ok E" and "fs_ok E fs" and "board E fs i = Some t" and "get_team rt team = Some tm"
  shows "let req = \<lparr>ttf_team_id = team, ttf_task_id = i, ttf_reviewer = who, ttf_approved = ok\<rparr>;
      t' = t\<lparr>t_status := if ok then Done else Blocked, t_updated_at := now\<rparr>
    in if teammate_role team who rt = Some Worker
    then snd (finish_task E now req rt fs) = (rt, fs) \<and> (\<exists>err. fst (finish_task E now req rt fs) = Inl err)
    else \<exists>rt' fs' tm'. finish_task E now req rt fs = (Inr t', rt', fs') \<and>
      fs_ok E fs' \<and> board E fs' = (board E fs)(i \<mapsto> t') \<and> get_team rt' team = Some tm' \<and>
      map ev_type (te_log tm') = map ev_type (te_log tm) @ (if ok then [Review, DoneEvent] else [Review])"
proof (cases "teammate_role team who rt = Some Worker")
  case True
  then show ?thesis by (simp add: finish_task_def)
next
  case False
  define req where "req = \<lparr>ttf_team_id = team, ttf_task_id = i, ttf_reviewer = who, ttf_approved = ok\<rparr>"
  define t' where "t' = t\<lparr>t_status := if ok then Done else Blocked, t_updated_at := now\<rparr>"
  define r where "r = (case teammate_role team who rt of Some r \<Rightarrow> r | None \<Rightarrow> Master)"
  from False have r: "r = Judge \<or> r = Master"
    unfolding r_def by (cases "teammate_role team who rt"; metis option.simps(4,5) role.exhaust)
  from files.tran_view [of E fs i t now "if ok then Done else Blocked"] assms(1-3)
  obtain fs' where fs': "transition E now \<lparr>tt_id = i, tt_status = if ok then Done else Blocked\<rparr> fs = (Inr t', fs')"
    "fs_ok E fs'" "board E fs' = (board E fs)(i \<mapsto> t')" by (auto simp: t'_def)
  have id: "t_id t' = i" using files.view_id [of E fs i t] assms(1-3) by (simp add: t'_def)
  obtain e rt1 where e: "push_team_event team i r who Review (ReviewPayload i ok) now rt = (Inr e, rt1)"
    "ev_type e = Review" "get_team rt1 team = Some (tm\<lparr>te_log := te_log tm @ [e]\<rparr>)"
    by (rule push_log [OF assms(4)])
  obtain d rt2 where d: "push_team_event team i r who DoneEvent (DonePayload i) now rt1 = (Inr d, rt2)"
    "ev_type d = DoneEvent"
    "get_team rt2 team = Some ((tm\<lparr>te_log := te_log tm @ [e]\<rparr>)
       \<lparr>te_log := te_log (tm\<lparr>te_log := te_log tm @ [e]\<rparr>) @ [d]\<rparr>)"
    by (rule push_log [OF e(3)])
  have "finish_task E now req rt fs = (Inr t', if ok then rt2 else rt1, fs')"
    using r fs'(1) e(1) d(1) id by (auto simp: finish_task_def req_def r_def [symmetric] Let_def)
  with fs' e(2,3) d(2,3) False show ?thesis by (auto simp: req_def t'_def)
qed

theorem completion_needs_a_reviewer_witness:
  "\<exists>t rt' fs'. finish_task demo_codec 9 \<lparr>ttf_team_id = ''crew'', ttf_task_id = ''a'', ttf_reviewer = ''lead'',
     ttf_approved = True\<rparr> (tw_runtime (demo_run [demo_create])) demo_files = (Inr t, rt', fs') \<and>
   board demo_codec fs' ''a'' = Some t \<and> t_status t = Done"
proof -
  obtain tm where tm: "get_team (tw_runtime (demo_run [demo_create])) ''crew'' = Some tm" by (rule demo_created)
  obtain t where t: "fs_ok demo_codec demo_files" "board demo_codec demo_files = [''a'' \<mapsto> t]"
    by (rule demo_files_board)
  have "teammate_role ''crew'' ''lead'' (tw_runtime (demo_run [demo_create])) = None"
    by (simp add: teammate_role_def run_simps)
  with completion_needs_a_reviewer [OF demo_codec_ok t(1) _ tm, of "''a''" t "''lead''" True 9] t(2)
  show ?thesis by (fastforce simp: Let_def)
qed

text \<open>Completion checks too little before it acts. A reviewer nobody has heard of counts as a master,
  and even for a team that does not exist the task is moved before the call fails.\<close>

theorem completion_for_unknown_team_moves_task:
  assumes "codec_ok E" and "fs_ok E fs" and "board E fs i = Some t" and "get_team rt team = None"
  shows "\<exists>rt' fs'. finish_task E now \<lparr>ttf_team_id = team, ttf_task_id = i, ttf_reviewer = who, ttf_approved = True\<rparr> rt fs =
      (Inl (TeamNotFound team), rt', fs') \<and>
    board E fs' = (board E fs)(i \<mapsto> t\<lparr>t_status := Done, t_updated_at := now\<rparr>)"
proof -
  have role: "teammate_role team who rt = None"
    using assms(4) by (simp add: teammate_role_def get_team_def)
  from files.tran_view [of E fs i t now Done] assms(1-3)
  obtain fs' where "transition E now \<lparr>tt_id = i, tt_status = Done\<rparr> fs =
      (Inr (t\<lparr>t_status := Done, t_updated_at := now\<rparr>), fs')"
    "board E fs' = (board E fs)(i \<mapsto> t\<lparr>t_status := Done, t_updated_at := now\<rparr>)" by auto
  moreover have "fst (push_team_event team i Master who Review (ReviewPayload i True) now rt) = Inl (TeamNotFound team)"
    by (rule push_unknown [OF assms(4)])
  ultimately show ?thesis
    by (cases "push_team_event team i Master who Review (ReviewPayload i True) now rt")
       (simp add: finish_task_def role)
qed

theorem completion_for_unknown_team_moves_task_witness:
  "\<exists>t fs' rt'. finish_task demo_codec 9 \<lparr>ttf_team_id = ''ghost'', ttf_task_id = ''a'', ttf_reviewer = ''nobody'',
     ttf_approved = True\<rparr> (new_runtime demo_team_config) demo_files = (Inl (TeamNotFound ''ghost''), rt', fs') \<and>
   board demo_codec fs' ''a'' = Some t \<and> t_status t = Done"
proof -
  obtain t where t: "fs_ok demo_codec demo_files" "board demo_codec demo_files = [''a'' \<mapsto> t]"
    by (rule demo_files_board)
  from completion_for_unknown_team_moves_task [OF demo_codec_ok t(1) _ get_team_new, of "''a''" t 9 "''ghost''" "''nobody''"
      demo_team_config] t(2)
  show ?thesis by fastforce
qed

text \<open>The runtime never frees a lane's slot. Once the tasks in a lane fill it, no calls, in whatever
  number, completions of those tasks included, let another task in, unless the team or the lane is
  set up anew.\<close>

theorem lane_slots_are_never_freed:
  assumes "get_team (tw_runtime w) team = Some t" and "holds name l X (te_lanes t)"
    and "max_concurrent_tasks (budget (l_contract l)) = Some cap" and "finite X" and "cap \<le> card X"
    and "list_all (keeps_setup team name) calls"
  shows "\<exists>err. fst (assign_task_to_lane team name x title (tw_runtime (team_run E calls w))) = Inl err"
proof (cases "get_team (tw_runtime (team_run E calls w)) team")
  case None
  then show ?thesis by (simp add: assign_task_to_lane_def find_team_def get_team_def)
next
  case (Some t')
  have "every_team (slot_held team name l X) (tw_runtime w)"
    using assms(1,2) by (auto simp: every_team_def slot_held_def)
  from every_teamD [OF slots.run_keeps [OF this assms(6)] Some]
  have "holds name l X (te_lanes t')" by (simp add: slot_held_def)
  from held_lane_full [OF this assms(3-5), of x title]
  obtain err where "assign_task name x title (te_lanes t') = (Inl err, te_lanes t')" by blast
  with Some show ?thesis by (simp add: assign_task_to_lane_def find_team_get [THEN iffD2])
qed

definition demo_team_lane :: lane where
  "demo_team_lane =
     \<lparr>l_name = ''tests'', l_definition = ''ann'',
      l_contract = (minimal ''tests'')\<lparr>budget := unlimited\<lparr>max_concurrent_tasks := Some 1\<rparr>\<rparr>\<rparr>"

definition demo_lane_calls :: "(nat, nat) team_call list" where
  "demo_lane_calls = [demo_create, CallAddLane ''crew'' demo_team_lane, CallAssign ''crew'' ''tests'' ''a'' ''Fix CI'']"

definition demo_finish :: "(nat, nat) team_call" where
  "demo_finish = CallFinish 9 \<lparr>ttf_team_id = ''crew'', ttf_task_id = ''a'', ttf_reviewer = ''lead'', ttf_approved = True\<rparr>"

lemma demo_lane_held:
  obtains t where "get_team (tw_runtime (demo_run demo_lane_calls)) ''crew'' = Some t"
    "holds ''tests'' demo_team_lane {''a''} (te_lanes t)"
  by (simp add: demo_lane_calls_def run_simps add_lane_def assign_task_to_lane_def find_team_def
      register_lane_def assign_task_def new_coordinator_def new_lane_state_def has_task_capacity_def
      demo_team_lane_def minimal_def unlimited_def holds_def bs_simps)

theorem lane_slots_are_never_freed_witness:
  "\<exists>err. fst (assign_task_to_lane ''crew'' ''tests'' ''b'' ''Next''
     (tw_runtime (team_run demo_codec [demo_finish] (demo_run demo_lane_calls)))) = Inl err"
proof -
  obtain t where t: "get_team (tw_runtime (demo_run demo_lane_calls)) ''crew'' = Some t"
    "holds ''tests'' demo_team_lane {''a''} (te_lanes t)" by (rule demo_lane_held)
  show ?thesis
    by (rule lane_slots_are_never_freed [OF t, of 1])
       (simp_all add: demo_team_lane_def demo_finish_def keeps_setup_def)
qed

end
