(* ===== verification/Gates.thy ===== *)
theory Gates
  imports Committed
begin

text \<open>
  The trust boundary of the control plane: the qualify gates of crates/headgate/src (gate.rs,
  judge.rs, council.rs, tier.rs), the pairwise position audit (position.rs) and the records they
  exchange (recall.rs, savings.rs \<open>JudgeTokenCost\<close>, llm.rs \<open>LlmRequest\<close>). A gate is a function from
  a candidate and the committed state to a decision. The model behind a judge, the JSON reader and
  printer of verdicts and the tokenizer are parameters.
\<close>

section \<open>Errors, candidates and model clients\<close>

datatype headgate_error = Recall_error string | Compress_error string | Llm_error string | Memory_error string

fun show_headgate_error :: "headgate_error \<Rightarrow> string" where
  "show_headgate_error (Recall_error m) = ''recall store error: '' @ m"
| "show_headgate_error (Compress_error m) = ''compressor error: '' @ m"
| "show_headgate_error (Llm_error m) = ''llm error: '' @ m"
| "show_headgate_error (Memory_error m) = ''memory backend error: '' @ m"

record recall_item =
  ri_id :: string
  ri_content :: string
  ri_score :: rat
  ri_source :: string

record llm_request =
  lq_system :: "string option"
  lq_prompt :: string
  lq_max_tokens :: "nat option"
  lq_temperature :: "rat option"

record llm_client =
  lc_label :: string
  lc_complete :: "llm_request \<Rightarrow> headgate_error + string"

record judge_token_cost =
  jc_judge :: string
  jc_prompt_tokens :: nat
  jc_completion_tokens :: nat
  jc_total_tokens :: nat

definition new_judge_cost :: "string \<Rightarrow> nat \<Rightarrow> nat \<Rightarrow> judge_token_cost" where
  "new_judge_cost judge p c =
     \<lparr>jc_judge = judge, jc_prompt_tokens = p, jc_completion_tokens = c,
      jc_total_tokens = saturating_add p c\<rparr>"

section \<open>Reason codes\<close>

datatype reason_code =
    Qualified | Below_relevance_threshold | Redundant | Stale_version | Budget_saturated
  | Drift | Gate_rejected | Other_reason string

fun reason_as_str :: "reason_code \<Rightarrow> string" where
  "reason_as_str Qualified = ''qualified''"
| "reason_as_str Below_relevance_threshold = ''below_relevance_threshold''"
| "reason_as_str Redundant = ''redundant''"
| "reason_as_str Stale_version = ''stale_version''"
| "reason_as_str Budget_saturated = ''budget_saturated''"
| "reason_as_str Drift = ''drift''"
| "reason_as_str Gate_rejected = ''gate_rejected''"
| "reason_as_str (Other_reason text) = text"

definition reason_from_wire :: "string \<Rightarrow> reason_code" where
  "reason_from_wire value =
     (if value = ''qualified'' then Qualified
      else if value = ''below_relevance_threshold'' then Below_relevance_threshold
      else if value = ''redundant'' then Redundant
      else if value = ''stale_version'' then Stale_version
      else if value = ''budget_saturated'' then Budget_saturated
      else if value = ''drift'' then Drift
      else if value = ''gate_rejected'' then Gate_rejected
      else Other_reason value)"

definition default_reason :: reason_code where
  "default_reason = Other_reason []"

section \<open>Signals and audits\<close>

record qualify_signal =
  qs_name :: string
  qs_value :: rat
  qs_threshold :: rat
  qs_passed :: bool
  qs_margin :: rat

definition normalized_margin :: "rat \<Rightarrow> rat \<Rightarrow> rat" where
  "normalized_margin value threshold =
     (let scale = max (max \<bar>value\<bar> \<bar>threshold\<bar>) 1 in clamp01 (\<bar>value - threshold\<bar> / scale))"

definition new_signal :: "string \<Rightarrow> rat \<Rightarrow> rat \<Rightarrow> bool \<Rightarrow> qualify_signal" where
  "new_signal name value threshold passed =
     \<lparr>qs_name = name, qs_value = value, qs_threshold = threshold, qs_passed = passed,
      qs_margin = normalized_margin value threshold\<rparr>"

definition signal_agreement :: "bool \<Rightarrow> qualify_signal list \<Rightarrow> rat" where
  "signal_agreement admitted signals =
     (if signals = [] then 1
      else of_nat (length (filter (\<lambda>s. qs_passed s = admitted) signals)) / of_nat (length signals))"

record chance_stats =
  cs_value :: "rat option"
  cs_cohen_kappa :: "rat option"
  cs_krippendorff_alpha :: "rat option"
  cs_method :: "string option"

text \<open>\<open>f32::EPSILON\<close> is 2 to the power -23.\<close>

definition binary_pairwise_kappa_alpha :: "bool list \<Rightarrow> rat" where
  "binary_pairwise_kappa_alpha votes =
     (let yes = of_nat (length (filter (\<lambda>v. v) votes)); total = of_nat (length votes);
          no = total - yes;
          observed = (yes * (yes - 1) + no * (no - 1)) / (total * (total - 1));
          yes_rate = yes / total; no_rate = no / total;
          expected = yes_rate * yes_rate + no_rate * no_rate;
          denominator = 1 - expected
      in if \<bar>denominator\<bar> \<le> 1 / 2 ^ 23 then 1
         else max (-1) (min ((observed - expected) / denominator) 1))"

definition chance_corrected_binary_votes :: "bool list \<Rightarrow> chance_stats" where
  "chance_corrected_binary_votes votes =
     (let n = length votes; statistic = binary_pairwise_kappa_alpha votes
      in if n < 2 then
           \<lparr>cs_value = None, cs_cohen_kappa = None, cs_krippendorff_alpha = None, cs_method = None\<rparr>
         else if n = 2 then
           \<lparr>cs_value = Some statistic, cs_cohen_kappa = Some statistic,
            cs_krippendorff_alpha = None, cs_method = Some ''cohen_kappa''\<rparr>
         else
           \<lparr>cs_value = Some statistic, cs_cohen_kappa = None,
            cs_krippendorff_alpha = Some statistic, cs_method = Some ''krippendorff_alpha''\<rparr>)"

text \<open>An admission is as decisive as its closest signal, a rejection as its clearest failure.\<close>

definition decisive_margin :: "bool \<Rightarrow> qualify_signal list \<Rightarrow> rat" where
  "decisive_margin admitted signals =
     (if signals = [] then 1
      else if admitted then fold min (map qs_margin signals) 1
      else case map qs_margin (filter (\<lambda>s. \<not> qs_passed s) signals) of
             [] \<Rightarrow> 0
           | m # ms \<Rightarrow> fold max ms m)"

definition decision_confidence :: "bool \<Rightarrow> rat \<Rightarrow> qualify_signal list \<Rightarrow> rat" where
  "decision_confidence admitted agreement signals =
     clamp01 ((clamp01 agreement + clamp01 (decisive_margin admitted signals)) / 2)"

record qualify_audit =
  qa_signals :: "qualify_signal list"
  qa_agreement :: rat
  qa_chance_corrected_agreement :: "rat option"
  qa_cohen_kappa :: "rat option"
  qa_krippendorff_alpha :: "rat option"
  qa_chance_corrected_method :: "string option"
  qa_position_bias :: "rat option"
  qa_position_bias_threshold :: "rat option"
  qa_position_bias_flagged :: "bool option"
  qa_judge_tier :: "string option"
  qa_judge_costs :: "judge_token_cost list"
  qa_confidence :: rat

definition audit_from_signals :: "bool \<Rightarrow> qualify_signal list \<Rightarrow> qualify_audit" where
  "audit_from_signals admitted signals =
     (let agreement = signal_agreement admitted signals;
          stats = chance_corrected_binary_votes (map qs_passed signals)
      in \<lparr>qa_signals = signals, qa_agreement = agreement,
          qa_chance_corrected_agreement = cs_value stats,
          qa_cohen_kappa = cs_cohen_kappa stats,
          qa_krippendorff_alpha = cs_krippendorff_alpha stats,
          qa_chance_corrected_method = cs_method stats,
          qa_position_bias = None, qa_position_bias_threshold = None,
          qa_position_bias_flagged = None, qa_judge_tier = None, qa_judge_costs = [],
          qa_confidence = decision_confidence admitted agreement signals\<rparr>)"

definition audit_with_position_bias :: "rat \<Rightarrow> rat \<Rightarrow> qualify_audit \<Rightarrow> qualify_audit" where
  "audit_with_position_bias bias threshold a =
     a\<lparr>qa_position_bias := Some bias, qa_position_bias_threshold := Some threshold,
       qa_position_bias_flagged := Some (bias > threshold)\<rparr>"

definition audit_with_costs :: "judge_token_cost list \<Rightarrow> qualify_audit \<Rightarrow> qualify_audit" where
  "audit_with_costs costs a = a\<lparr>qa_judge_costs := qa_judge_costs a @ costs\<rparr>"

definition audit_with_tier :: "string \<Rightarrow> qualify_audit \<Rightarrow> qualify_audit" where
  "audit_with_tier tier a = a\<lparr>qa_judge_tier := Some tier\<rparr>"

section \<open>Decisions\<close>

record qualify_decision =
  qd_admitted :: bool
  qd_reason :: string
  qd_slot :: "string option"
  qd_score :: rat
  qd_audit :: "qualify_audit option"
  qd_reason_code :: reason_code

definition decide_admit :: "string \<Rightarrow> rat \<Rightarrow> qualify_decision" where
  "decide_admit slot score =
     \<lparr>qd_admitted = True, qd_reason = ''qualified'', qd_slot = Some slot, qd_score = score,
      qd_audit = None, qd_reason_code = Qualified\<rparr>"

definition decide_reject :: "string \<Rightarrow> rat \<Rightarrow> qualify_decision" where
  "decide_reject reason score =
     \<lparr>qd_admitted = False, qd_reason = reason, qd_slot = None, qd_score = score,
      qd_audit = None, qd_reason_code = Other_reason reason\<rparr>"

definition with_audit :: "qualify_audit \<Rightarrow> qualify_decision \<Rightarrow> qualify_decision" where
  "with_audit a d = d\<lparr>qd_audit := Some a\<rparr>"

definition with_reason_code :: "reason_code \<Rightarrow> qualify_decision \<Rightarrow> qualify_decision" where
  "with_reason_code c d = d\<lparr>qd_reason_code := c\<rparr>"

type_synonym gate = "recall_item \<Rightarrow> ccs \<Rightarrow> qualify_decision"

section \<open>The deterministic gate\<close>

record default_gate =
  dg_min_score :: rat
  dg_redundancy_threshold :: rat
  dg_slot_keywords :: "(string \<times> string list) list"

definition default_slot_keywords :: "(string \<times> string list) list" where
  "default_slot_keywords =
     [(''decision'', [''decid'', ''chose'', ''chosen'', ''will use'', ''agreed'', ''selected'']),
      (''constraint'', [''must'', ''never'', ''always'', ''require'', ''cannot'', ''do not'']),
      (''task-state'', [''todo'', ''in progress'', ''blocked'', ''next step'', ''remaining''])]"

definition new_default_gate :: "rat \<Rightarrow> rat \<Rightarrow> default_gate" where
  "new_default_gate min_score redundancy =
     \<lparr>dg_min_score = min_score, dg_redundancy_threshold = redundancy,
      dg_slot_keywords = default_slot_keywords\<rparr>"

definition route_slot :: "default_gate \<Rightarrow> recall_item \<Rightarrow> ccs \<Rightarrow> string" where
  "route_slot g item cs =
     (let lower = to_ascii_lowercase (ri_content item)
      in case List.find (\<lambda>(slot, keywords). schema_contains (cc_schema cs) slot \<and>
             list_ex (\<lambda>k. contains k lower) keywords) (dg_slot_keywords g) of
           Some (slot, _) \<Rightarrow> slot
         | None \<Rightarrow> default_slot (cc_schema cs))"

definition gate_signals :: "default_gate \<Rightarrow> recall_item \<Rightarrow> bool \<Rightarrow> rat \<Rightarrow> qualify_signal list" where
  "gate_signals g item already_committed overlap =
     (let novelty = clamp01 (1 - overlap);
          novelty_threshold = clamp01 (1 - dg_redundancy_threshold g)
      in [new_signal ''relevance'' (ri_score item) (dg_min_score g)
            (ri_score item \<ge> dg_min_score g),
          new_signal ''uniqueness'' (if already_committed then 0 else 1) (1/2)
            (\<not> already_committed),
          new_signal ''novelty'' novelty novelty_threshold (overlap < dg_redundancy_threshold g)])"

definition gate_decide :: "default_gate \<Rightarrow> gate" where
  "gate_decide g item cs =
     (let already_committed = ccs_contains cs (ri_id item);
          overlap = max_overlap cs (ri_content item);
          signals = gate_signals g item already_committed overlap;
          refuse = (\<lambda>reason code. with_audit (audit_from_signals False signals)
                      (with_reason_code code (decide_reject reason (ri_score item))))
      in if ri_score item < dg_min_score g then
           refuse (''below relevance threshold ('' @ show_fixed 3 (ri_score item) @ '' < '' @
                   show_fixed 3 (dg_min_score g) @ '')'') Below_relevance_threshold
         else if already_committed then refuse ''already committed'' Redundant
         else if overlap \<ge> dg_redundancy_threshold g then
           refuse (''redundant (overlap '' @ show_fixed 3 overlap @ '' >= '' @
                   show_fixed 3 (dg_redundancy_threshold g) @ '')'') Redundant
         else with_audit (audit_from_signals True signals)
                (decide_admit (route_slot g item cs) (ri_score item)))"

end
