(* ===== verification/Judges.thy ===== *)
theory Judges
  imports Gates
begin

text \<open>
  The gates that consult a model: the judge of crates/headgate/src/judge.rs, the council of
  council.rs, the stakes-selected tiers of tier.rs and the position-swap audit of position.rs.
  A client answers a request with a text or an error; \<open>parse\<close> is the JSON reader of a verdict and
  \<open>show_verdicts\<close> the JSON printer of the panel's verdicts, both of the serde_json package.
\<close>

section \<open>Verdicts and thresholds\<close>

record judge_verdict =
  jv_relevance :: rat
  jv_novelty :: rat
  jv_drift :: rat
  jv_slot :: "string option"
  jv_reason :: "string option"

record judge_thresholds =
  jt_min_relevance :: rat
  jt_min_novelty :: rat
  jt_max_drift :: rat

definition default_thresholds :: judge_thresholds where
  "default_thresholds = \<lparr>jt_min_relevance = 1/2, jt_min_novelty = 3/10, jt_max_drift = 4/10\<rparr>"

definition verdict_signals :: "judge_thresholds \<Rightarrow> judge_verdict \<Rightarrow> qualify_signal list" where
  "verdict_signals th v =
     [new_signal ''relevance'' (jv_relevance v) (jt_min_relevance th)
        (jv_relevance v \<ge> jt_min_relevance th),
      new_signal ''novelty'' (jv_novelty v) (jt_min_novelty th)
        (jv_novelty v \<ge> jt_min_novelty th),
      new_signal ''drift'' (jv_drift v) (jt_max_drift th) (jv_drift v \<le> jt_max_drift th)]"

text \<open>Judge and council decide alike; the reason starts with who decided.\<close>

definition decide_verdict ::
  "string \<Rightarrow> judge_thresholds \<Rightarrow> judge_verdict \<Rightarrow> ccs \<Rightarrow> qualify_decision" where
  "decide_verdict who th v cs =
     (let reason = (case jv_reason v of Some r \<Rightarrow> r | None \<Rightarrow> []);
          signals = verdict_signals th v;
          refuse = (\<lambda>text code. with_audit (audit_from_signals False signals)
                      (with_reason_code code (decide_reject text (jv_relevance v))))
      in if jv_relevance v < jt_min_relevance th then
           refuse (who @ '': low relevance '' @ show_fixed 2 (jv_relevance v) @ '' ('' @ reason @ '')'')
             Below_relevance_threshold
         else if jv_novelty v < jt_min_novelty th then
           refuse (who @ '': redundant, novelty '' @ show_fixed 2 (jv_novelty v) @ '' ('' @ reason @ '')'')
             Redundant
         else if jv_drift v > jt_max_drift th then
           refuse (who @ '': drift '' @ show_fixed 2 (jv_drift v) @ '' exceeds '' @
                   show_fixed 2 (jt_max_drift th) @ '' ('' @ reason @ '')'') Drift
         else with_audit (audit_from_signals True signals)
                (decide_admit
                  (case jv_slot v of
                     Some slot \<Rightarrow> if schema_contains (cc_schema cs) slot then slot
                                  else default_slot (cc_schema cs)
                   | None \<Rightarrow> default_slot (cc_schema cs)) (jv_relevance v)))"

definition judge_decide :: "judge_thresholds \<Rightarrow> judge_verdict \<Rightarrow> ccs \<Rightarrow> qualify_decision" where
  "judge_decide = decide_verdict ''judge''"

definition council_decide :: "judge_thresholds \<Rightarrow> judge_verdict \<Rightarrow> ccs \<Rightarrow> qualify_decision" where
  "council_decide = decide_verdict ''council''"

text \<open>The first balanced object of a reply, braces inside JSON strings counted as braces.\<close>

fun object_text :: "nat \<Rightarrow> string \<Rightarrow> string option" where
  "object_text depth [] = None"
| "object_text depth (c # cs) =
     (if c = CHR 0x7B then (case object_text (depth + 1) cs of None \<Rightarrow> None | Some t \<Rightarrow> Some (c # t))
      else if c = CHR 0x7D then
        (if depth - 1 = 0 then Some [c]
         else (case object_text (depth - 1) cs of None \<Rightarrow> None | Some t \<Rightarrow> Some (c # t)))
      else (case object_text depth cs of None \<Rightarrow> None | Some t \<Rightarrow> Some (c # t)))"

definition parse_verdict :: "(string \<Rightarrow> judge_verdict option) \<Rightarrow> string \<Rightarrow> judge_verdict option" where
  "parse_verdict parse raw =
     (case object_text 0 (dropWhile (\<lambda>c. c \<noteq> CHR 0x7B) raw) of
        None \<Rightarrow> None
      | Some t \<Rightarrow> parse t)"

section \<open>The judge\<close>

definition dquoted :: "string \<Rightarrow> string" where
  "dquoted s = CHR 0x22 # s @ [CHR 0x22]"

definition judge_system :: string where
  "judge_system =
     ''You are a memory-control judge for an AI agent. You score whether a candidate fact should enter the agent'' @
     [CHR 0x27] @ ''s bounded committed context. Reply with ONLY a compact JSON object, no prose, no code fences. Schema: {'' @
     dquoted ''relevance'' @ '': <0..1>, '' @ dquoted ''novelty'' @ '': <0..1>, '' @
     dquoted ''drift'' @ '': <0..1>, '' @ dquoted ''slot'' @ '': <string>, '' @
     dquoted ''reason'' @ '': <short string>}. relevance = how useful the candidate is to the agent'' @
     [CHR 0x27] @ ''s work; novelty = how much new information it adds versus what is already committed '' @
     ''(1 = wholly new, 0 = duplicate); drift = risk it contradicts the committed state or is '' @
     ''unsupported/hallucinated (0 = fully consistent, 1 = contradictory).''"

definition candidate_prompt :: "string \<Rightarrow> recall_item \<Rightarrow> ccs \<Rightarrow> string" where
  "candidate_prompt score_label item cs =
     (let rendered = render_ccs cs; committed = (if rendered = [] then ''(empty)'' else rendered)
      in ''Committed context so far:'' @ LF @ committed @ LF @ LF @ ''Candidate fact (id='' @
         ri_id item @ '', '' @ score_label @ '' '' @ show_fixed 3 (ri_score item) @ ''):'' @ LF @
         ri_content item @ LF @ LF @ ''Score the candidate.'')"

definition judge_prompt :: "recall_item \<Rightarrow> ccs \<Rightarrow> string" where
  "judge_prompt = candidate_prompt ''retrieval score''"

definition judge_request :: "string \<Rightarrow> string \<Rightarrow> llm_request" where
  "judge_request system prompt =
     \<lparr>lq_system = Some system, lq_prompt = prompt, lq_max_tokens = Some 200,
      lq_temperature = Some 0\<rparr>"

definition gate_rejected :: "judge_token_cost list \<Rightarrow> string \<Rightarrow> rat \<Rightarrow> qualify_decision" where
  "gate_rejected costs reason score =
     with_audit (audit_with_costs costs (audit_from_signals False []))
       (with_reason_code Gate_rejected (decide_reject reason score))"

definition charge :: "judge_token_cost list \<Rightarrow> qualify_decision \<Rightarrow> qualify_decision" where
  "charge costs d =
     d\<lparr>qd_audit := (case qd_audit d of None \<Rightarrow> None | Some a \<Rightarrow> Some (audit_with_costs costs a))\<rparr>"

definition judge_qualify ::
  "(string \<Rightarrow> nat) \<Rightarrow> (string \<Rightarrow> judge_verdict option) \<Rightarrow> judge_thresholds \<Rightarrow> llm_client \<Rightarrow> gate" where
  "judge_qualify tok parse th client item cs =
     (let prompt = judge_prompt item cs;
          prompt_tokens = saturating_add (tok judge_system) (tok prompt);
          cost = new_judge_cost (lc_label client) prompt_tokens
      in case lc_complete client (judge_request judge_system prompt) of
           Inl e \<Rightarrow> gate_rejected [cost 0] (''judge unavailable: '' @ show_headgate_error e)
                      (ri_score item)
         | Inr raw \<Rightarrow>
             (case parse_verdict parse raw of
                Some v \<Rightarrow> charge [cost (tok raw)] (judge_decide th v cs)
              | None \<Rightarrow> gate_rejected [cost (tok raw)] ''judge returned unparseable verdict''
                          (ri_score item)))"

section \<open>The council\<close>

record council =
  co_panel :: "llm_client list"
  co_arbiter :: llm_client
  co_thresholds :: judge_thresholds

text \<open>\<open>CouncilJudge::new\<close> panics on an empty panel.\<close>

definition new_council :: "llm_client list \<Rightarrow> llm_client \<Rightarrow> council option" where
  "new_council panel arbiter =
     (if panel = [] then None
      else Some \<lparr>co_panel = panel, co_arbiter = arbiter, co_thresholds = default_thresholds\<rparr>)"

definition panel_system :: string where
  "panel_system =
     ''You are a memory-control judge for an AI agent. Score whether a candidate fact should enter the agent'' @
     [CHR 0x27] @ ''s bounded committed context. Reply with ONLY a compact JSON object, no prose, no code fences. Schema: {'' @
     dquoted ''relevance'' @ '': <0..1>, '' @ dquoted ''novelty'' @ '': <0..1>, '' @
     dquoted ''drift'' @ '': <0..1>, '' @ dquoted ''slot'' @ '': <string>, '' @
     dquoted ''reason'' @ '': <short string>}.''"

definition arbiter_system :: string where
  "arbiter_system =
     ''You are a memory-control arbiter. You receive an array of judge verdicts and must synthesize a final verdict. '' @
     ''Reply with ONLY a compact JSON object matching the same schema as the inputs: {'' @
     dquoted ''relevance'' @ '': <0..1>, '' @ dquoted ''novelty'' @ '': <0..1>, '' @
     dquoted ''drift'' @ '': <0..1>, '' @ dquoted ''slot'' @ '': <string>, '' @
     dquoted ''reason'' @ '': <short string>}. Weigh each judge'' @ [CHR 0x27] @
     ''s evidence; you may disagree with the majority if you have a principled reason, but briefly state it in '' @
     [CHR 0x27] @ ''reason'' @ [CHR 0x27] @ ''.''"

definition panel_prompt :: "recall_item \<Rightarrow> ccs \<Rightarrow> string" where
  "panel_prompt = candidate_prompt ''score''"

definition average :: "rat list \<Rightarrow> rat" where
  "average xs = sum_list xs / of_nat (length xs)"

definition majority_verdict :: "judge_verdict list \<Rightarrow> judge_verdict option" where
  "majority_verdict vs =
     (if vs = [] then None
      else let r = average (map jv_relevance vs); n = average (map jv_novelty vs);
               d = average (map jv_drift vs)
           in Some \<lparr>jv_relevance = r, jv_novelty = n, jv_drift = d,
                    jv_slot = Some (case List.map_filter jv_slot vs of [] \<Rightarrow> [] | s # _ \<Rightarrow> s),
                    jv_reason = Some (''majority of '' @ show_nat (length vs) @
                      '' panel judges (avg relevance='' @ show_fixed 2 r @ '', novelty='' @
                      show_fixed 2 n @ '', drift='' @ show_fixed 2 d @ '')'')\<rparr>)"

definition panel_answers ::
  "council \<Rightarrow> recall_item \<Rightarrow> ccs \<Rightarrow> (string \<times> (headgate_error + string)) list" where
  "panel_answers co item cs =
     map (\<lambda>c. (''panel:'' @ lc_label c,
              lc_complete c (judge_request panel_system (panel_prompt item cs)))) (co_panel co)"

definition panel_costs ::
  "(string \<Rightarrow> nat) \<Rightarrow> nat \<Rightarrow> (string \<times> (headgate_error + string)) list \<Rightarrow> judge_token_cost list" where
  "panel_costs tok prompt_tokens answers =
     map (\<lambda>(label, answer). new_judge_cost label prompt_tokens
            (case answer of Inr text \<Rightarrow> tok text | Inl _ \<Rightarrow> 0)) answers"

definition panel_verdicts ::
  "(string \<Rightarrow> judge_verdict option) \<Rightarrow> (string \<times> (headgate_error + string)) list
    \<Rightarrow> judge_verdict list" where
  "panel_verdicts parse answers =
     List.map_filter (\<lambda>(label, answer). case answer of
          Inr text \<Rightarrow> parse_verdict parse text | Inl _ \<Rightarrow> None) answers"

definition final_verdict ::
  "(string \<Rightarrow> judge_verdict option) \<Rightarrow> judge_verdict list \<Rightarrow> headgate_error + string
    \<Rightarrow> judge_verdict option" where
  "final_verdict parse verdicts answer =
     (case answer of
        Inr text \<Rightarrow> (case parse_verdict parse text of
                       Some v \<Rightarrow> Some v | None \<Rightarrow> majority_verdict verdicts)
      | Inl _ \<Rightarrow> majority_verdict verdicts)"

definition council_qualify ::
  "(string \<Rightarrow> nat) \<Rightarrow> (string \<Rightarrow> judge_verdict option) \<Rightarrow> (judge_verdict list \<Rightarrow> string) \<Rightarrow> council
    \<Rightarrow> gate" where
  "council_qualify tok parse show_verdicts co item cs =
     (let answers = panel_answers co item cs;
          costs = panel_costs tok
                    (saturating_add (tok panel_system) (tok (panel_prompt item cs))) answers;
          verdicts = panel_verdicts parse answers;
          quorum = (length (co_panel co) + 1) div 2
      in if length verdicts < quorum then
           gate_rejected costs
             (''council: only '' @ show_nat (length verdicts) @ ''/'' @
              show_nat (length (co_panel co)) @ '' panel judges responded (quorum '' @
              show_nat quorum @ '')'') (ri_score item)
         else
           let arbiter_prompt = ''Panel verdicts for candidate (id='' @ ri_id item @ ''):'' @ LF @
                 show_verdicts verdicts @ LF @ LF @ ''Synthesize a final verdict.'';
               answer = lc_complete (co_arbiter co) (judge_request arbiter_system arbiter_prompt);
               costs = costs @
                 [new_judge_cost (''arbiter:'' @ lc_label (co_arbiter co))
                    (saturating_add (tok arbiter_system) (tok arbiter_prompt))
                    (case answer of Inr text \<Rightarrow> tok text | Inl _ \<Rightarrow> 0)]
           in case final_verdict parse verdicts answer of
                Some v \<Rightarrow> charge costs (council_decide (co_thresholds co) v cs)
              | None \<Rightarrow> gate_rejected costs ''council: no verdict produced'' (ri_score item))"

section \<open>Tiers\<close>

datatype judge_tier = Cheap | Frontier

fun judge_tier_as_str :: "judge_tier \<Rightarrow> string" where
  "judge_tier_as_str Cheap = ''cheap''"
| "judge_tier_as_str Frontier = ''frontier''"

record judge_tier_config =
  tc_cheap_judge :: "string option"
  tc_frontier_judge :: "string option"
  tc_frontier_stakes_threshold :: rat
  tc_default_stakes :: rat

definition default_tier_config :: judge_tier_config where
  "default_tier_config =
     \<lparr>tc_cheap_judge = None, tc_frontier_judge = None, tc_frontier_stakes_threshold = 3/4,
      tc_default_stakes = 0\<rparr>"

definition select_tier :: "judge_tier_config \<Rightarrow> rat \<Rightarrow> judge_tier" where
  "select_tier cfg stakes =
     (if stakes \<ge> tc_frontier_stakes_threshold cfg then Frontier else Cheap)"

definition qualify_with_stakes ::
  "gate \<Rightarrow> gate \<Rightarrow> judge_tier_config \<Rightarrow> recall_item \<Rightarrow> ccs \<Rightarrow> rat \<Rightarrow> qualify_decision" where
  "qualify_with_stakes cheap frontier cfg item cs stakes =
     (let tier = select_tier cfg stakes;
          d = (case tier of Cheap \<Rightarrow> cheap item cs | Frontier \<Rightarrow> frontier item cs);
          audit = (case qd_audit d of Some a \<Rightarrow> a | None \<Rightarrow> audit_from_signals (qd_admitted d) [])
      in d\<lparr>qd_audit := Some (audit_with_tier (judge_tier_as_str tier) audit)\<rparr>)"

definition tiered_qualify :: "gate \<Rightarrow> gate \<Rightarrow> judge_tier_config \<Rightarrow> gate" where
  "tiered_qualify cheap frontier cfg item cs =
     qualify_with_stakes cheap frontier cfg item cs (tc_default_stakes cfg)"

section \<open>Position swaps\<close>

datatype pairwise_choice = First | Second | Tie

fun selected_id :: "pairwise_choice \<Rightarrow> recall_item \<Rightarrow> recall_item \<Rightarrow> string option" where
  "selected_id First a b = Some (ri_id a)"
| "selected_id Second a b = Some (ri_id b)"
| "selected_id Tie a b = None"

record position_audit =
  pa_ab_choice :: pairwise_choice
  pa_ba_choice :: pairwise_choice
  pa_position_bias :: rat
  pa_threshold :: rat
  pa_flagged :: bool

definition position_swap_debias ::
  "(recall_item \<Rightarrow> recall_item \<Rightarrow> ccs \<Rightarrow> pairwise_choice) \<Rightarrow> recall_item \<Rightarrow> recall_item \<Rightarrow> ccs \<Rightarrow> rat
    \<Rightarrow> position_audit" where
  "position_swap_debias compare a b cs threshold =
     (let ab = compare a b cs; ba = compare b a cs;
          bias = (if selected_id ab a b \<noteq> selected_id ba b a then 1 else 0)
      in \<lparr>pa_ab_choice = ab, pa_ba_choice = ba, pa_position_bias = bias,
          pa_threshold = threshold, pa_flagged = (bias > threshold)\<rparr>)"

end
