(* ===== verification/Headgate.thy ===== *)
theory Headgate
  imports Judges
begin

text \<open>
  The commit loop of the control plane: \<open>Headgate::cycle\<close> of crates/headgate/src/controller.rs. The
  recall store, the gate and the compressor are arguments, as in the code, where they are trait
  objects. A cycle returns the state it leaves beside its answer, because a compressor that fails
  ends the cycle after earlier candidates were committed; the savings it reports are a list. The
  clock is asked once for each admitted entry.
\<close>

section \<open>Configuration and controller\<close>

record headgate_config =
  hc_budget_tokens :: nat
  hc_recall_limit :: nat
  hc_min_score :: rat
  hc_redundancy_threshold :: rat
  hc_compress_on_saturation :: bool
  hc_judge_tiering :: "judge_tier_config option"

definition default_headgate_config :: headgate_config where
  "default_headgate_config =
     \<lparr>hc_budget_tokens = 2048, hc_recall_limit = 16, hc_min_score = 1/5,
      hc_redundancy_threshold = 4/5, hc_compress_on_saturation = True, hc_judge_tiering = None\<rparr>"

type_synonym compressor = "string \<Rightarrow> nat \<Rightarrow> headgate_error + string"

text \<open>One call of the savings recorder: operation, collection, returned, rejected tokens, session,
  judge costs.\<close>

record savings_report =
  sr_op :: string
  sr_collection :: string
  sr_returned :: nat
  sr_baseline :: nat
  sr_session :: "string option"
  sr_judge_costs :: "judge_token_cost list"

record headgate =
  hg_recall :: "string \<Rightarrow> nat \<Rightarrow> headgate_error + recall_item list"
  hg_gate :: gate
  hg_compressor :: compressor
  hg_ccs :: ccs
  hg_config :: headgate_config
  hg_savings_collection :: string
  hg_track_savings :: bool
  hg_savings_session :: "string option"

definition new_headgate ::
  "(string \<Rightarrow> nat) \<Rightarrow> (string \<Rightarrow> nat \<Rightarrow> headgate_error + recall_item list) \<Rightarrow> headgate_config
    \<Rightarrow> headgate" where
  "new_headgate tok recall cfg =
     \<lparr>hg_recall = recall,
      hg_gate = gate_decide (new_default_gate (hc_min_score cfg) (hc_redundancy_threshold cfg)),
      hg_compressor = (if hc_compress_on_saturation cfg
                       then (\<lambda>content target. Inr (extractive_compress tok content target))
                       else (\<lambda>content target. Inr (noop_compress content target))),
      hg_ccs = new_ccs default_schema (hc_budget_tokens cfg),
      hg_config = cfg, hg_savings_collection = [], hg_track_savings = False,
      hg_savings_session = None\<rparr>"

definition with_schema :: "ccs_schema \<Rightarrow> headgate \<Rightarrow> headgate" where
  "with_schema sch h = h\<lparr>hg_ccs := new_ccs sch (hc_budget_tokens (hg_config h))\<rparr>"

definition with_gate :: "gate \<Rightarrow> headgate \<Rightarrow> headgate" where
  "with_gate g h = h\<lparr>hg_gate := g\<rparr>"

definition with_compressor :: "compressor \<Rightarrow> headgate \<Rightarrow> headgate" where
  "with_compressor c h = h\<lparr>hg_compressor := c\<rparr>"

definition with_savings :: "string \<Rightarrow> bool \<Rightarrow> headgate \<Rightarrow> headgate" where
  "with_savings collection track h =
     h\<lparr>hg_savings_collection := collection, hg_track_savings := track\<rparr>"

definition with_savings_session :: "string \<Rightarrow> headgate \<Rightarrow> headgate" where
  "with_savings_session session h = h\<lparr>hg_savings_session := Some session\<rparr>"

section \<open>One candidate\<close>

text \<open>Evicting the committed entries that score strictly below the candidate, lowest first, until
  it fits.\<close>

function evict_below :: "nat \<Rightarrow> rat \<Rightarrow> ccs \<Rightarrow> nat \<Rightarrow> ccs \<times> nat" where
  "evict_below tokens score cs evicted =
     (if tokens > headroom cs \<and> cc_entries cs \<noteq> [] then
        (case lowest_score cs of
           Some lowest \<Rightarrow>
             if lowest < score then
               (case evict_lowest cs of
                  (Some _, cs') \<Rightarrow> evict_below tokens score cs' (Suc evicted)
                | (None, _) \<Rightarrow> (cs, evicted))
             else (cs, evicted)
         | None \<Rightarrow> (cs, evicted))
      else (cs, evicted))"
  by auto
termination
  by (relation "measure (\<lambda>(tokens, score, cs, evicted). length (cc_entries cs))")
    (auto dest!: sym [of "(Some _, _)"] evict_lowest_shrinks)

declare evict_below.simps [simp del]

record cycle_state =
  cy_ccs :: ccs
  cy_metrics :: gauge_metrics
  cy_savings :: "savings_report list"

definition report_savings ::
  "(string \<Rightarrow> nat) \<Rightarrow> headgate \<Rightarrow> recall_item \<Rightarrow> qualify_decision \<Rightarrow> savings_report list" where
  "report_savings tok h item d =
     (if hg_track_savings h \<and> hg_savings_collection h \<noteq> [] then
        [\<lparr>sr_op = ''qualify.reject'', sr_collection = hg_savings_collection h, sr_returned = 0,
          sr_baseline = tok (ri_content item), sr_session = hg_savings_session h,
          sr_judge_costs = (case qd_audit d of Some a \<Rightarrow> qa_judge_costs a | None \<Rightarrow> [])\<rparr>]
      else [])"

definition reject_candidate ::
  "(string \<Rightarrow> nat) \<Rightarrow> headgate \<Rightarrow> recall_item \<Rightarrow> qualify_decision \<Rightarrow> cycle_state \<Rightarrow> cycle_state" where
  "reject_candidate tok h item d st =
     (let m = cy_metrics st;
          m' = (if starts_with ''redundant'' (qd_reason d) \<or> qd_reason d = ''already committed''
                then m\<lparr>gm_rejected_redundant := gm_rejected_redundant m + 1\<rparr>
                else m\<lparr>gm_rejected_relevance := gm_rejected_relevance m + 1\<rparr>)
      in st\<lparr>cy_metrics := m', cy_savings := cy_savings st @ report_savings tok h item d\<rparr>)"

text \<open>Saturation handling: evict, then compress to the headroom left. The content to admit, its
  tokens and the state; an error of the compressor leaves the evictions done.\<close>

definition make_room ::
  "(string \<Rightarrow> nat) \<Rightarrow> headgate \<Rightarrow> recall_item \<Rightarrow> rat \<Rightarrow> cycle_state
    \<Rightarrow> cycle_state \<times> (headgate_error + string)" where
  "make_room tok h item score st =
     (let content = ri_content item; tokens = tok content
      in if tokens > headroom (cy_ccs st) then
           let (cs, n) = evict_below tokens score (cy_ccs st) 0;
               m = (cy_metrics st)\<lparr>gm_evicted := gm_evicted (cy_metrics st) + n\<rparr>;
               st = st\<lparr>cy_ccs := cs, cy_metrics := m\<rparr>
           in if tokens > headroom cs \<and> hc_compress_on_saturation (hg_config h) \<and> headroom cs > 0
              then (case hg_compressor h content (headroom cs) of
                      Inl e \<Rightarrow> (st, Inl e)
                    | Inr compressed \<Rightarrow>
                        if compressed \<noteq> content
                        then (st\<lparr>cy_metrics := m\<lparr>gm_compressed := gm_compressed m + 1\<rparr>\<rparr>, Inr compressed)
                        else (st, Inr content))
              else (st, Inr content)
         else (st, Inr content))"

definition admit_candidate ::
  "(string \<Rightarrow> nat) \<Rightarrow> (nat \<Rightarrow> nat) \<Rightarrow> headgate \<Rightarrow> recall_item \<Rightarrow> qualify_decision \<Rightarrow> cycle_state
    \<Rightarrow> cycle_state \<times> (headgate_error + unit)" where
  "admit_candidate tok now h item d st =
     (let slot = (case qd_slot d of Some s \<Rightarrow> s | None \<Rightarrow> default_slot (cc_schema (cy_ccs st)))
      in case make_room tok h item (qd_score d) st of
           (st, Inl e) \<Rightarrow> (st, Inl e)
         | (st, Inr content) \<Rightarrow>
             let m = cy_metrics st
             in if tok content > headroom (cy_ccs st)
                then (st\<lparr>cy_metrics := m\<lparr>gm_rejected_saturated := gm_rejected_saturated m + 1\<rparr>\<rparr>, Inr ())
                else (st\<lparr>cy_ccs := admit (cy_ccs st)
                           (new_entry tok (now (gm_admitted m)) (ri_id item) slot content (qd_score d)),
                         cy_metrics := m\<lparr>gm_admitted := gm_admitted m + 1\<rparr>\<rparr>, Inr ()))"

definition cycle_item ::
  "(string \<Rightarrow> nat) \<Rightarrow> (nat \<Rightarrow> nat) \<Rightarrow> headgate \<Rightarrow> recall_item \<Rightarrow> cycle_state
    \<Rightarrow> cycle_state \<times> (headgate_error + unit)" where
  "cycle_item tok now h item st =
     (let d = hg_gate h item (cy_ccs st)
      in if \<not> qd_admitted d then (reject_candidate tok h item d st, Inr ())
         else admit_candidate tok now h item d st)"

fun cycle_items ::
  "(string \<Rightarrow> nat) \<Rightarrow> (nat \<Rightarrow> nat) \<Rightarrow> headgate \<Rightarrow> recall_item list \<Rightarrow> cycle_state
    \<Rightarrow> cycle_state \<times> (headgate_error + unit)" where
  "cycle_items tok now h [] st = (st, Inr ())"
| "cycle_items tok now h (item # items) st =
     (case cycle_item tok now h item st of
        (st', Inl e) \<Rightarrow> (st', Inl e)
      | (st', Inr _) \<Rightarrow> cycle_items tok now h items st')"

section \<open>One cycle\<close>

definition fresh_metrics :: "nat \<Rightarrow> nat \<Rightarrow> gauge_metrics" where
  "fresh_metrics candidates budget_tokens =
     \<lparr>gm_candidates = candidates, gm_admitted = 0, gm_rejected_relevance = 0,
      gm_rejected_redundant = 0, gm_rejected_saturated = 0, gm_compressed = 0, gm_evicted = 0,
      gm_footprint_tokens = 0, gm_budget_tokens = budget_tokens\<rparr>"

definition cycle ::
  "(string \<Rightarrow> nat) \<Rightarrow> (nat \<Rightarrow> nat) \<Rightarrow> string \<Rightarrow> headgate
    \<Rightarrow> headgate \<times> savings_report list \<times> (headgate_error + gauge_metrics)" where
  "cycle tok now query h =
     (case hg_recall h query (hc_recall_limit (hg_config h)) of
        Inl e \<Rightarrow> (h, [], Inl e)
      | Inr candidates \<Rightarrow>
          (case cycle_items tok now h candidates
                  \<lparr>cy_ccs = hg_ccs h,
                   cy_metrics = fresh_metrics (length candidates) (hc_budget_tokens (hg_config h)),
                   cy_savings = []\<rparr> of
             (st, Inl e) \<Rightarrow> (h\<lparr>hg_ccs := cy_ccs st\<rparr>, cy_savings st, Inl e)
           | (st, Inr _) \<Rightarrow>
               (h\<lparr>hg_ccs := cy_ccs st\<rparr>, cy_savings st,
                Inr ((cy_metrics st)\<lparr>gm_footprint_tokens := token_count (cy_ccs st)\<rparr>))))"

fun cycles ::
  "(string \<Rightarrow> nat) \<Rightarrow> (nat \<Rightarrow> nat) \<Rightarrow> string list \<Rightarrow> headgate \<Rightarrow> headgate" where
  "cycles tok now [] h = h"
| "cycles tok now (q # qs) h = cycles tok now qs (fst (cycle tok now q h))"

definition qualify_candidate :: "headgate \<Rightarrow> recall_item \<Rightarrow> qualify_decision" where
  "qualify_candidate h item = hg_gate h item (hg_ccs h)"

end
