(* ===== verification/Headgate_Facts.thy ===== *)
theory Headgate_Facts
  imports Headgate
begin

text \<open>
  What the commit loop keeps: the facts about eviction and admission, the rule that carries an
  invariant of the committed state through a cycle, and the contracts of the loop's parts. The
  locale \<open>fresh_gate\<close> is a gate that never admits a committed id, \<open>routing_gate\<close> one that files what
  it admits under a slot of the schema, \<open>fitting_compressor\<close> a compressor that keeps to its target.
  They are interpreted on the deterministic gate, the judges, and the extractive and LLM compressors.
\<close>

section \<open>Eviction\<close>

text \<open>The run of the eviction loop: which entries left, in which order.\<close>

inductive evicts :: "rat \<Rightarrow> ccs \<Rightarrow> committed_entry list \<Rightarrow> ccs \<Rightarrow> bool" for score where
  stop: "evicts score cs [] cs"
| more: "evict_lowest cs = (Some e, cs1) \<Longrightarrow> ce_score e < score \<Longrightarrow> evicts score cs1 es cs'
    \<Longrightarrow> evicts score cs (e # es) cs'"

lemma evict_below_evicts:
  assumes "evict_below tokens score cs n = (cs', n')"
  shows "\<exists>es. evicts score cs es cs' \<and> n' = n + length es
    \<and> (tokens \<le> headroom cs' \<or> (\<forall>e \<in> set (cc_entries cs'). score \<le> ce_score e))"
  using assms
proof (induction tokens score cs n rule: evict_below.induct)
  case (1 tokens score cs n)
  show ?case
  proof (cases "tokens > headroom cs \<and> cc_entries cs \<noteq> []")
    case False
    with "1.prems" have "cs' = cs" "n' = n" by (auto simp: evict_below.simps [of tokens])
    with False show ?thesis by (intro exI [of _ "[]"]) (auto intro: stop)
  next
    case True
    then obtain lowest where low: "lowest_score cs = Some lowest"
      by (cases "cc_entries cs") (auto simp: lowest_score_def fold_lowest)
    obtain e cs1 where ev: "evict_lowest cs = (Some e, cs1)"
      using True by (metis evict_lowest_None not_None_eq prod.collapse)
    have e_low: "ce_score e = lowest"
      using lowest_score_Some [OF low] evict_lowest_Some(2,4) [OF ev]
      by (metis insertI1 order_antisym)
    show ?thesis
    proof (cases "lowest < score")
      case False
      with "1.prems" True low have "cs' = cs" "n' = n" by (auto simp: evict_below.simps [of tokens])
      moreover have "score \<le> ce_score x" if "x \<in> set (cc_entries cs)" for x
        using False lowest_score_Some(2) [OF low that] by simp
      ultimately show ?thesis by (intro exI [of _ "[]"]) (auto intro: stop)
    next
      case lt: True
      with "1.prems" True low ev have "evict_below tokens score cs1 (Suc n) = (cs', n')"
        by (simp add: evict_below.simps [of tokens score cs])
      from "1.IH" [OF True low lt ev [symmetric] refl this] obtain es where
        es: "evicts score cs1 es cs'" "n' = Suc n + length es"
          "tokens \<le> headroom cs' \<or> (\<forall>e \<in> set (cc_entries cs'). score \<le> ce_score e)" by blast
      have "evicts score cs (e # es) cs'" using more [OF ev _ es(1)] lt e_low by simp
      then show ?thesis using es(2,3) by (intro exI [of _ "e # es"]) auto
    qed
  qed
qed

lemma evicts_mset:
  "evicts score cs es cs' \<Longrightarrow> mset (cc_entries cs) = mset (cc_entries cs') + mset es"
  by (induction rule: evicts.induct) (auto dest: evict_lowest_Some(1))

lemma evicts_set:
  "evicts score cs es cs' \<Longrightarrow> set (cc_entries cs) = set es \<union> set (cc_entries cs')"
  by (drule evicts_mset) (metis set_mset_mset set_mset_union sup_commute)

lemma evicts_outscored: "evicts score cs es cs' \<Longrightarrow> e \<in> set es \<Longrightarrow> ce_score e < score"
  by (induction rule: evicts.induct) auto

lemma evicts_lowest:
  "evicts score cs es cs' \<Longrightarrow> e \<in> set es \<Longrightarrow> x \<in> set (cc_entries cs') \<Longrightarrow> ce_score e \<le> ce_score x"
proof (induction rule: evicts.induct)
  case (more cs e1 cs1 es cs')
  then show ?case using evicts_set [OF more.hyps(3)] evict_lowest_Some(2,4) [OF more.hyps(1)] by auto
qed simp

lemma evicts_setup:
  "evicts score cs es cs' \<Longrightarrow> cc_budget_tokens cs' = cc_budget_tokens cs \<and> cc_schema cs' = cc_schema cs"
  by (induction rule: evicts.induct) (auto dest: evict_lowest_Some(5,6))

lemma evicts_tokens: "evicts score cs es cs' \<Longrightarrow> token_count cs' \<le> token_count cs"
  by (induction rule: evicts.induct) (auto dest: evict_lowest_Some(7))

lemma evicts_length:
  "evicts score cs es cs' \<Longrightarrow> length (cc_entries cs) = length (cc_entries cs') + length es"
  by (drule evicts_mset) (metis size_mset size_union)

lemma evicts_distinct:
  "evicts score cs es cs' \<Longrightarrow> distinct (map ce_id (cc_entries cs)) \<Longrightarrow> distinct (map ce_id (cc_entries cs'))"
  by (induction rule: evicts.induct) (auto dest: evict_lowest_Some(8))

section \<open>Making room\<close>

text \<open>Making room only evicts, counts what it does, and offers a content.\<close>

lemma make_room_spec:
  assumes "make_room tok h item score st = (st', r)"
  shows "\<exists>es. evicts score (cy_ccs st) es (cy_ccs st')
      \<and> gm_evicted (cy_metrics st') = gm_evicted (cy_metrics st) + length es
      \<and> (es \<noteq> [] \<longrightarrow> tok (ri_content item) > headroom (cy_ccs st))
      \<and> (tok (ri_content item) \<le> headroom (cy_ccs st') \<or>
           (\<forall>e \<in> set (cc_entries (cy_ccs st')). score \<le> ce_score e))"
    and "gm_admitted (cy_metrics st') = gm_admitted (cy_metrics st)"
    and "gm_candidates (cy_metrics st') = gm_candidates (cy_metrics st)"
    and "gm_rejected_relevance (cy_metrics st') = gm_rejected_relevance (cy_metrics st)"
    and "gm_rejected_redundant (cy_metrics st') = gm_rejected_redundant (cy_metrics st)"
    and "gm_rejected_saturated (cy_metrics st') = gm_rejected_saturated (cy_metrics st)"
    and "gm_budget_tokens (cy_metrics st') = gm_budget_tokens (cy_metrics st)"
    and "cy_savings st' = cy_savings st"
proof -
  let ?n = "tok (ri_content item)"
  have "(\<exists>es. evicts score (cy_ccs st) es (cy_ccs st')
      \<and> gm_evicted (cy_metrics st') = gm_evicted (cy_metrics st) + length es
      \<and> (es \<noteq> [] \<longrightarrow> ?n > headroom (cy_ccs st))
      \<and> (?n \<le> headroom (cy_ccs st') \<or> (\<forall>e \<in> set (cc_entries (cy_ccs st')). score \<le> ce_score e)))
    \<and> (gm_admitted (cy_metrics st') = gm_admitted (cy_metrics st)
    \<and> gm_candidates (cy_metrics st') = gm_candidates (cy_metrics st)
    \<and> gm_rejected_relevance (cy_metrics st') = gm_rejected_relevance (cy_metrics st)
    \<and> gm_rejected_redundant (cy_metrics st') = gm_rejected_redundant (cy_metrics st)
    \<and> gm_rejected_saturated (cy_metrics st') = gm_rejected_saturated (cy_metrics st)
    \<and> gm_budget_tokens (cy_metrics st') = gm_budget_tokens (cy_metrics st)
    \<and> cy_savings st' = cy_savings st)"
  proof (cases "?n > headroom (cy_ccs st)")
    case False
    with assms have "st' = st" by (simp add: make_room_def)
    with False show ?thesis by (auto intro!: exI [of _ "[]"] evicts.stop)
  next
    case True
    obtain cs1 n where ev: "evict_below ?n score (cy_ccs st) 0 = (cs1, n)" by fastforce
    from evict_below_evicts [OF ev] obtain es where es: "evicts score (cy_ccs st) es cs1"
      "n = length es" "?n \<le> headroom cs1 \<or> (\<forall>e \<in> set (cc_entries cs1). score \<le> ce_score e)" by auto
    have "cy_ccs st' = cs1" "gm_evicted (cy_metrics st') = gm_evicted (cy_metrics st) + n"
      "gm_admitted (cy_metrics st') = gm_admitted (cy_metrics st)
        \<and> gm_candidates (cy_metrics st') = gm_candidates (cy_metrics st)
        \<and> gm_rejected_relevance (cy_metrics st') = gm_rejected_relevance (cy_metrics st)
        \<and> gm_rejected_redundant (cy_metrics st') = gm_rejected_redundant (cy_metrics st)
        \<and> gm_rejected_saturated (cy_metrics st') = gm_rejected_saturated (cy_metrics st)
        \<and> gm_budget_tokens (cy_metrics st') = gm_budget_tokens (cy_metrics st)
        \<and> cy_savings st' = cy_savings st"
      using assms True ev
      by (auto simp: make_room_def Let_def split: if_splits sum.splits)
    with es True show ?thesis by auto
  qed
  then show "\<exists>es. evicts score (cy_ccs st) es (cy_ccs st')
      \<and> gm_evicted (cy_metrics st') = gm_evicted (cy_metrics st) + length es
      \<and> (es \<noteq> [] \<longrightarrow> ?n > headroom (cy_ccs st))
      \<and> (?n \<le> headroom (cy_ccs st') \<or> (\<forall>e \<in> set (cc_entries (cy_ccs st')). score \<le> ce_score e))"
    and "gm_admitted (cy_metrics st') = gm_admitted (cy_metrics st)"
    and "gm_candidates (cy_metrics st') = gm_candidates (cy_metrics st)"
    and "gm_rejected_relevance (cy_metrics st') = gm_rejected_relevance (cy_metrics st)"
    and "gm_rejected_redundant (cy_metrics st') = gm_rejected_redundant (cy_metrics st)"
    and "gm_rejected_saturated (cy_metrics st') = gm_rejected_saturated (cy_metrics st)"
    and "gm_budget_tokens (cy_metrics st') = gm_budget_tokens (cy_metrics st)"
    and "cy_savings st' = cy_savings st" by blast+
qed

section \<open>One candidate\<close>

definition slot_of :: "qualify_decision \<Rightarrow> ccs \<Rightarrow> string" where
  "slot_of d cs = (case qd_slot d of Some s \<Rightarrow> s | None \<Rightarrow> default_slot (cc_schema cs))"

text \<open>The entry a candidate becomes: its id, the decision's slot and score, and a content that fits.\<close>

definition entry_for ::
  "(string \<Rightarrow> nat) \<Rightarrow> recall_item \<Rightarrow> qualify_decision \<Rightarrow> ccs \<Rightarrow> committed_entry \<Rightarrow> bool" where
  "entry_for tok item d cs e \<longleftrightarrow> ce_id e = ri_id item \<and> ce_slot e = slot_of d cs
     \<and> ce_score e = qd_score d \<and> ce_tokens e = tok (ce_content e)"

lemma admit_candidate_spec:
  assumes "admit_candidate tok now h item d st = (st', r)"
  obtains (kept) es where "evicts (qd_score d) (cy_ccs st) es (cy_ccs st')"
      "gm_admitted (cy_metrics st') = gm_admitted (cy_metrics st)"
      "gm_evicted (cy_metrics st') = gm_evicted (cy_metrics st) + length es"
      "r = Inr () \<Longrightarrow> gm_rejected_saturated (cy_metrics st') = Suc (gm_rejected_saturated (cy_metrics st))"
  | (admitted) es cs1 e where "evicts (qd_score d) (cy_ccs st) es cs1"
      "entry_for tok item d (cy_ccs st) e" "ce_tokens e \<le> headroom cs1" "cy_ccs st' = admit cs1 e"
      "r = Inr ()" "gm_admitted (cy_metrics st') = Suc (gm_admitted (cy_metrics st))"
      "gm_evicted (cy_metrics st') = gm_evicted (cy_metrics st) + length es"
      "gm_rejected_saturated (cy_metrics st') = gm_rejected_saturated (cy_metrics st)"
proof -
  obtain st1 c where mr: "make_room tok h item (qd_score d) st = (st1, c)" by fastforce
  note spec = make_room_spec [OF mr]
  from spec(1) obtain es where es: "evicts (qd_score d) (cy_ccs st) es (cy_ccs st1)"
    "gm_evicted (cy_metrics st1) = gm_evicted (cy_metrics st) + length es" by blast
  have slot: "default_slot (cc_schema (cy_ccs st)) = default_slot (cc_schema (cy_ccs st1))"
    using evicts_setup [OF es(1)] by simp
  show thesis
  proof (cases c)
    case (Inl err)
    with assms mr es spec(2-8) show thesis by (intro kept [of es]) (auto simp: admit_candidate_def)
  next
    case (Inr content)
    show thesis
    proof (cases "tok content > headroom (cy_ccs st1)")
      case True
      with assms mr Inr es spec(2-8) show thesis
        by (intro kept [of es]) (auto simp: admit_candidate_def Let_def)
    next
      case False
      let ?e = "new_entry tok (now (gm_admitted (cy_metrics st1))) (ri_id item)
        (slot_of d (cy_ccs st)) content (qd_score d)"
      from assms mr Inr False have st': "st' = st1\<lparr>cy_ccs := admit (cy_ccs st1) ?e,
          cy_metrics := (cy_metrics st1)\<lparr>gm_admitted := gm_admitted (cy_metrics st1) + 1\<rparr>\<rparr>"
        and r: "r = Inr ()" by (auto simp: admit_candidate_def Let_def slot_of_def)
      have "entry_for tok item d (cy_ccs st) ?e" "ce_tokens ?e \<le> headroom (cy_ccs st1)"
        using False by (auto simp: entry_for_def new_entry_def)
      then show thesis using es r spec(2-8) by (intro admitted [of es "cy_ccs st1" ?e]) (auto simp: st')
    qed
  qed
qed

section \<open>The invariant rule\<close>

locale committed_invariant =
  fixes tok :: "string \<Rightarrow> nat" and gate :: gate and inv :: "ccs \<Rightarrow> bool"
  assumes evict_keeps: "inv cs \<Longrightarrow> evict_lowest cs = (Some e, cs') \<Longrightarrow> inv cs'"
    and admit_keeps: "inv cs1 \<Longrightarrow> qd_admitted (gate item cs)
      \<Longrightarrow> set (cc_entries cs1) \<subseteq> set (cc_entries cs) \<Longrightarrow> cc_schema cs1 = cc_schema cs
      \<Longrightarrow> entry_for tok item (gate item cs) cs e \<Longrightarrow> ce_tokens e \<le> headroom cs1 \<Longrightarrow> inv (admit cs1 e)"
begin

lemma evicts_keep: "evicts score cs es cs' \<Longrightarrow> inv cs \<Longrightarrow> inv cs'"
  by (induction rule: evicts.induct) (auto intro: evict_keeps)

lemma cycle_item_keeps:
  assumes "cycle_item tok now h item st = (st', r)" and "hg_gate h = gate" and "inv (cy_ccs st)"
  shows "inv (cy_ccs st')"
proof (cases "qd_admitted (gate item (cy_ccs st))")
  case False
  with assms show ?thesis by (auto simp: cycle_item_def Let_def reject_candidate_def)
next
  case True
  with assms(1,2) have "admit_candidate tok now h item (gate item (cy_ccs st)) st = (st', r)"
    by (simp add: cycle_item_def)
  then show ?thesis
  proof (cases rule: admit_candidate_spec)
    case (kept es)
    then show ?thesis using assms(3) evicts_keep by blast
  next
    case (admitted es cs1 e)
    have "set (cc_entries cs1) \<subseteq> set (cc_entries (cy_ccs st))" "cc_schema cs1 = cc_schema (cy_ccs st)"
      using evicts_set [OF admitted(1)] evicts_setup [OF admitted(1)] by auto
    from admit_keeps [OF evicts_keep [OF admitted(1) assms(3)] True this admitted(2,3)]
    show ?thesis by (simp add: admitted(4))
  qed
qed

lemma cycle_items_keep:
  "cycle_items tok now h items st = (st', r) \<Longrightarrow> hg_gate h = gate \<Longrightarrow> inv (cy_ccs st) \<Longrightarrow> inv (cy_ccs st')"
  by (induction items arbitrary: st)
    (auto split: prod.splits sum.splits dest: cycle_item_keeps)

lemma cycle_keeps:
  "hg_gate h = gate \<Longrightarrow> inv (hg_ccs h) \<Longrightarrow> inv (hg_ccs (fst (cycle tok now q h)))"
  by (auto simp: cycle_def split: prod.splits sum.splits dest: cycle_items_keep)

lemma cycles_keep:
  "hg_gate h = gate \<Longrightarrow> inv (hg_ccs h) \<Longrightarrow> inv (hg_ccs (cycles tok now qs h))"
proof (induction qs arbitrary: h)
  case (Cons q qs)
  have "hg_gate (fst (cycle tok now q h)) = gate"
    using Cons.prems(1) by (auto simp: cycle_def split: prod.splits sum.splits)
  then show ?case using Cons.IH cycle_keeps Cons.prems by simp
qed simp

end

text \<open>The budget, whatever the gate, the compressor and the tokenizer are.\<close>

definition in_budget :: "nat \<Rightarrow> ccs \<Rightarrow> bool" where
  "in_budget n cs \<longleftrightarrow> cc_budget_tokens cs = n \<and> token_count cs \<le> n"

interpretation budgets: committed_invariant tok gate "in_budget n" for tok gate n
  by unfold_locales (auto simp: in_budget_def ccs_defs dest: evict_lowest_Some(5,7))

text \<open>The recorded token counts are those of the contents.\<close>

definition counted :: "(string \<Rightarrow> nat) \<Rightarrow> ccs \<Rightarrow> bool" where
  "counted tok cs \<longleftrightarrow> list_all (\<lambda>e. ce_tokens e = tok (ce_content e)) (cc_entries cs)"

interpretation counts: committed_invariant tok gate "counted tok" for tok gate
  by unfold_locales
    (auto simp: counted_def list_all_iff admit_def entry_for_def dest: evict_lowest_Some(2))

section \<open>Gates\<close>

text \<open>A gate that never admits an id twice.\<close>

definition distinct_ids :: "ccs \<Rightarrow> bool" where
  "distinct_ids cs \<longleftrightarrow> distinct (map ce_id (cc_entries cs))"

locale fresh_gate =
  fixes gate :: gate
  assumes admits_fresh: "qd_admitted (gate item cs) \<Longrightarrow> \<not> ccs_contains cs (ri_id item)"
begin

lemma ids_invariant: "committed_invariant tok gate distinct_ids"
proof unfold_locales
  fix cs e cs'
  assume "distinct_ids cs" and "evict_lowest cs = (Some e, cs')"
  then show "distinct_ids cs'" using evict_lowest_Some(8) by (auto simp: distinct_ids_def)
next
  fix cs1 item cs e
  assume "distinct_ids cs1" and "qd_admitted (gate item cs)"
    and "set (cc_entries cs1) \<subseteq> set (cc_entries cs)" and "entry_for tok item (gate item cs) cs e"
  then show "distinct_ids (admit cs1 e)"
    using admits_fresh [of item cs]
    by (auto simp: distinct_ids_def admit_def entry_for_def ccs_contains_def list_ex_iff)
qed

lemma cycles_keep_ids_distinct:
  "hg_gate h = gate \<Longrightarrow> distinct_ids (hg_ccs h) \<Longrightarrow> distinct_ids (hg_ccs (cycles tok now qs h))"
  by (rule committed_invariant.cycles_keep [OF ids_invariant])

end

text \<open>A gate that files under a slot of the schema.\<close>

definition well_filed :: "ccs_schema \<Rightarrow> ccs \<Rightarrow> bool" where
  "well_filed sch cs \<longleftrightarrow> cc_schema cs = sch \<and> slots sch \<noteq> []
     \<and> list_all (\<lambda>e. schema_contains sch (ce_slot e)) (cc_entries cs)"

locale routing_gate =
  fixes gate :: gate
  assumes routes: "qd_admitted (gate item cs) \<Longrightarrow> slots (cc_schema cs) \<noteq> []
    \<Longrightarrow> schema_contains (cc_schema cs) (slot_of (gate item cs) cs)"
begin

lemma filing_invariant: "committed_invariant tok gate (well_filed sch)"
proof unfold_locales
  fix cs e cs'
  assume "well_filed sch cs" and "evict_lowest cs = (Some e, cs')"
  then show "well_filed sch cs'"
    using evict_lowest_Some(2,6) [of cs e cs'] by (auto simp: well_filed_def list_all_iff)
next
  fix cs1 item cs e
  assume "well_filed sch cs1" and "qd_admitted (gate item cs)" and "cc_schema cs1 = cc_schema cs"
    and "entry_for tok item (gate item cs) cs e"
  then show "well_filed sch (admit cs1 e)"
    using routes [of item cs] by (auto simp: well_filed_def admit_def entry_for_def)
qed

lemma cycles_keep_filed:
  "hg_gate h = gate \<Longrightarrow> well_filed sch (hg_ccs h) \<Longrightarrow> well_filed sch (hg_ccs (cycles tok now qs h))"
  by (rule committed_invariant.cycles_keep [OF filing_invariant])

end

section \<open>The gates keep their contracts\<close>

lemmas decision_defs = with_audit_def with_reason_code_def decide_reject_def decide_admit_def

lemma gate_decide_admits:
  "qd_admitted (gate_decide g item cs) \<longleftrightarrow> dg_min_score g \<le> ri_score item
     \<and> \<not> ccs_contains cs (ri_id item) \<and> max_overlap cs (ri_content item) < dg_redundancy_threshold g"
  by (auto simp: gate_decide_def Let_def decision_defs)

lemma default_slot_in_schema: "slots sch \<noteq> [] \<Longrightarrow> schema_contains sch (default_slot sch)"
  by (auto simp: schema_contains_def default_slot_def split: list.splits)

lemma route_slot_in_schema:
  assumes "slots (cc_schema cs) \<noteq> []"
  shows "schema_contains (cc_schema cs) (route_slot g item cs)"
  using assms
  by (auto simp: route_slot_def Let_def default_slot_in_schema split: option.splits dest: find_SomeD)

interpretation deterministic: fresh_gate "gate_decide g" for g
  by unfold_locales (simp add: gate_decide_admits)

interpretation deterministic: routing_gate "gate_decide g" for g
  by unfold_locales
    (auto simp: gate_decide_def Let_def decision_defs slot_of_def route_slot_in_schema split: if_splits)

lemma charge_fields [simp]:
  "qd_admitted (charge costs d) = qd_admitted d" "qd_slot (charge costs d) = qd_slot d"
  "qd_score (charge costs d) = qd_score d" "qd_reason (charge costs d) = qd_reason d"
  "qd_reason_code (charge costs d) = qd_reason_code d"
  by (simp_all add: charge_def)

lemma gate_rejected_fields [simp]:
  "\<not> qd_admitted (gate_rejected costs reason score)"
  "qd_reason_code (gate_rejected costs reason score) = Gate_rejected"
  "qd_score (gate_rejected costs reason score) = score"
  by (simp_all add: gate_rejected_def decision_defs)

lemma decide_verdict_admits:
  "qd_admitted (decide_verdict who th v cs) \<longleftrightarrow> jt_min_relevance th \<le> jv_relevance v
     \<and> jt_min_novelty th \<le> jv_novelty v \<and> jv_drift v \<le> jt_max_drift th"
  by (auto simp: decide_verdict_def Let_def decision_defs)

lemma decide_verdict_routes:
  "qd_admitted (decide_verdict who th v cs) \<Longrightarrow> slots (cc_schema cs) \<noteq> [] \<Longrightarrow>
    schema_contains (cc_schema cs) (slot_of (decide_verdict who th v cs) cs)"
  by (auto simp: decide_verdict_def Let_def decision_defs slot_of_def default_slot_in_schema
      split: if_splits option.splits)

lemma slot_of_charge [simp]: "slot_of (charge costs d) cs = slot_of d cs"
  by (simp add: slot_of_def)

interpretation judge: routing_gate "judge_qualify tok parse th client" for tok parse th client
  by unfold_locales
    (auto simp: judge_qualify_def Let_def judge_decide_def decide_verdict_routes
      split: sum.splits option.splits)

interpretation council: routing_gate "council_qualify tok parse show_verdicts co"
  for tok parse show_verdicts co
  by unfold_locales
    (auto simp: council_qualify_def Let_def council_decide_def decide_verdict_routes
      split: if_splits option.splits)

text \<open>Tiers keep what both of their gates keep.\<close>

locale fresh_tiers = cheap: fresh_gate cheap + frontier: fresh_gate frontier
  for cheap :: gate and frontier :: gate +
  fixes cfg :: judge_tier_config

lemma tiered_fields:
  "qd_admitted (tiered_qualify cheap frontier cfg item cs) =
     qd_admitted ((if tc_frontier_stakes_threshold cfg \<le> tc_default_stakes cfg then frontier else cheap) item cs)"
  by (simp add: tiered_qualify_def qualify_with_stakes_def select_tier_def Let_def)

sublocale fresh_tiers \<subseteq> tiers: fresh_gate "tiered_qualify cheap frontier cfg"
  by unfold_locales
    (auto simp: tiered_fields split: if_splits dest: cheap.admits_fresh frontier.admits_fresh)

interpretation two_thresholds: fresh_tiers "gate_decide g" "gate_decide g'" cfg for g g' cfg
  by unfold_locales

section \<open>Compressors that fit\<close>

text \<open>The fallback of \<open>count_tokens\<close> when the tokenizer cannot be loaded.\<close>

definition approximate_tokens :: "string \<Rightarrow> nat" where
  "approximate_tokens text = (char_count text + 3) div 4"

locale tokenizer =
  fixes tok :: "string \<Rightarrow> nat"
  assumes tok_empty: "tok [] = 0"

locale fitting_compressor = tokenizer +
  fixes compress :: compressor
  assumes fits: "compress content target = Inr out \<Longrightarrow> tok out \<le> target"

lemma shrink_to_tokens_fits:
  "tok [] = 0 \<Longrightarrow> tok (shrink_to_tokens tok target s) \<le> target"
proof (induction tok target s rule: shrink_to_tokens.induct)
  case (1 tok target s)
  show ?case
  proof (cases "tok s > target \<and> s \<noteq> []")
    case True
    with 1 show ?thesis by (subst shrink_to_tokens.simps) simp
  next
    case False
    then show ?thesis using "1.prems" by (subst shrink_to_tokens.simps) (cases "s = []", auto)
  qed
qed

lemma keep_sentences_fits:
  "tok kept \<le> target \<Longrightarrow> tok (keep_sentences tok target kept ss) \<le> target"
  by (induction ss arbitrary: kept) (auto simp: Let_def)

context tokenizer
begin

lemma extractive_fits: "tok (extractive_compress tok content target) \<le> target"
  using keep_sentences_fits [of tok "[]" target] shrink_to_tokens_fits [of tok] tok_empty
  by (auto simp: extractive_compress_def truncate_to_tokens_def Let_def)

lemma llm_fits: "tok (llm_compress tok ask content target) \<le> target"
  using extractive_fits by (auto simp: llm_compress_def split: sum.splits)

end

sublocale tokenizer \<subseteq> extractive:
  fitting_compressor tok "\<lambda>content target. Inr (extractive_compress tok content target)"
  by unfold_locales (auto simp: extractive_fits)

interpretation fallback: tokenizer approximate_tokens
  by unfold_locales (simp add: approximate_tokens_def char_count_def)

text \<open>With a compressor that fits, compression on and room left after eviction, nothing that the
  gate admits is turned away.\<close>

context fitting_compressor
begin

lemma admits_what_qualifies:
  assumes "admit_candidate tok now h item d st = (st', Inr ())"
    and "hg_compressor h = compress" and "hc_compress_on_saturation (hg_config h)"
    and "gm_admitted (cy_metrics st') = gm_admitted (cy_metrics st)"
  shows "headroom (cy_ccs st') = 0"
proof (rule ccontr)
  assume room: "headroom (cy_ccs st') \<noteq> 0"
  obtain st1 c where mr: "make_room tok h item (qd_score d) st = (st1, c)" by fastforce
  with assms(1) obtain content where c: "c = Inr content"
    by (cases c) (auto simp: admit_candidate_def)
  note same = make_room_spec(2) [OF mr]
  have big: "tok content > headroom (cy_ccs st1)" and ccs: "cy_ccs st' = cy_ccs st1"
    using assms(1,4) mr c same by (auto simp: admit_candidate_def Let_def split: if_splits)
  have "content = ri_content item \<and> tok content \<le> headroom (cy_ccs st1) \<or>
      (\<exists>out. hg_compressor h (ri_content item) (headroom (cy_ccs st1)) = Inr out \<and> content = out)"
    using mr c room assms(3) ccs
    by (auto simp: make_room_def Let_def split: if_splits sum.splits prod.splits)
  then show False using big fits assms(2) by fastforce
qed

end

context tokenizer
begin

lemmas extractive_admits = extractive.admits_what_qualifies

end

end
