(* ===== verification/Escaping.thy ===== *)
theory Escaping
  imports Headgate_Facts
begin

text \<open>
  What \<open>str::replace\<close> leaves when a separator is put inside every occurrence of a pattern, and from it
  the framing of the committed context (crates/headgate/src/ccs.rs, \<open>escape_injection\<close> and
  \<open>render_framed\<close>).
\<close>

section \<open>Separating the occurrences of a pattern\<close>

lemma contains_sublist: "contains p s \<longleftrightarrow> sublist p s"
  by (simp add: contains_iff sublist_def)

lemma replace_all_Nil [simp]: "replace_all p r [] = []"
  by (subst replace_all.simps) simp

lemma replace_all_match: "p \<noteq> [] \<Longrightarrow> replace_all p r (p @ rest) = r @ replace_all p r rest"
  using strip_prefix_Some [of p "p @ rest" rest]
  by (subst replace_all.simps) (cases p, simp_all)

lemma replace_all_skip:
  "\<not> prefix p (c # cs) \<Longrightarrow> replace_all p r (c # cs) = c # replace_all p r cs"
  by (subst replace_all.simps) (auto simp: strip_prefix_Some prefix_def split: option.splits)

lemma occurrence_induct [consumes 1, case_names Nil occurs skip]:
  assumes "p \<noteq> []" and "P []" and "\<And>rest. P rest \<Longrightarrow> P (p @ rest)"
    and "\<And>c cs. \<not> prefix p (c # cs) \<Longrightarrow> P cs \<Longrightarrow> P (c # cs)"
  shows "P s"
proof (induction s rule: length_induct)
  case (1 s)
  show ?case
  proof (cases "prefix p s")
    case True
    then obtain rest where "s = p @ rest" by (auto simp: prefix_def)
    with 1 assms(1,3) show ?thesis by simp
  next
    case False
    with 1 assms(2,4) show ?thesis by (cases s) auto
  qed
qed

lemma prefix_apart: "prefix w (a @ z @ b) \<Longrightarrow> z \<noteq> [] \<Longrightarrow> hd z \<notin> set w \<Longrightarrow> prefix w a"
  by (auto simp: prefix_append prefix_Cons neq_Nil_conv)

lemma contains_apart:
  "contains p (a @ z @ b) \<Longrightarrow> z \<noteq> [] \<Longrightarrow> set z \<inter> set p = {} \<Longrightarrow> contains p a \<or> contains p b"
proof (induction z arbitrary: a)
  case (Cons c z)
  then have "contains p a \<or> contains p (z @ b)" using contains_around [of c p a "z @ b"] by simp
  then show ?case
  proof
    assume "contains p (z @ b)"
    with Cons.IH [of "[]"] Cons.prems(3) show ?thesis by (cases "z = []") auto
  qed simp
qed simp

lemma prefix_separated:
  assumes "p1 \<noteq> []" and "z \<noteq> []" and "hd z \<notin> set w"
    and "prefix w (replace_all (p1 @ p2) (p1 @ z @ p2) s)"
  shows "prefix w s"
proof -
  have "p1 @ p2 \<noteq> []" using assms(1) by simp
  then show ?thesis using assms(3,4)
  proof (induction s arbitrary: w rule: occurrence_induct)
    case (occurs rest)
    then have "prefix w (p1 @ z @ p2 @ replace_all (p1 @ p2) (p1 @ z @ p2) rest)"
      using assms(1) replace_all_match [of "p1 @ p2" _ rest] by simp
    then show ?case using prefix_apart assms(2) occurs.prems(1) by (metis append.assoc prefix_prefix)
  next
    case (skip c cs)
    then show ?case by (cases w) (auto simp: replace_all_skip)
  qed simp
qed

lemma separating_introduces_nothing:
  assumes "p1 \<noteq> []" and "z \<noteq> []" and "set z \<inter> set w = {}"
    and "contains w (replace_all (p1 @ p2) (p1 @ z @ p2) s)"
  shows "contains w s"
proof -
  let ?out = "replace_all (p1 @ p2) (p1 @ z @ p2)"
  have z: "hd z \<notin> set x" if "set x \<subseteq> set w" for x using assms(2,3) that by (cases z) auto
  have "p1 @ p2 \<noteq> []" using assms(1) by simp
  then show ?thesis using assms(4)
  proof (induction s rule: occurrence_induct)
    case (occurs rest)
    then have "contains w (p1 @ z @ p2 @ ?out rest)"
      using assms(1) replace_all_match [of "p1 @ p2" _ rest] by simp
    then have "contains w p1 \<or> contains w (p2 @ ?out rest)" using contains_apart assms(2,3) by blast
    then show ?case
    proof
      assume "contains w p1"
      then show ?thesis using contains_appendI [of w p1 "[]" "p2 @ rest"] by simp
    next
      assume "contains w (p2 @ ?out rest)"
      then have "sublist w p2 \<or> contains w rest \<or>
          (\<exists>x y. w = x @ y \<and> suffix x p2 \<and> prefix y (?out rest))"
        using occurs.IH by (auto simp: contains_sublist sublist_append)
      moreover have "prefix y rest" if "w = x @ y" "prefix y (?out rest)" for x y
        using prefix_separated [OF assms(1,2) _ that(2)] z [of y] that(1) by auto
      ultimately have "sublist w (p2 @ rest)" by (auto simp: contains_sublist sublist_append)
      then show ?thesis by (simp add: contains_sublist sublist_append)
    qed
  next
    case (skip c cs)
    have "prefix w (c # ?out cs) \<Longrightarrow> prefix w (c # cs)"
      using prefix_separated [OF assms(1,2), of _ p2 cs] z [of "tl w"]
      by (cases w) (auto dest: set_mp)
    with skip show ?case by (auto simp: replace_all_skip contains_sublist sublist_Cons_right)
  qed simp
qed

lemma separating_removes:
  assumes "p1 \<noteq> []" and "p2 \<noteq> []" and "z \<noteq> []" and "set z \<inter> set (p1 @ p2) = {}"
    and "hd p1 \<notin> set p2"
  shows "\<not> contains (p1 @ p2) (replace_all (p1 @ p2) (p1 @ z @ p2) s)"
proof -
  let ?p = "p1 @ p2" and ?out = "replace_all (p1 @ p2) (p1 @ z @ p2)"
  have z: "hd z \<notin> set ?p" using assms(3,4) by (cases z) auto
  have "?p \<noteq> []" using assms(1) by simp
  then show ?thesis
  proof (induction s rule: occurrence_induct)
    case (occurs rest)
    have "\<not> contains ?p p1" using assms(2) by (auto simp: contains_sublist dest: sublist_length_le)
    moreover have "\<not> contains ?p (p2 @ ?out rest)"
    proof
      assume "contains ?p (p2 @ ?out rest)"
      then consider "sublist ?p p2"
        | x y where "?p = x @ y" "suffix x p2" "prefix y (?out rest)"
        using occurs by (auto simp: contains_sublist sublist_append)
      then have "hd ?p \<in> set p2"
      proof cases
        case 1
        then show ?thesis using assms(1) set_mono_sublist by (metis append_is_Nil_conv hd_in_set subsetD)
      next
        case 2
        have "x \<noteq> []" using 2(1,3) occurs prefix_imp_sublist by (auto simp: contains_sublist)
        then show ?thesis using 2(1,2) set_mono_suffix by (metis hd_append2 hd_in_set subsetD)
      qed
      with assms(1,5) show False by simp
    qed
    ultimately show ?case
      using contains_apart [of ?p p1 z "p2 @ ?out rest"] assms(1,3,4)
        replace_all_match [of ?p _ rest] by auto
  next
    case (skip c cs)
    have "\<not> prefix ?p (c # ?out cs)"
    proof
      assume a: "prefix ?p (c # ?out cs)"
      then obtain w where w: "?p = c # w" "prefix w (?out cs)" using assms(1) by (cases ?p) auto
      then have "prefix w cs" using prefix_separated [OF assms(1,3) _ w(2)] z by auto
      with w(1) skip.hyps show False by simp
    qed
    with skip show ?case by (simp add: replace_all_skip contains_sublist sublist_Cons_right)
  qed (use assms(1) in simp)
qed

section \<open>The framing of recalled memory\<close>

text \<open>The markers that the escaping separates before their colon.\<close>

definition framing_markers :: "string list" where
  "framing_markers =
     [''[ARTESIAN'', ''[/ARTESIAN'', ''System'', ''Assistant'', ''User'']"

definition marker :: "string \<Rightarrow> string" where
  "marker m = m @ '':''"

definition separate :: "string \<Rightarrow> string \<Rightarrow> string" where
  "separate m = replace_all (marker m) (m @ zwsp @ '':'')"

lemma escape_injection_fold: "escape_injection text = fold separate framing_markers text"
  by (simp add: escape_injection_def framing_markers_def separate_def marker_def)

lemma framing_marker_ok:
  assumes "m \<in> set framing_markers"
  shows "m \<noteq> []" "set zwsp \<inter> set (marker m) = {}" "hd m \<noteq> CHR '':''"
  using assms by (auto simp: framing_markers_def marker_def zwsp_def)

lemma separate_removes: "m \<in> set framing_markers \<Longrightarrow> \<not> contains (marker m) (separate m s)"
  using framing_marker_ok [of m] separating_removes [of m "'':''" zwsp s]
  by (simp add: separate_def marker_def zwsp_def)

lemma separate_introduces:
  assumes "m \<in> set framing_markers" "m' \<in> set framing_markers"
    and "contains (marker m') (separate m s)"
  shows "contains (marker m') s"
  using assms framing_marker_ok [of m] framing_marker_ok [of m']
    separating_introduces_nothing [of m zwsp "marker m'" "'':''" s]
  by (simp add: separate_def marker_def zwsp_def)

lemma fold_separate_absent:
  assumes "set ms \<subseteq> set framing_markers" "m \<in> set framing_markers"
    and "m \<in> set ms \<or> \<not> contains (marker m) s"
  shows "\<not> contains (marker m) (fold separate ms s)"
  using assms
proof (induction ms arbitrary: s)
  case (Cons m1 ms)
  then have "m \<in> set ms \<or> \<not> contains (marker m) (separate m1 s)"
    using separate_removes separate_introduces [of m1 m s] by auto
  with Cons show ?case by simp
qed simp

lemma escaped_has_no_marker:
  "m \<in> set framing_markers \<Longrightarrow> \<not> contains (marker m) (escape_injection s)"
  unfolding escape_injection_fold by (rule fold_separate_absent) auto

end
