(* ===== verification/Headgate_Properties.thy ===== *)
theory Headgate_Properties
  imports Escaping
begin

text \<open>
  The properties of the control plane: what the committed state keeps through any number of cycles,
  how a cycle accounts for its candidates, what eviction and compression do at the budget, what the
  gates promise, and what the framed rendering keeps out.
\<close>

section \<open>The committed state\<close>

text \<open>C5: The committed state never exceeds its token budget: after any number of cycles, with any
  recall store, tokenizer, gate and compressor, and also after a cycle that ended with an error.\<close>

theorem committed_state_stays_in_budget:
  "token_count (hg_ccs (cycles tok now queries
      (with_compressor c (with_gate g (with_schema sch (new_headgate tok recall cfg))))))
    \<le> hc_budget_tokens cfg"
proof -
  have "in_budget (hc_budget_tokens cfg) (hg_ccs (cycles tok now queries
      (with_compressor c (with_gate g (with_schema sch (new_headgate tok recall cfg))))))"
    by (rule budgets.cycles_keep)
      (simp_all add: with_compressor_def with_gate_def with_schema_def new_headgate_def new_ccs_def
        in_budget_def token_count_def)
  then show ?thesis by (simp add: in_budget_def)
qed

lemma cycle_keeps_gate: "hg_gate (fst (cycle tok now q h)) = hg_gate h"
  by (auto simp: cycle_def split: prod.splits sum.splits)

text \<open>C34: With the deterministic gate no id is committed twice, every entry is filed under a slot of the
  schema, and every recorded token count is that of the entry's content, through any number of
  cycles.\<close>

theorem deterministic_gate_keeps_the_state_well_formed:
  "let cs = hg_ccs (cycles tok now queries (with_compressor c (new_headgate tok recall cfg)))
   in distinct (map ce_id (cc_entries cs))
    \<and> list_all (\<lambda>e. ce_slot e \<in> set [''decision'', ''constraint'', ''fact'', ''task-state''])
        (cc_entries cs)
    \<and> list_all (\<lambda>e. ce_tokens e = tok (ce_content e)) (cc_entries cs)"
proof -
  define h where "h = with_compressor c (new_headgate tok recall cfg)"
  let ?g = "new_default_gate (hc_min_score cfg) (hc_redundancy_threshold cfg)"
  have gate: "hg_gate h = gate_decide ?g"
    and start: "hg_ccs h = new_ccs default_schema (hc_budget_tokens cfg)"
    by (simp_all add: h_def with_compressor_def new_headgate_def)
  have "distinct_ids (hg_ccs (cycles tok now queries h))"
    by (rule deterministic.cycles_keep_ids_distinct [OF gate])
      (simp add: start new_ccs_def distinct_ids_def)
  moreover have "well_filed default_schema (hg_ccs (cycles tok now queries h))"
    by (rule deterministic.cycles_keep_filed [OF gate])
      (simp add: start new_ccs_def well_filed_def default_schema_def)
  moreover have "counted tok (hg_ccs (cycles tok now queries h))"
    by (rule counts.cycles_keep [OF gate]) (simp add: start new_ccs_def counted_def)
  ultimately show ?thesis
    by (auto simp: h_def [symmetric] Let_def distinct_ids_def well_filed_def counted_def
        list_all_iff schema_contains_def default_schema_def)
qed

section \<open>What a cycle reports\<close>

definition settled_count :: "gauge_metrics \<Rightarrow> nat" where
  "settled_count m = gm_admitted m + gm_rejected_relevance m + gm_rejected_redundant m
     + gm_rejected_saturated m"

lemma admit_candidate_settles:
  assumes "admit_candidate tok now h item d st = (st', Inr ())"
  shows "settled_count (cy_metrics st') = Suc (settled_count (cy_metrics st))"
proof -
  obtain st1 c where mr: "make_room tok h item (qd_score d) st = (st1, c)" by fastforce
  with assms obtain content where "c = Inr content" by (cases c) (auto simp: admit_candidate_def)
  with assms mr make_room_spec(2-6) [OF mr] show ?thesis
    by (auto simp: admit_candidate_def Let_def settled_count_def split: if_splits)
qed

lemma admit_candidate_balance:
  assumes "admit_candidate tok now h item d st = (st', r)"
  shows "length (cc_entries (cy_ccs st')) + gm_evicted (cy_metrics st') + gm_admitted (cy_metrics st)
    = length (cc_entries (cy_ccs st)) + gm_evicted (cy_metrics st) + gm_admitted (cy_metrics st')"
  using assms
proof (cases rule: admit_candidate_spec)
  case (kept es)
  then show ?thesis using evicts_length [OF kept(1)] by simp
next
  case (admitted es cs1 e)
  then show ?thesis using evicts_length [OF admitted(1)] by (simp add: admit_def)
qed

lemma cycle_item_balance:
  assumes "cycle_item tok now h item st = (st', r)"
  shows "length (cc_entries (cy_ccs st')) + gm_evicted (cy_metrics st') + gm_admitted (cy_metrics st)
      = length (cc_entries (cy_ccs st)) + gm_evicted (cy_metrics st) + gm_admitted (cy_metrics st')"
    and "r = Inr () \<Longrightarrow> settled_count (cy_metrics st') = Suc (settled_count (cy_metrics st))"
  using assms admit_candidate_balance admit_candidate_settles
  by (auto simp: cycle_item_def Let_def reject_candidate_def settled_count_def split: if_splits)

lemma cycle_items_balance:
  assumes "cycle_items tok now h items st = (st', r)"
  shows "length (cc_entries (cy_ccs st')) + gm_evicted (cy_metrics st') + gm_admitted (cy_metrics st)
      = length (cc_entries (cy_ccs st)) + gm_evicted (cy_metrics st) + gm_admitted (cy_metrics st')
    \<and> (r = Inr () \<longrightarrow> settled_count (cy_metrics st') = settled_count (cy_metrics st) + length items)"
  using assms
proof (induction items arbitrary: st)
  case (Cons item items)
  obtain st1 r1 where one: "cycle_item tok now h item st = (st1, r1)" by fastforce
  note step = cycle_item_balance [OF one]
  show ?case
  proof (cases r1)
    case (Inl e)
    with Cons.prems one step(1) show ?thesis by auto
  next
    case (Inr u)
    with Cons.prems one have "cycle_items tok now h items st1 = (st', r)" by simp
    from Cons.IH [OF this] step Inr show ?thesis by auto
  qed
qed simp

lemma cycle_item_candidates:
  "cycle_item tok now h item st = (st', r) \<Longrightarrow>
    gm_candidates (cy_metrics st') = gm_candidates (cy_metrics st)"
  using make_room_spec(3)
  by (fastforce simp: cycle_item_def admit_candidate_def reject_candidate_def Let_def
      split: if_splits prod.splits sum.splits)

lemma cycle_items_candidates:
  "cycle_items tok now h items st = (st', r) \<Longrightarrow>
    gm_candidates (cy_metrics st') = gm_candidates (cy_metrics st)"
  by (induction items arbitrary: st)
    (auto split: prod.splits sum.splits dest: cycle_item_candidates)

text \<open>A cycle accounts for every candidate exactly once, as admitted or as rejected for one reason;
  admissions and evictions account for the change in the number of entries; and the footprint is
  the token count it leaves.\<close>

theorem cycle_accounts_for_its_candidates:
  assumes "cycle tok now query h = (h', reports, Inr m)"
  shows "gm_candidates m = gm_admitted m + gm_rejected_relevance m + gm_rejected_redundant m
        + gm_rejected_saturated m
    \<and> length (cc_entries (hg_ccs h')) + gm_evicted m
        = length (cc_entries (hg_ccs h)) + gm_admitted m
    \<and> gm_footprint_tokens m = token_count (hg_ccs h')"
proof -
  obtain items where items: "hg_recall h query (hc_recall_limit (hg_config h)) = Inr items"
    using assms by (cases "hg_recall h query (hc_recall_limit (hg_config h))") (auto simp: cycle_def)
  define start where "start = \<lparr>cy_ccs = hg_ccs h,
     cy_metrics = fresh_metrics (length items) (hc_budget_tokens (hg_config h)), cy_savings = []\<rparr>"
  obtain st r where run: "cycle_items tok now h items start = (st, r)" by fastforce
  have r: "r = Inr ()" and h': "hg_ccs h' = cy_ccs st"
    and m: "m = (cy_metrics st)\<lparr>gm_footprint_tokens := token_count (cy_ccs st)\<rparr>"
    using assms items run by (auto simp: cycle_def start_def [symmetric] split: sum.splits)
  from cycle_items_balance [OF run] cycle_items_candidates [OF run] r show ?thesis
    by (simp add: h' m settled_count_def start_def fresh_metrics_def)
qed

definition demo_item :: "string \<Rightarrow> string \<Rightarrow> rat \<Rightarrow> recall_item" where
  "demo_item i content score =
     \<lparr>ri_id = i, ri_content = content, ri_score = score, ri_source = ''aquifer''\<rparr>"

definition demo_headgate :: "nat \<Rightarrow> bool \<Rightarrow> recall_item list \<Rightarrow> headgate" where
  "demo_headgate budget_tokens compressing items =
     new_headgate length (\<lambda>query limit. Inr (take limit items))
       (default_headgate_config\<lparr>hc_budget_tokens := budget_tokens,
          hc_compress_on_saturation := compressing\<rparr>)"

definition demo_notes :: "recall_item list" where
  "demo_notes =
     [demo_item ''a'' ''rust core'' (3/10), demo_item ''b'' ''rust core'' (9/10),
      demo_item ''c'' ''weak hint'' (1/10), demo_item ''d'' ''sql schema v7'' (8/10)]"

lemma demo_cycle:
  "\<exists>h'. cycle length (\<lambda>n. n) ''notes'' (demo_headgate 16 False demo_notes) = (h', [], Inr
     \<lparr>gm_candidates = 4, gm_admitted = 2, gm_rejected_relevance = 1, gm_rejected_redundant = 1,
      gm_rejected_saturated = 0, gm_compressed = 0, gm_evicted = 1, gm_footprint_tokens = 13,
      gm_budget_tokens = 16\<rparr>)"
proof -
  have "snd (cycle length (\<lambda>n. n) ''notes'' (demo_headgate 16 False demo_notes)) = ([], Inr
     \<lparr>gm_candidates = 4, gm_admitted = 2, gm_rejected_relevance = 1, gm_rejected_redundant = 1,
      gm_rejected_saturated = 0, gm_compressed = 0, gm_evicted = 1, gm_footprint_tokens = 13,
      gm_budget_tokens = 16\<rparr>)"
    by code_simp
  then show ?thesis by (metis prod.collapse)
qed

theorem cycle_accounts_witness:
  "\<exists>h' m. cycle length (\<lambda>n. n) ''notes'' (demo_headgate 16 False demo_notes) = (h', [], Inr m)
    \<and> gm_candidates m = 4 \<and> length (cc_entries (hg_ccs h')) + gm_evicted m = gm_admitted m
    \<and> gm_footprint_tokens m = token_count (hg_ccs h')"
proof -
  obtain h' where run: "cycle length (\<lambda>n. n) ''notes'' (demo_headgate 16 False demo_notes) = (h', [], Inr
     \<lparr>gm_candidates = 4, gm_admitted = 2, gm_rejected_relevance = 1, gm_rejected_redundant = 1,
      gm_rejected_saturated = 0, gm_compressed = 0, gm_evicted = 1, gm_footprint_tokens = 13,
      gm_budget_tokens = 16\<rparr>)" using demo_cycle by blast
  show ?thesis
    using cycle_accounts_for_its_candidates [OF run] run
    by (simp add: demo_headgate_def new_headgate_def new_ccs_def)
qed

section \<open>Eviction\<close>

text \<open>C14: Settling an admissible candidate removes from the committed state only entries that score
  strictly below it and no higher than any entry that stays, adds at most the candidate itself, with
  the score and the id of the decision, and removes nothing when the candidate fits as it is.\<close>

theorem evictions_are_outscored:
  assumes "admit_candidate tok now h item d st = (st', r)"
  shows "\<exists>out new.
      mset (cc_entries (cy_ccs st')) + mset out = mset (cc_entries (cy_ccs st)) + mset new
    \<and> (\<forall>e \<in> set out. ce_score e < qd_score d)
    \<and> (\<forall>e \<in> set out. \<forall>x \<in> set (cc_entries (cy_ccs st')). x \<in> set new \<or> ce_score e \<le> ce_score x)
    \<and> length new \<le> 1 \<and> (\<forall>x \<in> set new. ce_id x = ri_id item \<and> ce_score x = qd_score d)
    \<and> (tok (ri_content item) \<le> headroom (cy_ccs st) \<longrightarrow> out = [])"
  using assms
proof -
  obtain st1 c where mr: "make_room tok h item (qd_score d) st = (st1, c)" by fastforce
  from make_room_spec(1) [OF mr] obtain out where out: "evicts (qd_score d) (cy_ccs st) out (cy_ccs st1)"
    "out \<noteq> [] \<longrightarrow> tok (ri_content item) > headroom (cy_ccs st)" by blast
  have "cy_ccs st' = cy_ccs st1 \<or> (\<exists>e. cy_ccs st' = admit (cy_ccs st1) e
      \<and> ce_id e = ri_id item \<and> ce_score e = qd_score d)"
    using assms mr by (cases c) (fastforce simp: admit_candidate_def Let_def new_entry_def split: if_splits)+
  then obtain new where new: "cc_entries (cy_ccs st') = cc_entries (cy_ccs st1) @ new" "length new \<le> 1"
    "\<forall>x \<in> set new. ce_id x = ri_id item \<and> ce_score x = qd_score d"
    by (elim disjE exE) (force simp: admit_def)+
  show ?thesis
    using new out(2) evicts_mset [OF out(1)] evicts_outscored [OF out(1)] evicts_lowest [OF out(1)]
    by (intro exI [of _ out] exI [of _ new]) (auto simp: not_le)
qed

definition demo_entry :: "string \<Rightarrow> string \<Rightarrow> rat \<Rightarrow> committed_entry" where
  "demo_entry i content score = new_entry length 0 i ''fact'' content score"

definition demo_state :: cycle_state where
  "demo_state =
     \<lparr>cy_ccs = (new_ccs default_schema 12)\<lparr>cc_entries :=
        [demo_entry ''a'' ''alpha'' (5/10), demo_entry ''b'' ''beta'' (2/10)]\<rparr>,
      cy_metrics = fresh_metrics 1 12, cy_savings = []\<rparr>"

theorem evictions_are_outscored_witness:
  "\<exists>out new. mset (cc_entries (cy_ccs (fst (admit_candidate length (\<lambda>n. n) (demo_headgate 12 False [])
        (demo_item ''c'' ''gamma'' (4/10)) (decide_admit ''fact'' (4/10)) demo_state)))) + mset out
      = mset (cc_entries (cy_ccs demo_state)) + mset new
    \<and> length new \<le> 1"
  using evictions_are_outscored [OF prod.collapse [symmetric],
      of length "\<lambda>n. n" "demo_headgate 12 False []" "demo_item ''c'' ''gamma'' (4/10)"
        "decide_admit ''fact'' (4/10)" demo_state] by blast

text \<open>A candidate that is larger than the whole budget, with compression off, is rejected as
  saturated and still evicts every entry that scores below it: the eviction loop runs before the
  candidate is known to fit.\<close>

theorem oversized_candidate_evicts_all_below_it:
  assumes "tok (ri_content item) > cc_budget_tokens (cy_ccs st)"
    and "\<not> hc_compress_on_saturation (hg_config h)"
  shows "\<exists>st'. admit_candidate tok now h item d st = (st', Inr ())
    \<and> gm_admitted (cy_metrics st') = gm_admitted (cy_metrics st)
    \<and> gm_rejected_saturated (cy_metrics st') = Suc (gm_rejected_saturated (cy_metrics st))
    \<and> set (cc_entries (cy_ccs st')) = {e \<in> set (cc_entries (cy_ccs st)). qd_score d \<le> ce_score e}"
proof -
  obtain st1 c where mr: "make_room tok h item (qd_score d) st = (st1, c)" by fastforce
  from make_room_spec(1) [OF mr] obtain out where out: "evicts (qd_score d) (cy_ccs st) out (cy_ccs st1)"
    "tok (ri_content item) \<le> headroom (cy_ccs st1) \<or>
      (\<forall>e \<in> set (cc_entries (cy_ccs st1)). qd_score d \<le> ce_score e)" by blast
  have big: "tok (ri_content item) > headroom (cy_ccs st1)"
    using assms(1) evicts_setup [OF out(1)] by (simp add: headroom_def)
  have "c = Inr (ri_content item)"
    using mr assms(2) by (auto simp: make_room_def Let_def split: if_splits prod.splits)
  then have run: "admit_candidate tok now h item d st = (st1\<lparr>cy_metrics := (cy_metrics st1)
      \<lparr>gm_rejected_saturated := gm_rejected_saturated (cy_metrics st1) + 1\<rparr>\<rparr>, Inr ())"
    using mr big by (simp add: admit_candidate_def Let_def)
  have "set (cc_entries (cy_ccs st1)) = {e \<in> set (cc_entries (cy_ccs st)). qd_score d \<le> ce_score e}"
    using out(2) big evicts_set [OF out(1)] evicts_outscored [OF out(1)] by force
  then show ?thesis using run make_room_spec(2,6) [OF mr] by simp
qed

theorem oversized_candidate_witness:
  "\<exists>st'. admit_candidate length (\<lambda>n. n) (demo_headgate 12 False [])
      (demo_item ''c'' ''a note of more than twelve bytes'' (9/10)) (decide_admit ''fact'' (9/10)) demo_state
      = (st', Inr ()) \<and> cc_entries (cy_ccs st') = []"
proof -
  have "tok_size > cc_budget_tokens (cy_ccs demo_state)"
    if "tok_size = length (ri_content (demo_item ''c'' ''a note of more than twelve bytes'' (9/10)))"
    for tok_size using that by (simp add: demo_state_def demo_item_def new_ccs_def)
  moreover have "\<not> hc_compress_on_saturation (hg_config (demo_headgate 12 False []))"
    by (simp add: demo_headgate_def new_headgate_def)
  ultimately obtain st' where st': "admit_candidate length (\<lambda>n. n) (demo_headgate 12 False [])
      (demo_item ''c'' ''a note of more than twelve bytes'' (9/10)) (decide_admit ''fact'' (9/10)) demo_state
      = (st', Inr ())"
    "set (cc_entries (cy_ccs st')) = {e \<in> set (cc_entries (cy_ccs demo_state)).
       qd_score (decide_admit ''fact'' (9/10)) \<le> ce_score e}"
    using oversized_candidate_evicts_all_below_it [of demo_state length
        "demo_item ''c'' ''a note of more than twelve bytes'' (9/10)" "demo_headgate 12 False []"
        "\<lambda>n. n" "decide_admit ''fact'' (9/10)"] by blast
  have "set (cc_entries (cy_ccs st')) = {}"
    by (auto simp: st'(2) demo_state_def decide_admit_def demo_entry_def new_entry_def)
  with st'(1) show ?thesis by simp
qed

section \<open>Compression\<close>

text \<open>Whatever the tokenizer is, as long as the empty text costs nothing, the extractive compressor
  and the LLM-backed one answer with a text within their target, for every model behind the latter.\<close>

theorem compressors_keep_to_their_target:
  assumes "tok [] = 0"
  shows "tok (extractive_compress tok content target) \<le> target
    \<and> tok (llm_compress tok ask content target) \<le> target"
  using tokenizer.extractive_fits tokenizer.llm_fits assms by (simp add: tokenizer_def)

theorem compressors_witness:
  "length (extractive_compress length ''First part. Second part.'' 12) \<le> 12
    \<and> length (llm_compress length (\<lambda>p. Inr ''short'') ''First part. Second part.'' 12) \<le> 12"
  using compressors_keep_to_their_target [of length] by simp

text \<open>A note that no sentence and no truncation of fits the room left is committed with an empty
  content: it takes the id of the note, costs nothing, and the note itself is refused as already
  committed in every later cycle, however much room there is by then.\<close>

theorem note_can_be_committed_empty:
  "let h = demo_headgate 2 True [demo_item ''n1'' ''abcdef'' (9/10)];
       (h1, _, first) = cycle length (\<lambda>n. n) ''q'' h;
       (h2, _, second) = cycle length (\<lambda>n. n) ''q'' h1
   in map (\<lambda>e. (ce_id e, ce_content e)) (cc_entries (hg_ccs h2)) = [(''n1'', [])]
     \<and> headroom (hg_ccs h1) = 2
     \<and> (case first of Inr m \<Rightarrow> gm_admitted m = 1 \<and> gm_compressed m = 1 | _ \<Rightarrow> False)
     \<and> (case second of Inr m \<Rightarrow> gm_admitted m = 0 \<and> gm_rejected_redundant m = 1 | _ \<Rightarrow> False)"
  by code_simp

text \<open>With compression on and a compressor that keeps to its target, a candidate that the gate admits
  is turned away as saturated only when no token of headroom is left.\<close>

theorem only_a_full_state_turns_candidates_away:
  assumes "tok [] = 0"
    and "admit_candidate tok now (with_compressor (\<lambda>content target. Inr (extractive_compress tok content target)) h)
        item d st = (st', Inr ())"
    and "hc_compress_on_saturation (hg_config h)"
    and "gm_rejected_saturated (cy_metrics st') \<noteq> gm_rejected_saturated (cy_metrics st)"
  shows "headroom (cy_ccs st') = 0"
proof -
  have "gm_admitted (cy_metrics st') = gm_admitted (cy_metrics st)"
    using admit_candidate_spec [OF assms(2)] assms(4) by metis
  then show ?thesis
    using tokenizer.extractive_admits [of tok] assms(1-3)
    by (simp add: tokenizer_def with_compressor_def)
qed

definition full_state :: cycle_state where
  "full_state = demo_state\<lparr>cy_ccs := (cy_ccs demo_state)\<lparr>cc_budget_tokens := 9\<rparr>\<rparr>"

definition full_outcome :: "cycle_state \<times> (headgate_error + unit)" where
  "full_outcome = admit_candidate length (\<lambda>n. n)
     (with_compressor (\<lambda>content target. Inr (extractive_compress length content target))
       (demo_headgate 9 True []))
     (demo_item ''c'' ''gamma'' (1/10)) (decide_admit ''fact'' (1/10)) full_state"

theorem only_a_full_state_witness: "headroom (cy_ccs (fst full_outcome)) = 0"
proof -
  have "snd full_outcome = Inr ()" by code_simp
  then have run: "full_outcome = (fst full_outcome, Inr ())" by (metis prod.collapse)
  have "gm_rejected_saturated (cy_metrics (fst full_outcome)) \<noteq>
      gm_rejected_saturated (cy_metrics full_state)" by code_simp
  moreover have "hc_compress_on_saturation (hg_config (demo_headgate 9 True []))" by code_simp
  ultimately show ?thesis
    using only_a_full_state_turns_candidates_away [OF _ run [unfolded full_outcome_def]]
    by (simp add: full_outcome_def)
qed

end
