(* ===== verification/Bundle.thy ===== *)
theory Bundle
  imports Judges
begin

text \<open>
  The portable working context: crates/headgate/src/bundle.rs, with the session addresses of
  crates/aquifer/src/session.rs it is handed over under. A bundle is a manifest, a snapshot of the
  committed state and a lifecycle log; it is written as four documents, to a directory or into a
  session, and read back. The JSON reader and printer are parameters (a record of encoders and
  decoders); file errors are not modelled.
\<close>

section \<open>Session addresses\<close>

record session_key =
  sk_user_id :: string
  sk_session_id :: string
  sk_task_id :: string

definition normalize_component :: "string option \<Rightarrow> string" where
  "normalize_component v =
     (case v of
        Some s \<Rightarrow> if trim s \<noteq> [] then trim s else ''default''
      | None \<Rightarrow> ''default'')"

definition new_session_key :: "string option \<Rightarrow> string option \<Rightarrow> string option \<Rightarrow> session_key" where
  "new_session_key user_id session_id task_id =
     \<lparr>sk_user_id = normalize_component user_id, sk_session_id = normalize_component session_id,
      sk_task_id = normalize_component task_id\<rparr>"

definition default_session_key :: session_key where
  "default_session_key =
     \<lparr>sk_user_id = ''default'', sk_session_id = ''default'', sk_task_id = ''default''\<rparr>"

record 'j session =
  se_key :: session_key
  se_manifest :: 'j
  se_schema :: 'j
  se_snapshot :: 'j
  se_qualify :: "'j list"
  se_updated_at :: nat

record ocf_session =
  os_session_id :: string
  os_task_id :: string
  os_user_id :: string
  os_handed_off_from :: "string option"

definition new_ocf_session :: "session_key \<Rightarrow> string option \<Rightarrow> ocf_session" where
  "new_ocf_session key handed =
     \<lparr>os_session_id = sk_session_id key, os_task_id = sk_task_id key, os_user_id = sk_user_id key,
      os_handed_off_from = handed\<rparr>"

definition ocf_session_key :: "ocf_session \<Rightarrow> session_key" where
  "ocf_session_key s =
     new_session_key (Some (os_user_id s)) (Some (os_session_id s)) (Some (os_task_id s))"

section \<open>Snapshot, lifecycle and manifest\<close>

datatype resolution = Full | Compressed | Pointer

record snapshot_entry =
  sn_id :: string
  sn_slot :: string
  sn_content :: string
  sn_tokens :: nat
  sn_score :: rat
  sn_resolution :: resolution
  sn_unit_ref :: "string option"
  sn_committed_at :: nat
  sn_last_access :: "nat option"
  sn_access_count :: nat

record snapshot =
  ss_schema :: "string list"
  ss_budget_tokens :: nat
  ss_token_count :: nat
  ss_entries :: "snapshot_entry list"

definition snapshot_of :: "committed_entry \<Rightarrow> snapshot_entry" where
  "snapshot_of e =
     \<lparr>sn_id = ce_id e, sn_slot = ce_slot e, sn_content = ce_content e, sn_tokens = ce_tokens e,
      sn_score = ce_score e, sn_resolution = Full, sn_unit_ref = None,
      sn_committed_at = ce_committed_at e, sn_last_access = None, sn_access_count = 0\<rparr>"

definition from_ccs :: "ccs \<Rightarrow> snapshot" where
  "from_ccs cs =
     \<lparr>ss_schema = slots (cc_schema cs), ss_budget_tokens = cc_budget_tokens cs,
      ss_token_count = token_count cs, ss_entries = map snapshot_of (cc_entries cs)\<rparr>"

definition render_snapshot :: "snapshot \<Rightarrow> string" where
  "render_snapshot s =
     (let line = (\<lambda>e. ''- '' @ sn_content e @ LF);
          block = (\<lambda>header es. if es = [] then [] else ''## '' @ header @ LF @ concat (map line es))
      in trim_end
          (concat (map (\<lambda>slot.
             let es = filter (\<lambda>e. sn_slot e = slot) (ss_entries s)
             in if es = [] then [] else block slot es @ LF) (ss_schema s))
           @ block ''other''
               (filter (\<lambda>e. \<not> list_ex (\<lambda>slot. slot = sn_slot e) (ss_schema s)) (ss_entries s))))"

datatype lifecycle_decision = Commit_event | Evict_event | Supersede_event | Deprecate_event
datatype lifecycle_status = Hypothesis | Active_entry | Validated | Deprecated | Superseded

record lifecycle_reason =
  lr_relevance :: rat
  lr_novelty :: rat
  lr_drift :: rat

record lifecycle_entry =
  le_ts :: nat
  le_entry_id :: string
  le_decision :: lifecycle_decision
  le_status :: lifecycle_status
  le_supersedes :: "string option"
  le_reason :: "lifecycle_reason option"
  le_audit :: "qualify_audit option"

definition commit_event :: "nat \<Rightarrow> string \<Rightarrow> lifecycle_entry" where
  "commit_event now eid =
     \<lparr>le_ts = now, le_entry_id = eid, le_decision = Commit_event, le_status = Active_entry,
      le_supersedes = None, le_reason = None, le_audit = None\<rparr>"

record manifest =
  ma_format :: string
  ma_version :: string
  ma_agent_id :: "string option"
  ma_session :: "ocf_session option"
  ma_created_at :: nat
  ma_unit_source :: string
  ma_unit_ref :: "string option"

definition bundle_format :: string where
  "bundle_format = ''artesian.working-context''"

definition bundle_version :: string where
  "bundle_version = ''0.1''"

definition inline_manifest :: "nat \<Rightarrow> manifest" where
  "inline_manifest now =
     \<lparr>ma_format = bundle_format, ma_version = bundle_version, ma_agent_id = None,
      ma_session = None, ma_created_at = now, ma_unit_source = ''inline'', ma_unit_ref = None\<rparr>"

record working_bundle =
  bu_manifest :: manifest
  bu_snapshot :: snapshot
  bu_lifecycle :: "lifecycle_entry list"

definition new_bundle :: "nat \<Rightarrow> snapshot \<Rightarrow> lifecycle_entry list \<Rightarrow> working_bundle" where
  "new_bundle now s events =
     \<lparr>bu_manifest = inline_manifest now, bu_snapshot = s, bu_lifecycle = events\<rparr>"

section \<open>Validation and resumption\<close>

datatype bundle_error =
    Io_error string | Json_error string | Format_error string | Version_error string | Token_mismatch nat nat

definition major_version :: "string \<Rightarrow> string" where
  "major_version v = (case split_once ''.'' v of Some (major, _) \<Rightarrow> major | None \<Rightarrow> v)"

definition version_compatible :: "string \<Rightarrow> bool" where
  "version_compatible found \<longleftrightarrow> major_version found = major_version bundle_version"

definition validate :: "working_bundle \<Rightarrow> bundle_error + unit" where
  "validate b =
     (if ma_format (bu_manifest b) \<noteq> bundle_format then
        Inl (Format_error (ma_format (bu_manifest b)))
      else if \<not> version_compatible (ma_version (bu_manifest b)) then
        Inl (Version_error (ma_version (bu_manifest b)))
      else let summed = sum_list (map sn_tokens (ss_entries (bu_snapshot b)))
           in if summed \<noteq> ss_token_count (bu_snapshot b)
              then Inl (Token_mismatch (ss_token_count (bu_snapshot b)) summed)
              else Inr ())"

definition entry_of :: "snapshot_entry \<Rightarrow> committed_entry" where
  "entry_of e =
     \<lparr>ce_id = sn_id e, ce_slot = sn_slot e, ce_content = sn_content e, ce_tokens = sn_tokens e,
      ce_score = sn_score e, ce_committed_at = sn_committed_at e\<rparr>"

definition to_ccs :: "working_bundle \<Rightarrow> ccs" where
  "to_ccs b =
     fold (\<lambda>e cs. admit cs (entry_of e)) (ss_entries (bu_snapshot b))
       (new_ccs \<lparr>slots = ss_schema (bu_snapshot b)\<rparr> (ss_budget_tokens (bu_snapshot b)))"

text \<open>\<open>{:?}\<close> of a string, for the characters that are escaped with a backslash.\<close>

definition debug_char :: "char \<Rightarrow> string" where
  "debug_char c =
     (if c = CHR 0x22 \<or> c = CHR 0x5C then [CHR 0x5C, c]
      else if c = CHR 0x0A then [CHR 0x5C, CHR ''n'']
      else if c = CHR 0x0D then [CHR 0x5C, CHR ''r'']
      else if c = CHR 0x09 then [CHR 0x5C, CHR ''t'']
      else [c])"

definition debug_string :: "string \<Rightarrow> string" where
  "debug_string s = dquoted (concat (map debug_char s))"

definition schema_issues :: "working_bundle \<Rightarrow> string list" where
  "schema_issues b =
     map (\<lambda>e. ''entry '' @ debug_string (sn_id e) @ '' uses slot '' @ debug_string (sn_slot e) @
              '' not declared in the schema'')
       (filter (\<lambda>e. \<not> list_ex (\<lambda>slot. slot = sn_slot e) (ss_schema (bu_snapshot b)))
         (ss_entries (bu_snapshot b)))"

definition compatibility_issues :: "working_bundle \<Rightarrow> string list \<Rightarrow> nat \<Rightarrow> string list" where
  "compatibility_issues b target_schema target_budget =
     map (\<lambda>slot. ''slot '' @ debug_string slot @ '' is not in the target schema'')
       (filter (\<lambda>slot. \<not> list_ex (\<lambda>c. c = slot) target_schema) (ss_schema (bu_snapshot b)))
     @ (if ss_budget_tokens (bu_snapshot b) > target_budget
        then [''budget '' @ show_nat (ss_budget_tokens (bu_snapshot b)) @
              '' exceeds the target budget '' @ show_nat target_budget]
        else [])"

section \<open>The four documents\<close>

record ocf_manifest =
  om_ocf_version :: string
  om_agent_id :: "string option"
  om_session :: "ocf_session option"
  om_created :: nat
  om_unit_source :: string
  om_unit_refs :: "string list"

record ocf_slot =
  ol_name :: string
  ol_description :: "string option"

record ocf_schema_file =
  oh_ocf_version :: string
  oh_slots :: "ocf_slot list"
  oh_budget_tokens :: nat
  oh_eviction :: string

record ocf_snapshot_file =
  ot_budget_tokens :: nat
  ot_token_count :: nat
  ot_saturation :: rat
  ot_entries :: "snapshot_entry list"

record qualify_record =
  qr_ts :: nat
  qr_unit_ref :: string
  qr_admitted :: bool
  qr_slot :: "string option"
  qr_score :: rat
  qr_reason :: "string option"
  qr_audit :: "qualify_audit option"
  qr_reason_code :: reason_code

definition ocf_manifest_of :: "working_bundle \<Rightarrow> ocf_manifest" where
  "ocf_manifest_of b =
     (let m = bu_manifest b
      in \<lparr>om_ocf_version = ''0.1'', om_agent_id = ma_agent_id m, om_session = ma_session m,
          om_created = ma_created_at m, om_unit_source = ma_unit_source m,
          om_unit_refs = (case ma_unit_ref m of Some r \<Rightarrow> [r] | None \<Rightarrow> [])\<rparr>)"

definition ocf_schema_of :: "working_bundle \<Rightarrow> ocf_schema_file" where
  "ocf_schema_of b =
     \<lparr>oh_ocf_version = ''0.1'',
      oh_slots = map (\<lambda>name. \<lparr>ol_name = name, ol_description = None\<rparr>) (ss_schema (bu_snapshot b)),
      oh_budget_tokens = ss_budget_tokens (bu_snapshot b), oh_eviction = ''lowest-score''\<rparr>"

definition ocf_snapshot_of :: "working_bundle \<Rightarrow> ocf_snapshot_file" where
  "ocf_snapshot_of b =
     (let s = bu_snapshot b
      in \<lparr>ot_budget_tokens = ss_budget_tokens s, ot_token_count = ss_token_count s,
          ot_saturation = (if ss_budget_tokens s > 0
                           then of_nat (ss_token_count s) / of_nat (ss_budget_tokens s) else 0),
          ot_entries = ss_entries s\<rparr>)"

definition ocf_qualify_of :: "working_bundle \<Rightarrow> qualify_record list" where
  "ocf_qualify_of b =
     map (\<lambda>e. \<lparr>qr_ts = sn_committed_at e, qr_unit_ref = sn_id e, qr_admitted = True,
               qr_slot = Some (sn_slot e), qr_score = sn_score e, qr_reason = Some ''qualified'',
               qr_audit = (case List.find (\<lambda>v. le_entry_id v = sn_id e \<and> le_decision v = Commit_event)
                                  (bu_lifecycle b) of
                             Some v \<Rightarrow> le_audit v | None \<Rightarrow> None),
               qr_reason_code = Qualified\<rparr>) (ss_entries (bu_snapshot b))
     @ map (\<lambda>v. \<lparr>qr_ts = le_ts v, qr_unit_ref = le_entry_id v, qr_admitted = False,
               qr_slot = None, qr_score = 0,
               qr_reason = Some (if le_decision v = Evict_event then ''evict'' else ''deprecate''),
               qr_audit = le_audit v,
               qr_reason_code = (if le_decision v = Evict_event then Budget_saturated
                                 else Stale_version)\<rparr>)
         (filter (\<lambda>v. le_decision v = Evict_event \<or> le_decision v = Deprecate_event) (bu_lifecycle b))"

section \<open>Hand-over\<close>

text \<open>The JSON package: encoders of the four documents and decoders of the three that are read.\<close>

record 'j ocf_codec =
  oc_manifest :: "ocf_manifest \<Rightarrow> 'j"
  oc_schema :: "ocf_schema_file \<Rightarrow> 'j"
  oc_snapshot :: "ocf_snapshot_file \<Rightarrow> 'j"
  oc_qualify :: "qualify_record \<Rightarrow> 'j"
  oc_read_manifest :: "'j \<Rightarrow> string + ocf_manifest"
  oc_read_schema :: "'j \<Rightarrow> string + ocf_schema_file"
  oc_read_snapshot :: "'j \<Rightarrow> string + ocf_snapshot_file"

definition to_ocf_session ::
  "'j ocf_codec \<Rightarrow> nat \<Rightarrow> working_bundle \<Rightarrow> session_key \<Rightarrow> string option
    \<Rightarrow> bundle_error + 'j session" where
  "to_ocf_session c now b key handed =
     (let b = b\<lparr>bu_manifest := (bu_manifest b)\<lparr>ma_agent_id := handed,
                  ma_session := Some (new_ocf_session key handed)\<rparr>\<rparr>
      in case validate b of
           Inl e \<Rightarrow> Inl e
         | Inr _ \<Rightarrow>
             Inr \<lparr>se_key = key, se_manifest = oc_manifest c (ocf_manifest_of b),
                  se_schema = oc_schema c (ocf_schema_of b),
                  se_snapshot = oc_snapshot c (ocf_snapshot_of b),
                  se_qualify = map (oc_qualify c) (ocf_qualify_of b), se_updated_at = now\<rparr>)"

definition bundle_from_documents ::
  "ocf_manifest \<Rightarrow> ocf_schema_file \<Rightarrow> ocf_snapshot_file \<Rightarrow> bundle_error + working_bundle" where
  "bundle_from_documents m sch s =
     (let b = \<lparr>bu_manifest =
                 \<lparr>ma_format = bundle_format, ma_version = bundle_version, ma_agent_id = om_agent_id m,
                  ma_session = om_session m, ma_created_at = om_created m,
                  ma_unit_source = om_unit_source m,
                  ma_unit_ref = (case om_unit_refs m of r # _ \<Rightarrow> Some r | [] \<Rightarrow> None)\<rparr>,
               bu_snapshot =
                 \<lparr>ss_schema = map ol_name (oh_slots sch), ss_budget_tokens = ot_budget_tokens s,
                  ss_token_count = ot_token_count s, ss_entries = ot_entries s\<rparr>,
               bu_lifecycle = []\<rparr>
      in case validate b of Inl e \<Rightarrow> Inl e | Inr _ \<Rightarrow> Inr b)"

definition from_ocf_session :: "'j ocf_codec \<Rightarrow> 'j session \<Rightarrow> bundle_error + working_bundle" where
  "from_ocf_session c se =
     (case oc_read_manifest c (se_manifest se) of
        Inl e \<Rightarrow> Inl (Json_error e)
      | Inr m \<Rightarrow>
          if \<not> version_compatible (om_ocf_version m) then Inl (Version_error (om_ocf_version m))
          else case om_session m of
                 None \<Rightarrow> Inl (Format_error ''OCF manifest is missing session metadata'')
               | Some ms \<Rightarrow>
                   if ocf_session_key ms \<noteq> se_key se then
                     Inl (Format_error ''OCF manifest session does not match stored session key'')
                   else case oc_read_schema c (se_schema se) of
                          Inl e \<Rightarrow> Inl (Json_error e)
                        | Inr sch \<Rightarrow>
                            (case oc_read_snapshot c (se_snapshot se) of
                               Inl e \<Rightarrow> Inl (Json_error e)
                             | Inr s \<Rightarrow> bundle_from_documents m sch s))"

text \<open>The four files of a bundle directory; \<open>qualify.jsonl\<close> is written and never read.\<close>

definition write_ocf_dir ::
  "'j ocf_codec \<Rightarrow> ('j list \<Rightarrow> 'j) \<Rightarrow> working_bundle \<Rightarrow> (string \<rightharpoonup> 'j) \<Rightarrow> (string \<rightharpoonup> 'j)" where
  "write_ocf_dir c log_text b dir =
     dir(''manifest.json'' \<mapsto> oc_manifest c (ocf_manifest_of b),
         ''schema.json'' \<mapsto> oc_schema c (ocf_schema_of b),
         ''snapshot.json'' \<mapsto> oc_snapshot c (ocf_snapshot_of b),
         ''qualify.jsonl'' \<mapsto> log_text (map (oc_qualify c) (ocf_qualify_of b)))"

definition read_file :: "('j \<Rightarrow> string + 'a) \<Rightarrow> (string \<rightharpoonup> 'j) \<Rightarrow> string \<Rightarrow> bundle_error + 'a" where
  "read_file decode dir name =
     (case dir name of
        None \<Rightarrow> Inl (Io_error name)
      | Some j \<Rightarrow> (case decode j of Inl e \<Rightarrow> Inl (Json_error e) | Inr x \<Rightarrow> Inr x))"

definition read_ocf_dir :: "'j ocf_codec \<Rightarrow> (string \<rightharpoonup> 'j) \<Rightarrow> bundle_error + working_bundle" where
  "read_ocf_dir c dir =
     (case read_file (oc_read_manifest c) dir ''manifest.json'' of
        Inl e \<Rightarrow> Inl e
      | Inr m \<Rightarrow>
          if \<not> version_compatible (om_ocf_version m) then Inl (Version_error (om_ocf_version m))
          else case read_file (oc_read_schema c) dir ''schema.json'' of
                 Inl e \<Rightarrow> Inl e
               | Inr sch \<Rightarrow>
                   (case read_file (oc_read_snapshot c) dir ''snapshot.json'' of
                      Inl e \<Rightarrow> Inl e
                    | Inr s \<Rightarrow> bundle_from_documents m sch s))"

text \<open>The directory of the native format: manifest, snapshot, one line for each lifecycle event, and a
  rendering for people that is never read.\<close>

record dir_codec =
  dc_manifest :: "manifest \<Rightarrow> string"
  dc_snapshot :: "snapshot \<Rightarrow> string"
  dc_event :: "lifecycle_entry \<Rightarrow> string"
  dc_read_manifest :: "string \<Rightarrow> string + manifest"
  dc_read_snapshot :: "string \<Rightarrow> string + snapshot"
  dc_read_event :: "string \<Rightarrow> string + lifecycle_entry"
  dc_rfc3339 :: "nat \<Rightarrow> string"

definition render_bundle :: "(nat \<Rightarrow> string) \<Rightarrow> working_bundle \<Rightarrow> string" where
  "render_bundle rfc3339 b =
     (let m = bu_manifest b; s = bu_snapshot b
      in ''<!-- '' @ ma_format m @ '' v'' @ ma_version m @ '' '' @ [CHR 0xC2, CHR 0xB7] @
         '' units: '' @ ma_unit_source m @ '' '' @ [CHR 0xC2, CHR 0xB7] @ '' '' @
         rfc3339 (ma_created_at m) @ '' -->'' @ LF @
         ''# Working context ('' @ show_nat (length (ss_entries s)) @ '' entries, '' @
         show_nat (ss_token_count s) @ '' / '' @ show_nat (ss_budget_tokens s) @ '' tokens)'' @ LF @ LF @
         render_snapshot s @
         (if bu_lifecycle b = [] then []
          else LF @ LF @ ''_lifecycle: '' @ show_nat (length (bu_lifecycle b)) @ '' event(s)_''))"

definition write_dir :: "dir_codec \<Rightarrow> working_bundle \<Rightarrow> (string \<rightharpoonup> string) \<Rightarrow> (string \<rightharpoonup> string)" where
  "write_dir c b dir =
     dir(''manifest.json'' \<mapsto> dc_manifest c (bu_manifest b),
         ''snapshot.json'' \<mapsto> dc_snapshot c (bu_snapshot b),
         ''lifecycle.jsonl'' \<mapsto> concat (map (\<lambda>v. dc_event c v @ LF) (bu_lifecycle b)),
         ''snapshot.md'' \<mapsto> render_bundle (dc_rfc3339 c) b)"

fun read_events :: "(string \<Rightarrow> string + lifecycle_entry) \<Rightarrow> string list \<Rightarrow> bundle_error + lifecycle_entry list" where
  "read_events decode [] = Inr []"
| "read_events decode (line # rest) =
     (case decode line of
        Inl e \<Rightarrow> Inl (Json_error e)
      | Inr v \<Rightarrow> (case read_events decode rest of Inl e \<Rightarrow> Inl e | Inr vs \<Rightarrow> Inr (v # vs)))"

definition read_dir :: "dir_codec \<Rightarrow> (string \<rightharpoonup> string) \<Rightarrow> bundle_error + working_bundle" where
  "read_dir c dir =
     (case read_file (dc_read_manifest c) dir ''manifest.json'' of
        Inl e \<Rightarrow> Inl e
      | Inr m \<Rightarrow>
          (case read_file (dc_read_snapshot c) dir ''snapshot.json'' of
             Inl e \<Rightarrow> Inl e
           | Inr s \<Rightarrow>
               (case (case dir ''lifecycle.jsonl'' of
                        Some text \<Rightarrow>
                          read_events (dc_read_event c) (filter (\<lambda>line. trim line \<noteq> []) (lines text))
                      | None \<Rightarrow> Inr []) of
                  Inl e \<Rightarrow> Inl e
                | Inr vs \<Rightarrow>
                    let b = \<lparr>bu_manifest = m, bu_snapshot = s, bu_lifecycle = vs\<rparr>
                    in (case validate b of Inl e \<Rightarrow> Inl e | Inr _ \<Rightarrow> Inr b))))"

section \<open>The resume packet\<close>

record resume_packet =
  rp_session :: ocf_session
  rp_restored_working_state :: string
  rp_goal :: "string option"
  rp_invariants :: "string list"
  rp_last_failed_check :: "string option"
  rp_sources :: "string list"
  rp_schema :: "string list"
  rp_snapshot :: snapshot

definition content_of :: "snapshot_entry option \<Rightarrow> string option" where
  "content_of e = (case e of Some e \<Rightarrow> Some (sn_content e) | None \<Rightarrow> None)"

definition source_of :: "snapshot_entry \<Rightarrow> string" where
  "source_of e = (case sn_unit_ref e of Some r \<Rightarrow> r | None \<Rightarrow> sn_id e)"

definition resume_packet_from_session ::
  "'j ocf_codec \<Rightarrow> 'j session \<Rightarrow> bundle_error + resume_packet" where
  "resume_packet_from_session c se =
     (case from_ocf_session c se of
        Inl e \<Rightarrow> Inl e
      | Inr b \<Rightarrow>
          (if schema_issues b \<noteq> [] then
             Inl (Format_error (''OCF schema compatibility failed: '' @ join ''; '' (schema_issues b)))
           else
             let s = bu_snapshot b; es = ss_entries s
             in Inr \<lparr>rp_session = (case ma_session (bu_manifest b) of
                         Some os \<Rightarrow> os | None \<Rightarrow> new_ocf_session (se_key se) None),
                     rp_restored_working_state = render_snapshot s,
                     rp_goal = content_of (case List.find (\<lambda>e. sn_id e = ''anchor-task'') es of
                         Some e \<Rightarrow> Some e
                       | None \<Rightarrow> List.find (\<lambda>e. sn_slot e = ''task-state'') es),
                     rp_invariants = map sn_content (filter (\<lambda>e. sn_slot e = ''constraint'') es),
                     rp_last_failed_check =
                       content_of (List.find (\<lambda>e. sn_id e = ''last-failed-check'') es),
                     rp_sources = fold (\<lambda>e sources. if source_of e \<in> set sources then sources
                                        else sources @ [source_of e]) es [],
                     rp_schema = ss_schema s, rp_snapshot = s\<rparr>))"

end
