(* ===== verification/Bundle_Properties.thy ===== *)
theory Bundle_Properties
  imports Bundle Headgate_Properties
begin

text \<open>
  What a bundle carries over: the committed state in and out of a snapshot, the hand-over of a
  session between agents, the native directory, what validation does and does not check, and the
  resume packet.
\<close>

section \<open>Snapshots\<close>

lemma fold_admit:
  "fold (\<lambda>e cs. admit cs (f e)) es cs = cs\<lparr>cc_entries := cc_entries cs @ map f es\<rparr>"
  by (induction es arbitrary: cs) (simp_all add: admit_def)

lemma validate_ok:
  "validate b = Inr () \<longleftrightarrow> ma_format (bu_manifest b) = bundle_format
     \<and> version_compatible (ma_version (bu_manifest b))
     \<and> sum_list (map sn_tokens (ss_entries (bu_snapshot b))) = ss_token_count (bu_snapshot b)"
  by (auto simp: validate_def Let_def)

lemma version_examples [simp]:
  "version_compatible ''0.1''" "version_compatible bundle_version"
  by (simp_all add: version_compatible_def major_version_def bundle_version_def)

text \<open>A committed state that is put into a bundle comes out of it as it was, entry for entry, and the
  bundle passes validation.\<close>

theorem committed_state_survives_a_bundle:
  "to_ccs (new_bundle now (from_ccs cs) events) = cs
    \<and> validate (new_bundle now (from_ccs cs) events) = Inr ()"
proof
  have "entry_of (snapshot_of e) = e" for e
    by (cases e) (simp add: snapshot_of_def entry_of_def)
  then show "to_ccs (new_bundle now (from_ccs cs) events) = cs"
    by (cases cs) (simp add: to_ccs_def new_bundle_def from_ccs_def fold_admit new_ccs_def comp_def)
  show "validate (new_bundle now (from_ccs cs) events) = Inr ()"
    by (simp add: validate_ok new_bundle_def inline_manifest_def from_ccs_def token_count_def
        snapshot_of_def comp_def)
qed

section \<open>Hand-over\<close>

text \<open>What the JSON package documents: what is printed is read back.\<close>

definition ocf_codec_ok :: "'j ocf_codec \<Rightarrow> bool" where
  "ocf_codec_ok c \<longleftrightarrow> (\<forall>m. oc_read_manifest c (oc_manifest c m) = Inr m)
     \<and> (\<forall>s. oc_read_schema c (oc_schema c s) = Inr s)
     \<and> (\<forall>s. oc_read_snapshot c (oc_snapshot c s) = Inr s)"

lemma slot_names [simp]: "map ol_name (map (\<lambda>name. \<lparr>ol_name = name, ol_description = None\<rparr>) xs) = xs"
  by (simp add: comp_def)

lemma documents_round_trip:
  assumes "validate b = Inr ()"
  shows "bundle_from_documents (ocf_manifest_of b) (ocf_schema_of b) (ocf_snapshot_of b) =
    Inr (b\<lparr>bu_lifecycle := []\<rparr>\<lparr>bu_manifest := (bu_manifest b)\<lparr>ma_version := bundle_version\<rparr>\<rparr>)"
proof -
  have "(case (case ma_unit_ref (bu_manifest b) of Some r \<Rightarrow> [r] | None \<Rightarrow> []) of
      r # _ \<Rightarrow> Some r | [] \<Rightarrow> None) = ma_unit_ref (bu_manifest b)"
    by (simp split: option.split)
  then have eq: "\<lparr>bu_manifest = \<lparr>ma_format = bundle_format, ma_version = bundle_version,
        ma_agent_id = om_agent_id (ocf_manifest_of b), ma_session = om_session (ocf_manifest_of b),
        ma_created_at = om_created (ocf_manifest_of b), ma_unit_source = om_unit_source (ocf_manifest_of b),
        ma_unit_ref = (case om_unit_refs (ocf_manifest_of b) of r # _ \<Rightarrow> Some r | [] \<Rightarrow> None)\<rparr>,
      bu_snapshot = \<lparr>ss_schema = map ol_name (oh_slots (ocf_schema_of b)),
        ss_budget_tokens = ot_budget_tokens (ocf_snapshot_of b),
        ss_token_count = ot_token_count (ocf_snapshot_of b), ss_entries = ot_entries (ocf_snapshot_of b)\<rparr>,
      bu_lifecycle = []\<rparr>
    = b\<lparr>bu_lifecycle := []\<rparr>\<lparr>bu_manifest := (bu_manifest b)\<lparr>ma_version := bundle_version\<rparr>\<rparr>"
    using assms
    by (cases b, cases "bu_manifest b", cases "bu_snapshot b")
      (simp add: validate_ok ocf_manifest_of_def ocf_schema_of_def ocf_snapshot_of_def Let_def comp_def)
  have "validate (b\<lparr>bu_lifecycle := []\<rparr>\<lparr>bu_manifest := (bu_manifest b)\<lparr>ma_version := bundle_version\<rparr>\<rparr>)
    = Inr ()" using assms by (simp add: validate_ok)
  then show ?thesis unfolding bundle_from_documents_def Let_def eq by simp
qed

lemma normalize_again: "normalize_component (Some (normalize_component v)) = normalize_component v"
proof -
  have "trim ''default'' = ''default''" by code_simp
  then show ?thesis by (simp add: normalize_component_def split: option.split)
qed

lemma new_key_again:
  "new_session_key (Some (sk_user_id k)) (Some (sk_session_id k)) (Some (sk_task_id k)) = k"
  if "k = new_session_key u s t" for k u s t
  by (simp add: that new_session_key_def normalize_again)

lemma to_ocf_session_ok:
  assumes "validate b = Inr ()"
  shows "\<exists>se. to_ocf_session c now b key handed = Inr se \<and> se_key se = key
    \<and> se_manifest se = oc_manifest c (ocf_manifest_of (b\<lparr>bu_manifest :=
        (bu_manifest b)\<lparr>ma_agent_id := handed, ma_session := Some (new_ocf_session key handed)\<rparr>\<rparr>))
    \<and> se_schema se = oc_schema c (ocf_schema_of b) \<and> se_snapshot se = oc_snapshot c (ocf_snapshot_of b)"
proof -
  have "validate (b\<lparr>bu_manifest := (bu_manifest b)\<lparr>ma_agent_id := handed,
      ma_session := Some (new_ocf_session key handed)\<rparr>\<rparr>) = Inr ()"
    using assms by (simp add: validate_ok)
  then show ?thesis
    by (simp add: to_ocf_session_def ocf_schema_of_def ocf_snapshot_of_def Let_def)
qed

text \<open>C16: A valid bundle that is handed over under an address and read back under it holds the same
  snapshot, so that it resumes to the same committed state, and the manifest with the address and
  the producer filled in; only the lifecycle log stays behind. That is for an address made by its
  constructor, which trims its parts; under any other the hand-over succeeds and every reader
  refuses it.\<close>

theorem handover_restores_the_working_context:
  assumes "ocf_codec_ok c" and "validate b = Inr ()"
  shows "\<exists>se. to_ocf_session c now b key handed = Inr se \<and>
    (if new_session_key (Some (sk_user_id key)) (Some (sk_session_id key)) (Some (sk_task_id key)) = key
     then \<exists>b'. from_ocf_session c se = Inr b' \<and> bu_snapshot b' = bu_snapshot b \<and> to_ccs b' = to_ccs b
        \<and> bu_lifecycle b' = [] \<and> ma_session (bu_manifest b') = Some (new_ocf_session key handed)
        \<and> ma_agent_id (bu_manifest b') = handed \<and> ma_unit_ref (bu_manifest b') = ma_unit_ref (bu_manifest b)
        \<and> ma_created_at (bu_manifest b') = ma_created_at (bu_manifest b)
     else from_ocf_session c se =
       Inl (Format_error ''OCF manifest session does not match stored session key''))"
proof -
  let ?b = "b\<lparr>bu_manifest := (bu_manifest b)\<lparr>ma_agent_id := handed,
    ma_session := Some (new_ocf_session key handed)\<rparr>\<rparr>"
  obtain se where se: "to_ocf_session c now b key handed = Inr se" "se_key se = key"
    "se_manifest se = oc_manifest c (ocf_manifest_of ?b)" "se_schema se = oc_schema c (ocf_schema_of b)"
    "se_snapshot se = oc_snapshot c (ocf_snapshot_of b)" using to_ocf_session_ok [OF assms(2)] by blast
  have docs: "bundle_from_documents (ocf_manifest_of ?b) (ocf_schema_of b) (ocf_snapshot_of b) =
      Inr (?b\<lparr>bu_lifecycle := []\<rparr>\<lparr>bu_manifest := (bu_manifest ?b)\<lparr>ma_version := bundle_version\<rparr>\<rparr>)"
    using documents_round_trip [of ?b] assms(2)
    by (simp add: validate_ok ocf_schema_of_def ocf_snapshot_of_def)
  have fields: "om_ocf_version (ocf_manifest_of ?b) = ''0.1''"
    "om_session (ocf_manifest_of ?b) = Some (new_ocf_session key handed)"
    "ocf_session_key (new_ocf_session key handed) =
      new_session_key (Some (sk_user_id key)) (Some (sk_session_id key)) (Some (sk_task_id key))"
    by (simp_all add: ocf_manifest_of_def Let_def ocf_session_key_def new_ocf_session_def)
  have "from_ocf_session c se = (if new_session_key (Some (sk_user_id key)) (Some (sk_session_id key))
        (Some (sk_task_id key)) \<noteq> key
      then Inl (Format_error ''OCF manifest session does not match stored session key'')
      else bundle_from_documents (ocf_manifest_of ?b) (ocf_schema_of b) (ocf_snapshot_of b))"
    using assms(1) se(2-) by (simp add: from_ocf_session_def fields ocf_codec_ok_def)
  then show ?thesis using se(1) unfolding docs by (auto simp: to_ccs_def)
qed

text \<open>A codec for which the documents are the JSON.\<close>

type_synonym document = "ocf_manifest + ocf_schema_file + ocf_snapshot_file + qualify_record"

definition identity_codec :: "document ocf_codec" where
  "identity_codec =
     \<lparr>oc_manifest = Inl, oc_schema = (\<lambda>s. Inr (Inl s)), oc_snapshot = (\<lambda>s. Inr (Inr (Inl s))),
      oc_qualify = (\<lambda>q. Inr (Inr (Inr q))),
      oc_read_manifest = (\<lambda>j. case j of Inl m \<Rightarrow> Inr m | Inr _ \<Rightarrow> Inl ''missing field''),
      oc_read_schema = (\<lambda>j. case j of Inr (Inl s) \<Rightarrow> Inr s | _ \<Rightarrow> Inl ''missing field''),
      oc_read_snapshot = (\<lambda>j. case j of Inr (Inr (Inl s)) \<Rightarrow> Inr s | _ \<Rightarrow> Inl ''missing field'')\<rparr>"

lemma identity_codec_ok: "ocf_codec_ok identity_codec"
  by (simp add: ocf_codec_ok_def identity_codec_def)

definition demo_bundle :: working_bundle where
  "demo_bundle = new_bundle 7 (from_ccs (cy_ccs demo_state)) [commit_event 7 ''a'']"

theorem handover_witness:
  "\<exists>se. to_ocf_session identity_codec 9 demo_bundle
        (new_session_key (Some '' ann '') None (Some ''t1'')) (Some ''codex'') = Inr se
    \<and> (\<exists>b'. from_ocf_session identity_codec se = Inr b' \<and> to_ccs b' = cy_ccs demo_state)
    \<and> (\<exists>se'. to_ocf_session identity_codec 9 demo_bundle
          \<lparr>sk_user_id = '' ann '', sk_session_id = ''default'', sk_task_id = ''t1''\<rparr> None = Inr se'
        \<and> from_ocf_session identity_codec se' =
            Inl (Format_error ''OCF manifest session does not match stored session key''))"
proof -
  have ok: "validate demo_bundle = Inr ()" "to_ccs demo_bundle = cy_ccs demo_state"
    using committed_state_survives_a_bundle by (simp_all add: demo_bundle_def)
  have "trim '' ann '' = ''ann''" by code_simp
  then have odd: "new_session_key (Some '' ann '') (Some ''default'') (Some ''t1'') \<noteq>
      \<lparr>sk_user_id = '' ann '', sk_session_id = ''default'', sk_task_id = ''t1''\<rparr>"
    by (simp add: new_session_key_def normalize_component_def)
  show ?thesis
    using handover_restores_the_working_context [OF identity_codec_ok ok(1), of 9
        "new_session_key (Some '' ann '') None (Some ''t1'')" "Some ''codex''"]
      handover_restores_the_working_context [OF identity_codec_ok ok(1), of 9
        "\<lparr>sk_user_id = '' ann '', sk_session_id = ''default'', sk_task_id = ''t1''\<rparr>" None]
      new_key_again [OF refl, of "Some '' ann ''" None "Some ''t1''"] odd ok(2)
    by auto
qed

section \<open>The native directory\<close>

definition dir_codec_reads :: "dir_codec \<Rightarrow> working_bundle \<Rightarrow> bool" where
  "dir_codec_reads c b \<longleftrightarrow> dc_read_manifest c (dc_manifest c (bu_manifest b)) = Inr (bu_manifest b)
     \<and> dc_read_snapshot c (dc_snapshot c (bu_snapshot b)) = Inr (bu_snapshot b)
     \<and> list_all (\<lambda>v. dc_read_event c (dc_event c v) = Inr v \<and> trim (dc_event c v) \<noteq> []
          \<and> CHR 0x0A \<notin> set (dc_event c v) \<and> CHR 0x0D \<notin> set (dc_event c v)) (bu_lifecycle b)"

lemma lines_aux_line:
  "CHR 0x0A \<notin> set s \<Longrightarrow> lines_aux acc (s @ LF @ rest) = strip_cr (rev acc @ s) # lines_aux [] rest"
  by (induction s arbitrary: acc) (auto simp: LF_def)

lemma lines_of_lines:
  assumes "\<And>x. x \<in> set xs \<Longrightarrow> CHR 0x0A \<notin> set (f x) \<and> CHR 0x0D \<notin> set (f x)"
  shows "lines (concat (map (\<lambda>x. f x @ LF) xs)) = map f xs"
proof -
  have "strip_cr (f x) = f x" if "x \<in> set xs" for x
    using assms [OF that] by (metis last_in_set strip_cr_def)
  then show ?thesis
    using assms by (induction xs) (simp_all add: lines_def lines_aux_line)
qed

lemma read_events_map:
  "(\<And>v. v \<in> set vs \<Longrightarrow> decode (f v) = Inr v) \<Longrightarrow> read_events decode (map f vs) = Inr vs"
  by (induction vs) simp_all

text \<open>A valid bundle that is written to a directory, whatever was in it before, is read back entire,
  lifecycle log included.\<close>

theorem directory_round_trip:
  assumes "dir_codec_reads c b" and "validate b = Inr ()"
  shows "read_dir c (write_dir c b dir) = Inr b"
proof -
  have "lines (concat (map (\<lambda>v. dc_event c v @ LF) (bu_lifecycle b))) = map (dc_event c) (bu_lifecycle b)"
    using assms(1) by (intro lines_of_lines) (auto simp: dir_codec_reads_def list_all_iff)
  moreover have "filter (\<lambda>line. trim line \<noteq> []) (map (dc_event c) (bu_lifecycle b))
      = map (dc_event c) (bu_lifecycle b)"
    using assms(1) by (auto simp: filter_id_conv dir_codec_reads_def list_all_iff)
  ultimately have "read_events (dc_read_event c) (filter (\<lambda>line. trim line \<noteq> [])
      (lines (concat (map (\<lambda>v. dc_event c v @ LF) (bu_lifecycle b))))) = Inr (bu_lifecycle b)"
    using assms(1) by (simp add: read_events_map dir_codec_reads_def list_all_iff)
  then show ?thesis
    using assms by (cases b) (simp add: read_dir_def write_dir_def read_file_def dir_codec_reads_def Let_def)
qed

definition demo_dir_codec :: dir_codec where
  "demo_dir_codec =
     \<lparr>dc_manifest = (\<lambda>m. ''manifest''), dc_snapshot = (\<lambda>s. ''snapshot''), dc_event = (\<lambda>v. ''event''),
      dc_read_manifest = (\<lambda>t. Inr (bu_manifest demo_bundle)),
      dc_read_snapshot = (\<lambda>t. Inr (bu_snapshot demo_bundle)),
      dc_read_event = (\<lambda>t. Inr (commit_event 7 ''a'')), dc_rfc3339 = (\<lambda>n. show_nat n)\<rparr>"

theorem directory_round_trip_witness:
  "read_dir demo_dir_codec (write_dir demo_dir_codec demo_bundle Map.empty) = Inr demo_bundle"
proof (rule directory_round_trip)
  have "trim ''event'' = ''event''" by code_simp
  then show "dir_codec_reads demo_dir_codec demo_bundle"
    by (simp add: dir_codec_reads_def demo_dir_codec_def demo_bundle_def new_bundle_def)
  show "validate demo_bundle = Inr ()"
    using committed_state_survives_a_bundle by (simp add: demo_bundle_def)
qed

section \<open>What validation leaves open\<close>

text \<open>Validation checks the format, the major version and that the declared total is the sum of the
  declared token counts, and nothing of the budget or of the contents: whatever entries a bundle
  holds, it can be valid and resume to a state above its budget, and it can be valid and resume to a
  state that counts nothing.\<close>

theorem resumed_state_may_break_its_budget:
  "let s = \<lparr>ss_schema = [''fact''], ss_budget_tokens = 10, ss_token_count = 50,
         ss_entries = [(snapshot_of (demo_entry ''a'' content 1))\<lparr>sn_tokens := 50\<rparr>]\<rparr>;
       over = new_bundle now s [];
       free = new_bundle now (s\<lparr>ss_token_count := 0,
         ss_entries := [(snapshot_of (demo_entry ''a'' content 1))\<lparr>sn_tokens := 0\<rparr>]\<rparr>) []
   in validate over = Inr () \<and> token_count (to_ccs over) > cc_budget_tokens (to_ccs over)
    \<and> validate free = Inr () \<and> headroom (to_ccs free) = cc_budget_tokens (to_ccs free)
    \<and> map ce_content (cc_entries (to_ccs free)) = [content]"
  by (simp add: Let_def validate_ok new_bundle_def inline_manifest_def to_ccs_def fold_admit new_ccs_def
      token_count_def headroom_def entry_of_def snapshot_of_def demo_entry_def new_entry_def)

section \<open>The resume packet\<close>

lemma sources_fold:
  assumes "distinct acc"
  shows "distinct (fold (\<lambda>e acc. if f e \<in> set acc then acc else acc @ [f e]) es acc)
    \<and> set (fold (\<lambda>e acc. if f e \<in> set acc then acc else acc @ [f e]) es acc) = set acc \<union> f ` set es"
  using assms
proof (induction es arbitrary: acc)
  case (Cons e es)
  show ?case
    using Cons.IH [of "if f e \<in> set acc then acc else acc @ [f e]"] Cons.prems by auto
qed simp

text \<open>A session resumes only if every entry is filed under a declared slot; the packet then names the
  task anchor, or without one the first task state, as its goal, carries every constraint in order,
  and names each source of an entry exactly once.\<close>

theorem resume_packet_is_complete:
  assumes "resume_packet_from_session c se = Inr p"
  shows "(\<forall>e \<in> set (ss_entries (rp_snapshot p)). sn_slot e \<in> set (ss_schema (rp_snapshot p)))
    \<and> distinct (rp_sources p) \<and> set (rp_sources p) = source_of ` set (ss_entries (rp_snapshot p))
    \<and> rp_invariants p = map sn_content (filter (\<lambda>e. sn_slot e = ''constraint'') (ss_entries (rp_snapshot p)))
    \<and> (rp_goal p = None \<longleftrightarrow> (\<forall>e \<in> set (ss_entries (rp_snapshot p)).
         sn_id e \<noteq> ''anchor-task'' \<and> sn_slot e \<noteq> ''task-state''))
    \<and> (\<exists>b. from_ocf_session c se = Inr b \<and> bu_snapshot b = rp_snapshot p
           \<and> rp_restored_working_state p = render_snapshot (bu_snapshot b))"
proof -
  obtain b where b: "from_ocf_session c se = Inr b" "schema_issues b = []"
    using assms by (auto simp: resume_packet_from_session_def split: sum.splits if_splits)
  have p: "rp_snapshot p = bu_snapshot b"
    "rp_sources p = fold (\<lambda>e sources. if source_of e \<in> set sources then sources
       else sources @ [source_of e]) (ss_entries (bu_snapshot b)) []"
    "rp_invariants p = map sn_content (filter (\<lambda>e. sn_slot e = ''constraint'') (ss_entries (bu_snapshot b)))"
    "rp_goal p = content_of (case List.find (\<lambda>e. sn_id e = ''anchor-task'') (ss_entries (bu_snapshot b)) of
       Some e \<Rightarrow> Some e | None \<Rightarrow> List.find (\<lambda>e. sn_slot e = ''task-state'') (ss_entries (bu_snapshot b)))"
    "rp_restored_working_state p = render_snapshot (bu_snapshot b)"
    using assms b by (auto simp: resume_packet_from_session_def Let_def)
  have "\<forall>e \<in> set (ss_entries (bu_snapshot b)). sn_slot e \<in> set (ss_schema (bu_snapshot b))"
    using b(2) by (auto simp: schema_issues_def filter_empty_conv list_ex_iff)
  then show ?thesis
    using sources_fold [of "[]" source_of "ss_entries (bu_snapshot b)"] b(1)
    by (auto simp: p content_of_def find_None_iff split: option.splits dest: find_SomeD)
qed

definition demo_session :: "document session" where
  "demo_session = (case to_ocf_session identity_codec 9 demo_bundle default_session_key None of
     Inr se \<Rightarrow> se | Inl _ \<Rightarrow> undefined)"

theorem resume_packet_witness:
  "\<exists>p. resume_packet_from_session identity_codec demo_session = Inr p
    \<and> distinct (rp_sources p) \<and> set (rp_sources p) = {''a'', ''b''} \<and> rp_goal p = None"
proof -
  have "case resume_packet_from_session identity_codec demo_session of
      Inr p \<Rightarrow> map source_of (ss_entries (rp_snapshot p)) = [''a'', ''b''] \<and> rp_goal p = None
    | Inl _ \<Rightarrow> False"
    by code_simp
  then obtain p where p: "resume_packet_from_session identity_codec demo_session = Inr p"
    "map source_of (ss_entries (rp_snapshot p)) = [''a'', ''b'']" "rp_goal p = None"
    by (auto split: sum.splits)
  then have "source_of ` set (ss_entries (rp_snapshot p)) = {''a'', ''b''}" by (metis list.set(1,2) list.set_map)
  with resume_packet_is_complete [OF p(1)] p show ?thesis by auto
qed

end
