(* ===== verification/Savings.thy ===== *)
theory Savings
  imports Gates
begin

text \<open>
  The token-savings statistics of crates/headgate/src/savings.rs: an append-only log of entries and a
  compact rollup that is read, updated and written with every entry. The counters of the rollup are
  machine words. The directory is the list of the log's lines, each the entry it parses to or
  nothing, and the rollup if its file is there and readable; a time is a natural number.
\<close>

section \<open>Entries and rollup\<close>

record savings_entry =
  sv_ts :: nat
  sv_op :: string
  sv_collection :: string
  sv_returned_tokens :: nat
  sv_baseline_tokens :: nat
  sv_saved_tokens :: nat
  sv_session_id :: "string option"
  sv_judge_costs :: "judge_token_cost list"

definition new_savings_entry ::
  "nat \<Rightarrow> string \<Rightarrow> string \<Rightarrow> nat \<Rightarrow> nat \<Rightarrow> string option \<Rightarrow> judge_token_cost list \<Rightarrow> savings_entry" where
  "new_savings_entry now op coll returned baseline session costs =
     \<lparr>sv_ts = now, sv_op = op, sv_collection = coll, sv_returned_tokens = returned,
      sv_baseline_tokens = baseline, sv_saved_tokens = baseline - returned,
      sv_session_id = session, sv_judge_costs = costs\<rparr>"

record op_savings =
  op_calls :: u64
  op_returned_total :: u64
  op_baseline_total :: u64
  op_saved_total :: u64

definition no_op_savings :: op_savings where
  "no_op_savings = \<lparr>op_calls = 0, op_returned_total = 0, op_baseline_total = 0, op_saved_total = 0\<rparr>"

record judge_cost_savings =
  jg_calls :: u64
  jg_prompt_total :: u64
  jg_completion_total :: u64
  jg_total_tokens :: u64

definition no_judge_savings :: judge_cost_savings where
  "no_judge_savings =
     \<lparr>jg_calls = 0, jg_prompt_total = 0, jg_completion_total = 0, jg_total_tokens = 0\<rparr>"

record rollup =
  ru_calls :: u64
  ru_returned_total :: u64
  ru_baseline_total :: u64
  ru_saved_total :: u64
  ru_by_op :: "string \<rightharpoonup> op_savings"
  ru_by_session :: "string \<rightharpoonup> op_savings"
  ru_judge_cost_total :: u64
  ru_by_judge :: "string \<rightharpoonup> judge_cost_savings"
  ru_first_ts :: "nat option"
  ru_last_ts :: "nat option"

definition empty_rollup :: rollup where
  "empty_rollup =
     \<lparr>ru_calls = 0, ru_returned_total = 0, ru_baseline_total = 0, ru_saved_total = 0,
      ru_by_op = Map.empty, ru_by_session = Map.empty, ru_judge_cost_total = 0,
      ru_by_judge = Map.empty, ru_first_ts = None, ru_last_ts = None\<rparr>"

definition accumulate_savings :: "savings_entry \<Rightarrow> op_savings \<Rightarrow> op_savings" where
  "accumulate_savings e s =
     s\<lparr>op_calls := op_calls s + 1,
       op_returned_total := op_returned_total s + of_nat (sv_returned_tokens e),
       op_baseline_total := op_baseline_total s + of_nat (sv_baseline_tokens e),
       op_saved_total := op_saved_total s + of_nat (sv_saved_tokens e)\<rparr>"

text \<open>\<open>entry(k).or_default()\<close> of a map, updated in place.\<close>

definition upsert :: "'a \<Rightarrow> ('a \<Rightarrow> 'a) \<Rightarrow> string \<Rightarrow> (string \<rightharpoonup> 'a) \<Rightarrow> (string \<rightharpoonup> 'a)" where
  "upsert d f k m = m(k \<mapsto> f (case m k of Some v \<Rightarrow> v | None \<Rightarrow> d))"

definition charge_judge :: "judge_token_cost \<Rightarrow> rollup \<Rightarrow> rollup" where
  "charge_judge c r =
     r\<lparr>ru_judge_cost_total := ru_judge_cost_total r + of_nat (jc_total_tokens c),
       ru_by_judge := upsert no_judge_savings
         (\<lambda>j. j\<lparr>jg_calls := jg_calls j + 1,
                jg_prompt_total := jg_prompt_total j + of_nat (jc_prompt_tokens c),
                jg_completion_total := jg_completion_total j + of_nat (jc_completion_tokens c),
                jg_total_tokens := jg_total_tokens j + of_nat (jc_total_tokens c)\<rparr>)
         (jc_judge c) (ru_by_judge r)\<rparr>"

definition apply_entry :: "savings_entry \<Rightarrow> rollup \<Rightarrow> rollup" where
  "apply_entry e r =
     (let r = r\<lparr>ru_calls := ru_calls r + 1,
                ru_returned_total := ru_returned_total r + of_nat (sv_returned_tokens e),
                ru_baseline_total := ru_baseline_total r + of_nat (sv_baseline_tokens e),
                ru_saved_total := ru_saved_total r + of_nat (sv_saved_tokens e),
                ru_first_ts := (case ru_first_ts r of None \<Rightarrow> Some (sv_ts e) | Some t \<Rightarrow> Some t),
                ru_last_ts := Some (sv_ts e),
                ru_by_op := upsert no_op_savings (accumulate_savings e) (sv_op e) (ru_by_op r)\<rparr>;
          r = (case sv_session_id e of
                 Some s \<Rightarrow>
                   if trim s \<noteq> []
                   then r\<lparr>ru_by_session :=
                            upsert no_op_savings (accumulate_savings e) (trim s) (ru_by_session r)\<rparr>
                   else r
               | None \<Rightarrow> r)
      in fold charge_judge (sv_judge_costs e) r)"

section \<open>The statistics directory\<close>

record stats_dir =
  sd_log :: "savings_entry option list"
  sd_rollup :: "rollup option"

definition empty_stats :: stats_dir where
  "empty_stats = \<lparr>sd_log = [], sd_rollup = None\<rparr>"

definition try_write_savings :: "savings_entry \<Rightarrow> stats_dir \<Rightarrow> stats_dir" where
  "try_write_savings e d =
     d\<lparr>sd_log := sd_log d @ [Some e],
       sd_rollup := Some (apply_entry e
         (case sd_rollup d of Some r \<Rightarrow> r | None \<Rightarrow> empty_rollup))\<rparr>"

definition record_savings :: "bool \<Rightarrow> savings_entry \<Rightarrow> stats_dir \<Rightarrow> stats_dir" where
  "record_savings track e d = (if track then try_write_savings e d else d)"

fun aggregate_from_log :: "savings_entry option list \<Rightarrow> nat option \<Rightarrow> rollup \<Rightarrow> rollup" where
  "aggregate_from_log [] since r = r"
| "aggregate_from_log (None # ls) since r = aggregate_from_log ls since r"
| "aggregate_from_log (Some e # ls) since r =
     (case since of
        Some t \<Rightarrow> if sv_ts e < t then aggregate_from_log ls since r
                  else aggregate_from_log ls since (apply_entry e r)
      | None \<Rightarrow> aggregate_from_log ls since (apply_entry e r))"

definition load_rollup :: "nat option \<Rightarrow> stats_dir \<Rightarrow> rollup" where
  "load_rollup since d =
     (case (since, sd_rollup d) of
        (None, Some r) \<Rightarrow> r
      | _ \<Rightarrow> aggregate_from_log (sd_log d) since empty_rollup)"

section \<open>Rollup and log agree\<close>

lemma aggregate_append:
  "aggregate_from_log (ls @ ls') since r = aggregate_from_log ls' since (aggregate_from_log ls since r)"
  by (induction ls since r rule: aggregate_from_log.induct) (auto split: option.splits)

lemma aggregate_entries:
  "aggregate_from_log (map Some es) since r =
    fold apply_entry (filter (\<lambda>e. case since of Some t \<Rightarrow> t \<le> sv_ts e | None \<Rightarrow> True) es) r"
  by (induction es arbitrary: r) (auto split: option.splits)

definition recorded :: "savings_entry list \<Rightarrow> stats_dir" where
  "recorded es = fold (record_savings True) es empty_stats"

lemma recorded_snoc [simp]: "recorded (es @ [e]) = try_write_savings e (recorded es)"
  by (simp add: recorded_def record_savings_def)

lemma recorded_dir:
  "sd_log (recorded es) = map Some es
    \<and> sd_rollup (recorded es) = (if es = [] then None else Some (fold apply_entry es empty_rollup))"
proof (induction es rule: rev_induct)
  case Nil
  then show ?case by (simp add: recorded_def empty_stats_def)
qed (auto simp: try_write_savings_def)

text \<open>C35: The rollup that is read at once is the one that the whole log aggregates to, after any
  recordings in a fresh directory, and the filtered reading is that of the entries from the given
  time on.\<close>

theorem rollup_is_the_aggregate_of_the_log:
  "load_rollup None (recorded es) = aggregate_from_log (sd_log (recorded es)) None empty_rollup
    \<and> load_rollup (Some t) (recorded es) = fold apply_entry (filter (\<lambda>e. t \<le> sv_ts e) es) empty_rollup"
  using recorded_dir [of es]
  by (auto simp: load_rollup_def aggregate_entries split: option.splits)

text \<open>A rollup file that is lost or damaged is started again from nothing, while the log that could
  restore it is there: all that was recorded before is missing from the totals from the next entry
  on, though not from a reading with a start time.\<close>

theorem lost_rollup_forgets_the_log:
  "load_rollup None (try_write_savings e ((recorded es)\<lparr>sd_rollup := None\<rparr>)) = apply_entry e empty_rollup
    \<and> load_rollup (Some 0) (try_write_savings e ((recorded es)\<lparr>sd_rollup := None\<rparr>)) =
        fold apply_entry (es @ [e]) empty_rollup"
  using recorded_dir [of es]
  by (simp add: load_rollup_def try_write_savings_def aggregate_append aggregate_entries)

section \<open>The parts add up\<close>

definition total_of :: "('a \<Rightarrow> u64) \<Rightarrow> (string \<rightharpoonup> 'a) \<Rightarrow> u64" where
  "total_of f m = (\<Sum>k \<in> dom m. f (the (m k)))"

lemma total_upsert:
  assumes "finite (dom m)" and "f d = 0" and "\<And>v. f (g v) = f v + x"
  shows "total_of f (upsert d g k m) = total_of f m + x"
proof (cases "m k")
  case None
  then have "k \<notin> dom m" by auto
  moreover have "dom (upsert d g k m) = insert k (dom m)" by (auto simp: upsert_def)
  moreover have "(\<Sum>j \<in> dom m. f (the (upsert d g k m j))) = (\<Sum>j \<in> dom m. f (the (m j)))"
    using \<open>k \<notin> dom m\<close> by (intro sum.cong) (auto simp: upsert_def)
  ultimately show ?thesis
    using assms None by (simp add: total_of_def) (simp add: upsert_def)
next
  case (Some v)
  then have k: "k \<in> dom m" by auto
  have "dom (upsert d g k m) = dom m" using k by (auto simp: upsert_def)
  moreover have "(\<Sum>j \<in> dom m - {k}. f (the (upsert d g k m j))) = (\<Sum>j \<in> dom m - {k}. f (the (m j)))"
    by (intro sum.cong) (auto simp: upsert_def)
  ultimately show ?thesis
    using assms Some k by (simp add: total_of_def sum.remove [of _ k]) (simp add: upsert_def)
qed

lemma upsert_dom [simp]: "dom (upsert d g k m) = insert k (dom m)"
  by (auto simp: upsert_def)

definition rollup_adds_up :: "rollup \<Rightarrow> bool" where
  "rollup_adds_up r \<longleftrightarrow> finite (dom (ru_by_op r)) \<and> finite (dom (ru_by_judge r))
     \<and> total_of op_calls (ru_by_op r) = ru_calls r
     \<and> total_of op_returned_total (ru_by_op r) = ru_returned_total r
     \<and> total_of op_baseline_total (ru_by_op r) = ru_baseline_total r
     \<and> total_of op_saved_total (ru_by_op r) = ru_saved_total r
     \<and> total_of jg_total_tokens (ru_by_judge r) = ru_judge_cost_total r"

lemma charge_judge_adds_up: "rollup_adds_up r \<Longrightarrow> rollup_adds_up (charge_judge c r)"
  by (auto simp: rollup_adds_up_def charge_judge_def no_judge_savings_def
      total_upsert [where f = jg_total_tokens and x = "of_nat (jc_total_tokens c)"])

lemma charge_judges_add_up: "rollup_adds_up r \<Longrightarrow> rollup_adds_up (fold charge_judge cs r)"
  by (induction cs arbitrary: r) (simp_all add: charge_judge_adds_up)

lemma apply_entry_adds_up: "rollup_adds_up r \<Longrightarrow> rollup_adds_up (apply_entry e r)"
  unfolding apply_entry_def Let_def
  by (intro charge_judges_add_up)
    (auto simp: rollup_adds_up_def no_op_savings_def accumulate_savings_def
      total_upsert [where f = op_calls and x = 1]
      total_upsert [where f = op_returned_total and x = "of_nat (sv_returned_tokens e)"]
      total_upsert [where f = op_baseline_total and x = "of_nat (sv_baseline_tokens e)"]
      total_upsert [where f = op_saved_total and x = "of_nat (sv_saved_tokens e)"] split: option.split)

text \<open>In the machine arithmetic of its counters, the totals of a rollup are the sums over its
  operations, and the judges' cost is the sum over its judges, after any recordings.\<close>

theorem rollup_totals_are_sums:
  "rollup_adds_up (load_rollup since (recorded es))"
proof -
  have "rollup_adds_up (fold apply_entry es r)" if "rollup_adds_up r" for es r
    using that by (induction es arbitrary: r) (simp_all add: apply_entry_adds_up)
  moreover have "rollup_adds_up empty_rollup"
    by (simp add: rollup_adds_up_def empty_rollup_def total_of_def)
  ultimately show ?thesis
    using recorded_dir [of es]
    by (auto simp: load_rollup_def aggregate_entries split: option.splits)
qed

end
