(* ===== verification/Lane_Lock.thy ===== *)
theory Lane_Lock
  imports Prelude
begin

text \<open>
  The session lane lock of crates/aquifer/src/lane_lock.rs: a lock file per lane, created with
  \<open>create_new\<close>, and removed by whoever finds that its owner is not alive. The processes are
  interleaved at the system calls: create, write, read, the check whether the owner is alive, and
  remove. A process that timed out or released the lane may ask for it again. A file has an identity, since a process writes to the file it opened and removes whatever
  stands under the path. A process may die at any point; process ids are not reused.
\<close>

section \<open>Lane names\<close>

definition lane_char :: "char \<Rightarrow> bool" where
  "lane_char c \<longleftrightarrow> is_ascii_alphanumeric c \<or> c = CHR ''-'' \<or> c = CHR ''_''"

text \<open>One character of the input, of one byte or of several, is one character of the output.\<close>

definition sanitize_lane_part :: "string \<Rightarrow> string" where
  "sanitize_lane_part input =
     (let output = trim_dashes (map (\<lambda>c. if lane_char c then c else CHR ''-'')
                      (filter (\<lambda>c. \<not> utf8_cont c) input))
      in if output = [] then ''default'' else output)"

definition lane_name :: "string \<Rightarrow> string option \<Rightarrow> string" where
  "lane_name coll session =
     sanitize_lane_part coll @ ''__'' @
     sanitize_lane_part (case session of Some s \<Rightarrow> s | None \<Rightarrow> ''shared'')"

section \<open>The protocol\<close>

type_synonym pid = nat

datatype pc =
    Idle                    \<comment> \<open>about to create the file\<close>
  | Created nat             \<comment> \<open>has created the file of this identity and not written it\<close>
  | Holding nat             \<comment> \<open>has written its file: the guard exists\<close>
  | Reading                 \<comment> \<open>the file existed: about to read it\<close>
  | Judging pid             \<comment> \<open>has read an owner: about to check that it is alive\<close>
  | Removing                \<comment> \<open>the owner was not alive: about to remove the file\<close>
  | Waiting                 \<comment> \<open>before the time-out check and the sleep\<close>
  | Timed_out
  | Released

record lock_world =
  lw_file :: "(nat \<times> pid option) option"  \<comment> \<open>identity, and the owner once written\<close>
  lw_next :: nat
  lw_pc :: "pid \<Rightarrow> pc"
  lw_dead :: "pid list"

definition fresh_lock :: lock_world where
  "fresh_lock = \<lparr>lw_file = None, lw_next = 0, lw_pc = (\<lambda>p. Idle), lw_dead = []\<rparr>"

datatype lock_action =
    Create pid | Write_owner pid | Read_owner pid | Check_alive pid | Remove_stale pid
  | Retry pid | Time_out pid | Release pid | Die pid

fun actor :: "lock_action \<Rightarrow> pid" where
  "actor (Create p) = p" | "actor (Write_owner p) = p" | "actor (Read_owner p) = p"
| "actor (Check_alive p) = p" | "actor (Remove_stale p) = p" | "actor (Retry p) = p"
| "actor (Time_out p) = p" | "actor (Release p) = p" | "actor (Die p) = p"

definition goto :: "pid \<Rightarrow> pc \<Rightarrow> lock_world \<Rightarrow> lock_world" where
  "goto p x w = w\<lparr>lw_pc := (lw_pc w)(p := x)\<rparr>"

text \<open>\<open>remove_stale_lock\<close>: a file that is gone or does not parse is left; otherwise its owner counts.\<close>

definition read_owner :: "pid \<Rightarrow> lock_world \<Rightarrow> lock_world" where
  "read_owner p w =
     (case lw_file w of
        Some (_, Some q) \<Rightarrow> goto p (Judging q) w
      | _ \<Rightarrow> goto p Waiting w)"

text \<open>\<open>acquire\<close> up to its guard: the creation either succeeds or finds a file.\<close>

definition create_lock :: "pid \<Rightarrow> lock_world \<Rightarrow> lock_world" where
  "create_lock p w =
     (case lw_file w of
        None \<Rightarrow> goto p (Created (lw_next w)) w\<lparr>lw_file := Some (lw_next w, None), lw_next := lw_next w + 1\<rparr>
      | Some _ \<Rightarrow> goto p Reading w)"

definition write_owner :: "pid \<Rightarrow> nat \<Rightarrow> lock_world \<Rightarrow> lock_world" where
  "write_owner p i w =
     goto p (Holding i)
       (case lw_file w of
          Some (j, _) \<Rightarrow> if i = j then w\<lparr>lw_file := Some (i, Some p)\<rparr> else w
        | None \<Rightarrow> w)"

definition lock_step :: "lock_action \<Rightarrow> lock_world \<Rightarrow> lock_world option" where
  "lock_step a w =
     (if actor a \<in> set (lw_dead w) then None
      else case (a, lw_pc w (actor a)) of
        (Die p, _) \<Rightarrow> Some (w\<lparr>lw_dead := p # lw_dead w\<rparr>)
      | (Create p, Idle) \<Rightarrow> Some (create_lock p w)
      | (Write_owner p, Created i) \<Rightarrow> Some (write_owner p i w)
      | (Read_owner p, Reading) \<Rightarrow> Some (read_owner p w)
      | (Check_alive p, Judging q) \<Rightarrow>
          Some (goto p (if q \<in> set (lw_dead w) then Removing else Waiting) w)
      | (Remove_stale p, Removing) \<Rightarrow> Some (goto p Waiting (w\<lparr>lw_file := None\<rparr>))
      | (Retry p, Waiting) \<Rightarrow> Some (goto p Idle w)
      | (Retry p, Timed_out) \<Rightarrow> Some (goto p Idle w)
      | (Retry p, Released) \<Rightarrow> Some (goto p Idle w)
      | (Time_out p, Waiting) \<Rightarrow> Some (goto p Timed_out w)
      | (Release p, Holding _) \<Rightarrow> Some (goto p Released (w\<lparr>lw_file := None\<rparr>))
      | _ \<Rightarrow> None)"

text \<open>A run skips the actions that are not enabled.\<close>

fun lock_run :: "lock_action list \<Rightarrow> lock_world \<Rightarrow> lock_world" where
  "lock_run [] w = w"
| "lock_run (a # as) w = lock_run as (case lock_step a w of Some w' \<Rightarrow> w' | None \<Rightarrow> w)"

definition inside :: "lock_world \<Rightarrow> pid \<Rightarrow> bool" where
  "inside w p \<longleftrightarrow> (case lw_pc w p of Created _ \<Rightarrow> True | Holding _ \<Rightarrow> True | _ \<Rightarrow> False)"

section \<open>Facts\<close>

lemma goto_pc [simp]: "lw_pc (goto p x w) = (lw_pc w)(p := x)" "lw_file (goto p x w) = lw_file w"
  "lw_dead (goto p x w) = lw_dead w" "lw_next (goto p x w) = lw_next w"
  by (simp_all add: goto_def)

lemma lock_run_keeps:
  assumes "\<And>a w w'. I w \<Longrightarrow> lock_step a w = Some w' \<Longrightarrow> I w'" and "I w"
  shows "I (lock_run as w)"
  using assms(2) by (induction as arbitrary: w) (auto intro: assms(1) split: option.split)

lemma file_update [simp]: "lw_pc (w\<lparr>lw_file := f\<rparr>) = lw_pc w"
  by simp

lemma inside_goto: "inside (goto p x w) q \<longleftrightarrow>
    (if q = p then (case x of Created _ \<Rightarrow> True | Holding _ \<Rightarrow> True | _ \<Rightarrow> False) else inside w q)"
  by (simp add: inside_def)

lemma inside_upd [simp]: "inside (w\<lparr>lw_file := f\<rparr>) q = inside w q"
  "inside (w\<lparr>lw_file := f, lw_next := n\<rparr>) q = inside w q" "inside (w\<lparr>lw_dead := d\<rparr>) q = inside w q"
  by (simp_all add: inside_def)

text \<open>What a step does, by cases.\<close>

lemma lock_step_cases:
  assumes "lock_step a w = Some w'"
  obtains
    (died) p where "p \<notin> set (lw_dead w)" "w' = w\<lparr>lw_dead := p # lw_dead w\<rparr>"
  | (created) p where "p \<notin> set (lw_dead w)" "lw_pc w p = Idle" "lw_file w = None"
      "w' = goto p (Created (lw_next w)) (w\<lparr>lw_file := Some (lw_next w, None), lw_next := lw_next w + 1\<rparr>)"
  | (found) p where "p \<notin> set (lw_dead w)" "lw_pc w p = Idle" "lw_file w \<noteq> None" "w' = goto p Reading w"
  | (wrote) p i where "p \<notin> set (lw_dead w)" "lw_pc w p = Created i" "w' = write_owner p i w"
  | (judged) p i q where "p \<notin> set (lw_dead w)" "lw_pc w p = Reading" "lw_file w = Some (i, Some q)"
      "w' = goto p (Judging q) w"
  | (unparsed) p where "p \<notin> set (lw_dead w)" "lw_pc w p = Reading" "w' = goto p Waiting w"
  | (living) p q where "p \<notin> set (lw_dead w)" "lw_pc w p = Judging q" "q \<notin> set (lw_dead w)"
      "w' = goto p Waiting w"
  | (stale) p q where "p \<notin> set (lw_dead w)" "lw_pc w p = Judging q" "q \<in> set (lw_dead w)"
      "w' = goto p Removing w"
  | (removed) p where "p \<notin> set (lw_dead w)" "lw_pc w p = Removing"
      "w' = goto p Waiting (w\<lparr>lw_file := None\<rparr>)"
  | (retried) p where "p \<notin> set (lw_dead w)" "lw_pc w p \<in> {Waiting, Timed_out, Released}" "w' = goto p Idle w"
  | (gave_up) p where "p \<notin> set (lw_dead w)" "lw_pc w p = Waiting" "w' = goto p Timed_out w"
  | (released) p i where "p \<notin> set (lw_dead w)" "lw_pc w p = Holding i"
      "w' = goto p Released (w\<lparr>lw_file := None\<rparr>)"
proof -
  have alive: "actor a \<notin> set (lw_dead w)" using assms by (auto simp: lock_step_def split: if_splits)
  show thesis
  proof (cases a)
    case (Create p)
    with assms alive have "lw_pc w p = Idle" "w' = create_lock p w"
      by (auto simp: lock_step_def split: pc.splits)
    with Create alive show thesis
      by (cases "lw_file w") (auto simp: create_lock_def intro: created [of p] found [of p])
  next
    case (Write_owner p)
    with assms alive obtain i where "lw_pc w p = Created i" "w' = write_owner p i w"
      by (auto simp: lock_step_def split: pc.splits)
    with Write_owner alive show thesis by (auto intro: wrote [of p])
  next
    case (Read_owner p)
    with assms alive have "lw_pc w p = Reading" "w' = read_owner p w"
      by (auto simp: lock_step_def split: pc.splits)
    with Read_owner alive show thesis
      by (auto simp: read_owner_def intro: judged [of p] unparsed [of p] split: option.splits prod.splits)
  next
    case (Check_alive p)
    with assms alive obtain q where "lw_pc w p = Judging q"
      "w' = goto p (if q \<in> set (lw_dead w) then Removing else Waiting) w"
      by (auto simp: lock_step_def split: pc.splits)
    with Check_alive alive show thesis
      by (cases "q \<in> set (lw_dead w)") (auto intro: living [of p q] stale [of p q])
  next
    case (Remove_stale p)
    with assms alive have "lw_pc w p = Removing" "w' = goto p Waiting (w\<lparr>lw_file := None\<rparr>)"
      by (auto simp: lock_step_def split: pc.splits)
    with Remove_stale alive show thesis by (auto intro: removed [of p])
  next
    case (Retry p)
    with assms alive have "lw_pc w p \<in> {Waiting, Timed_out, Released}" "w' = goto p Idle w"
      by (auto simp: lock_step_def split: pc.splits)
    with Retry alive show thesis by (auto intro: retried [of p])
  next
    case (Time_out p)
    with assms alive have "lw_pc w p = Waiting" "w' = goto p Timed_out w"
      by (auto simp: lock_step_def split: pc.splits)
    with Time_out alive show thesis by (auto intro: gave_up [of p])
  next
    case (Release p)
    with assms alive obtain i where "lw_pc w p = Holding i" "w' = goto p Released (w\<lparr>lw_file := None\<rparr>)"
      by (auto simp: lock_step_def split: pc.splits)
    with Release alive show thesis by (auto intro: released [of p])
  next
    case (Die p)
    with assms alive have "w' = w\<lparr>lw_dead := p # lw_dead w\<rparr>" by (simp add: lock_step_def)
    with Die alive show thesis by (auto intro: died [of p])
  qed
qed

lemma write_owner_fields [simp]:
  "lw_pc (write_owner p i w) = (lw_pc w)(p := Holding i)" "lw_dead (write_owner p i w) = lw_dead w"
  "lw_file (write_owner p i w) = None \<longleftrightarrow> lw_file w = None"
  by (auto simp: write_owner_def split: option.split)

lemma dead_stay_dead: "lock_step a w = Some w' \<Longrightarrow> set (lw_dead w) \<subseteq> set (lw_dead w')"
  by (erule lock_step_cases) auto

lemma run_dead_mono: "set (lw_dead w) \<subseteq> set (lw_dead (lock_run as w))"
proof (induction as arbitrary: w)
  case (Cons a as)
  show ?case
  proof (cases "lock_step a w")
    case (Some w1)
    then show ?thesis using dead_stay_dead [OF Some] Cons.IH [of w1] by auto
  qed (use Cons.IH in simp)
qed simp

section \<open>Exclusion\<close>

text \<open>While nobody has died: at most one process is inside, and then the file is there.\<close>

definition exclusive :: "lock_world \<Rightarrow> bool" where
  "exclusive w \<longleftrightarrow> lw_dead w \<noteq> [] \<or>
     ((\<forall>p q. inside w p \<longrightarrow> inside w q \<longrightarrow> p = q) \<and> (\<forall>p. inside w p \<longrightarrow> lw_file w \<noteq> None)
      \<and> (\<forall>p. lw_pc w p \<noteq> Removing))"

lemma step_exclusive:
  assumes "exclusive w" and "lock_step a w = Some w'"
  shows "exclusive w'"
  using assms(2)
proof (cases rule: lock_step_cases)
  case (wrote p i)
  then have "inside w' r = inside w r" for r by (simp add: inside_def)
  with wrote assms(1) show ?thesis by (auto simp: exclusive_def)
next
  case (released p i)
  then have "inside w p" by (simp add: inside_def)
  with released assms(1) show ?thesis by (auto simp: exclusive_def inside_goto)
qed (use assms(1) in \<open>auto simp: exclusive_def inside_goto\<close>)

text \<open>C23: As long as no process has died, at most one process is between the creation of the lock file
  and its release, after any interleaving of the processes.\<close>

theorem lane_is_exclusive_without_deaths:
  assumes "lw_dead (lock_run as fresh_lock) = []" and "inside (lock_run as fresh_lock) p"
    and "inside (lock_run as fresh_lock) q"
  shows "p = q"
proof -
  have "exclusive (lock_run as fresh_lock)"
    by (rule lock_run_keeps [where I = exclusive, OF step_exclusive])
      (auto simp: exclusive_def fresh_lock_def inside_def)
  with assms show ?thesis by (auto simp: exclusive_def)
qed

theorem lane_is_exclusive_witness:
  "\<not> inside (lock_run [Create 1, Create 2, Write_owner 1, Read_owner 2, Check_alive 2, Retry 2, Create 2]
      fresh_lock) 2"
proof
  let ?w = "lock_run [Create 1, Create 2, Write_owner 1, Read_owner 2, Check_alive 2, Retry 2, Create 2] fresh_lock"
  have w: "lw_dead ?w = []" "inside ?w 1" by code_simp+
  assume "inside ?w 2"
  with lane_is_exclusive_without_deaths [OF w this] show False by simp
qed

text \<open>After one owner has died its lock can be removed twice: of two waiting processes that both found
  it stale, the second removes the file that the first has created since, and both hold the lane. The
  first to finish then removes the other's file.\<close>

definition stale_race :: "lock_action list" where
  "stale_race =
     [Create 1, Write_owner 1, Create 2, Create 3, Die 1, Read_owner 2, Read_owner 3, Check_alive 2,
      Check_alive 3, Remove_stale 2, Retry 2, Create 2, Write_owner 2, Remove_stale 3, Retry 3, Create 3,
      Write_owner 3]"

theorem stale_lock_race_admits_two:
  "let w = lock_run stale_race fresh_lock
   in lw_dead w = [1] \<and> lw_pc w 2 = Holding 1 \<and> lw_pc w 3 = Holding 2
    \<and> lw_file (lock_run [Release 2] w) = None \<and> lw_pc (lock_run [Release 2] w) 3 = Holding 2"
  by code_simp

section \<open>A lock that is never written\<close>





section \<open>Names\<close>

lemma sanitize_chars: "c \<in> set (sanitize_lane_part s) \<Longrightarrow> lane_char c"
proof -
  let ?m = "map (\<lambda>c. if lane_char c then c else CHR ''-'') (filter (\<lambda>c. \<not> utf8_cont c) s)"
  assume "c \<in> set (sanitize_lane_part s)"
  then have "c \<in> set ?m \<or> c \<in> set ''default''"
    using set_trim_dashes [of ?m] by (auto simp: sanitize_lane_part_def Let_def split: if_splits)
  moreover have "lane_char (CHR ''-'')" by (simp add: lane_char_def)
  moreover have "\<forall>c \<in> set ''default''. lane_char c" by code_simp
  ultimately show "lane_char c" by (auto split: if_splits)
qed

text \<open>Whatever collection and session are called, the file name of the lane is made of letters, digits,
  dashes and underscores, so it names a file in the lock directory and nowhere else; but distinct
  pairs can share a name.\<close>

theorem lane_names_are_safe_and_not_injective:
  "(\<forall>c \<in> set (lane_name coll session). is_ascii_alphanumeric c \<or> c \<in> {CHR ''-'', CHR ''_''})
    \<and> lane_name coll session \<noteq> []
    \<and> lane_name ''a'' (Some ''b__c'') = lane_name ''a__b'' (Some ''c'')
    \<and> lane_name ''a'' (Some ''x.y'') = lane_name ''a'' (Some ''x/y'')
    \<and> lane_name ''a'' None = lane_name ''a'' (Some ''shared'')"
proof -
  have "lane_char c" if "c \<in> set (lane_name coll session)" for c
  proof -
    have "lane_char (CHR ''_'')" by (simp add: lane_char_def)
    then show ?thesis using that sanitize_chars by (auto simp: lane_name_def)
  qed
  moreover have "lane_name ''a'' (Some ''b__c'') = lane_name ''a__b'' (Some ''c'')
      \<and> lane_name ''a'' (Some ''x.y'') = lane_name ''a'' (Some ''x/y'')
      \<and> lane_name ''a'' None = lane_name ''a'' (Some ''shared'')"
    by code_simp
  ultimately show ?thesis by (auto simp: lane_char_def lane_name_def)
qed

end
