(* ===== verification/Chunking.thy ===== *)
theory Chunking
  imports Prelude
begin

text \<open>
  Structure-aware chunking of records: crates/aquifer/src/chunking.rs. Lengths are counted in
  characters; strings are their UTF-8 bytes, of which a character is its first byte and the
  continuation bytes that follow. White space is trimmed as ASCII white space.
\<close>

section \<open>Characters\<close>

text \<open>\<open>split(sep)\<close> for a separator that is not empty.\<close>

function split_on :: "string \<Rightarrow> string \<Rightarrow> string list" where
  "split_on sep s =
     (case split_once sep s of
        Some (a, b) \<Rightarrow> if sep = [] then [s] else a # split_on sep b
      | None \<Rightarrow> [s])"
  by pat_completeness auto
termination
  by (relation "measure (\<lambda>(sep, s). length s)") (auto dest!: split_once_sound)

declare split_on.simps [simp del]

text \<open>All but the first \<open>n\<close> characters.\<close>

definition drop_chars :: "nat \<Rightarrow> string \<Rightarrow> string" where
  "drop_chars n s = drop (length (take_chars n s)) s"

definition char_tail :: "string \<Rightarrow> nat \<Rightarrow> string" where
  "char_tail s n = drop_chars (char_count s - n) s"

declare char_count_append [simp] char_count_Nil [simp]

lemma take_chars_prefix: "\<exists>r. s = take_chars n s @ r"
  by (induction n s rule: take_chars.induct) (auto split: nat.splits)

lemma take_drop_chars: "take_chars n s @ drop_chars n s = s"
  using take_chars_prefix [of s n] by (auto simp: drop_chars_def) (metis append_eq_conv_conj)

lemma char_count_take: "char_count (take_chars n s) = min n (char_count s)"
  by (induction n s rule: take_chars.induct) (auto simp: char_count_Cons split: nat.splits)

lemma char_count_drop: "char_count (drop_chars n s) = char_count s - n"
  using char_count_append [of "take_chars n s" "drop_chars n s"]
  by (simp add: take_drop_chars char_count_take)

lemma char_tail_le: "char_count (char_tail s n) \<le> n"
  by (simp add: char_tail_def char_count_drop)

lemma drop_chars_shorter:
  assumes "n > 0" and "s \<noteq> []"
  shows "length (drop_chars n s) < length s"
proof -
  have "take_chars n s \<noteq> []" using assms by (cases s; cases n) auto
  then show ?thesis using assms(2) by (simp add: drop_chars_def)
qed

function char_windows :: "nat \<Rightarrow> string \<Rightarrow> string list" where
  "char_windows n s =
     (if n = 0 \<or> s = [] then [] else take_chars n s # char_windows n (drop_chars n s))"
  by auto
termination
  by (relation "measure (\<lambda>(n, s). length s)") (auto intro: drop_chars_shorter)

declare char_windows.simps [simp del]

section \<open>Sections\<close>

definition trim_hashes :: "string \<Rightarrow> string" where
  "trim_hashes line = dropWhile (\<lambda>c. c = CHR 0x23) line"

definition is_heading :: "string \<Rightarrow> bool" where
  "is_heading line \<longleftrightarrow>
     length (trim_hashes line) < length line \<and> starts_with '' '' (trim_hashes line)"

fun sections_aux :: "string option \<Rightarrow> string list \<Rightarrow> string list \<Rightarrow> (string option \<times> string) list" where
  "sections_aux heading current [] = (if current = [] then [] else [(heading, join LF current)])"
| "sections_aux heading current (line # ls) =
     (if is_heading line
      then (if current = [] then [] else [(heading, join LF current)])
           @ sections_aux (Some (trim (trim_hashes line))) [line] ls
      else sections_aux heading (current @ [line]) ls)"

definition markdown_sections :: "string \<Rightarrow> (string option \<times> string) list" where
  "markdown_sections text =
     filter (\<lambda>(_, body). trim body \<noteq> []) (sections_aux None [] (lines text))"

section \<open>Splitting\<close>

definition separators :: "string list" where
  "separators = [LF @ LF, LF, ''. '', '' '']"

lemma split_on_parts:
  assumes "sep \<noteq> []" and "part \<in> set (split_on sep s)" and "contains sep s"
  shows "length part < length s"
  using assms(2,3)
proof (induction s rule: length_induct)
  case (1 s)
  then obtain a b where ab: "split_once sep s = Some (a, b)" by (auto simp: contains_def)
  have s: "s = a @ sep @ b" using split_once_sound [OF ab] .
  have "part = a \<or> part \<in> set (split_on sep b)"
    using "1.prems"(1) ab assms(1) by (subst (asm) split_on.simps) auto
  then show ?case
  proof
    assume part: "part \<in> set (split_on sep b)"
    show ?thesis
    proof (cases "contains sep b")
      case True
      have "length b < length s" using s assms(1) by (cases sep) auto
      with "1.IH" True part show ?thesis by (meson less_trans)
    next
      case False
      then have "part = b" using part
        by (subst (asm) split_on.simps) (simp add: split_once_None [THEN iffD2])
      then show ?thesis using s assms(1) by simp
    qed
  qed (use s assms(1) in simp)
qed

function recursive_split :: "nat \<Rightarrow> string \<Rightarrow> string list" where
  "recursive_split max_chars text =
     (if char_count text \<le> max_chars then [text]
      else case List.find (\<lambda>sep. contains sep text) separators of
             Some sep \<Rightarrow>
               concat (map (\<lambda>part.
                 if char_count part \<le> max_chars then (if trim part \<noteq> [] then [part] else [])
                 else recursive_split max_chars part) (split_on sep text))
           | None \<Rightarrow> char_windows max_chars text)"
  by auto
termination
proof (relation "measure (\<lambda>(m, text). length text)")
  fix m :: nat and s sep part
  assume "List.find (\<lambda>sep. contains sep s) separators = Some sep" and "part \<in> set (split_on sep s)"
  moreover from this(1) have "sep \<in> set separators" "contains sep s" by (auto dest: find_SomeD)
  moreover from this(1) have "sep \<noteq> []" by (auto simp: separators_def LF_def)
  ultimately show "((m, part), (m, s)) \<in> measure (\<lambda>(m, text). length text)"
    using split_on_parts by simp
qed simp

declare recursive_split.simps [simp del]

section \<open>Merging\<close>

definition merge_piece :: "nat \<Rightarrow> nat \<Rightarrow> string \<Rightarrow> string list \<times> string \<Rightarrow> string list \<times> string" where
  "merge_piece max_chars overlap piece st =
     (let (chunks, current) = st; piece = trim piece
      in if piece = [] then st
         else
           let joined = (if current = [] then 0 else 1);
               (chunks, current) =
                 (if current \<noteq> [] \<and> char_count current + joined + char_count piece > max_chars
                  then (chunks @ [current], if overlap > 0 then char_tail current overlap else [])
                  else (chunks, current))
           in (chunks, (if current \<noteq> [] then current @ '' '' else current) @ piece))"

definition merge_with_overlap :: "string list \<Rightarrow> nat \<Rightarrow> nat \<Rightarrow> string list" where
  "merge_with_overlap pieces max_chars overlap =
     (let (chunks, current) = fold (merge_piece max_chars overlap) pieces ([], [])
      in if trim current \<noteq> [] then chunks @ [trim current] else chunks)"

section \<open>Chunks\<close>

record chunk_config =
  cg_max_chars :: nat
  cg_overlap_chars :: nat

definition default_chunk_config :: chunk_config where
  "default_chunk_config = \<lparr>cg_max_chars = 1600, cg_overlap_chars = 200\<rparr>"

record chunk =
  ch_content :: string
  ch_index :: nat
  ch_heading :: "string option"

definition chunk_text :: "string \<Rightarrow> chunk_config \<Rightarrow> chunk list" where
  "chunk_text content cfg =
     (let max_chars = max (cg_max_chars cfg) 1;
          overlap = min (cg_overlap_chars cfg) (max_chars div 2);
          texts = concat (map (\<lambda>(heading, body).
                    map (\<lambda>text. (text, heading))
                      (merge_with_overlap (recursive_split max_chars body) max_chars overlap))
                    (markdown_sections content));
          chunks = map (\<lambda>(i, text, heading).
                     \<lparr>ch_content = text, ch_index = i, ch_heading = heading\<rparr>)
                     (zip [1..<Suc (length texts)] texts)
      in if chunks = [] then [\<lparr>ch_content = content, ch_index = 1, ch_heading = None\<rparr>] else chunks)"

section \<open>Bounds\<close>

lemma windows_bounded: "w \<in> set (char_windows n s) \<Longrightarrow> char_count w \<le> n"
  by (induction n s rule: char_windows.induct)
    (subst (asm) (2) char_windows.simps, auto simp: take_chars_le split: if_splits)

lemma recursive_split_bounded: "w \<in> set (recursive_split m s) \<Longrightarrow> char_count w \<le> m"
proof (induction m s rule: recursive_split.induct)
  case (1 m s)
  show ?case
  proof (cases "char_count s \<le> m")
    case True
    with "1.prems" show ?thesis by (subst (asm) recursive_split.simps) auto
  next
    case False
    note big = this
    show ?thesis
    proof (cases "List.find (\<lambda>sep. contains sep s) separators")
      case None
      with "1.prems" big show ?thesis
        by (subst (asm) recursive_split.simps) (auto dest: windows_bounded)
    next
      case (Some sep)
      with "1.prems" big obtain part where "part \<in> set (split_on sep s)"
        "w \<in> set (if char_count part \<le> m then (if trim part \<noteq> [] then [part] else [])
            else recursive_split m part)"
        by (subst (asm) recursive_split.simps) auto
      with "1.IH" [OF big Some] show ?thesis by (auto split: if_splits)
    qed
  qed
qed

lemma char_count_dropWhile: "char_count (dropWhile P s) \<le> char_count s"
  by (induction s) (auto simp: char_count_Cons)

lemma char_count_rev [simp]: "char_count (rev s) = char_count s"
  by (simp add: char_count_def rev_filter [symmetric])

lemma char_count_trim: "char_count (trim s) \<le> char_count s"
  unfolding trim_rev using char_count_dropWhile by (metis char_count_rev order_trans)

lemma merge_piece_bounded:
  assumes "char_count piece \<le> m" and "merge_piece m ov piece (chunks, current) = (chunks', current')"
    and "\<forall>c \<in> set chunks. char_count c \<le> m + ov + 1" and "char_count current \<le> m + ov + 1"
  shows "(\<forall>c \<in> set chunks'. char_count c \<le> m + ov + 1) \<and> char_count current' \<le> m + ov + 1"
  using assms char_count_trim [of piece] char_tail_le [of current ov]
  by (auto simp: merge_piece_def Let_def char_count_Cons utf8_cont_def split: if_splits)

lemma merge_fold_bounded:
  assumes "\<forall>p \<in> set pieces. char_count p \<le> m" and "\<forall>c \<in> set chunks. char_count c \<le> m + ov + 1"
    and "char_count current \<le> m + ov + 1"
    and "fold (merge_piece m ov) pieces (chunks, current) = (chunks', current')"
  shows "(\<forall>c \<in> set chunks'. char_count c \<le> m + ov + 1) \<and> char_count current' \<le> m + ov + 1"
  using assms
proof (induction pieces arbitrary: chunks current)
  case (Cons p ps)
  obtain chunks1 current1 where one: "merge_piece m ov p (chunks, current) = (chunks1, current1)" by fastforce
  have "(\<forall>c \<in> set chunks1. char_count c \<le> m + ov + 1) \<and> char_count current1 \<le> m + ov + 1"
    by (rule merge_piece_bounded [OF _ one]) (use Cons.prems in auto)
  then show ?case using Cons.IH [of chunks1 current1] Cons.prems(1,4) one by simp
qed simp

lemma merge_bounded:
  assumes "\<forall>p \<in> set pieces. char_count p \<le> m" and "c \<in> set (merge_with_overlap pieces m ov)"
  shows "char_count c \<le> m + ov + 1"
proof -
  obtain chunks current where run: "fold (merge_piece m ov) pieces ([], []) = (chunks, current)" by fastforce
  have bounds: "(\<forall>c \<in> set chunks. char_count c \<le> m + ov + 1) \<and> char_count current \<le> m + ov + 1"
    by (rule merge_fold_bounded [OF assms(1) _ _ run]) auto
  have "c \<in> set chunks \<or> c = trim current"
    using assms(2) run by (auto simp: merge_with_overlap_def split: if_splits)
  then show ?thesis using bounds char_count_trim [of current] by (metis order_trans)
qed

text \<open>A text is cut into chunks numbered from 1 on, each of which holds at most the maximum, the overlap
  and a blank; only a text of nothing but white space is one chunk as it is.\<close>

theorem chunks_are_bounded_and_numbered:
  "let cs = chunk_text content cfg; m = max (cg_max_chars cfg) 1
   in cs \<noteq> [] \<and> map ch_index cs = [1..<Suc (length cs)]
    \<and> (list_all (\<lambda>c. char_count (ch_content c) \<le> m + min (cg_overlap_chars cfg) (m div 2) + 1) cs
       \<or> map ch_content cs = [content])"
proof -
  define m where "m = max (cg_max_chars cfg) 1"
  define ov where "ov = min (cg_overlap_chars cfg) (m div 2)"
  define texts where "texts = concat (map (\<lambda>(heading, body).
     map (\<lambda>text. (text, heading)) (merge_with_overlap (recursive_split m body) m ov))
     (markdown_sections content))"
  define chunks where "chunks = map (\<lambda>(i, text, heading).
     \<lparr>ch_content = text, ch_index = i, ch_heading = heading\<rparr>) (zip [1..<Suc (length texts)] texts)"
  have eq: "chunk_text content cfg = (if chunks = []
      then [\<lparr>ch_content = content, ch_index = 1, ch_heading = None\<rparr>] else chunks)"
    by (simp add: chunk_text_def Let_def m_def ov_def texts_def chunks_def)
  have small: "char_count t \<le> m + ov + 1" if "(t, heading) \<in> set texts" for t heading
    using that recursive_split_bounded
    by (auto simp: texts_def simp del: One_nat_def add_Suc_right intro: merge_bounded [of _ m])
  have "map ch_index chunks = [1..<Suc (length chunks)]"
    by (rule nth_equalityI) (auto simp: chunks_def split: prod.split simp del: upt_Suc)
  moreover have "list_all (\<lambda>c. char_count (ch_content c) \<le> m + ov + 1) chunks"
    using small by (fastforce simp: chunks_def list_all_iff dest!: set_zip_rightD)
  ultimately have "chunk_text content cfg \<noteq> []
      \<and> map ch_index (chunk_text content cfg) = [1..<Suc (length (chunk_text content cfg))]
      \<and> (list_all (\<lambda>c. char_count (ch_content c) \<le> m + ov + 1) (chunk_text content cfg)
        \<or> map ch_content (chunk_text content cfg) = [content])"
    unfolding eq by (cases "chunks = []") simp_all
  then show ?thesis unfolding Let_def m_def ov_def .
qed

text \<open>The overlap makes a chunk longer than the maximum, and a text within the maximum is not always
  one unchanged chunk: it is cut at its headings.\<close>

theorem chunk_bounds_are_not_the_documented_ones:
  "map (\<lambda>c. char_count (ch_content c)) (chunk_text ''aaaaaa bbbbbb cccccc''
      \<lparr>cg_max_chars = 8, cg_overlap_chars = 4\<rparr>) = [6, 11, 11]
    \<and> map ch_content (chunk_text (''# A'' @ LF @ ''x'' @ LF @ ''# B'' @ LF @ ''y'')
        \<lparr>cg_max_chars = 60, cg_overlap_chars = 10\<rparr>) = [''# A'' @ LF @ ''x'', ''# B'' @ LF @ ''y'']"
  by code_simp

end
