(* ===== verification/Ranking.thy ===== *)
theory Ranking
  imports Memory_Records Ratios
begin

text \<open>
  How the memory engine ranks and prunes: crates/aquifer/src decay.rs, rrf.rs, mmr.rs, eviction.rs
  and the lexical reranker of retrieval.rs. Scores are exact reals, so that a comparison of scores is
  total. \<open>f32::clamp\<close> panics on crossed bounds; \<open>decay_ok\<close> names the configurations where it does not.
\<close>

section \<open>Decay\<close>

record decay_config =
  dk_enabled :: bool
  dk_half_life_days :: real
  dk_floor :: real
  dk_access_boost :: real

definition default_decay :: decay_config where
  "default_decay = \<lparr>dk_enabled = True, dk_half_life_days = 30, dk_floor = 2/10, dk_access_boost = 15/10\<rparr>"

definition decay_lambda :: "decay_config \<Rightarrow> real" where
  "decay_lambda c = ln 2 / max (dk_half_life_days c) 1"

definition clamp :: "real \<Rightarrow> real \<Rightarrow> real \<Rightarrow> real" where
  "clamp lo hi x = max lo (min x hi)"

text \<open>\<open>num_seconds().max(0) as f32 / 86400\<close>.\<close>

definition days_since :: "timestamp \<Rightarrow> timestamp \<Rightarrow> real" where
  "days_since now t = of_int (max 0 ((now - t) div 1000000000)) / 86400"

definition age_score :: "decay_config \<Rightarrow> timestamp \<Rightarrow> timestamp option \<Rightarrow> real" where
  "age_score c now accessed =
     (case accessed of None \<Rightarrow> 1 | Some t \<Rightarrow> max (exp (- decay_lambda c * days_since now t)) (dk_floor c))"

definition utility_signal :: "memory_record \<Rightarrow> real" where
  "utility_signal r =
     (let access_signal = min (real (unat (mr_access_count r)) / 50) 1;
          useful_signal = min (real (unat (mr_useful_count r)) / 10) 1
      in min (max (max useful_signal (access_signal * (80/100)))
               (70/100 * useful_signal + 30/100 * access_signal)) 1)"

definition retrieval_strength :: "memory_record \<Rightarrow> decay_config \<Rightarrow> timestamp \<Rightarrow> real" where
  "retrieval_strength r c now =
     (if \<not> dk_enabled c then 1
      else if mr_last_access r = None \<and> mr_access_count r = 0 \<and> mr_useful_count r = 0 then 1
      else
        let age = age_score c now (mr_last_access r); u = utility_signal r
        in if u = 0 then clamp (dk_floor c) (dk_access_boost c) age
           else clamp (dk_floor c) (dk_access_boost c)
                  ((1 + (dk_access_boost c - 1) * u) * (70/100 + 30/100 * age)))"

definition decay_ok :: "decay_config \<Rightarrow> bool" where
  "decay_ok c \<longleftrightarrow> 0 \<le> dk_floor c \<and> dk_floor c \<le> 1 \<and> 1 \<le> dk_access_boost c"

section \<open>Reciprocal rank fusion\<close>

record rrf_options =
  rf_rank_constant :: real
  rf_limit :: nat

definition default_rrf :: rrf_options where
  "default_rrf = \<lparr>rf_rank_constant = 60, rf_limit = 10\<rparr>"

type_synonym fused = "(string, search_hit \<times> real) btree_map"

definition fuse_hit :: "real \<Rightarrow> nat \<times> search_hit \<Rightarrow> fused \<Rightarrow> fused" where
  "fuse_hit k rh merged =
     (let (rank, hit) = rh; score = 1 / (k + real rank + 1); key = mr_node_id (sh_record hit)
      in bt_insert key
           (case bt_get merged key of Some (h, s) \<Rightarrow> (h, s + score) | None \<Rightarrow> (hit, score)) merged)"

definition fuse_channel :: "real \<Rightarrow> search_hit list \<Rightarrow> fused \<Rightarrow> fused" where
  "fuse_channel k channel merged = fold (fuse_hit k) (zip [0..<length channel] channel) merged"

text \<open>Descending score, ties by node id: the order of every ranked list but that of the files.\<close>

definition by_score :: "search_hit list \<Rightarrow> search_hit list" where
  "by_score hits = sort_key (\<lambda>h. (- sh_score h, mr_node_id (sh_record h))) hits"

definition reciprocal_rank_fusion :: "search_hit list list \<Rightarrow> rrf_options \<Rightarrow> search_hit list" where
  "reciprocal_rank_fusion channels opts =
     (let merged = fold (fuse_channel (rf_rank_constant opts)) channels bt_empty;
          hits = map (\<lambda>(hit, score). hit\<lparr>sh_score := score, sh_source := Hybrid\<rparr>) (bt_values merged)
      in take (rf_limit opts) (by_score hits))"

section \<open>Maximal marginal relevance\<close>

definition MMR_DEFAULT_LAMBDA :: real where "MMR_DEFAULT_LAMBDA = 1/2"
definition MMR_MIN_CANDIDATES :: nat where "MMR_MIN_CANDIDATES = 50"

definition f32_epsilon :: real where "f32_epsilon = 1 / 2 ^ 23"

definition mmr_score :: "real \<Rightarrow> real list \<Rightarrow> string set list \<Rightarrow> nat list \<Rightarrow> nat \<Rightarrow> real" where
  "mmr_score lam relevance words selected i =
     lam * relevance ! i
     - (1 - lam) * fold max (map (\<lambda>j. of_rat (jaccard (words ! i) (words ! j))) selected) 0"

text \<open>The first candidate of the largest score.\<close>

fun best_candidate :: "(nat \<Rightarrow> real) \<Rightarrow> nat \<Rightarrow> nat list \<Rightarrow> nat" where
  "best_candidate f best [] = best"
| "best_candidate f best (c # cs) = best_candidate f (if f c > f best then c else best) cs"

primrec mmr_select :: "(nat list \<Rightarrow> nat \<Rightarrow> real) \<Rightarrow> nat \<Rightarrow> nat list \<Rightarrow> nat list \<Rightarrow> nat list" where
  "mmr_select f 0 selected remaining = selected"
| "mmr_select f (Suc n) selected remaining =
     (case remaining of
        [] \<Rightarrow> selected
      | c # cs \<Rightarrow>
          let best = best_candidate (f selected) c cs
          in mmr_select f n (selected @ [best]) (filter (\<lambda>i. i \<noteq> best) remaining))"

definition mmr_diversify :: "search_hit list \<Rightarrow> nat \<Rightarrow> real \<Rightarrow> search_hit list" where
  "mmr_diversify hits n lam =
     (if length hits \<le> 1 \<or> n \<le> 1 then take n hits
      else
        let lam = clamp 0 1 lam;
            scores = map sh_score hits;
            denom = max \<bar>fold max (tl scores) (hd scores)\<bar> f32_epsilon;
            relevance = map (\<lambda>s. s / denom) scores;
            words = map (\<lambda>h. word_set (mr_content (sh_record h))) hits
        in map (\<lambda>i. hits ! i) (mmr_select (mmr_score lam relevance words) n [] [0..<length hits]))"

definition mmr_diversify_when_large :: "search_hit list \<Rightarrow> nat \<Rightarrow> real \<Rightarrow> nat \<Rightarrow> search_hit list" where
  "mmr_diversify_when_large hits n lam min_candidates =
     (if length hits < max min_candidates 1 then take n hits else mmr_diversify hits n lam)"

section \<open>The lexical reranker\<close>

definition query_terms :: "string \<Rightarrow> string list" where
  "query_terms input = filter (\<lambda>t. t \<noteq> []) (map to_ascii_lowercase (split_whitespace input))"

definition rerank_score :: "string \<Rightarrow> string list \<Rightarrow> real \<Rightarrow> real" where
  "rerank_score content terms base =
     (\<Sum>t\<leftarrow>terms. real (count_matches t (to_ascii_lowercase content))) + base * (1/100)"

definition lexical_rerank :: "string \<Rightarrow> search_hit list \<Rightarrow> nat \<Rightarrow> search_hit list" where
  "lexical_rerank query hits n =
     (let terms = query_terms query
      in take n (sort_key (\<lambda>h. (- rerank_score (mr_content (sh_record h)) terms (sh_score h),
           mr_node_id (sh_record h))) hits))"

end
