(* ===== verification/Eviction.thy ===== *)
theory Eviction
  imports Ranking
begin

text \<open>
  Forgetting: crates/aquifer/src/eviction.rs. One pass over the loaded records returns the audit log
  of its decisions; the caller writes them back. The reason texts are those of the source with the
  numbers they quote kept as values. Appending the log to its file is input and output.
\<close>

datatype eviction_action = Archive | Delete

datatype eviction_reason =
    Hard_delete
  | Ttl real real                \<comment> \<open>age in days, time to live\<close>
  | Min_strength real real       \<comment> \<open>strength, threshold\<close>
  | Lru real                     \<comment> \<open>strength\<close>
  | Max_keep nat nat real        \<comment> \<open>remaining active, cap, strength\<close>

record eviction_log_entry =
  el_ts :: timestamp
  el_record_id :: string
  el_node_id :: string
  el_action :: eviction_action
  el_reason :: eviction_reason
  el_strength :: real

record eviction_policy =
  ep_ttl_days :: "real option"
  ep_lru :: bool
  ep_min_strength :: "real option"
  ep_max_keep :: "nat option"
  ep_hard :: bool
  ep_decay :: decay_config

record eviction_report =
  er_archived :: nat
  er_deleted :: nat
  er_log :: "eviction_log_entry list"

type_synonym scored = "memory_record \<times> real"

definition log_entry_for ::
    "timestamp \<Rightarrow> eviction_action \<Rightarrow> eviction_reason \<Rightarrow> scored \<Rightarrow> eviction_log_entry" where
  "log_entry_for now action reason rs =
     \<lparr>el_ts = now, el_record_id = mr_id (fst rs), el_node_id = mr_node_id (fst rs), el_action = action,
      el_reason = reason, el_strength = snd rs\<rparr>"

definition age_in_days :: "memory_record \<Rightarrow> timestamp \<Rightarrow> real" where
  "age_in_days r now =
     days_since now (case mr_last_access r of Some t \<Rightarrow> t | None \<Rightarrow> mr_created_at r)"

definition utility_protected :: "memory_record \<Rightarrow> real \<Rightarrow> bool" where
  "utility_protected r strength \<longleftrightarrow> mr_useful_count r > 0 \<and> strength \<ge> 1"

text \<open>\<open>archived_ids.insert(id)\<close> with the log entry of a record that was not archived before: a
  policy that goes over the scored records with a condition.\<close>

type_synonym pass = "string list \<times> eviction_log_entry list"

definition archive_record :: "timestamp \<Rightarrow> eviction_reason \<Rightarrow> scored \<Rightarrow> pass \<Rightarrow> pass" where
  "archive_record now reason rs st =
     (if mr_id (fst rs) \<in> set (fst st) then st
      else (mr_id (fst rs) # fst st, snd st @ [log_entry_for now Archive reason rs]))"

definition archive_when ::
    "timestamp \<Rightarrow> (scored \<Rightarrow> bool) \<Rightarrow> (scored \<Rightarrow> eviction_reason) \<Rightarrow> scored list \<Rightarrow> pass \<Rightarrow> pass" where
  "archive_when now P reason scored st =
     fold (\<lambda>rs. if P rs then archive_record now (reason rs) rs else (\<lambda>x. x)) scored st"

definition ttl_pass :: "timestamp \<Rightarrow> real option \<Rightarrow> scored list \<Rightarrow> pass \<Rightarrow> pass" where
  "ttl_pass now ttl scored st =
     (case ttl of
        Some days \<Rightarrow>
          archive_when now (\<lambda>rs. age_in_days (fst rs) now > days \<and> \<not> utility_protected (fst rs) (snd rs))
            (\<lambda>rs. Ttl (age_in_days (fst rs) now) days) scored st
      | None \<Rightarrow> st)"

definition min_strength_pass :: "timestamp \<Rightarrow> real option \<Rightarrow> scored list \<Rightarrow> pass \<Rightarrow> pass" where
  "min_strength_pass now threshold scored st =
     (case threshold of
        Some m \<Rightarrow> archive_when now (\<lambda>rs. snd rs < m) (\<lambda>rs. Min_strength (snd rs) m) scored st
      | None \<Rightarrow> st)"

definition lru_pass :: "timestamp \<Rightarrow> scored list \<Rightarrow> pass \<Rightarrow> pass" where
  "lru_pass now scored st =
     (let evict_count = min (max (length scored div 2) 1) (length scored)
      in archive_when now (\<lambda>rs. True) (\<lambda>rs. Lru (snd rs)) (take evict_count scored) st)"

definition unmarked :: "string list \<Rightarrow> scored list \<Rightarrow> nat" where
  "unmarked archived scored = length (filter (\<lambda>rs. mr_id (fst rs) \<notin> set archived) scored)"

fun max_keep_loop :: "timestamp \<Rightarrow> nat \<Rightarrow> nat \<Rightarrow> nat \<Rightarrow> scored list \<Rightarrow> pass \<Rightarrow> pass" where
  "max_keep_loop now remaining cap to_evict [] st = st"
| "max_keep_loop now remaining cap to_evict (rs # scored) st =
     (if to_evict = 0 then st
      else if mr_id (fst rs) \<in> set (fst st) then max_keep_loop now remaining cap to_evict scored st
      else max_keep_loop now remaining cap (to_evict - 1) scored
             (archive_record now (Max_keep remaining cap (snd rs)) rs st))"

definition max_keep_pass :: "timestamp \<Rightarrow> nat option \<Rightarrow> scored list \<Rightarrow> pass \<Rightarrow> pass" where
  "max_keep_pass now cap scored st =
     (case cap of
        None \<Rightarrow> st
      | Some k \<Rightarrow>
          (let remaining = unmarked (fst st) scored
           in if remaining > k then max_keep_loop now remaining k (remaining - k) scored st else st))"

definition hard_deletes :: "timestamp \<Rightarrow> eviction_policy \<Rightarrow> memory_record list \<Rightarrow> eviction_log_entry list" where
  "hard_deletes now p records =
     (if ep_hard p
      then map (\<lambda>r. log_entry_for now Delete Hard_delete (r, retrieval_strength r (ep_decay p) now))
             (filter (\<lambda>r. mr_state r = Archived) records)
      else [])"

definition scored_active :: "timestamp \<Rightarrow> eviction_policy \<Rightarrow> memory_record list \<Rightarrow> scored list" where
  "scored_active now p records =
     map (\<lambda>r. (r, retrieval_strength r (ep_decay p) now)) (filter (\<lambda>r. mr_state r = Active) records)"

definition evict :: "timestamp \<Rightarrow> memory_record list \<Rightarrow> eviction_policy \<Rightarrow> eviction_report" where
  "evict now records p =
     (let scored = scored_active now p records;
          st = ttl_pass now (ep_ttl_days p) scored ([], hard_deletes now p records);
          st = min_strength_pass now (ep_min_strength p) scored st;
          scored = (if ep_lru p \<or> ep_max_keep p \<noteq> None then sort_key snd scored else scored);
          st = (if ep_lru p \<and> ep_max_keep p = None then lru_pass now scored st else st);
          st = max_keep_pass now (ep_max_keep p) scored st
      in \<lparr>er_archived = length (filter (\<lambda>e. el_action e = Archive) (snd st)),
          er_deleted = length (filter (\<lambda>e. el_action e = Delete) (snd st)),
          er_log = snd st\<rparr>)"

end
