(* ===== verification/Ranking_Properties.thy ===== *)
theory Ranking_Properties
  imports Eviction "HOL-Library.Multiset"
begin

text \<open>
  What ranking and forgetting guarantee: the bounds and the monotonicity of the retrieval strength,
  rank fusion against its closed form, what a diversified selection is, and what an eviction pass
  archives and keeps.
\<close>

section \<open>Decay\<close>

lemma clamp_range: "lo \<le> hi \<Longrightarrow> lo \<le> clamp lo hi x" "lo \<le> hi \<Longrightarrow> clamp lo hi x \<le> hi"
  by (auto simp: clamp_def)

lemma score_clamp_mono: "x \<le> y \<Longrightarrow> clamp lo hi x \<le> clamp lo hi y"
  by (auto simp: clamp_def)

definition signal :: "real \<Rightarrow> real \<Rightarrow> real" where
  "signal a u = min (max (max u (a * (80/100))) (70/100 * u + 30/100 * a)) 1"

lemma utility_signal: "utility_signal r =
    signal (min (real (unat (mr_access_count r)) / 50) 1) (min (real (unat (mr_useful_count r)) / 10) 1)"
  by (simp add: utility_signal_def signal_def Let_def)

lemma signal_range: "0 \<le> u \<Longrightarrow> 0 \<le> signal a u" "signal a u \<le> 1"
  by (auto simp: signal_def le_max_iff_disj)

lemma signal_mono: "u \<le> v \<Longrightarrow> signal a u \<le> signal a v"
  by (simp add: signal_def min_def max_def)

lemma utility_range: "0 \<le> utility_signal r" "utility_signal r \<le> 1"
  by (simp_all only: utility_signal signal_range)

lemma age_range:
  assumes "decay_ok c"
  shows "0 < age_score c now t" and "age_score c now t \<le> 1"
proof -
  have "0 \<le> decay_lambda c * days_since now s" for s
    by (simp add: decay_lambda_def days_since_def zero_le_divide_iff)
  then have "exp (- decay_lambda c * days_since now s) \<le> 1" for s by simp
  then show "0 < age_score c now t" and "age_score c now t \<le> 1"
    using assms by (auto simp: age_score_def decay_ok_def less_max_iff_disj split: option.split)
qed

lemma utility_mono:
  assumes "mr_useful_count r \<le> n"
  shows "utility_signal r \<le> utility_signal (r\<lparr>mr_useful_count := n\<rparr>)"
proof -
  have "real (unat (mr_useful_count r)) \<le> real (unat n)" using assms by (simp only: word_le_nat_alt of_nat_le_iff)
  then have "min (real (unat (mr_useful_count r)) / 10) 1 \<le> min (real (unat n) / 10) 1"
    by (intro min.mono divide_right_mono) simp_all
  then show ?thesis using signal_mono by (simp add: utility_signal)
qed

text \<open>The strength from the age and the utility, for any record with a signal.\<close>

definition strength_of :: "decay_config \<Rightarrow> real \<Rightarrow> real \<Rightarrow> real" where
  "strength_of c age u = clamp (dk_floor c) (dk_access_boost c)
     (if u = 0 then age else (1 + (dk_access_boost c - 1) * u) * (70/100 + 30/100 * age))"

lemma strength_of_mono:
  assumes "decay_ok c" and "0 \<le> u" and "u \<le> v" and "0 \<le> age" and "age \<le> 1"
  shows "strength_of c age u \<le> strength_of c age v"
proof -
  let ?d = "70/100 + 30/100 * age"
  have b: "0 \<le> dk_access_boost c - 1" using assms(1) by (simp add: decay_ok_def)
  have up: "(1 + (dk_access_boost c - 1) * u) * ?d \<le> (1 + (dk_access_boost c - 1) * v) * ?d"
    using assms b by (intro mult_right_mono add_left_mono mult_left_mono) simp_all
  have "age \<le> ?d" using assms(5) by simp
  also have "?d \<le> (1 + (dk_access_boost c - 1) * v) * ?d"
    using assms(2-5) b by (simp add: mult_le_cancel_right1)
  finally have "age \<le> (1 + (dk_access_boost c - 1) * v) * ?d" .
  then show ?thesis using up assms(2,3)
    by (auto simp: strength_of_def intro!: score_clamp_mono)
qed

lemma strength_cases:
  "retrieval_strength r c now =
    (if \<not> dk_enabled c then 1
     else if mr_last_access r = None \<and> mr_access_count r = 0 \<and> mr_useful_count r = 0 then 1
     else strength_of c (age_score c now (mr_last_access r)) (utility_signal r))"
  by (auto simp: retrieval_strength_def strength_of_def Let_def)

lemma strength_of_fresh:
  assumes "decay_ok c" and "0 \<le> u"
  shows "1 \<le> strength_of c 1 u"
  using strength_of_mono [OF assms(1), of 0 u 1] assms by (simp add: strength_of_def clamp_def decay_ok_def)

text \<open>For every configuration with crossed bounds excluded the strength lies between the floor and
  the boost, and a record that was confirmed useful more often is never weaker.\<close>

theorem strength_is_bounded_and_monotone:
  assumes "decay_ok c" and "mr_useful_count r \<le> n"
  shows "dk_floor c \<le> retrieval_strength r c now \<and> retrieval_strength r c now \<le> dk_access_boost c
    \<and> retrieval_strength r c now \<le> retrieval_strength (r\<lparr>mr_useful_count := n\<rparr>) c now"
proof (intro conjI)
  show "dk_floor c \<le> retrieval_strength r c now" "retrieval_strength r c now \<le> dk_access_boost c"
    using assms(1) by (auto simp: strength_cases strength_of_def decay_ok_def clamp_range)
  have fresh: "age_score c now None = 1" by (simp add: age_score_def)
  have "strength_of c age (utility_signal r) \<le> strength_of c age (utility_signal (r\<lparr>mr_useful_count := n\<rparr>))"
    if "0 < age" "age \<le> 1" for age
    using that assms utility_range utility_mono by (intro strength_of_mono) simp_all
  from this [OF age_range] show "retrieval_strength r c now \<le> retrieval_strength (r\<lparr>mr_useful_count := n\<rparr>) c now"
    using assms strength_of_fresh [OF assms(1) utility_range(1)] fresh
    by (auto simp: strength_cases)
qed

theorem strength_witness:
  "retrieval_strength (new_record 0 ''a'' ''n'' ''note'' [] [] L1Atom) default_decay 9 \<le>
   retrieval_strength ((new_record 0 ''a'' ''n'' ''note'' [] [] L1Atom)\<lparr>mr_useful_count := 3\<rparr>) default_decay 9"
  using strength_is_bounded_and_monotone [of default_decay "new_record 0 ''a'' ''n'' ''note'' [] [] L1Atom" 3 9]
  by (simp add: decay_ok_def default_decay_def new_record_def)

text \<open>A record that was never used at all keeps its full strength, while one that was found once and
  then not for ninety days falls below four fifths: the unused one outranks it.\<close>

lemma exp_ninety_days:
  assumes "d \<ge> 90"
  shows "exp (- (ln 2 / 30 * d)) \<le> (1/8 :: real)"
proof -
  have "- (ln 2 / 30 * d) \<le> - (3 * ln (2::real))" using assms by simp
  then have "exp (- (ln 2 / 30 * d)) \<le> exp (- (3 * ln (2::real)))" by simp
  moreover have "exp (3 * ln (2::real)) = 8" using exp_of_nat_mult [of 3 "ln (2::real)"] by simp
  ultimately show ?thesis by (simp add: exp_minus)
qed

theorem unused_outranks_used_once:
  assumes "mr_last_access r = Some t" and "mr_access_count r = 1" and "mr_useful_count r = 0"
    and "days_since now t \<ge> 90"
  shows "retrieval_strength r default_decay now < 8/10
    \<and> retrieval_strength (r\<lparr>mr_last_access := None, mr_access_count := 0\<rparr>) default_decay now = 1"
proof -
  have "exp (- (ln 2 / 30 * days_since now t)) \<le> 1/8" by (rule exp_ninety_days [OF assms(4)])
  then have age: "age_score default_decay now (Some t) = 2/10"
    by (simp add: age_score_def decay_lambda_def default_decay_def)
  have u: "utility_signal r = 16/1000"
    by (simp add: utility_signal_def Let_def assms(2,3))
  have "dk_enabled default_decay" by (simp add: default_decay_def)
  then have "retrieval_strength r default_decay now = strength_of default_decay (2/10) (16/1000)"
    using assms(1-3) by (simp add: strength_cases age u)
  also have "\<dots> < 8/10" by (simp add: strength_of_def clamp_def default_decay_def)
  finally have "retrieval_strength r default_decay now < 8/10" .
  moreover have "retrieval_strength (r\<lparr>mr_last_access := None, mr_access_count := 0\<rparr>) default_decay now = 1"
    using assms(3) by (simp add: strength_cases)
  ultimately show ?thesis by simp
qed

theorem unused_outranks_witness:
  "\<exists>r. retrieval_strength r default_decay (91 * 86400 * 1000000000) < 8/10"
proof -
  let ?r = "(new_record 0 ''a'' ''n'' ''note'' [] [] L1Atom)\<lparr>mr_last_access := Some 0, mr_access_count := 1\<rparr>"
  have "retrieval_strength ?r default_decay (91 * 86400 * 1000000000) < 8/10"
    using unused_outranks_used_once [of ?r 0 "91 * 86400 * 1000000000"]
    by (simp add: new_record_def days_since_def)
  then show ?thesis by blast
qed

section \<open>Rank fusion\<close>

text \<open>The first \<open>n\<close> of a list in the order of a key.\<close>

lemma take_sorted_key:
  assumes "x \<in> set xs" and "x \<notin> set (take n (sort_key f xs))"
  shows "length (take n (sort_key f xs)) = n \<and> (\<forall>y \<in> set (take n (sort_key f xs)). f y \<le> f x)"
proof -
  let ?s = "sort_key f xs"
  have x: "x \<in> set (drop n ?s)"
    using assms by (metis Un_iff append_take_drop_id set_append set_sort)
  then have "n < length ?s" by (metis drop_all empty_iff list.set(1) not_le)
  moreover have "f y \<le> f x" if "y \<in> set (take n ?s)" for y
  proof -
    have "sorted (map f (take n ?s) @ map f (drop n ?s))"
      by (metis append_take_drop_id map_append sorted_sort_key)
    then show ?thesis using that x by (simp add: sorted_append)
  qed
  ultimately show ?thesis by simp
qed

text \<open>The score of a node: what every rank at which a channel lists it is worth.\<close>

definition contribution :: "real \<Rightarrow> string \<Rightarrow> (nat \<times> search_hit) list \<Rightarrow> real" where
  "contribution k node ranked =
     (\<Sum>(rank, h)\<leftarrow>ranked. if mr_node_id (sh_record h) = node then 1 / (k + real rank + 1) else 0)"

definition ranked :: "search_hit list list \<Rightarrow> (nat \<times> search_hit) list" where
  "ranked channels = concat (map (\<lambda>c. zip [0..<length c] c) channels)"

definition fused_score :: "real \<Rightarrow> search_hit list list \<Rightarrow> string \<Rightarrow> real" where
  "fused_score k channels node = contribution k node (ranked channels)"

lemma fold_channels: "fold (fuse_channel k) channels m = fold (fuse_hit k) (ranked channels) m"
  by (induction channels arbitrary: m) (simp_all add: ranked_def fuse_channel_def)

lemma fused_get:
  "bt_ok (fold (fuse_hit k) rhs bt_empty) \<and>
   bt_get (fold (fuse_hit k) rhs bt_empty) node =
    (case List.find (\<lambda>(_, h). mr_node_id (sh_record h) = node) rhs of
       None \<Rightarrow> None | Some (_, h) \<Rightarrow> Some (h, contribution k node rhs))"
proof (induction rhs arbitrary: node rule: rev_induct)
  case (snoc rh rhs)
  obtain rank h where rh: "rh = (rank, h)" by fastforce
  let ?m = "fold (fuse_hit k) rhs bt_empty"
  have none: "contribution k node rhs = 0"
    if "List.find (\<lambda>(_, h). mr_node_id (sh_record h) = node) rhs = None" for node
    using that by (induction rhs) (auto simp: contribution_def split: if_splits)
  let ?n = "mr_node_id (sh_record h)"
  have step: "fold (fuse_hit k) (rhs @ [rh]) bt_empty = bt_insert ?n
      (case bt_get ?m ?n of Some (h', s) \<Rightarrow> (h', s + 1 / (k + real rank + 1))
       | None \<Rightarrow> (h, 1 / (k + real rank + 1))) ?m"
    by (simp add: fuse_hit_def [of k "(rank, h)"] rh Let_def split del: option.split)
  have more: "contribution k node (rhs @ [rh]) = contribution k node rhs
      + (if ?n = node then 1 / (k + real rank + 1) else 0)"
    by (simp add: contribution_def rh)
  show ?case
    unfolding step more find_append
    using snoc.IH [of node] snoc.IH [of ?n] none [of node]
    by (cases "?n = node") (auto simp: rh bt_oks bt_simps split: option.splits)
qed (simp add: bt_oks bt_simps)

lemma fused_key: "(node, h, score) \<in> set (fold (fuse_hit k) rhs bt_empty) \<Longrightarrow>
    mr_node_id (sh_record h) = node \<and> score = contribution k node rhs \<and> (\<exists>rank. (rank, h) \<in> set rhs)"
  using fused_get [of k rhs node] bt_in_get [of "fold (fuse_hit k) rhs bt_empty" node "(h, score)"]
  by (auto split: option.splits dest!: find_SomeD)

lemma set_ranked: "snd ` set (ranked channels) = set (concat channels)"
proof -
  have "snd ` set (zip [0..<length c] c) = set c" for c :: "search_hit list"
    by (simp flip: set_map)
  then show ?thesis by (induction channels) (simp_all add: ranked_def image_Un)
qed

lemma distinct_map_sort_key: "distinct (map g (sort_key f xs)) \<longleftrightarrow> distinct (map g xs)"
  by (rule mset_eq_imp_distinct_iff) (simp add: mset_map)

definition fused_hits :: "real \<Rightarrow> search_hit list list \<Rightarrow> search_hit list" where
  "fused_hits k channels = map (\<lambda>(hit, score). hit\<lparr>sh_score := score, sh_source := Hybrid\<rparr>)
     (bt_values (fold (fuse_channel k) channels bt_empty))"

lemma fused_hits_nodes:
  "map (\<lambda>h. mr_node_id (sh_record h)) (fused_hits k channels) =
     bt_keys (fold (fuse_hit k) (ranked channels) bt_empty)"
  by (auto simp: fused_hits_def bt_values_def bt_keys_def fold_channels dest: fused_key)

lemma fused_hits_scores:
  assumes "x \<in> set (fused_hits k channels)"
  shows "sh_score x = fused_score k channels (mr_node_id (sh_record x))"
    and "mr_node_id (sh_record x) \<in> (\<lambda>h. mr_node_id (sh_record h)) ` set (concat channels)"
proof -
  obtain node h where "(node, h, sh_score x) \<in> set (fold (fuse_hit k) (ranked channels) bt_empty)"
    and same: "mr_node_id (sh_record x) = mr_node_id (sh_record h)"
    using assms by (auto simp: fused_hits_def bt_values_def fold_channels)
  then have key: "mr_node_id (sh_record h) = node" "sh_score x = contribution k node (ranked channels)"
    "\<exists>rank. (rank, h) \<in> set (ranked channels)" by (auto dest: fused_key)
  then show "sh_score x = fused_score k channels (mr_node_id (sh_record x))"
    by (simp add: same fused_score_def)
  from key(3) have "h \<in> set (concat channels)" unfolding set_ranked [symmetric] by force
  then show "mr_node_id (sh_record x) \<in> (\<lambda>h. mr_node_id (sh_record h)) ` set (concat channels)"
    using same by blast
qed

lemma fused_hits_complete:
  assumes "h \<in> set (concat channels)"
  shows "\<exists>x \<in> set (fused_hits k channels). mr_node_id (sh_record x) = mr_node_id (sh_record h)"
proof -
  let ?m = "fold (fuse_hit k) (ranked channels) bt_empty" and ?n = "mr_node_id (sh_record h)"
  obtain rank where "(rank, h) \<in> set (ranked channels)" using assms unfolding set_ranked [symmetric] by force
  then have "bt_get ?m ?n \<noteq> None"
    using fused_get [of k "ranked channels" ?n] find_NoneD by (fastforce split: option.splits)
  then have "?n \<in> set (bt_keys ?m)" by (auto simp: bt.keys_dom)
  then show ?thesis unfolding fused_hits_nodes [symmetric] by auto
qed

text \<open>Fusion ranks every node of the channels once, with the sum over its ranks of one over the rank
  constant plus the rank counted from one, best score first and ties by node id; a node is left out
  only behind a full list of nodes that rank before it.\<close>

theorem fusion_ranks_by_reciprocal_ranks:
  "let out = reciprocal_rank_fusion channels opts; k = rf_rank_constant opts;
       node = (\<lambda>h :: search_hit. mr_node_id (sh_record h)); key = (\<lambda>h. (- sh_score h, node h))
   in distinct (map node out) \<and> length out \<le> rf_limit opts \<and> sorted (map key out)
    \<and> list_all (\<lambda>h. sh_score h = fused_score k channels (node h) \<and> node h \<in> node ` set (concat channels)) out
    \<and> list_all (\<lambda>h. node h \<in> node ` set out
         \<or> (length out = rf_limit opts \<and>
            list_all (\<lambda>g. key g \<le> (- fused_score k channels (node h), node h)) out)) (concat channels)"
proof -
  define k where "k = rf_rank_constant opts"
  define node where "node = (\<lambda>h :: search_hit. mr_node_id (sh_record h))"
  define key where "key = (\<lambda>h :: search_hit. (- sh_score h, node h))"
  define out where "out = reciprocal_rank_fusion channels opts"
  have out: "out = take (rf_limit opts) (sort_key key (fused_hits k channels))"
    by (simp add: out_def reciprocal_rank_fusion_def fused_hits_def by_score_def key_def node_def k_def)
  have "distinct (map node (fused_hits k channels))"
    using fused_get [of k "ranked channels"] bt.keys_distinct unfolding node_def fused_hits_nodes by blast
  then have "distinct (map node out)"
    by (simp add: out take_map [symmetric] distinct_map_sort_key)
  moreover have "sorted (map key out)"
    by (simp add: out take_map [symmetric] sorted_wrt_take)
  moreover have "list_all (\<lambda>h. sh_score h = fused_score k channels (node h)
      \<and> node h \<in> node ` set (concat channels)) out"
    using fused_hits_scores [of _ k channels]
    unfolding list_all_iff out node_def by (metis in_set_takeD set_sort)
  moreover have "node h \<in> node ` set out \<or> (length out = rf_limit opts \<and>
      list_all (\<lambda>g. (- sh_score g, node g) \<le> (- fused_score k channels (node h), node h)) out)"
    if "h \<in> set (concat channels)" for h
  proof -
    from fused_hits_complete [OF that] obtain x
      where x: "x \<in> set (fused_hits k channels)" "node x = node h"
      by (auto simp: node_def)
    have kx: "key x = (- fused_score k channels (node h), node h)"
      using fused_hits_scores(1) [OF x(1)] x(2) by (simp add: key_def node_def)
    show ?thesis
    proof (cases "x \<in> set out")
      case True
      then show ?thesis using x(2) by (metis image_eqI)
    next
      case False
      have "length out = rf_limit opts \<and> (\<forall>y \<in> set out. key y \<le> key x)"
        unfolding out by (rule take_sorted_key [OF x(1)]) (use False out in simp)
      then show ?thesis unfolding kx unfolding key_def list_all_iff by blast
    qed
  qed
  then have "list_all (\<lambda>h. node h \<in> node ` set out \<or> (length out = rf_limit opts \<and>
      list_all (\<lambda>g. (- sh_score g, node g) \<le> (- fused_score k channels (node h), node h)) out)) (concat channels)"
    unfolding list_all_iff [of _ "concat channels"] by blast
  moreover have "length out \<le> rf_limit opts" by (simp add: out)
  ultimately show ?thesis
    unfolding Let_def out_def [symmetric] k_def [symmetric] node_def [symmetric] key_def [symmetric] by blast
qed

section \<open>Diversity\<close>

lemma best_candidate: "best_candidate f b cs \<in> set (b # cs) \<and> (\<forall>c \<in> set (b # cs). f c \<le> f (best_candidate f b cs))"
  by (induction f b cs rule: best_candidate.induct) force+

lemma mmr_select_picks:
  assumes "distinct remaining"
  shows "\<exists>picks. mmr_select f n selected remaining = selected @ picks \<and> distinct picks
    \<and> set picks \<subseteq> set remaining \<and> length picks = min n (length remaining)
    \<and> (n > 0 \<longrightarrow> remaining \<noteq> [] \<longrightarrow> (\<forall>i \<in> set remaining. f selected i \<le> f selected (hd picks)))"
  using assms
proof (induction n arbitrary: selected remaining)
  case (Suc n)
  show ?case
  proof (cases remaining)
    case (Cons c cs)
    define best where "best = best_candidate (f selected) c cs"
    have best: "best \<in> set remaining" "\<forall>i \<in> set remaining. f selected i \<le> f selected best"
      using best_candidate [of "f selected" c cs] by (simp_all add: best_def Cons)
    have "filter (\<lambda>i. i \<noteq> best) remaining = removeAll best remaining"
      unfolding removeAll_filter_not_eq by (rule filter_cong) auto
    then have len: "length (filter (\<lambda>i. i \<noteq> best) remaining) = length remaining - 1"
      using Suc.prems best(1) by (simp add: distinct_remove1_removeAll [symmetric] length_remove1)
    from Suc.IH [of "filter (\<lambda>i. i \<noteq> best) remaining" "selected @ [best]"] Suc.prems obtain picks
      where picks: "mmr_select f n (selected @ [best]) (filter (\<lambda>i. i \<noteq> best) remaining) = selected @ [best] @ picks"
        "distinct picks" "set picks \<subseteq> set remaining - {best}" "length picks = min n (length remaining - 1)"
      by (auto simp: len)
    have "mmr_select f (Suc n) selected remaining = selected @ best # picks"
      using picks(1) by (simp add: Cons best_def Let_def)
    then show ?thesis using picks(2-4) best Cons by (intro exI [of _ "best # picks"]) auto
  qed simp
qed simp

text \<open>Diversification answers hits it was given, none twice, as many as were asked for and are there;
  unless novelty is all that counts, the first of several is a hit of the best score.\<close>

theorem diversified_hits_are_a_selection:
  assumes "n > 1" and "length hits > 1"
  shows "\<exists>picks. mmr_diversify hits n lam = map (\<lambda>i. hits ! i) picks \<and> distinct picks
    \<and> set picks \<subseteq> {..<length hits} \<and> length picks = min n (length hits)
    \<and> (lam \<le> 0 \<or> (\<forall>h \<in> set hits. sh_score h \<le> sh_score (hits ! hd picks)))"
proof -
  define l where "l = clamp 0 1 lam"
  define scores where "scores = map sh_score hits"
  define denom where "denom = max \<bar>fold max (tl scores) (hd scores)\<bar> f32_epsilon"
  define relevance where "relevance = map (\<lambda>s. s / denom) scores"
  define words where "words = map (\<lambda>h. word_set (mr_content (sh_record h))) hits"
  define f where "f = mmr_score l relevance words"
  obtain picks where picks: "mmr_select f n [] [0..<length hits] = [] @ picks" "distinct picks"
      "set picks \<subseteq> set [0..<length hits]" "length picks = min n (length [0..<length hits])"
      "n > 0 \<longrightarrow> [0..<length hits] \<noteq> [] \<longrightarrow> (\<forall>i \<in> set [0..<length hits]. f [] i \<le> f [] (hd picks))"
    using mmr_select_picks [of "[0..<length hits]" f n "[]"] by auto
  have run: "mmr_diversify hits n lam = map (\<lambda>i. hits ! i) picks"
    using assms picks(1) by (simp add: mmr_diversify_def Let_def f_def l_def scores_def denom_def
        relevance_def words_def)
  have first: "hd picks < length hits" using picks(3,4) assms by (cases picks) auto
  have pos: "denom > 0" by (auto simp: denom_def f32_epsilon_def less_max_iff_disj)
  have f: "f [] i = l * (sh_score (hits ! i) / denom)" if "i < length hits" for i
    using that by (simp add: f_def mmr_score_def relevance_def scores_def)
  have "sh_score (hits ! i) \<le> sh_score (hits ! hd picks)" if "i < length hits" "lam > 0" for i
  proof -
    have "l > 0" using that(2) by (simp add: l_def clamp_def)
    moreover have "f [] i \<le> f [] (hd picks)" using picks(5) that(1) assms by auto
    ultimately show ?thesis using f [OF that(1)] f [OF first] pos
      by (simp add: mult_le_cancel_left_pos divide_le_cancel)
  qed
  then show ?thesis using run picks(2-4) by (intro exI [of _ picks]) (auto simp: in_set_conv_nth)
qed

theorem diversified_witness:
  "length (mmr_diversify [keyword_hit (new_record 0 ''a'' ''a'' ''one note'' [] [] L1Atom) 1,
      keyword_hit (new_record 0 ''b'' ''b'' ''one note'' [] [] L1Atom) 1,
      keyword_hit (new_record 0 ''c'' ''c'' ''else'' [] [] L1Atom) 1] 2 (1/2)) = 2"
  using diversified_hits_are_a_selection [of 2 "[keyword_hit (new_record 0 ''a'' ''a'' ''one note'' [] [] L1Atom) 1,
      keyword_hit (new_record 0 ''b'' ''b'' ''one note'' [] [] L1Atom) 1,
      keyword_hit (new_record 0 ''c'' ''c'' ''else'' [] [] L1Atom) 1]" "1/2"]
  by auto

end
