(* ===== verification/Eviction_Properties.thy ===== *)
theory Eviction_Properties
  imports Ranking_Properties
begin

text \<open>
  What one eviction pass decides: every archived record is an active one, archived once; the cap is
  met by archiving the weakest; nothing is deleted that was not archived before.
\<close>

section \<open>The state of a pass\<close>

text \<open>The ids archived so far are those of the archive entries, which are of scored records.\<close>

definition entry_of_scored :: "timestamp \<Rightarrow> scored list \<Rightarrow> eviction_log_entry \<Rightarrow> bool" where
  "entry_of_scored now scored e \<longleftrightarrow> (\<exists>reason. \<exists>rs \<in> set scored. e = log_entry_for now Archive reason rs)"

definition pass_ok :: "timestamp \<Rightarrow> eviction_log_entry list \<Rightarrow> scored list \<Rightarrow> pass \<Rightarrow> bool" where
  "pass_ok now hard scored st \<longleftrightarrow>
     (\<exists>es. snd st = hard @ es \<and> rev (fst st) = map el_record_id es \<and> distinct (fst st)
        \<and> (\<forall>e \<in> set es. entry_of_scored now scored e))"

lemma pass_ok_archive [inv_pres]:
  assumes "pass_ok now hard scored st" and "rs \<in> set scored"
  shows "pass_ok now hard scored (archive_record now reason rs st)"
proof (cases "mr_id (fst rs) \<in> set (fst st)")
  case False
  from assms(1) obtain es where es: "snd st = hard @ es" "rev (fst st) = map el_record_id es"
    "distinct (fst st)" "\<forall>e \<in> set es. entry_of_scored now scored e" by (auto simp: pass_ok_def)
  have "entry_of_scored now scored (log_entry_for now Archive reason rs)"
    using assms(2) by (auto simp: entry_of_scored_def)
  with es False show ?thesis
    unfolding pass_ok_def archive_record_def
    by (intro exI [of _ "es @ [log_entry_for now Archive reason rs]"]) (simp add: log_entry_for_def)
qed (use assms in \<open>simp add: archive_record_def\<close>)

lemma pass_ok_when [inv_pres]:
  "pass_ok now hard scored st \<Longrightarrow> set xs \<subseteq> set scored \<Longrightarrow>
    pass_ok now hard scored (archive_when now P reason xs st)"
  unfolding archive_when_def by (induction xs arbitrary: st) (simp_all add: pass_ok_archive)

lemma pass_ok_max_keep_loop:
  "pass_ok now hard scored st \<Longrightarrow> set xs \<subseteq> set scored \<Longrightarrow>
    pass_ok now hard scored (max_keep_loop now remaining cap k xs st)"
  by (induction now remaining cap k xs st rule: max_keep_loop.induct) (auto intro: pass_ok_archive)

lemma pass_ok_passes [inv_pres]:
  "pass_ok now hard scored st \<Longrightarrow> pass_ok now hard scored (ttl_pass now ttl scored st)"
  "pass_ok now hard scored st \<Longrightarrow> pass_ok now hard scored (min_strength_pass now m scored st)"
  "pass_ok now hard scored st \<Longrightarrow> set xs \<subseteq> set scored \<Longrightarrow> pass_ok now hard scored (lru_pass now xs st)"
  "pass_ok now hard scored st \<Longrightarrow> set xs \<subseteq> set scored \<Longrightarrow> pass_ok now hard scored (max_keep_pass now cap xs st)"
  unfolding ttl_pass_def min_strength_pass_def lru_pass_def max_keep_pass_def Let_def
  by (auto intro!: pass_ok_when pass_ok_max_keep_loop dest: in_set_takeD split: option.splits)

text \<open>The state before the cap is applied, and the scored records it is applied to.\<close>

definition before_cap :: "timestamp \<Rightarrow> memory_record list \<Rightarrow> eviction_policy \<Rightarrow> pass \<times> scored list" where
  "before_cap now records p =
     (let scored = scored_active now p records;
          st = min_strength_pass now (ep_min_strength p) scored
                 (ttl_pass now (ep_ttl_days p) scored ([], hard_deletes now p records));
          sorted = (if ep_lru p \<or> ep_max_keep p \<noteq> None then sort_key snd scored else scored)
      in (if ep_lru p \<and> ep_max_keep p = None then lru_pass now sorted st else st, sorted))"

lemma evict_log: "er_log (evict now records p) =
    snd (case before_cap now records p of (st, scored) \<Rightarrow> max_keep_pass now (ep_max_keep p) scored st)"
  by (simp add: evict_def before_cap_def Let_def)

lemma evict_counts:
  "er_archived (evict now records p) = length (filter (\<lambda>e. el_action e = Archive) (er_log (evict now records p)))"
  "er_deleted (evict now records p) = length (filter (\<lambda>e. el_action e = Delete) (er_log (evict now records p)))"
  by (simp_all add: evict_def Let_def)

lemma before_cap_ok:
  assumes "before_cap now records p = (st, scored)"
  shows "pass_ok now (hard_deletes now p records) scored st"
    and "mset scored = mset (scored_active now p records)"
    and "ep_max_keep p \<noteq> None \<Longrightarrow> sorted (map snd scored)"
proof -
  let ?s = "scored_active now p records" and ?h = "hard_deletes now p records"
  have start: "pass_ok now ?h ?s ([], ?h)" by (simp add: pass_ok_def)
  have scored: "scored = (if ep_lru p \<or> ep_max_keep p \<noteq> None then sort_key snd ?s else ?s)"
    using assms by (simp add: before_cap_def Let_def)
  then show "mset scored = mset ?s" and "ep_max_keep p \<noteq> None \<Longrightarrow> sorted (map snd scored)"
    by auto
  then have "set scored = set ?s" by (metis set_mset_mset)
  then have same: "pass_ok now ?h scored = pass_ok now ?h ?s"
    by (simp add: fun_eq_iff pass_ok_def entry_of_scored_def)
  have "pass_ok now ?h ?s st"
    using assms start \<open>set scored = set ?s\<close>
    by (auto simp: before_cap_def Let_def intro!: pass_ok_passes split: if_splits)
  then show "pass_ok now ?h scored st" by (simp add: same)
qed

text \<open>C12: The log is the hard deletes, of archived records only and only on request, followed by one
  archive entry for every record that is archived, each of an active record and no record twice; the
  counts are those of the log.\<close>

theorem eviction_decides_each_record_once:
  "let report = evict now records p; archived = filter (\<lambda>e. el_action e = Archive) (er_log report);
       deleted = filter (\<lambda>e. el_action e = Delete) (er_log report)
   in er_log report = deleted @ archived \<and> er_archived report = length archived
    \<and> er_deleted report = length deleted \<and> distinct (map el_record_id archived)
    \<and> set (map el_record_id archived) \<subseteq> mr_id ` {r \<in> set records. mr_state r = Active}
    \<and> map el_record_id deleted =
        (if ep_hard p then map mr_id (filter (\<lambda>r. mr_state r = Archived) records) else [])"
proof -
  obtain st scored where bc: "before_cap now records p = (st, scored)" by fastforce
  have "pass_ok now (hard_deletes now p records) scored (max_keep_pass now (ep_max_keep p) scored st)"
    using before_cap_ok(1) [OF bc] by (auto intro: pass_ok_passes)
  then obtain es where es: "er_log (evict now records p) = hard_deletes now p records @ es"
    "distinct (map el_record_id es)" "\<forall>e \<in> set es. entry_of_scored now scored e"
    unfolding pass_ok_def evict_log bc prod.case by (metis distinct_rev)
  have "filter (\<lambda>e. el_action e = Archive) es = es" "filter (\<lambda>e. el_action e = Delete) es = []"
    using es(3) by (auto simp: filter_id_conv filter_empty_conv entry_of_scored_def log_entry_for_def)
  moreover have "filter (\<lambda>e. el_action e = Archive) (hard_deletes now p records) = []"
    "filter (\<lambda>e. el_action e = Delete) (hard_deletes now p records) = hard_deletes now p records"
    by (auto simp: hard_deletes_def filter_id_conv filter_empty_conv log_entry_for_def)
  moreover have "set (map el_record_id es) \<subseteq> mr_id ` {r \<in> set records. mr_state r = Active}"
  proof -
    have "set scored = set (scored_active now p records)"
      using before_cap_ok(2) [OF bc] by (metis set_mset_mset)
    then show ?thesis using es(3)
      by (fastforce simp: entry_of_scored_def log_entry_for_def scored_active_def)
  qed
  moreover have "map el_record_id (hard_deletes now p records) =
      (if ep_hard p then map mr_id (filter (\<lambda>r. mr_state r = Archived) records) else [])"
    by (simp add: hard_deletes_def log_entry_for_def comp_def)
  moreover from es(1) calculation(1-4)
  have "filter (\<lambda>e. el_action e = Archive) (er_log (evict now records p)) = es"
    "filter (\<lambda>e. el_action e = Delete) (er_log (evict now records p)) = hard_deletes now p records"
    by simp_all
  ultimately show ?thesis using es(1,2) unfolding Let_def evict_counts by simp
qed

section \<open>The cap\<close>

lemma max_keep_loop_run:
  assumes "distinct (map (\<lambda>rs. mr_id (fst rs)) xs)"
  shows "max_keep_loop now remaining cap k xs st =
    (let chosen = take k (filter (\<lambda>rs. mr_id (fst rs) \<notin> set (fst st)) xs)
     in (rev (map (\<lambda>rs. mr_id (fst rs)) chosen) @ fst st,
         snd st @ map (\<lambda>rs. log_entry_for now Archive (Max_keep remaining cap (snd rs)) rs) chosen))"
  using assms
proof (induction xs arbitrary: k st)
  case (Cons rs xs)
  let ?i = "mr_id (fst rs)"
  show ?case
  proof (cases "k = 0 \<or> ?i \<in> set (fst st)")
    case True
    then show ?thesis using Cons by (auto simp: Let_def)
  next
    case False
    then obtain k' where k: "k = Suc k'" by (cases k) auto
    have "?i \<notin> (\<lambda>rs. mr_id (fst rs)) ` set xs" using Cons.prems by simp
    then have "filter (\<lambda>rs. mr_id (fst rs) \<noteq> ?i \<and> mr_id (fst rs) \<notin> set (fst st)) xs =
        filter (\<lambda>rs. mr_id (fst rs) \<notin> set (fst st)) xs"
      by (intro filter_cong refl) (metis image_eqI)
    then show ?thesis using Cons False by (simp add: k Let_def archive_record_def)
  qed
qed simp

lemma max_keep_pass_run:
  assumes "distinct (map (\<lambda>rs. mr_id (fst rs)) scored)"
  shows "max_keep_pass now (Some k) scored st =
    (let free = filter (\<lambda>rs. mr_id (fst rs) \<notin> set (fst st)) scored;
         chosen = take (length free - k) free
     in (rev (map (\<lambda>rs. mr_id (fst rs)) chosen) @ fst st,
         snd st @ map (\<lambda>rs. log_entry_for now Archive (Max_keep (length free) k (snd rs)) rs) chosen))"
  using max_keep_loop_run [OF assms, of now _ k _ st]
  by (simp add: max_keep_pass_def unmarked_def Let_def)

lemma filter_not_taken:
  "distinct (map f xs) \<Longrightarrow> filter (\<lambda>x. f x \<notin> f ` set (take n xs)) xs = drop n xs"
proof (induction xs arbitrary: n)
  case (Cons x xs)
  show ?case
  proof (cases n)
    case (Suc m)
    have "f x \<notin> f ` set xs" using Cons.prems by simp
    then have "filter (\<lambda>y. f y \<notin> insert (f x) (f ` set (take m xs))) xs = filter (\<lambda>y. f y \<notin> f ` set (take m xs)) xs"
      by (intro filter_cong refl) (metis image_eqI insert_iff)
    then show ?thesis using Cons Suc by simp
  qed simp
qed simp

lemma kept_after_cap:
  assumes "distinct (map (\<lambda>rs. mr_id (fst rs)) scored)"
  shows "filter (\<lambda>rs. mr_id (fst rs) \<notin> set (fst (max_keep_pass now (Some k) scored st))) scored =
    (let free = filter (\<lambda>rs. mr_id (fst rs) \<notin> set (fst st)) scored in drop (length free - k) free)"
proof -
  let ?id = "\<lambda>rs :: scored. mr_id (fst rs)"
  let ?free = "filter (\<lambda>rs. ?id rs \<notin> set (fst st)) scored"
  let ?n = "length ?free - k"
  have "filter (\<lambda>rs. ?id rs \<notin> set (fst (max_keep_pass now (Some k) scored st))) scored =
      filter (\<lambda>rs. ?id rs \<notin> ?id ` set (take ?n ?free)) ?free"
    unfolding max_keep_pass_run [OF assms] Let_def by (auto intro: filter_cong)
  also have "\<dots> = drop ?n ?free" by (rule filter_not_taken) (rule distinct_map_filter [OF assms])
  finally show ?thesis by (simp add: Let_def)
qed

text \<open>Before the cap nothing is archived for it.\<close>

definition no_cap :: "pass \<Rightarrow> bool" where
  "no_cap st \<longleftrightarrow> (\<forall>e \<in> set (snd st). \<forall>n c s. el_reason e \<noteq> Max_keep n c s)"

lemma no_cap_when:
  assumes "no_cap st" and "\<And>rs n c s. reason rs \<noteq> Max_keep n c s"
  shows "no_cap (archive_when now P reason xs st)"
  using assms(1) unfolding archive_when_def
proof (induction xs arbitrary: st)
  case (Cons rs xs)
  have "no_cap (archive_record now (reason rs) rs st)"
    using Cons.prems assms(2) by (auto simp: no_cap_def archive_record_def log_entry_for_def)
  with Cons show ?case by simp
qed simp

lemma no_cap_passes:
  "no_cap st \<Longrightarrow> no_cap (ttl_pass now ttl xs st)"
  "no_cap st \<Longrightarrow> no_cap (min_strength_pass now m xs st)"
  "no_cap st \<Longrightarrow> no_cap (lru_pass now xs st)"
  by (auto simp: ttl_pass_def min_strength_pass_def lru_pass_def Let_def split: option.split
      intro!: no_cap_when)

lemma no_cap_before: "before_cap now records p = (st, scored) \<Longrightarrow> no_cap st"
proof -
  have "no_cap ([], hard_deletes now p records)"
    by (auto simp: no_cap_def hard_deletes_def log_entry_for_def)
  then show "before_cap now records p = (st, scored) \<Longrightarrow> no_cap st"
    by (auto simp: before_cap_def Let_def intro!: no_cap_passes split: if_splits)
qed

text \<open>The ids of the archive entries, and the records that are left.\<close>

lemma archived_ids:
  assumes "pass_ok now (hard_deletes now p records) scored st"
  shows "el_record_id ` {e \<in> set (snd st). el_action e = Archive} = set (fst st)"
proof -
  obtain es where es: "snd st = hard_deletes now p records @ es" "rev (fst st) = map el_record_id es"
    "\<forall>e \<in> set es. entry_of_scored now scored e"
    using assms by (auto simp: pass_ok_def)
  have "el_action e = Archive" if "e \<in> set es" for e
    using es(3) that by (auto simp: entry_of_scored_def log_entry_for_def)
  moreover have "el_action e = Delete" if "e \<in> set (hard_deletes now p records)" for e
    using that by (auto simp: hard_deletes_def log_entry_for_def split: if_splits)
  ultimately have "{e \<in> set (snd st). el_action e = Archive} = set es" using es(1) by force
  moreover have "set (fst st) = el_record_id ` set es" using es(2) by (metis list.set_map set_rev)
  ultimately show ?thesis by simp
qed

definition kept_records :: "string list \<Rightarrow> memory_record list \<Rightarrow> memory_record list" where
  "kept_records ids records = filter (\<lambda>r. mr_state r = Active \<and> mr_id r \<notin> set ids) records"

lemma kept_are_the_strongest:
  assumes "before_cap now records p = (st, scored)" and "distinct (map mr_id records)"
  shows "distinct (map (\<lambda>rs. mr_id (fst rs)) scored)"
    and "mset (map (\<lambda>r. (r, retrieval_strength r (ep_decay p) now))
        (kept_records (fst (max_keep_pass now (Some k) scored st)) records)) =
      (let free = filter (\<lambda>rs. mr_id (fst rs) \<notin> set (fst st)) scored in mset (drop (length free - k) free))"
proof -
  let ?id = "\<lambda>rs :: scored. mr_id (fst rs)"
  let ?final = "max_keep_pass now (Some k) scored st"
  have mset: "mset scored = mset (scored_active now p records)" by (rule before_cap_ok(2) [OF assms(1)])
  have "map ?id (scored_active now p records) = map mr_id (filter (\<lambda>r. mr_state r = Active) records)"
    by (simp add: scored_active_def comp_def)
  then have "mset (map ?id scored) = mset (map mr_id (filter (\<lambda>r. mr_state r = Active) records))"
    by (metis mset mset_map)
  then show dist: "distinct (map ?id scored)"
    using mset_eq_imp_distinct_iff distinct_map_filter [OF assms(2)] by metis
  have "map (\<lambda>r. (r, retrieval_strength r (ep_decay p) now)) (kept_records (fst ?final) records) =
      filter (\<lambda>rs. ?id rs \<notin> set (fst ?final)) (scored_active now p records)"
    by (simp add: kept_records_def scored_active_def filter_map comp_def conj_commute)
  then have "mset (map (\<lambda>r. (r, retrieval_strength r (ep_decay p) now)) (kept_records (fst ?final) records)) =
      mset (filter (\<lambda>rs. ?id rs \<notin> set (fst ?final)) scored)"
    by (simp add: mset)
  then show "mset (map (\<lambda>r. (r, retrieval_strength r (ep_decay p) now)) (kept_records (fst ?final) records)) =
      (let free = filter (\<lambda>rs. ?id rs \<notin> set (fst st)) scored in mset (drop (length free - k) free))"
    by (simp add: kept_after_cap [OF dist, of now k st] Let_def)
qed

text \<open>With a cap and records of distinct ids, no more active records than the cap are left, and
  none of them is weaker than one that was archived for the cap.\<close>

theorem eviction_meets_the_cap:
  assumes "distinct (map mr_id records)" and "ep_max_keep p = Some k"
  shows "let log = er_log (evict now records p);
      kept = filter (\<lambda>r. mr_state r = Active \<and>
        mr_id r \<notin> el_record_id ` {e \<in> set log. el_action e = Archive}) records
    in length kept \<le> k \<and> (\<forall>e \<in> set log. \<forall>n c s. el_reason e = Max_keep n c s \<longrightarrow>
         c = k \<and> (\<forall>r \<in> set kept. s \<le> retrieval_strength r (ep_decay p) now))"
proof -
  obtain st scored where bc: "before_cap now records p = (st, scored)" by fastforce
  let ?final = "max_keep_pass now (Some k) scored st"
  define free where "free = filter (\<lambda>rs. mr_id (fst rs) \<notin> set (fst st)) scored"
  define kept where "kept = kept_records (fst ?final) records"
  have log: "er_log (evict now records p) = snd ?final" by (simp add: evict_log bc assms(2))
  have ids: "el_record_id ` {e \<in> set (snd ?final). el_action e = Archive} = set (fst ?final)"
    by (rule archived_ids [OF pass_ok_passes(4) [OF before_cap_ok(1) [OF bc] order.refl]])
  note dist = kept_are_the_strongest(1) [OF bc assms(1)]
  have left: "mset (map (\<lambda>r. (r, retrieval_strength r (ep_decay p) now)) kept) = mset (drop (length free - k) free)"
    using kept_are_the_strongest(2) [OF bc assms(1), of k] by (simp add: kept_def free_def Let_def)
  have run: "snd ?final = snd st @ map (\<lambda>rs. log_entry_for now Archive (Max_keep (length free) k (snd rs)) rs)
      (take (length free - k) free)"
    by (simp add: max_keep_pass_run [OF dist] Let_def free_def)
  have sorted: "sorted (map snd (take (length free - k) free) @ map snd (drop (length free - k) free))"
    using before_cap_ok(3) [OF bc] assms(2)
    by (simp only: map_append [symmetric] append_take_drop_id free_def) (simp add: sorted_filter)
  from arg_cong [OF left, of size] have "length kept \<le> k" by simp
  moreover have "c = k \<and> (\<forall>r \<in> set kept. s \<le> retrieval_strength r (ep_decay p) now)"
    if e: "e \<in> set (snd ?final)" "el_reason e = Max_keep n c s" for e n c s
  proof -
    have "e \<notin> set (snd st)" using no_cap_before [OF bc] e(2) by (auto simp: no_cap_def)
    then obtain rs where rs: "rs \<in> set (take (length free - k) free)"
      and entry: "e = log_entry_for now Archive (Max_keep (length free) k (snd rs)) rs"
      using e(1) unfolding run set_append set_map by blast
    have "c = k" "s = snd rs" using e(2) unfolding entry log_entry_for_def by simp_all
    moreover have "(r, retrieval_strength r (ep_decay p) now) \<in> set (drop (length free - k) free)"
      if "r \<in> set kept" for r
      using arg_cong [OF left, of set_mset] that by (auto simp: image_iff)
    ultimately show ?thesis using rs sorted unfolding sorted_append by fastforce
  qed
  ultimately show ?thesis unfolding Let_def log ids kept_def kept_records_def by blast
qed

text \<open>Three records of which the cap keeps one: nothing was used, so the first two go.\<close>

theorem eviction_cap_witness:
  "let p = \<lparr>ep_ttl_days = None, ep_lru = False, ep_min_strength = None, ep_max_keep = Some 1,
            ep_hard = False, ep_decay = default_decay\<rparr>;
       records = map (\<lambda>i. new_record 0 i i i [] [] L1Atom) [''a'', ''b'', ''c'']
   in length (filter (\<lambda>r. mr_state r = Active \<and>
        mr_id r \<notin> el_record_id ` {e \<in> set (er_log (evict 5 records p)). el_action e = Archive}) records) \<le> 1"
  using eviction_meets_the_cap [of "map (\<lambda>i. new_record 0 i i i [] [] L1Atom) [''a'', ''b'', ''c'']"
      "\<lparr>ep_ttl_days = None, ep_lru = False, ep_min_strength = None, ep_max_keep = Some 1,
        ep_hard = False, ep_decay = default_decay\<rparr>" 1 5]
  unfolding Let_def by (simp add: new_record_def)

end
