(* ===== verification/Memory_Graph.thy ===== *)
theory Memory_Graph
  imports Memory_Records
begin

text \<open>
  The relation graph over records: crates/aquifer/src/graph.rs, with the entities of entity.rs that
  relations are extracted from. Two records are neighbours when relations with their node ids as
  source share an entity.
\<close>

definition MAX_GRAPH_HOPS :: nat where "MAX_GRAPH_HOPS = 3"
definition GRAPH_EXPANSION_LIMIT :: nat where "GRAPH_EXPANSION_LIMIT = 64"
definition EXTRACTED_RELATION_LIMIT :: nat where "EXTRACTED_RELATION_LIMIT = 8"

section \<open>Entities in a text\<close>

text \<open>The text between two quote characters; an opening quote that is never closed takes the rest.\<close>

function quoted_terms :: "char \<Rightarrow> string \<Rightarrow> string list" where
  "quoted_terms q s =
     (case dropWhile (\<lambda>c. c \<noteq> q) s of
        [] \<Rightarrow> []
      | _ # rest \<Rightarrow>
          takeWhile (\<lambda>c. c \<noteq> q) rest # quoted_terms q (drop 1 (dropWhile (\<lambda>c. c \<noteq> q) rest)))"
  by pat_completeness auto
termination
proof (relation "measure (\<lambda>(q, s). length s)")
  fix q s x rest assume "dropWhile (\<lambda>c. c \<noteq> q) s = x # rest"
  then have "length rest < length s" by (metis length_Cons length_dropWhile_le less_eq_Suc_le)
  moreover have "length (drop 1 (dropWhile (\<lambda>c. c \<noteq> q) rest)) \<le> length rest"
    using length_dropWhile_le [of "\<lambda>c. c \<noteq> q" rest] by simp
  ultimately show "((q, drop 1 (dropWhile (\<lambda>c. c \<noteq> q) rest)), (q, s)) \<in> measure (\<lambda>(q, s). length s)"
    by simp
qed simp

declare quoted_terms.simps [simp del]

definition extract_backtick_quoted :: "string \<Rightarrow> string list" where
  "extract_backtick_quoted txt = filter (\<lambda>t. length t \<ge> 2) (map trim (quoted_terms (CHR 0x60) txt))"

definition extract_double_quoted :: "string \<Rightarrow> string list" where
  "extract_double_quoted txt =
     filter (\<lambda>t. length t \<ge> 2 \<and> length t \<le> 60 \<and> \<not> contains LF t)
       (map trim (quoted_terms (CHR 0x22) txt))"

definition is_ascii_upper :: "char \<Rightarrow> bool" where
  "is_ascii_upper c \<longleftrightarrow> (let n = of_char c :: nat in 65 \<le> n \<and> n \<le> 90)"

definition is_ascii_lower :: "char \<Rightarrow> bool" where
  "is_ascii_lower c \<longleftrightarrow> (let n = of_char c :: nat in 97 \<le> n \<and> n \<le> 122)"

text \<open>On bytes: a continuation byte is no ASCII letter, so it changes neither question.\<close>

definition is_camel_or_pascal :: "string \<Rightarrow> bool" where
  "is_camel_or_pascal w \<longleftrightarrow> char_count w \<ge> 2 \<and> list_ex is_ascii_lower w \<and> list_ex is_ascii_upper (tl w)"

definition is_all_caps :: "string \<Rightarrow> bool" where
  "is_all_caps w \<longleftrightarrow> length w \<ge> 3 \<and> list_all (\<lambda>c. is_ascii_upper c \<or> is_ascii_digit c) w
     \<and> list_ex is_ascii_upper w"

definition word_char :: "char \<Rightarrow> bool" where
  "word_char c \<longleftrightarrow> is_ascii_alphanumeric c \<or> (of_char c :: nat) \<ge> 128 \<or> c = CHR ''_''"

fun split_words :: "string \<Rightarrow> string \<Rightarrow> string list" where
  "split_words acc [] = [rev acc]"
| "split_words acc (c # cs) = (if word_char c then split_words (c # acc) cs else rev acc # split_words [] cs)"

definition trim_underscores :: "string \<Rightarrow> string" where
  "trim_underscores s =
     rev (dropWhile (\<lambda>c. c = CHR ''_'') (rev (dropWhile (\<lambda>c. c = CHR ''_'') s)))"

definition extract_word_entities :: "string \<Rightarrow> string list" where
  "extract_word_entities txt =
     filter (\<lambda>w. length w \<ge> 3 \<and> (is_camel_or_pascal w \<or> is_all_caps w))
       (map trim_underscores (split_words [] txt))"

definition extract_entities :: "string \<Rightarrow> string list" where
  "extract_entities txt =
     extract_backtick_quoted txt @ extract_double_quoted txt @ extract_word_entities txt"

definition sorted_dedup :: "string list \<Rightarrow> string list" where
  "sorted_dedup xs = remdups_adj (sort xs)"

lemma sorted_dedup [simp]: "set (sorted_dedup xs) = set xs" "distinct (sorted_dedup xs)"
  by (simp_all add: sorted_dedup_def sorted_distinct_remdups_adj)

definition extract_entity_relations :: "string \<Rightarrow> string list \<Rightarrow> string \<Rightarrow> relation list" where
  "extract_entity_relations content tags source =
     normalize_relations
       (map (\<lambda>entity. new_relation source ''mentions'' entity source)
         (take EXTRACTED_RELATION_LIMIT (sorted_dedup (tags @ extract_entities content)))) source"

section \<open>Drill-down\<close>

definition relation_mentions_entity :: "relation \<Rightarrow> string \<Rightarrow> bool" where
  "relation_mentions_entity r entity \<longleftrightarrow> rl_subject r = entity \<or> rl_object r = entity"

definition relation_entities :: "relation \<Rightarrow> string list" where
  "relation_entities r = [rl_subject r, rl_object r]"

definition push_unique :: "string \<Rightarrow> string list \<Rightarrow> string list" where
  "push_unique v vs = (if v \<in> set vs then vs else vs @ [v])"

definition by_entity_node_ids :: "memory_record list \<Rightarrow> string \<Rightarrow> string list" where
  "by_entity_node_ids records entity =
     (if trim entity = [] then []
      else fold (\<lambda>r ids.
             if length ids < GRAPH_EXPANSION_LIMIT \<and> relation_mentions_entity r (trim entity)
             then push_unique (rl_source_node_id r) ids else ids)
           (concat (map mr_relations records)) [])"

definition index_relation ::
    "relation \<Rightarrow> (string \<Rightarrow> string list) \<times> (string \<Rightarrow> string list)
      \<Rightarrow> (string \<Rightarrow> string list) \<times> (string \<Rightarrow> string list)" where
  "index_relation r idx =
     fold (\<lambda>entity (entities, sources).
       (entities(rl_source_node_id r := push_unique entity (entities (rl_source_node_id r))),
        sources(entity := push_unique (rl_source_node_id r) (sources entity))))
     (relation_entities r) idx"

text \<open>A key that is missing in a map of the source is an empty list here; both are passed over.\<close>

definition index_relations ::
    "memory_record list \<Rightarrow> (string \<Rightarrow> string list) \<times> (string \<Rightarrow> string list)" where
  "index_relations records =
     fold index_relation (concat (map mr_relations records)) (\<lambda>_. [], \<lambda>_. [])"

text \<open>The search: the visited nodes, the output, and the next frontier. A full output stands for
  the early return.\<close>

record graph_search =
  gs_visited :: "string list"
  gs_output :: "string list"
  gs_next :: "string list"

definition visit :: "string \<Rightarrow> graph_search \<Rightarrow> graph_search" where
  "visit candidate s =
     (if length (gs_output s) \<ge> GRAPH_EXPANSION_LIMIT \<or> candidate \<in> set (gs_visited s) then s
      else s\<lparr>gs_visited := candidate # gs_visited s, gs_output := gs_output s @ [candidate],
             gs_next := gs_next s @ [candidate]\<rparr>)"

definition candidates ::
    "(string \<Rightarrow> string list) \<times> (string \<Rightarrow> string list) \<Rightarrow> string list \<Rightarrow> string list" where
  "candidates idx frontier =
     concat (map (\<lambda>source. concat (map (snd idx) (fst idx source))) frontier)"

fun hop :: "(string \<Rightarrow> string list) \<times> (string \<Rightarrow> string list) \<Rightarrow> nat \<Rightarrow> string list \<Rightarrow> graph_search \<Rightarrow> graph_search" where
  "hop idx 0 frontier s = s"
| "hop idx (Suc n) frontier s =
     (let s' = fold visit (candidates idx frontier) (s\<lparr>gs_next := []\<rparr>)
      in if gs_next s' = [] \<or> length (gs_output s') \<ge> GRAPH_EXPANSION_LIMIT then s'
         else hop idx n (gs_next s') s')"

definition neighbor_node_ids :: "memory_record list \<Rightarrow> string \<Rightarrow> nat \<Rightarrow> string list" where
  "neighbor_node_ids records node hops =
     (if trim node = [] \<or> hops = 0 then []
      else gs_output (hop (index_relations records) (min hops MAX_GRAPH_HOPS) [node]
             \<lparr>gs_visited = [node], gs_output = [], gs_next = []\<rparr>))"

definition records_by_node_ids :: "memory_record list \<Rightarrow> string list \<Rightarrow> memory_record list" where
  "records_by_node_ids records ids =
     List.map_filter (\<lambda>i. List.find (\<lambda>r. mr_node_id r = i \<or> mr_id r = i) records) ids"

text \<open>\<open>expand_hits_with_neighbors\<close> over a backend's \<open>neighbors\<close>.\<close>

definition append_neighbor :: "memory_record \<Rightarrow> search_hit list \<times> nat \<Rightarrow> search_hit list \<times> nat" where
  "append_neighbor r st =
     (let (expanded, appended) = st
      in if appended \<ge> GRAPH_EXPANSION_LIMIT
            \<or> mr_node_id r \<in> set (map (\<lambda>h. mr_node_id (sh_record h)) expanded)
         then st else (expanded @ [keyword_hit r 0], Suc appended))"

fun expand_seeds ::
    "(string \<Rightarrow> nat \<Rightarrow> memory_error + memory_record list) \<Rightarrow> nat \<Rightarrow> string list
      \<Rightarrow> search_hit list \<times> nat \<Rightarrow> memory_error + search_hit list" where
  "expand_seeds neighbors hops [] st = Inr (fst st)"
| "expand_seeds neighbors hops (seed # seeds) st =
     (if snd st \<ge> GRAPH_EXPANSION_LIMIT then Inr (fst st)
      else case neighbors seed hops of
        Inl e \<Rightarrow> Inl e
      | Inr rs \<Rightarrow> expand_seeds neighbors hops seeds (fold append_neighbor rs st))"

definition expand_hits_with_neighbors ::
    "(string \<Rightarrow> nat \<Rightarrow> memory_error + memory_record list) \<Rightarrow> search_hit list \<Rightarrow> nat
      \<Rightarrow> memory_error + search_hit list" where
  "expand_hits_with_neighbors neighbors hits hops =
     expand_seeds neighbors hops (map (\<lambda>h. mr_node_id (sh_record h)) hits) (hits, 0)"

end
