(* ===== verification/Graph_Properties.thy ===== *)
theory Graph_Properties
  imports Memory_Graph
begin

text \<open>
  The neighbour search is the breadth-first search of the relation graph, as long as its output is not
  full; and what the bounds on relation names do to it.
\<close>

section \<open>The index\<close>

lemma set_push_unique [simp]: "set (push_unique v vs) = insert v (set vs)"
  by (auto simp: push_unique_def)

lemma index_relation_sets:
  "set (fst (index_relation r idx) s) = set (fst idx s) \<union> (if rl_source_node_id r = s then set (relation_entities r) else {})"
  "set (snd (index_relation r idx) e) = set (snd idx e) \<union> (if e \<in> set (relation_entities r) then {rl_source_node_id r} else {})"
  by (auto simp: index_relation_def relation_entities_def split: prod.splits)

lemma fold_index_sets:
  "set (fst (fold index_relation rs idx) s) =
     set (fst idx s) \<union> (\<Union>r \<in> {r \<in> set rs. rl_source_node_id r = s}. set (relation_entities r))"
  "set (snd (fold index_relation rs idx) e) =
     set (snd idx e) \<union> rl_source_node_id ` {r \<in> set rs. e \<in> set (relation_entities r)}"
  by (induction rs arbitrary: idx) (auto simp: index_relation_sets)

text \<open>Two nodes are linked when relations of theirs share an entity.\<close>

definition linked :: "memory_record list \<Rightarrow> (string \<times> string) set" where
  "linked records = {(s, t). \<exists>r \<in> set (concat (map mr_relations records)).
     \<exists>q \<in> set (concat (map mr_relations records)).
       rl_source_node_id r = s \<and> rl_source_node_id q = t \<and>
       set (relation_entities r) \<inter> set (relation_entities q) \<noteq> {}}"

lemma set_candidates: "set (candidates (index_relations records) frontier) = linked records `` set frontier"
  by (auto simp: candidates_def index_relations_def fold_index_sets linked_def Image_def) fastforce+

section \<open>The search\<close>

primrec nodes_within :: "('a \<times> 'a) set \<Rightarrow> 'a \<Rightarrow> nat \<Rightarrow> 'a set" where
  "nodes_within R x 0 = {x}"
| "nodes_within R x (Suc n) = nodes_within R x n \<union> R `` nodes_within R x n"

lemma nodes_within_mono: "m \<le> n \<Longrightarrow> nodes_within R x m \<subseteq> nodes_within R x n"
  by (induction n) (auto simp: le_Suc_eq)

lemma nodes_within_closed: "R `` nodes_within R x m \<subseteq> nodes_within R x m \<Longrightarrow> m \<le> n \<Longrightarrow> nodes_within R x n = nodes_within R x m"
  by (induction n) (auto simp: le_Suc_eq)

text \<open>What the search keeps: the visited nodes are the start and the output.\<close>

definition search_ok :: "string \<Rightarrow> graph_search \<Rightarrow> bool" where
  "search_ok node s \<longleftrightarrow> set (gs_visited s) = insert node (set (gs_output s)) \<and> distinct (gs_output s)
     \<and> node \<notin> set (gs_output s) \<and> length (gs_output s) \<le> GRAPH_EXPANSION_LIMIT"

lemma visit_ok [inv_pres]: "search_ok node s \<Longrightarrow> search_ok node (visit c s)"
  by (auto simp: search_ok_def visit_def)

lemma visits_ok [inv_pres]: "search_ok node s \<Longrightarrow> search_ok node (fold visit cs s)"
  by (induction cs arbitrary: s) (auto intro: visit_ok)

lemma visits_grow: "length (gs_output s) \<le> length (gs_output (fold visit cs s))"
proof (induction cs arbitrary: s)
  case (Cons c cs)
  have "length (gs_output s) \<le> length (gs_output (visit c s))" by (simp add: visit_def)
  then show ?case using Cons [of "visit c s"] by simp
qed simp

text \<open>Unless the output is full, one round visits all candidates and its frontier are the new ones.\<close>

lemma visits_all:
  assumes "length (gs_output (fold visit cs s)) < GRAPH_EXPANSION_LIMIT"
  shows "set (gs_visited (fold visit cs s)) = set (gs_visited s) \<union> set cs
    \<and> set (gs_next (fold visit cs s)) = set (gs_next s) \<union> (set cs - set (gs_visited s))"
  using assms
proof (induction cs arbitrary: s)
  case (Cons c cs)
  have "length (gs_output s) < GRAPH_EXPANSION_LIMIT" "length (gs_output (visit c s)) < GRAPH_EXPANSION_LIMIT"
    using Cons.prems visits_grow [of s "c # cs"] visits_grow [of "visit c s" cs] by simp_all
  then show ?case using Cons by (auto simp: visit_def)
qed simp

lemma visits_sound:
  "set (gs_visited (fold visit cs s)) \<subseteq> set (gs_visited s) \<union> set cs"
  "set (gs_next (fold visit cs s)) \<subseteq> set (gs_next s) \<union> set cs"
proof (induction cs arbitrary: s)
  case (Cons c cs)
  { case 1 show ?case using Cons(1) [of "visit c s"] by (auto simp: visit_def split: if_splits) }
  { case 2 show ?case using Cons(2) [of "visit c s"] by (auto simp: visit_def split: if_splits) }
qed simp_all

lemma hop_spec:
  assumes "search_ok node s" and "set (gs_visited s) \<subseteq> nodes_within R node i" and "set frontier \<subseteq> nodes_within R node i"
    and "\<And>f. set (candidates idx f) = R `` set f"
    and "length (gs_output s) < GRAPH_EXPANSION_LIMIT \<Longrightarrow>
      set (gs_visited s) = nodes_within R node i \<and> R `` (nodes_within R node i - set frontier) \<subseteq> nodes_within R node i"
  shows "search_ok node (hop idx n frontier s) \<and> set (gs_visited (hop idx n frontier s)) \<subseteq> nodes_within R node (i + n)
    \<and> (length (gs_output (hop idx n frontier s)) < GRAPH_EXPANSION_LIMIT \<longrightarrow>
        set (gs_visited (hop idx n frontier s)) = nodes_within R node (i + n))"
  using assms(1-3,5)
proof (induction n arbitrary: i frontier s)
  case (Suc n)
  define s' where "s' = fold visit (candidates idx frontier) (s\<lparr>gs_next := []\<rparr>)"
  have start: "search_ok node (s\<lparr>gs_next := []\<rparr>)" using Suc.prems(1) by (simp add: search_ok_def)
  have ok: "search_ok node s'" unfolding s'_def by (rule visits_ok [OF start])
  have image: "R `` set frontier \<subseteq> R `` nodes_within R node i" using Suc.prems(3) by blast
  have "set (gs_visited s') \<subseteq> set (gs_visited s) \<union> R `` set frontier" "set (gs_next s') \<subseteq> R `` set frontier"
    using visits_sound [of "candidates idx frontier" "s\<lparr>gs_next := []\<rparr>"] assms(4) by (simp_all add: s'_def)
  then have sound: "set (gs_visited s') \<subseteq> nodes_within R node (Suc i)" "set (gs_next s') \<subseteq> nodes_within R node (Suc i)"
    using Suc.prems(2) image by (simp_all only: nodes_within.simps) blast+
  have full: "set (gs_visited s') = nodes_within R node (Suc i) \<and>
      R `` (nodes_within R node (Suc i) - set (gs_next s')) \<subseteq> nodes_within R node (Suc i)"
    if short: "length (gs_output s') < GRAPH_EXPANSION_LIMIT"
  proof -
    have before: "length (gs_output s) < GRAPH_EXPANSION_LIMIT"
      using visits_grow [of "s\<lparr>gs_next := []\<rparr>" "candidates idx frontier"] short by (simp add: s'_def)
    have vis: "set (gs_visited s) = nodes_within R node i" "R `` (nodes_within R node i - set frontier) \<subseteq> nodes_within R node i"
      using Suc.prems(4) [OF before] by auto
    have "set (gs_visited s') = nodes_within R node i \<union> R `` set frontier"
      "set (gs_next s') = R `` set frontier - nodes_within R node i"
      using visits_all [OF short [unfolded s'_def]] vis(1) assms(4) by (simp_all add: s'_def)
    moreover from this(1) vis(2) Suc.prems(3) have "set (gs_visited s') = nodes_within R node (Suc i)" by auto
    ultimately show ?thesis by auto
  qed
  show ?case
  proof (cases "gs_next s' = [] \<or> length (gs_output s') \<ge> GRAPH_EXPANSION_LIMIT")
    case True
    then have run: "hop idx (Suc n) frontier s = s'" by (simp add: s'_def Let_def)
    have "nodes_within R node (Suc i) \<subseteq> nodes_within R node (i + Suc n)" by (rule nodes_within_mono) simp
    moreover have "set (gs_visited s') = nodes_within R node (i + Suc n)"
      if short: "length (gs_output s') < GRAPH_EXPANSION_LIMIT"
      using full [OF short] True short nodes_within_closed [of R node "Suc i" "i + Suc n"] by auto
    ultimately show ?thesis using ok sound unfolding run by blast
  next
    case False
    then have "hop idx (Suc n) frontier s = hop idx n (gs_next s') s'" by (simp add: s'_def Let_def)
    then show ?thesis using Suc.IH [OF ok sound full] by simp
  qed
qed simp

lemma neighbour_search:
  assumes "trim node \<noteq> []" and "hops \<noteq> 0"
  shows "\<exists>s. neighbor_node_ids records node hops = gs_output s \<and> search_ok node s
    \<and> set (gs_visited s) \<subseteq> nodes_within (linked records) node (min hops 3)
    \<and> (length (gs_output s) < GRAPH_EXPANSION_LIMIT \<longrightarrow>
        set (gs_visited s) = nodes_within (linked records) node (min hops 3))"
proof -
  let ?s = "\<lparr>gs_visited = [node], gs_output = [], gs_next = []\<rparr>"
  define r where "r = hop (index_relations records) (min hops 3) [node] ?s"
  have "search_ok node r \<and> set (gs_visited r) \<subseteq> nodes_within (linked records) node (0 + min hops 3)
      \<and> (length (gs_output r) < GRAPH_EXPANSION_LIMIT \<longrightarrow>
          set (gs_visited r) = nodes_within (linked records) node (0 + min hops 3))"
    unfolding r_def by (rule hop_spec [OF _ _ _ set_candidates])
      (simp_all add: search_ok_def GRAPH_EXPANSION_LIMIT_def)
  moreover have "neighbor_node_ids records node hops = gs_output r"
    using assms by (simp add: neighbor_node_ids_def r_def MAX_GRAPH_HOPS_def)
  ultimately show ?thesis by auto
qed

lemma no_search: "trim node = [] \<or> hops = 0 \<Longrightarrow> neighbor_node_ids records node hops = []"
  by (simp add: neighbor_node_ids_def)

text \<open>C8: The neighbours of a node are found once each and without the node itself, at most 64 of them;
  when they are fewer, they are exactly the nodes within the requested number of links, of which the
  search follows at most three.\<close>

theorem neighbours_are_the_reachable_nodes:
  "let out = neighbor_node_ids records node hops
   in distinct out \<and> node \<notin> set out \<and> length out \<le> 64
    \<and> set out \<subseteq> nodes_within (linked records) node (min hops 3)
    \<and> (length out = 64 \<or> trim node = [] \<or> set out = nodes_within (linked records) node (min hops 3) - {node})"
proof (cases "trim node = [] \<or> hops = 0")
  case False
  then show ?thesis
    using neighbour_search [of node hops records] by (auto simp: search_ok_def GRAPH_EXPANSION_LIMIT_def Let_def)
qed (auto simp: no_search Let_def)

section \<open>Bounded names\<close>

text \<open>A source name has at most 128 characters, so a node id with more is no source: the search from
  such a node finds nothing, whatever relations its record asserts.\<close>

lemma char_count_bounded_trim: "char_count (bounded_trim n s) \<le> n"
  by (simp add: bounded_trim_def take_chars_le)

lemma normal_relation_source:
  assumes "r \<in> set (normalize_relations rs source)"
  shows "char_count (rl_source_node_id r) \<le> 128"
proof -
  obtain q where "normalize_relation source q = Some r"
    using normal_relations [of source rs] assms by (force simp: normal_relations_def)
  then have "rl_source_node_id r = bounded_trim MAX_ENTITY_CHARS source"
    by (auto simp: normalize_relation_def Let_def split: if_splits)
  then show ?thesis using char_count_bounded_trim [of MAX_ENTITY_CHARS source] by (simp add: MAX_ENTITY_CHARS_def)
qed

theorem long_node_ids_have_no_neighbours:
  assumes "list_all (\<lambda>r. mr_relations r = normalize_relations (given r) (mr_node_id r)) records"
    and "char_count node > 128"
  shows "neighbor_node_ids records node hops = []"
proof -
  have "char_count (rl_source_node_id q) \<le> 128" if "q \<in> set (concat (map mr_relations records))" for q
    using that assms(1) normal_relation_source by (auto simp: list_all_iff)
  then have "linked records `` {node} = {}" using assms(2) by (fastforce simp: linked_def)
  then have "nodes_within (linked records) node n = {node}" for n by (induction n) auto
  then have "set (neighbor_node_ids records node hops) \<subseteq> {node}" "node \<notin> set (neighbor_node_ids records node hops)"
    using neighbour_search [of node hops records] no_search [of node hops records]
    by (cases "trim node = [] \<or> hops = 0"; auto simp: search_ok_def)+
  then show ?thesis by (auto dest: subset_singletonD)
qed

theorem long_node_ids_witness:
  "neighbor_node_ids [(new_record 0 ''a'' (replicate 129 (CHR ''n'')) ''note'' [] [] L1Atom)
      \<lparr>mr_relations := normalize_relations [new_relation ''a'' ''links'' ''b'' []] (replicate 129 (CHR ''n''))\<rparr>]
    (replicate 129 (CHR ''n'')) 2 = []"
proof (rule long_node_ids_have_no_neighbours)
  show "char_count (replicate 129 (CHR ''n'')) > 128" by code_simp
qed (simp add: new_record_def)

text \<open>A name that is cut after 128 characters can end in a blank, which the next normalisation
  removes: what is stored is not what is read back.\<close>

theorem normalising_twice_changes_a_relation:
  "let r = new_relation (replicate 127 (CHR ''n'') @ '' x'') ''links'' ''b'' []; once = normalize_relations [r] ''s''
   in normalize_relations once ''s'' \<noteq> once
     \<and> map rl_subject (normalize_relations once ''s'') = [replicate 127 (CHR ''n'')]"
  by code_simp

end
