(* ===== verification/Memory_Files.thy ===== *)
theory Memory_Files
  imports Ranking Memory_Graph
begin

text \<open>
  The file-backed memory store: crates/aquifer/src/files.rs. A record is a markdown file with its
  metadata in the front matter.

  The state is the directory tree of the store: the files with their paths from the root, in the order
  in which a traversal meets them (a new file last), and whether the root and its directory
  \<open>memory\<close> exist. The access counts that \<open>find\<close> writes back are spawned tasks that run later: they are
  a list of pending writes, and \<open>flush_write\<close> runs one of them, in any order. YAML, TOML, SHA-256 and
  the date printers are a parameter (\<open>memory_codec\<close>), as is the answer of the lane lock; reads and
  writes of single files succeed. All clock readings of one operation are the same instant.
\<close>

section \<open>Headers\<close>

datatype yaml_value = Yaml_string string | Yaml_number string | Yaml_bool bool | Yaml_other

record file_header =
  fh_id :: string
  fh_node_id :: string
  fh_tier :: memory_tier
  fh_tags :: "string list"
  fh_metadata :: metadata
  fh_created_at :: timestamp
  fh_scope :: "memory_scope option"
  fh_agent_id :: "string option"
  fh_session_id :: "string option"
  fh_task_id :: "string option"
  fh_user_id :: "string option"
  fh_project :: "string option"
  fh_source :: "string option"
  fh_author_id :: "string option"
  fh_confidence :: "rat option"
  fh_relations :: "relation list"
  fh_last_access :: "timestamp option"
  fh_access_count :: u32
  fh_useful_count :: u32
  fh_state :: memory_state

record headwater_header =
  hh_kind :: string
  hh_id :: "string option"
  hh_title :: "string option"
  hh_description :: "string option"
  hh_tags :: "string list"
  hh_timestamp :: "timestamp option"
  hh_node_id :: "string option"
  hh_tier :: "memory_tier option"
  hh_metadata :: metadata
  hh_scope :: "memory_scope option"
  hh_agent_id :: "string option"
  hh_session_id :: "string option"
  hh_task_id :: "string option"
  hh_user_id :: "string option"
  hh_project :: "string option"
  hh_source :: "string option"
  hh_author_id :: "string option"
  hh_confidence :: "rat option"
  hh_relations :: "relation list"
  hh_last_access :: "timestamp option"
  hh_access_count :: u32
  hh_useful_count :: u32
  hh_state :: memory_state
  hh_unknown :: "(string, yaml_value) btree_map"

record memory_codec =
  mc_yaml_print :: "headwater_header \<Rightarrow> string"
  mc_yaml_read :: "string \<Rightarrow> headwater_header option"
  mc_toml_read :: "string \<Rightarrow> file_header option"
  mc_hash :: "string \<Rightarrow> string"
  mc_date :: "timestamp \<Rightarrow> string"
  mc_rfc3339 :: "timestamp \<Rightarrow> string"

definition headwater_of :: "memory_record \<Rightarrow> headwater_header" where
  "headwater_of r =
     \<lparr>hh_kind = ''memory'', hh_id = Some (mr_id r), hh_title = None, hh_description = None,
      hh_tags = mr_tags r, hh_timestamp = Some (mr_created_at r), hh_node_id = Some (mr_node_id r),
      hh_tier = Some (mr_tier r), hh_metadata = mr_metadata r, hh_scope = mr_scope r,
      hh_agent_id = mr_agent_id r, hh_session_id = mr_session_id r, hh_task_id = mr_task_id r,
      hh_user_id = mr_user_id r, hh_project = mr_project r, hh_source = mr_source r,
      hh_author_id = mr_author_id r, hh_confidence = mr_confidence r, hh_relations = mr_relations r,
      hh_last_access = mr_last_access r, hh_access_count = mr_access_count r,
      hh_useful_count = mr_useful_count r, hh_state = mr_state r, hh_unknown = bt_empty\<rparr>"

definition yaml_fence :: string where
  "yaml_fence = LF @ ''---'' @ LF"

definition toml_fence :: string where
  "toml_fence = LF @ ''+++'' @ LF"

definition render_record :: "memory_codec \<Rightarrow> memory_record \<Rightarrow> string" where
  "render_record c r =
     ''---'' @ LF @ mc_yaml_print c (headwater_of r) @ ''---'' @ LF @ LF @ mr_content r @ LF"

fun scalar_to_string :: "yaml_value \<Rightarrow> string option" where
  "scalar_to_string (Yaml_string s) = Some s"
| "scalar_to_string (Yaml_number s) = Some s"
| "scalar_to_string (Yaml_bool b) = Some (if b then ''true'' else ''false'')"
| "scalar_to_string Yaml_other = None"

definition record_kinds :: "string list" where
  "record_kinds = [''memory'', ''decision'', ''runbook'', ''reference'', ''incident'', ''feedback'', ''user'']"

definition metadata_of :: "string \<Rightarrow> headwater_header \<Rightarrow> metadata" where
  "metadata_of kind h =
     (let m = hh_metadata h;
          m = (if kind \<noteq> ''memory'' then bt_insert ''headwater_type'' kind m else m);
          m = (case hh_title h of Some t \<Rightarrow> bt_insert ''title'' t m | None \<Rightarrow> m);
          m = (case hh_description h of Some d \<Rightarrow> bt_insert ''description'' d m | None \<Rightarrow> m)
      in fold (\<lambda>(key, value) m.
           case scalar_to_string value of
             Some v \<Rightarrow> if bt_get m key = None then bt_insert key v m else m
           | None \<Rightarrow> m) (hh_unknown h) m)"

definition parse_headwater_record ::
    "memory_codec \<Rightarrow> timestamp \<Rightarrow> string \<Rightarrow> memory_error + memory_record" where
  "parse_headwater_record c now txt =
     (case strip_prefix (''---'' @ LF) txt of
        None \<Rightarrow> Inl (Invalid_file ''missing headwater front matter'')
      | Some rest \<Rightarrow>
     (case split_once yaml_fence rest of
        None \<Rightarrow> Inl (Invalid_file ''unterminated headwater front matter'')
      | Some (header, body) \<Rightarrow>
     (case mc_yaml_read c header of
        None \<Rightarrow> Inl (Yaml_error header)
      | Some h \<Rightarrow>
          (let kind = to_ascii_lowercase (hh_kind h);
               created = (case hh_timestamp h of Some t \<Rightarrow> t | None \<Rightarrow> now);
               content = trim body; meta = metadata_of kind h;
               tier = (case hh_tier h of Some t \<Rightarrow> t | None \<Rightarrow> L1Atom);
               memory = \<lparr>sm_content = content, sm_tags = hh_tags h, sm_metadata = meta, sm_tier = tier,
                 sm_node_id = hh_node_id h, sm_created_at = Some created, sm_scope = hh_scope h,
                 sm_agent_id = hh_agent_id h, sm_session_id = hh_session_id h, sm_task_id = hh_task_id h,
                 sm_user_id = hh_user_id h, sm_project = hh_project h, sm_source = hh_source h,
                 sm_author_id = hh_author_id h, sm_confidence = hh_confidence h,
                 sm_relations = hh_relations h\<rparr>;
               i = (case hh_id h of Some i \<Rightarrow> i | None \<Rightarrow> stable_memory_id (mc_hash c) memory);
               node = (case hh_node_id h of Some n \<Rightarrow> n | None \<Rightarrow> ''node:'' @ i)
           in if kind \<notin> set record_kinds
              then Inl (Invalid_file (''unsupported headwater record type: '' @ hh_kind h))
              else Inr
                \<lparr>mr_id = i, mr_node_id = node, mr_content = content, mr_tags = hh_tags h,
                 mr_metadata = meta, mr_tier = tier, mr_created_at = created, mr_scope = hh_scope h,
                 mr_agent_id = hh_agent_id h, mr_session_id = hh_session_id h,
                 mr_task_id = hh_task_id h, mr_user_id = hh_user_id h, mr_project = hh_project h,
                 mr_source = hh_source h, mr_author_id = hh_author_id h,
                 mr_confidence = hh_confidence h,
                 mr_relations = normalize_relations (hh_relations h) node,
                 mr_last_access = hh_last_access h, mr_access_count = hh_access_count h,
                 mr_useful_count = hh_useful_count h, mr_state = hh_state h\<rparr>))))"

definition parse_record :: "memory_codec \<Rightarrow> timestamp \<Rightarrow> string \<Rightarrow> memory_error + memory_record" where
  "parse_record c now txt =
     (if starts_with (''---'' @ LF) txt then parse_headwater_record c now txt
      else case strip_prefix (''+++'' @ LF) txt of
        None \<Rightarrow> Inl (Invalid_file ''missing TOML front matter'')
      | Some rest \<Rightarrow>
     (case split_once toml_fence rest of
        None \<Rightarrow> Inl (Invalid_file ''unterminated TOML front matter'')
      | Some (header, body) \<Rightarrow>
     (case mc_toml_read c header of
        None \<Rightarrow> Inl (Toml_error header)
      | Some h \<Rightarrow>
          (let content = (case strip_prefix (''['' @ mc_date c (fh_created_at h) @ ''] '') (trim body) of
                 Some rest \<Rightarrow> rest | None \<Rightarrow> trim body)
           in Inr
             \<lparr>mr_id = fh_id h, mr_node_id = fh_node_id h, mr_content = content, mr_tags = fh_tags h,
              mr_metadata = fh_metadata h, mr_tier = fh_tier h, mr_created_at = fh_created_at h,
              mr_scope = fh_scope h, mr_agent_id = fh_agent_id h, mr_session_id = fh_session_id h,
              mr_task_id = fh_task_id h, mr_user_id = fh_user_id h, mr_project = fh_project h,
              mr_source = fh_source h, mr_author_id = fh_author_id h,
              mr_confidence = fh_confidence h,
              mr_relations = normalize_relations (fh_relations h) (fh_node_id h),
              mr_last_access = fh_last_access h, mr_access_count = fh_access_count h,
              mr_useful_count = fh_useful_count h, mr_state = fh_state h\<rparr>))))"

section \<open>The directory\<close>

type_synonym path = "string list"

record memory_dir =
  md_root :: bool
  md_memory :: bool
  md_files :: "(path \<times> string) list"

record memory_world =
  mw_dir :: memory_dir
  mw_pending :: "(string \<times> memory_record) list"

definition is_reserved_headwater_file :: "string \<Rightarrow> bool" where
  "is_reserved_headwater_file name \<longleftrightarrow> name = ''index.md'' \<or> name = ''log.md''"

text \<open>\<open>extension() == "md"\<close>: a name that is nothing but \<open>.md\<close> has no extension.\<close>

definition is_record_name :: "string \<Rightarrow> bool" where
  "is_record_name name \<longleftrightarrow> ends_with ''.md'' name \<and> length name > 3 \<and> \<not> is_reserved_headwater_file name"

definition file_stem_of :: "string \<Rightarrow> string" where
  "file_stem_of name = take (length name - 3) name"

definition in_memory :: "path \<Rightarrow> bool" where
  "in_memory p \<longleftrightarrow> length p \<ge> 2 \<and> hd p = ''memory''"

definition record_files :: "(path \<Rightarrow> bool) \<Rightarrow> memory_dir \<Rightarrow> (path \<times> string) list" where
  "record_files below d = filter (\<lambda>(p, _). p \<noteq> [] \<and> below p \<and> is_record_name (last p)) (md_files d)"

fun collect_records :: "memory_codec \<Rightarrow> timestamp \<Rightarrow> (path \<times> string) list \<Rightarrow> memory_error + memory_record list" where
  "collect_records c now [] = Inr []"
| "collect_records c now ((p, txt) # files) =
     (case parse_record c now txt of
        Inl e \<Rightarrow> Inl e
      | Inr r \<Rightarrow> (case collect_records c now files of Inl e \<Rightarrow> Inl e | Inr rs \<Rightarrow> Inr (r # rs)))"

definition load_records :: "memory_codec \<Rightarrow> timestamp \<Rightarrow> memory_dir \<Rightarrow> memory_error + memory_record list" where
  "load_records c now d =
     (if md_memory d \<or> md_root d
      then (case collect_records c now (record_files (if md_memory d then in_memory else (\<lambda>_. True)) d) of
              Inl e \<Rightarrow> Inl e
            | Inr rs \<Rightarrow> Inr (sort_key (\<lambda>r. - mr_created_at r) rs))
      else Inr [])"

definition find_existing_record_path :: "memory_dir \<Rightarrow> string \<Rightarrow> (path \<times> string) option" where
  "find_existing_record_path d i =
     (if \<not> md_memory d then None
      else List.find (\<lambda>(p, _). file_stem_of (last p) = i) (record_files in_memory d))"

fun first_match :: "memory_codec \<Rightarrow> timestamp \<Rightarrow> string \<Rightarrow> (path \<times> string) list
      \<Rightarrow> memory_error + (path \<times> memory_record) option" where
  "first_match c now node [] = Inr None"
| "first_match c now node ((p, txt) # files) =
     (case parse_record c now txt of
        Inl e \<Rightarrow> Inl e
      | Inr r \<Rightarrow> if mr_node_id r = node \<or> mr_id r = node then Inr (Some (p, r))
                 else first_match c now node files)"

definition load_record_with_path ::
    "memory_codec \<Rightarrow> timestamp \<Rightarrow> memory_dir \<Rightarrow> string \<Rightarrow> memory_error + (path \<times> memory_record) option" where
  "load_record_with_path c now d node =
     (if \<not> md_memory d then Inr None else first_match c now node (record_files in_memory d))"

definition write_path :: "path \<Rightarrow> string \<Rightarrow> memory_dir \<Rightarrow> memory_dir" where
  "write_path p txt d =
     d\<lparr>md_files := (if p \<in> set (map fst (md_files d))
        then map (\<lambda>(q, t). (q, if q = p then txt else t)) (md_files d)
        else md_files d @ [(p, txt)])\<rparr>"

definition append_path :: "path \<Rightarrow> string \<Rightarrow> memory_dir \<Rightarrow> memory_dir" where
  "append_path p txt d =
     write_path p ((case map_of (md_files d) p of Some t \<Rightarrow> t | None \<Rightarrow> []) @ txt) d"

definition ensure_file :: "path \<Rightarrow> string \<Rightarrow> memory_dir \<Rightarrow> memory_dir" where
  "ensure_file p txt d = (if p \<in> set (map fst (md_files d)) then d else write_path p txt d)"

definition ensure_reserved_files :: "memory_dir \<Rightarrow> memory_dir" where
  "ensure_reserved_files d =
     ensure_file [''memory'', ''log.md'']
       (''---'' @ LF @ ''type: log'' @ LF @ ''title: Artesian Memory Log'' @ LF @ ''---'' @ LF @ LF @ ''# Log'' @ LF)
     (ensure_file [''memory'', ''index.md'']
       (''---'' @ LF @ ''type: index'' @ LF @ ''title: Artesian Memory Index'' @ LF @ ''---'' @ LF @ LF
         @ ''# Artesian Memory Index'' @ LF)
     (d\<lparr>md_root := True, md_memory := True\<rparr>))"

definition append_update_log :: "memory_codec \<Rightarrow> memory_record \<Rightarrow> memory_dir \<Rightarrow> memory_dir" where
  "append_update_log c r d =
     append_path [''memory'', ''log.md'']
       (LF @ ''- '' @ mc_rfc3339 c (mr_created_at r) @ '' stored memory `'' @ mr_id r @ ''` node `''
         @ mr_node_id r @ ''`'' @ LF) d"

section \<open>Matching and scoring\<close>

definition matches_node_filter :: "memory_record \<Rightarrow> string option \<Rightarrow> bool" where
  "matches_node_filter r node = (case node of None \<Rightarrow> True | Some n \<Rightarrow> mr_node_id r = n \<or> mr_id r = n)"

definition matches_tags :: "memory_record \<Rightarrow> string list \<Rightarrow> bool" where
  "matches_tags r tags \<longleftrightarrow> list_all (\<lambda>t. t \<in> set (mr_tags r)) tags"

definition matches_project_union :: "string option \<Rightarrow> string \<Rightarrow> bool" where
  "matches_project_union rp project =
     (let project = (if trim project = [] then SHARED_PROJECT else project)
      in case rp of None \<Rightarrow> True | Some p \<Rightarrow> p = project \<or> p = SHARED_PROJECT)"

definition matches_tenancy :: "memory_record \<Rightarrow> memory_query \<Rightarrow> bool" where
  "matches_tenancy r q \<longleftrightarrow>
     (mq_scope q = None \<or> mr_scope r = mq_scope q) \<and>
     (mq_agent_id q = None \<or> mr_agent_id r = mq_agent_id q) \<and>
     (mq_session_id q = None \<or> mr_session_id r = mq_session_id q) \<and>
     (mq_task_id q = None \<or> mr_task_id r = mq_task_id q) \<and>
     (mq_user_id q = None \<or> mr_user_id r = mq_user_id q) \<and>
     matches_project_union (mr_project r) (effective_project q)"

definition haystack :: "memory_record \<Rightarrow> string" where
  "haystack r =
     to_ascii_lowercase (mr_content r) @ '' '' @ to_ascii_lowercase (join '' '' (mr_tags r)) @ '' ''
     @ to_ascii_lowercase (join '' '' (bt_values (mr_metadata r)))"

definition score_record :: "memory_record \<Rightarrow> string list \<Rightarrow> bool \<Rightarrow> search_hit option" where
  "score_record r terms keep_zero =
     (if terms = [] then Some (keyword_hit r 1)
      else let score = (\<Sum>t\<leftarrow>terms. real (count_matches t (haystack r)))
           in if score > 0 \<or> keep_zero then Some (keyword_hit r score) else None)"

section \<open>The operations\<close>

record files_backend =
  fb_track_access :: bool
  fb_decay :: decay_config

definition new_files_backend :: files_backend where
  "new_files_backend = \<lparr>fb_track_access = True, fb_decay = default_decay\<rparr>"

definition selects :: "memory_query \<Rightarrow> memory_record \<Rightarrow> bool" where
  "selects q r \<longleftrightarrow> (mq_include_archived q \<or> mr_state r = Active) \<and> matches_node_filter r (mq_node_id q)
     \<and> matches_tags r (mq_tags q) \<and> matches_tenancy r q"

definition ranked_hits :: "files_backend \<Rightarrow> timestamp \<Rightarrow> memory_query \<Rightarrow> memory_record list \<Rightarrow> search_hit list" where
  "ranked_hits b now q records =
     (let hits = List.map_filter (\<lambda>r. score_record r (query_terms (mq_text q)) (mq_tags q \<noteq> []))
                   (filter (selects q) records)
      in take (mq_limit q)
           (sort_key (\<lambda>h. (- (sh_score h * retrieval_strength (sh_record h) (fb_decay b) now),
                           - mr_created_at (sh_record h))) hits))"

definition saturating_inc :: "u32 \<Rightarrow> u32" where
  "saturating_inc n = (if n = 0xFFFFFFFF then n else n + 1)"

definition accessed :: "timestamp \<Rightarrow> memory_record \<Rightarrow> memory_record" where
  "accessed now r = r\<lparr>mr_access_count := saturating_inc (mr_access_count r), mr_last_access := Some now\<rparr>"

definition files_find ::
    "memory_codec \<Rightarrow> files_backend \<Rightarrow> timestamp \<Rightarrow> memory_query \<Rightarrow> memory_world
      \<Rightarrow> (memory_error + search_hit list) \<times> memory_world" where
  "files_find c b now q w =
     (case load_records c now (mw_dir w) of
        Inl e \<Rightarrow> (Inl e, w)
      | Inr records \<Rightarrow>
          (let hits = annotate_session_distances now (ranked_hits b now q records) records (mq_session_id q);
               spawned = map (\<lambda>h. (mr_id (sh_record h), accessed now (sh_record h))) hits
           in (Inr hits, if fb_track_access b then w\<lparr>mw_pending := mw_pending w @ spawned\<rparr> else w)))"

text \<open>One spawned task: the record it holds replaces the file of that id, if there is one by then.\<close>

definition flush_write :: "memory_codec \<Rightarrow> nat \<Rightarrow> memory_world \<Rightarrow> memory_world" where
  "flush_write c n w =
     (if n < length (mw_pending w)
      then let (i, r) = mw_pending w ! n;
               w' = w\<lparr>mw_pending := take n (mw_pending w) @ drop (Suc n) (mw_pending w)\<rparr>
           in case find_existing_record_path (mw_dir w) i of
                Some (p, _) \<Rightarrow> w'\<lparr>mw_dir := write_path p (render_record c r) (mw_dir w)\<rparr>
              | None \<Rightarrow> w'
      else w)"

definition record_of :: "memory_codec \<Rightarrow> timestamp \<Rightarrow> store_memory \<Rightarrow> memory_record" where
  "record_of c now m =
     (let i = stable_memory_id (mc_hash c) m;
          node = (case sm_node_id m of Some n \<Rightarrow> n | None \<Rightarrow> ''node:'' @ i)
      in \<lparr>mr_id = i, mr_node_id = node, mr_content = sm_content m, mr_tags = sm_tags m,
          mr_metadata = sm_metadata m, mr_tier = sm_tier m,
          mr_created_at = (case sm_created_at m of Some t \<Rightarrow> t | None \<Rightarrow> now), mr_scope = sm_scope m,
          mr_agent_id = sm_agent_id m, mr_session_id = sm_session_id m, mr_task_id = sm_task_id m,
          mr_user_id = sm_user_id m, mr_project = sm_project m, mr_source = sm_source m,
          mr_author_id = sm_author_id m, mr_confidence = sm_confidence m,
          mr_relations = normalize_relations (sm_relations m) node, mr_last_access = None,
          mr_access_count = 0, mr_useful_count = 0, mr_state = Active\<rparr>)"

definition record_path :: "memory_codec \<Rightarrow> memory_record \<Rightarrow> path" where
  "record_path c r = [''memory'', mc_date c (mr_created_at r), mr_id r @ ''.md'']"

text \<open>\<open>lock\<close> is the error of the lane lock, if it is not acquired.\<close>

definition files_store ::
    "memory_codec \<Rightarrow> timestamp \<Rightarrow> memory_error option \<Rightarrow> store_memory \<Rightarrow> memory_dir
      \<Rightarrow> (memory_error + memory_record) \<times> memory_dir" where
  "files_store c now lock m d =
     (case validate_confidence m of
        Inl e \<Rightarrow> (Inl e, d)
      | Inr _ \<Rightarrow>
     (case lock of
        Some e \<Rightarrow> (Inl e, d)
      | None \<Rightarrow>
     (case find_existing_record_path d (stable_memory_id (mc_hash c) m) of
        Some (_, txt) \<Rightarrow> (parse_record c now txt, d)
      | None \<Rightarrow>
          (let r = record_of c now m;
               d = write_path (record_path c r) (render_record c r) (ensure_reserved_files d)
           in (Inr r, append_update_log c r d)))))"

definition files_get_node ::
    "memory_codec \<Rightarrow> timestamp \<Rightarrow> string \<Rightarrow> memory_dir \<Rightarrow> memory_error + memory_record option" where
  "files_get_node c now node d =
     (case load_records c now d of
        Inl e \<Rightarrow> Inl e
      | Inr rs \<Rightarrow> Inr (List.find (\<lambda>r. mr_node_id r = node \<or> mr_id r = node) rs))"

definition files_mark_used ::
    "memory_codec \<Rightarrow> timestamp \<Rightarrow> string \<Rightarrow> memory_dir
      \<Rightarrow> (memory_error + memory_record option) \<times> memory_dir" where
  "files_mark_used c now node d =
     (case load_record_with_path c now d node of
        Inl e \<Rightarrow> (Inl e, d)
      | Inr None \<Rightarrow> (Inr None, d)
      | Inr (Some (p, r)) \<Rightarrow>
          (let r' = r\<lparr>mr_useful_count := saturating_inc (mr_useful_count r)\<rparr>
           in (Inr (Some r'), write_path p (render_record c r') d)))"

definition superseding :: "memory_codec \<Rightarrow> timestamp \<Rightarrow> memory_record \<Rightarrow> relation \<Rightarrow> store_memory" where
  "superseding c now r rel =
     \<lparr>sm_content = ''Memory '' @ mr_node_id r @ '' was retracted.'',
      sm_tags = [''retraction'', ''supersede''],
      sm_metadata = bt_insert ''retracted_node_id'' (mr_node_id r)
        (bt_insert ''retracted_record_id'' (mr_id r)
          (bt_insert ''retracted_at'' (mc_rfc3339 c now) bt_empty)),
      sm_tier = mr_tier r, sm_node_id = Some (''retract:'' @ mr_node_id r), sm_created_at = Some now,
      sm_scope = mr_scope r, sm_agent_id = mr_agent_id r, sm_session_id = mr_session_id r,
      sm_task_id = mr_task_id r, sm_user_id = mr_user_id r, sm_project = mr_project r,
      sm_source = Some ''artesian.retract'', sm_author_id = mr_author_id r,
      sm_confidence = mr_confidence r, sm_relations = [rel]\<rparr>"

definition files_retract ::
    "memory_codec \<Rightarrow> timestamp \<Rightarrow> memory_error option \<Rightarrow> string \<Rightarrow> memory_dir
      \<Rightarrow> (memory_error + retract_report option) \<times> memory_dir" where
  "files_retract c now lock node d =
     (case load_record_with_path c now d node of
        Inl e \<Rightarrow> (Inl e, d)
      | Inr None \<Rightarrow> (Inr None, d)
      | Inr (Some (p, r)) \<Rightarrow>
          (let target = ''retract:'' @ mr_node_id r;
               rel = new_relation (mr_node_id r) ''superseded_by'' target target;
               r' = r\<lparr>mr_state := Retracted,
                      mr_metadata := bt_insert ''retracted_at'' (mc_rfc3339 c now) (mr_metadata r),
                      mr_relations := normalize_relations (mr_relations r @ [rel]) (mr_node_id r)\<rparr>
           in case files_store c now lock (superseding c now r' rel) (write_path p (render_record c r') d) of
                (Inl e, d') \<Rightarrow> (Inl e, d')
              | (Inr s, d') \<Rightarrow> (Inr (Some \<lparr>rr_retracted = r', rr_supersede = s\<rparr>), d')))"

definition files_neighbors ::
    "memory_codec \<Rightarrow> timestamp \<Rightarrow> memory_dir \<Rightarrow> string \<Rightarrow> nat \<Rightarrow> memory_error + memory_record list" where
  "files_neighbors c now d node hops =
     (case load_records c now d of
        Inl e \<Rightarrow> Inl e
      | Inr rs \<Rightarrow> Inr (records_by_node_ids rs (neighbor_node_ids rs node hops)))"

definition files_by_entity ::
    "memory_codec \<Rightarrow> timestamp \<Rightarrow> memory_dir \<Rightarrow> string \<Rightarrow> memory_error + memory_record list" where
  "files_by_entity c now d entity =
     (case load_records c now d of
        Inl e \<Rightarrow> Inl e
      | Inr rs \<Rightarrow> Inr (records_by_node_ids rs (by_entity_node_ids rs entity)))"

definition files_projects :: "memory_codec \<Rightarrow> timestamp \<Rightarrow> memory_dir \<Rightarrow> memory_error + string list" where
  "files_projects c now d =
     (case load_records c now d of
        Inl e \<Rightarrow> Inl e
      | Inr rs \<Rightarrow> Inr (sorted_dedup (List.map_filter mr_project rs)))"

end
