(* ===== verification/Memory_Facts.thy ===== *)
theory Memory_Facts
  imports Memory_Files Task_Facts
begin

text \<open>
  What a record file and a directory of them mean: the laws of the codec, the round trip of a record
  through its file, and what writing a file does to the records that are loaded.
\<close>

section \<open>The codec\<close>

text \<open>
  What the store relies on: a header without unknown keys is printed as a document that ends its
  last line, holds no line \<open>---\<close>, and reads back as itself; a SHA-256 digest has 64 digits.
\<close>

definition memory_codec_ok :: "memory_codec \<Rightarrow> bool" where
  "memory_codec_ok c \<longleftrightarrow>
     (\<forall>h. hh_unknown h = bt_empty \<longrightarrow> bt_ok (hh_metadata h) \<longrightarrow>
        (\<exists>y. mc_yaml_print c h = y @ LF \<and> \<not> contains yaml_fence (y @ LF) \<and> mc_yaml_read c y = Some h)) \<and>
     (\<forall>s. length (mc_hash c s) = 64)"

text \<open>What a file gives back of a record: its content without outer white space, its relations
  normalised.\<close>

definition as_read :: "memory_record \<Rightarrow> memory_record" where
  "as_read r = r\<lparr>mr_content := trim (mr_content r),
     mr_relations := normalize_relations (mr_relations r) (mr_node_id r)\<rparr>"

lemma as_read_fields [simp]:
  "mr_id (as_read r) = mr_id r" "mr_node_id (as_read r) = mr_node_id r"
  "mr_state (as_read r) = mr_state r" "mr_created_at (as_read r) = mr_created_at r"
  "mr_metadata (as_read r) = mr_metadata r" "mr_tags (as_read r) = mr_tags r"
  by (simp_all add: as_read_def)

lemma yaml_fence_is_fence: "yaml_fence = fence"
  by (simp add: yaml_fence_def fence_def LF_def nl_def)

lemma metadata_of_headwater: "metadata_of ''memory'' (headwater_of r) = mr_metadata r"
  by (simp add: metadata_of_def headwater_of_def bt_empty_def)

lemma memory_kind: "to_ascii_lowercase ''memory'' = ''memory''"
  by code_simp

lemma parse_rendered_record:
  assumes "memory_codec_ok c" and "bt_ok (mr_metadata r)"
  shows "parse_record c now (render_record c r) = Inr (as_read r)"
proof -
  have "hh_unknown (headwater_of r) = bt_empty" "bt_ok (hh_metadata (headwater_of r))"
    using assms(2) by (simp_all add: headwater_of_def)
  then obtain y where y: "mc_yaml_print c (headwater_of r) = y @ LF" "\<not> contains yaml_fence (y @ LF)"
    "mc_yaml_read c y = Some (headwater_of r)" using assms(1) unfolding memory_codec_ok_def by meson
  have rendered: "render_record c r = (''---'' @ LF) @ y @ yaml_fence @ (LF @ mr_content r @ LF)"
    by (simp add: render_record_def y(1) yaml_fence_def)
  have split: "split_once yaml_fence (y @ yaml_fence @ (LF @ mr_content r @ LF)) = Some (y, LF @ mr_content r @ LF)"
    using split_once_fence y(2) by (simp add: yaml_fence_is_fence LF_def nl_def)
  have body: "trim (LF @ mr_content r @ LF) = trim (mr_content r)"
    by (rule trim_padded) (simp_all add: LF_def ws_def)
  have "strip_prefix (''---'' @ LF) (render_record c r) = Some (y @ yaml_fence @ (LF @ mr_content r @ LF))"
    unfolding rendered strip_prefix_Some by simp
  then show ?thesis
    using metadata_of_headwater [of r]
    by (simp only: parse_record_def starts_with_def parse_headwater_record_def split y(3) body option.case
        prod.case option.distinct not_False_eq_True if_True)
      (simp add: headwater_of_def memory_kind record_kinds_def as_read_def Let_def)
qed

section \<open>The directory\<close>

lemma write_path_paths: "set (map fst (md_files (write_path p txt d))) = insert p (set (map fst (md_files d)))"
proof -
  have same: "map fst (map (\<lambda>(q, t). (q, if q = p then txt else t)) fs) = map fst fs" for fs :: "(path \<times> string) list"
    by (induction fs) auto
  show ?thesis
  proof (cases "p \<in> set (map fst (md_files d))")
    case True
    then have "md_files (write_path p txt d) = map (\<lambda>(q, t). (q, if q = p then txt else t)) (md_files d)"
      by (simp add: write_path_def)
    then show ?thesis using True by (simp only: same insert_absorb)
  qed (simp add: write_path_def)
qed

lemma write_path_fields [simp]:
  "md_memory (write_path p txt d) = md_memory d" "md_root (write_path p txt d) = md_root d"
  by (simp_all add: write_path_def)

lemma record_files_write_other:
  assumes "\<not> is_record_name (last p)"
  shows "record_files P (write_path p txt d) = record_files P d"
proof -
  have "filter (\<lambda>(q, _). q \<noteq> [] \<and> P q \<and> is_record_name (last q))
      (map (\<lambda>(q, t). (q, if q = p then txt else t)) fs) =
    filter (\<lambda>(q, _). q \<noteq> [] \<and> P q \<and> is_record_name (last q)) fs" for fs
    using assms by (induction fs) auto
  then show ?thesis using assms by (simp add: record_files_def write_path_def)
qed

lemma record_files_write_new:
  assumes "p \<notin> set (map fst (md_files d))" and "p \<noteq> []" and "P p" and "is_record_name (last p)"
  shows "record_files P (write_path p txt d) = record_files P d @ [(p, txt)]"
  using assms by (simp add: record_files_def write_path_def)

lemma record_files_write_old:
  assumes "p \<in> set (map fst (md_files d))"
  shows "record_files P (write_path p txt d) =
    map (\<lambda>(q, t). (q, if q = p then txt else t)) (record_files P d)"
proof -
  have "filter (\<lambda>(q, _). Q q) (map (\<lambda>(q, t). (q, if q = p then txt else t)) fs) =
    map (\<lambda>(q, t). (q, if q = p then txt else t)) (filter (\<lambda>(q, _). Q q) fs)" for Q fs
    by (induction fs) auto
  then show ?thesis using assms by (simp add: record_files_def write_path_def)
qed

lemma reserved_names: "\<not> is_record_name ''log.md''" "\<not> is_record_name ''index.md''"
  by (simp_all add: is_record_name_def is_reserved_headwater_file_def)

lemma record_files_append_log [simp]: "record_files P (append_update_log c r d) = record_files P d"
  by (simp add: append_update_log_def append_path_def record_files_write_other reserved_names)

lemma record_files_reserved [simp]: "record_files P (ensure_reserved_files d) = record_files P d"
proof -
  have "record_files P (d\<lparr>md_root := True, md_memory := True\<rparr>) = record_files P d"
    by (simp add: record_files_def)
  then show ?thesis
    by (simp add: ensure_reserved_files_def ensure_file_def record_files_write_other reserved_names)
qed

lemma dir_flags [simp]:
  "md_memory (append_update_log c r d) = md_memory d" "md_root (append_update_log c r d) = md_root d"
  "md_memory (ensure_reserved_files d)" "md_root (ensure_reserved_files d)"
  by (simp_all add: append_update_log_def append_path_def ensure_reserved_files_def ensure_file_def)

lemma collect_append:
  "collect_records c now (xs @ ys) =
    (case collect_records c now xs of Inl e \<Rightarrow> Inl e
     | Inr rs \<Rightarrow> (case collect_records c now ys of Inl e \<Rightarrow> Inl e | Inr ss \<Rightarrow> Inr (rs @ ss)))"
  by (induction c now xs rule: collect_records.induct) (auto split: sum.splits)

section \<open>Record names\<close>

lemma record_name:
  assumes "length i = 64"
  shows "is_record_name (i @ ''.md'')" and "file_stem_of (i @ ''.md'') = i"
proof -
  have "i @ ''.md'' \<noteq> ''index.md''" "i @ ''.md'' \<noteq> ''log.md''" by (rule notI, drule arg_cong [of _ _ length], simp add: assms)+
  then show "is_record_name (i @ ''.md'')"
    using assms by (simp add: is_record_name_def is_reserved_headwater_file_def ends_with_def starts_with_def)
  show "file_stem_of (i @ ''.md'') = i" by (simp add: file_stem_of_def)
qed

lemma not_stored_new_path:
  assumes "find_existing_record_path d i = None" and "md_memory d" and "length i = 64"
  shows "[''memory'', date, i @ ''.md''] \<notin> set (map fst (md_files d))"
proof
  assume "[''memory'', date, i @ ''.md''] \<in> set (map fst (md_files d))"
  then obtain t where "([''memory'', date, i @ ''.md''], t) \<in> set (record_files in_memory d)"
    using record_name(1) [OF assms(3)] by (auto simp: record_files_def in_memory_def)
  then show False
    using assms(1,2) find_NoneD record_name(2) [OF assms(3)] by (fastforce simp: find_existing_record_path_def)
qed

end
