(* ===== verification/Demo_Memory.thy ===== *)
theory Demo_Memory
  imports Memory_Facts Demo_Codec
begin

text \<open>
  A concrete codec for record files that satisfies the laws the store relies on: a header is printed
  as the decimal number of its fields. It is the codec of the witnesses.
\<close>

instance memory_state :: countable by countable_datatype
instance memory_tier :: countable by countable_datatype
instance memory_scope :: countable by countable_datatype

type_synonym memory_fields = "
  string \<times> string option \<times> string option \<times> string option \<times>
  string list \<times> timestamp option \<times> string option \<times> memory_tier option \<times>
  metadata \<times> memory_scope option \<times> string option \<times> string option \<times>
  string option \<times> string option \<times> string option \<times> string option \<times>
  string option \<times> rat option \<times>
  (string \<times> string \<times> string \<times> string) list \<times> timestamp option \<times>
  nat \<times> nat \<times> memory_state"

fun relation_fields :: "relation \<Rightarrow> string \<times> string \<times> string \<times> string" where
  "relation_fields \<lparr>rl_subject = a, rl_predicate = b, rl_object = c, rl_source_node_id = d\<rparr> = (a, b, c, d)"

fun fields_relation :: "string \<times> string \<times> string \<times> string \<Rightarrow> relation" where
  "fields_relation (a, b, c, d) =
     \<lparr>rl_subject = a, rl_predicate = b, rl_object = c, rl_source_node_id = d\<rparr>"

lemma fields_relation_inverse: "fields_relation (relation_fields r) = r"
  by (cases r) simp

fun memory_fields :: "headwater_header \<Rightarrow> memory_fields" where
  "memory_fields \<lparr>
      hh_kind = v0, hh_id = v1, hh_title = v2, hh_description = v3, hh_tags = v4,
      hh_timestamp = v5, hh_node_id = v6, hh_tier = v7, hh_metadata = v8, hh_scope = v9,
      hh_agent_id = v10, hh_session_id = v11, hh_task_id = v12, hh_user_id = v13, hh_project = v14,
      hh_source = v15, hh_author_id = v16, hh_confidence = v17, hh_relations = v18,
      hh_last_access = v19, hh_access_count = v20, hh_useful_count = v21, hh_state = v22,
      hh_unknown = u\<rparr> =
    (
     v0, v1, v2, v3, v4, v5, v6, v7, v8, v9, v10, v11, v12, v13, v14, v15, v16, v17,
     map relation_fields v18, v19, unat v20, unat v21, v22)"

fun fields_memory :: "memory_fields \<Rightarrow> headwater_header" where
  "fields_memory (
      v0, v1, v2, v3, v4, v5, v6, v7, v8, v9, v10, v11, v12, v13, v14, v15, v16, v17, v18, v19,
      v20, v21, v22) = \<lparr>
      hh_kind = v0, hh_id = v1, hh_title = v2, hh_description = v3, hh_tags = v4,
      hh_timestamp = v5, hh_node_id = v6, hh_tier = v7, hh_metadata = v8, hh_scope = v9,
      hh_agent_id = v10, hh_session_id = v11, hh_task_id = v12, hh_user_id = v13, hh_project = v14,
      hh_source = v15, hh_author_id = v16, hh_confidence = v17,
      hh_relations = map fields_relation v18, hh_last_access = v19, hh_access_count = of_nat v20,
      hh_useful_count = of_nat v21, hh_state = v22, hh_unknown = bt_empty\<rparr>"

lemma fields_memory_inverse: "hh_unknown h = bt_empty \<Longrightarrow> fields_memory (memory_fields h) = h"
  by (cases h) (simp add: fields_relation_inverse comp_def)

definition demo_memory_codec :: memory_codec where
  "demo_memory_codec =
     \<lparr>mc_yaml_print = (\<lambda>h. show_nat (to_nat (memory_fields h)) @ LF),
      mc_yaml_read = (\<lambda>y. Some (fields_memory (from_nat (dec_val 0 y)))),
      mc_toml_read = (\<lambda>t. None), mc_hash = (\<lambda>s. replicate 64 (CHR ''0'')),
      mc_date = (\<lambda>t. ''2026-01-01''), mc_rfc3339 = (\<lambda>t. ''2026-01-01T00:00:00Z'')\<rparr>"

lemma demo_memory_codec_ok: "memory_codec_ok demo_memory_codec"
proof -
  have "\<not> contains yaml_fence (show_nat n @ LF)" for n
    using no_fence [OF show_nat_no_nl] by (simp add: yaml_fence_is_fence LF_def nl_def)
  then show ?thesis
    by (simp add: memory_codec_ok_def demo_memory_codec_def fields_memory_inverse)
qed

end
