(* ===== verification/Memory_Steps.thy ===== *)
theory Memory_Steps
  imports Memory_Facts
begin

text \<open>
  The memory directory refines a list of records with distinct ids: every record file is the
  rendering of one record and is named by its id. The steps of the store keep that, whatever writes
  are pending and in whatever order they run.
\<close>

section \<open>The abstraction\<close>

definition keepable :: "memory_record \<Rightarrow> bool" where
  "keepable r \<longleftrightarrow> bt_ok (mr_metadata r) \<and> length (mr_id r) = 64"

definition file_of :: "memory_codec \<Rightarrow> path \<times> string \<Rightarrow> memory_record \<Rightarrow> bool" where
  "file_of c f r \<longleftrightarrow> snd f = render_record c r \<and> file_stem_of (last (fst f)) = mr_id r"

definition stored :: "memory_codec \<Rightarrow> memory_dir \<Rightarrow> memory_record list \<Rightarrow> bool" where
  "stored c d rs \<longleftrightarrow> (md_memory d \<or> md_files d = []) \<and> list_all2 (file_of c) (record_files in_memory d) rs
     \<and> distinct (map mr_id rs) \<and> list_all keepable rs"

definition put_record :: "memory_record \<Rightarrow> memory_record list \<Rightarrow> memory_record list" where
  "put_record r rs = map (\<lambda>x. if mr_id x = mr_id r then r else x) rs"

lemma stored_files:
  "stored c d rs \<Longrightarrow> r \<in> set rs \<Longrightarrow> \<exists>f \<in> set (record_files in_memory d). file_of c f r"
  "stored c d rs \<Longrightarrow> f \<in> set (record_files in_memory d) \<Longrightarrow> \<exists>r \<in> set rs. file_of c f r"
  by (metis stored_def list_all2_conv_all_nth in_set_conv_nth)+

lemma stored_keepable: "stored c d rs \<Longrightarrow> r \<in> set rs \<Longrightarrow> keepable r"
  by (simp add: stored_def list_all_iff)

lemma keepable_as_read [simp]: "keepable (as_read r) \<longleftrightarrow> keepable r"
  by (simp add: keepable_def)

lemma same_id: "distinct (map mr_id rs) \<Longrightarrow> r \<in> set rs \<Longrightarrow> s \<in> set rs \<Longrightarrow> mr_id r = mr_id s \<Longrightarrow> r = s"
  by (auto simp: distinct_map dest: inj_onD)

section \<open>Reading\<close>

lemma parse_kept:
  "memory_codec_ok c \<Longrightarrow> keepable r \<Longrightarrow> parse_record c now (render_record c r) = Inr (as_read r)"
  by (simp add: keepable_def parse_rendered_record)

lemma collect_stored:
  assumes "memory_codec_ok c"
  shows "list_all2 (file_of c) fs rs \<Longrightarrow> list_all keepable rs \<Longrightarrow> collect_records c now fs = Inr (map as_read rs)"
proof (induction fs rs rule: list_all2_induct)
  case (Cons f fs r rs)
  then show ?case using parse_kept [OF assms, of r now] by (cases f) (simp add: file_of_def)
qed simp

lemma load_stored:
  assumes "memory_codec_ok c" and "stored c d rs"
  shows "load_records c now d = Inr (sort_key (\<lambda>r. - mr_created_at r) (map as_read rs))"
proof -
  have "record_files (\<lambda>_. True) d = []" "rs = []" if "\<not> md_memory d"
    using assms(2) that by (auto simp: stored_def record_files_def)
  moreover have "collect_records c now (record_files in_memory d) = Inr (map as_read rs)"
    using collect_stored [OF assms(1)] assms(2) by (simp add: stored_def)
  ultimately show ?thesis by (simp add: load_records_def)
qed

lemma loaded_member:
  "memory_codec_ok c \<Longrightarrow> stored c d rs \<Longrightarrow> r \<in> set rs \<Longrightarrow> \<exists>ls. load_records c now d = Inr ls \<and> as_read r \<in> set ls"
  using load_stored by fastforce

lemma existing_Some:
  assumes "stored c d rs" and "find_existing_record_path d i = Some f"
  shows "f \<in> set (record_files in_memory d) \<and> (\<exists>r \<in> set rs. mr_id r = i \<and> file_of c f r)"
proof -
  have f: "f \<in> set (record_files in_memory d)" "file_stem_of (last (fst f)) = i"
    using assms(2) find_SomeD [of _ _ f] by (fastforce simp: find_existing_record_path_def split: if_splits)+
  then obtain r where "r \<in> set rs" "file_of c f r" using stored_files(2) [OF assms(1)] by blast
  then show ?thesis using f by (auto simp: file_of_def)
qed

lemma existing_None:
  assumes "stored c d rs"
  shows "find_existing_record_path d i = None \<longleftrightarrow> i \<notin> mr_id ` set rs"
proof
  assume none: "find_existing_record_path d i = None"
  show "i \<notin> mr_id ` set rs"
  proof
    assume "i \<in> mr_id ` set rs"
    then obtain p t where f: "(p, t) \<in> set (record_files in_memory d)" "file_stem_of (last p) = i"
      using stored_files(1) [OF assms] by (fastforce simp: file_of_def)
    moreover have "md_memory d" using assms f(1) by (auto simp: stored_def record_files_def)
    ultimately show False using none find_NoneD by (fastforce simp: find_existing_record_path_def)
  qed
next
  assume "i \<notin> mr_id ` set rs"
  then show "find_existing_record_path d i = None"
    using existing_Some [OF assms, of i] by (cases "find_existing_record_path d i") auto
qed

lemma first_match_stored:
  assumes "memory_codec_ok c"
  shows "list_all2 (file_of c) fs rs \<Longrightarrow> list_all keepable rs \<Longrightarrow>
    (case List.find (\<lambda>r :: memory_record. mr_node_id r = node \<or> mr_id r = node) rs of
       None \<Rightarrow> first_match c now node fs = Inr None
     | Some r \<Rightarrow> \<exists>f \<in> set fs. file_of c f r \<and> first_match c now node fs = Inr (Some (fst f, as_read r)))"
proof (induction fs rs rule: list_all2_induct)
  case (Cons f fs r rs)
  then show ?case using parse_kept [OF assms, of r now]
    by (cases f) (fastforce simp: file_of_def split: option.splits)
qed simp

lemma match_stored:
  assumes "memory_codec_ok c" and "stored c d rs"
  shows "(case List.find (\<lambda>r :: memory_record. mr_node_id r = node \<or> mr_id r = node) rs of
       None \<Rightarrow> load_record_with_path c now d node = Inr None
     | Some r \<Rightarrow> \<exists>f \<in> set (record_files in_memory d). file_of c f r \<and>
         load_record_with_path c now d node = Inr (Some (fst f, as_read r)))"
proof (cases "md_memory d")
  case True
  have "list_all2 (file_of c) (record_files in_memory d) rs" "list_all keepable rs"
    using assms(2) by (simp_all add: stored_def)
  from first_match_stored [OF assms(1) this]
  have "case List.find (\<lambda>r :: memory_record. mr_node_id r = node \<or> mr_id r = node) rs of
       None \<Rightarrow> first_match c now node (record_files in_memory d) = Inr None
     | Some r \<Rightarrow> \<exists>f \<in> set (record_files in_memory d). file_of c f r \<and>
         first_match c now node (record_files in_memory d) = Inr (Some (fst f, as_read r))" .
  moreover have "load_record_with_path c now d node = first_match c now node (record_files in_memory d)"
    using True by (simp add: load_record_with_path_def)
  ultimately show ?thesis by metis
next
  case False
  then have "rs = []" "load_record_with_path c now d node = Inr None"
    using assms(2) by (auto simp: stored_def record_files_def load_record_with_path_def)
  then show ?thesis by simp
qed

section \<open>Writing\<close>

lemma stored_in_dir: "f \<in> set (record_files P d) \<Longrightarrow> fst f \<in> set (map fst (md_files d))"
  by (auto simp: record_files_def)

lemma stored_put:
  assumes s: "stored c d rs" and f: "f \<in> set (record_files in_memory d)" "file_stem_of (last (fst f)) = mr_id r"
    and r: "keepable r"
  shows "stored c (write_path (fst f) (render_record c r) d) (put_record r rs)"
proof -
  let ?fs = "record_files in_memory d" and ?w = "\<lambda>(q, t). (q, if q = fst f then render_record c r else t)"
  have stems: "map (\<lambda>g. file_stem_of (last (fst g))) ?fs = map mr_id rs"
    using s unfolding stored_def by (auto intro!: nth_equalityI simp: list_all2_conv_all_nth file_of_def)
  have len: "length ?fs = length rs" using s by (auto simp: stored_def dest: list_all2_lengthD)
  have path: "fst g = fst f \<longleftrightarrow> mr_id x = mr_id r" if g: "g \<in> set ?fs" and x: "file_of c g x" for g x
  proof
    assume "mr_id x = mr_id r"
    then have "file_stem_of (last (fst g)) = file_stem_of (last (fst f))" using x f(2) by (simp add: file_of_def)
    moreover have "inj_on (\<lambda>g. file_stem_of (last (fst g))) (set ?fs)"
      using s stems by (metis stored_def distinct_map)
    ultimately show "fst g = fst f" using g f(1) by (auto dest: inj_onD)
  qed (use x f(2) in \<open>simp add: file_of_def\<close>)
  have one: "file_of c (?w g) (if mr_id x = mr_id r then r else x)" if "g \<in> set ?fs" "file_of c g x" for g x
    using path [OF that] that(2) f(2) by (cases g) (auto simp: file_of_def)
  have "list_all2 (file_of c) (map ?w ?fs) (put_record r rs)"
    using s one by (auto simp: stored_def put_record_def list_all2_conv_all_nth)
  moreover have "map mr_id (put_record r rs) = map mr_id rs" by (simp add: put_record_def)
  moreover have "list_all keepable (put_record r rs)" using s r by (auto simp: stored_def put_record_def list_all_iff)
  moreover have "md_memory d" using s f(1) by (auto simp: stored_def record_files_def)
  ultimately show ?thesis
    using s record_files_write_old [OF stored_in_dir [OF f(1)], of in_memory "render_record c r"] by (simp add: stored_def)
qed

lemma keepable_record_of:
  "memory_codec_ok c \<Longrightarrow> bt_ok (sm_metadata m) \<Longrightarrow> keepable (record_of c now m)"
  by (simp add: keepable_def record_of_def Let_def memory_codec_ok_def stable_memory_id_def)

lemma id_record_of: "mr_id (record_of c now m) = stable_memory_id (mc_hash c) m"
  by (simp add: record_of_def Let_def)

lemma paths_ensure:
  "set (map fst (md_files (ensure_reserved_files d))) \<subseteq>
     {[''memory'', ''log.md''], [''memory'', ''index.md'']} \<union> set (map fst (md_files d))"
  by (auto simp only: ensure_reserved_files_def ensure_file_def write_path_paths split: if_splits) auto

lemma new_record_file:
  assumes "record_path c r \<notin> set (map fst (md_files d))" and "length (mr_id r) = 64"
  shows "record_files in_memory (append_update_log c r (write_path (record_path c r) t (ensure_reserved_files d))) =
    record_files in_memory d @ [(record_path c r, t)]"
proof -
  have "record_path c r \<notin> {[''memory'', ''log.md''], [''memory'', ''index.md'']}" by (simp add: record_path_def)
  then have "record_path c r \<notin> set (map fst (md_files (ensure_reserved_files d)))"
    using assms(1) paths_ensure [of d] by blast
  then show ?thesis using record_name(1) [OF assms(2)]
    by (simp add: record_path_def in_memory_def record_files_write_new)
qed

lemma stored_add:
  assumes s: "stored c d rs" and r: "keepable r" and new: "mr_id r \<notin> mr_id ` set rs"
  shows "stored c (append_update_log c r (write_path (record_path c r) (render_record c r) (ensure_reserved_files d))) (rs @ [r])"
proof -
  have len: "length (mr_id r) = 64" using r by (simp add: keepable_def)
  have "find_existing_record_path d (mr_id r) = None"
    using existing_None [OF s] new by simp
  then have "record_path c r \<notin> set (map fst (md_files d))"
    using not_stored_new_path [OF _ _ len] s by (cases "md_memory d") (auto simp: stored_def record_path_def)
  then show ?thesis using s r new record_name(2) [OF len] new_record_file [OF _ len]
    by (auto simp: stored_def file_of_def record_path_def intro!: list_all2_appendI)
qed

section \<open>The operations on the list of records\<close>

lemma put_ids [simp]: "map mr_id (put_record r rs) = map mr_id rs"
  by (simp add: put_record_def)

lemma store_stored:
  assumes c: "memory_codec_ok c" and s: "stored c d rs" and m: "bt_ok (sm_metadata m)"
    and v: "validate_confidence m = Inr ()"
  defines "i \<equiv> stable_memory_id (mc_hash c) m"
  shows "(case List.find (\<lambda>r :: memory_record. mr_id r = i) rs of
       Some r \<Rightarrow> files_store c now None m d = (Inr (as_read r), d)
     | None \<Rightarrow> \<exists>d'. files_store c now None m d = (Inr (record_of c now m), d')
         \<and> stored c d' (rs @ [record_of c now m]))"
proof (cases "find_existing_record_path d i")
  case None
  then have new: "i \<notin> mr_id ` set rs" using existing_None [OF s] by simp
  then have "List.find (\<lambda>r :: memory_record. mr_id r = i) rs = None" by (auto intro!: find_eq_None)
  moreover have "mr_id (record_of c now m) = i" by (simp add: id_record_of i_def)
  ultimately show ?thesis
    using None stored_add [OF s keepable_record_of [OF c m], of now] new by (simp add: files_store_def v i_def Let_def)
next
  case (Some f)
  then obtain r where r: "r \<in> set rs" "mr_id r = i" "snd f = render_record c r"
    using existing_Some [OF s Some] unfolding file_of_def by blast
  have "List.find (\<lambda>r :: memory_record. mr_id r = i) rs = Some r"
    using r s by (intro find_unique) (auto simp: stored_def dest: same_id)
  moreover have "files_store c now None m d = (Inr (as_read r), d)"
    using Some r(3) parse_kept [OF c stored_keepable [OF s r(1)]] by (cases f) (simp add: files_store_def v i_def)
  ultimately show ?thesis by simp
qed

lemma store_refused:
  "validate_confidence m = Inl e \<Longrightarrow> files_store c now lock m d = (Inl e, d)"
  "validate_confidence m = Inr u \<Longrightarrow> files_store c now (Some e) m d = (Inl e, d)"
  by (simp_all add: files_store_def)

lemma mark_used_stored:
  assumes c: "memory_codec_ok c" and s: "stored c d rs"
  shows "(case List.find (\<lambda>r :: memory_record. mr_node_id r = node \<or> mr_id r = node) rs of
       None \<Rightarrow> files_mark_used c now node d = (Inr None, d)
     | Some r \<Rightarrow> let r' = (as_read r)\<lparr>mr_useful_count := saturating_inc (mr_useful_count r)\<rparr>
         in \<exists>d'. files_mark_used c now node d = (Inr (Some r'), d') \<and> stored c d' (put_record r' rs))"
proof (cases "List.find (\<lambda>r :: memory_record. mr_node_id r = node \<or> mr_id r = node) rs")
  case None
  then show ?thesis using match_stored [OF assms, where node = node and now = now] by (simp add: files_mark_used_def)
next
  case (Some r)
  let ?r = "(as_read r)\<lparr>mr_useful_count := saturating_inc (mr_useful_count r)\<rparr>"
  obtain f where f: "f \<in> set (record_files in_memory d)" "file_of c f r"
    "load_record_with_path c now d node = Inr (Some (fst f, as_read r))"
    using match_stored [OF assms, where node = node and now = now] Some by auto
  have "keepable ?r" "file_stem_of (last (fst f)) = mr_id ?r"
    using stored_keepable [OF s] find_SomeD [OF Some] f(2) by (auto simp: keepable_def file_of_def)
  from stored_put [OF s f(1) this(2,1)] show ?thesis
    using Some f(3) by (simp add: files_mark_used_def Let_def as_read_def)
qed

text \<open>Retracting marks the record and stores a successor; the successor is kept out if a
  record of its id is there already.\<close>

definition retraction :: "memory_codec \<Rightarrow> timestamp \<Rightarrow> memory_record \<Rightarrow> memory_record" where
  "retraction c now r =
     (let target = ''retract:'' @ mr_node_id r; rel = new_relation (mr_node_id r) ''superseded_by'' target target
      in r\<lparr>mr_state := Retracted, mr_metadata := bt_insert ''retracted_at'' (mc_rfc3339 c now) (mr_metadata r),
           mr_relations := normalize_relations (mr_relations r @ [rel]) (mr_node_id r)\<rparr>)"

lemma retraction_fields [simp]:
  "mr_id (retraction c now r) = mr_id r" "mr_state (retraction c now r) = Retracted"
  "mr_node_id (retraction c now r) = mr_node_id r"
  by (simp_all add: retraction_def Let_def)

lemma keepable_retraction: "keepable r \<Longrightarrow> keepable (retraction c now r)"
  by (simp add: keepable_def retraction_def Let_def bt_oks)

lemma retract_stored:
  assumes c: "memory_codec_ok c" and s: "stored c d rs"
  shows "(case List.find (\<lambda>r :: memory_record. mr_node_id r = node \<or> mr_id r = node) rs of
       None \<Rightarrow> files_retract c now lock node d = (Inr None, d)
     | Some r \<Rightarrow> \<exists>d' rs' answer. files_retract c now lock node d = (answer, d') \<and> stored c d' rs'
         \<and> (rs' = put_record (retraction c now (as_read r)) rs
             \<or> (\<exists>s. rs' = put_record (retraction c now (as_read r)) rs @ [s])))"
proof (cases "List.find (\<lambda>r :: memory_record. mr_node_id r = node \<or> mr_id r = node) rs")
  case None
  then show ?thesis using match_stored [OF assms, where node = node and now = now] by (simp add: files_retract_def)
next
  case (Some r)
  let ?r = "retraction c now (as_read r)" and ?t = "''retract:'' @ mr_node_id r"
  let ?m = "superseding c now ?r (new_relation (mr_node_id r) ''superseded_by'' ?t ?t)"
  obtain f where f: "f \<in> set (record_files in_memory d)" "file_of c f r"
    "load_record_with_path c now d node = Inr (Some (fst f, as_read r))"
    using match_stored [OF assms, where node = node and now = now] Some by auto
  define d1 where "d1 = write_path (fst f) (render_record c ?r) d"
  have "keepable ?r" using stored_keepable [OF s] find_SomeD [OF Some] by (intro keepable_retraction) simp
  moreover have "file_stem_of (last (fst f)) = mr_id ?r" using f(2) by (simp add: file_of_def)
  ultimately have s1: "stored c d1 (put_record ?r rs)" unfolding d1_def by (intro stored_put [OF s f(1)])
  have run: "files_retract c now lock node d =
     (case files_store c now lock ?m d1 of
        (Inl e, d') \<Rightarrow> (Inl e, d') | (Inr s, d') \<Rightarrow> (Inr (Some \<lparr>rr_retracted = ?r, rr_supersede = s\<rparr>), d'))"
    unfolding files_retract_def retraction_def d1_def f(3) Let_def by simp
  have m: "bt_ok (sm_metadata ?m)" by (simp add: superseding_def bt_oks)
  have stores: "\<exists>d' rs' a. files_store c now lock ?m d1 = (a, d') \<and> stored c d' rs'
    \<and> (rs' = put_record ?r rs \<or> (\<exists>s. rs' = put_record ?r rs @ [s]))"
  proof (cases "validate_confidence ?m")
    case (Inl e)
    then show ?thesis using store_refused(1) s1 by blast
  next
    case (Inr u)
    show ?thesis
    proof (cases lock)
      case None
      then show ?thesis using store_stored [OF c s1 m, of now] s1 Inr by (auto split: option.splits)
    qed (use store_refused(2) [OF Inr] s1 in blast)
  qed
  then obtain d' rs' a where d': "files_store c now lock ?m d1 = (a, d')" "stored c d' rs'"
    "rs' = put_record ?r rs \<or> (\<exists>s. rs' = put_record ?r rs @ [s])" by blast
  then have "\<exists>answer. files_retract c now lock node d = (answer, d')" using run by (cases a) auto
  then show ?thesis unfolding Some option.case using d'(2,3) by blast
qed

section \<open>Finding and the writes it leaves behind\<close>

lemma map_filter_records:
  "h \<in> set (List.map_filter (\<lambda>r. score_record r terms keep) rs) \<Longrightarrow> sh_record h \<in> set rs"
  by (auto simp: map_filter_def score_record_def keyword_hit_def Let_def split: if_splits)

lemma annotate_records [simp]:
  "map sh_record (annotate_session_distances now hits corpus current) = map sh_record hits"
  by (simp add: annotate_session_distances_def Let_def)

lemma ranked_hits_records:
  assumes "h \<in> set (ranked_hits b now q rs)"
  shows "sh_record h \<in> set rs \<and> selects q (sh_record h)"
proof -
  have "h \<in> set (List.map_filter (\<lambda>r. score_record r (query_terms (mq_text q)) (mq_tags q \<noteq> [])) (filter (selects q) rs))"
    using assms by (auto simp: ranked_hits_def Let_def dest: in_set_takeD)
  from map_filter_records [OF this] show ?thesis by simp
qed


definition pending_ok :: "(string \<times> memory_record) list \<Rightarrow> bool" where
  "pending_ok ps \<longleftrightarrow> list_all (\<lambda>(i, r). mr_id r = i \<and> keepable r) ps"

lemma pending_okD: "pending_ok ps \<Longrightarrow> (i, r) \<in> set ps \<Longrightarrow> mr_id r = i \<and> keepable r"
  by (auto simp: pending_ok_def list_all_iff)

lemma keepable_accessed [simp]: "keepable (accessed now r) \<longleftrightarrow> keepable r" "mr_id (accessed now r) = mr_id r"
  by (simp_all add: keepable_def accessed_def)

lemma find_stored:
  assumes c: "memory_codec_ok c" and s: "stored c (mw_dir w) rs" and p: "pending_ok (mw_pending w)"
  shows "\<exists>hits w'. files_find c b now q w = (Inr hits, w') \<and> mw_dir w' = mw_dir w \<and> pending_ok (mw_pending w')"
proof -
  define loaded where "loaded = sort_key (\<lambda>r :: memory_record. - mr_created_at r) (map as_read rs)"
  define hits where "hits = annotate_session_distances now (ranked_hits b now q loaded) loaded (mq_session_id q)"
  have load: "load_records c now (mw_dir w) = Inr loaded" using load_stored [OF c s] by (simp add: loaded_def)
  have "keepable (sh_record h)" if "h \<in> set hits" for h
  proof -
    have "sh_record h \<in> set (map sh_record hits)" using that by simp
    then have "sh_record h \<in> sh_record ` set (ranked_hits b now q loaded)" by (simp add: hits_def)
    then show ?thesis using ranked_hits_records stored_keepable [OF s] by (fastforce simp: loaded_def)
  qed
  then have "pending_ok (mw_pending w @ map (\<lambda>h. (mr_id (sh_record h), accessed now (sh_record h))) hits)"
    using p by (auto simp: pending_ok_def list_all_iff)
  then show ?thesis using p by (simp add: files_find_def load Let_def flip: hits_def)
qed

lemma flush_stored:
  assumes s: "stored c (mw_dir w) rs" and p: "pending_ok (mw_pending w)"
  shows "stored c (mw_dir (flush_write c n w))
      (if n < length (mw_pending w) then put_record (snd (mw_pending w ! n)) rs else rs)
    \<and> pending_ok (mw_pending (flush_write c n w))"
proof (cases "n < length (mw_pending w)")
  case True
  obtain i r where w: "mw_pending w ! n = (i, r)" by fastforce
  then have r: "mr_id r = i" "keepable r" using pending_okD [OF p] True by (metis nth_mem)+
  have rest: "pending_ok (take n (mw_pending w) @ drop (Suc n) (mw_pending w))"
    using p by (auto simp: pending_ok_def list_all_iff dest: in_set_takeD in_set_dropD)
  show ?thesis
  proof (cases "find_existing_record_path (mw_dir w) i")
    case None
    then have "i \<notin> mr_id ` set rs" using existing_None [OF s] by simp
    then have "put_record r rs = rs" using r(1) unfolding put_record_def image_iff by (intro map_idI) auto
    then show ?thesis using s rest None True w by (simp add: flush_write_def)
  next
    case (Some f)
    have f: "f \<in> set (record_files in_memory (mw_dir w))" "file_stem_of (last (fst f)) = mr_id r"
      using existing_Some [OF s Some] r(1) by (auto simp: file_of_def)
    show ?thesis using stored_put [OF s f r(2)] rest Some True w by (cases f) (simp add: flush_write_def)
  qed
qed (use s p in \<open>simp add: flush_write_def\<close>)

section \<open>Every interleaving\<close>

text \<open>Callers store, look up, mark and retract in any order, and the writes that lookups leave
  behind run in any order between them.\<close>

inductive memory_step :: "memory_codec \<Rightarrow> files_backend \<Rightarrow> memory_world \<Rightarrow> memory_world \<Rightarrow> bool"
  for c b where
  Store: "bt_ok (sm_metadata m) \<Longrightarrow> files_store c now lock m (mw_dir w) = (answer, d)
    \<Longrightarrow> memory_step c b w (w\<lparr>mw_dir := d\<rparr>)"
| Find: "files_find c b now q w = (hits, w') \<Longrightarrow> memory_step c b w w'"
| Mark_used: "files_mark_used c now node (mw_dir w) = (marked, d) \<Longrightarrow> memory_step c b w (w\<lparr>mw_dir := d\<rparr>)"
| Retract: "files_retract c now lock node (mw_dir w) = (report, d) \<Longrightarrow> memory_step c b w (w\<lparr>mw_dir := d\<rparr>)"
| Flush: "memory_step c b w (flush_write c n w)"

definition empty_world :: memory_world where
  "empty_world = \<lparr>mw_dir = \<lparr>md_root = True, md_memory = False, md_files = []\<rparr>, mw_pending = []\<rparr>"

definition world_ok :: "memory_codec \<Rightarrow> memory_world \<Rightarrow> bool" where
  "world_ok c w \<longleftrightarrow> (\<exists>rs. stored c (mw_dir w) rs) \<and> pending_ok (mw_pending w)"

lemma empty_world_ok: "world_ok c empty_world"
  by (simp add: world_ok_def empty_world_def stored_def record_files_def pending_ok_def)

lemma store_keeps: "memory_codec_ok c \<Longrightarrow> stored c d rs \<Longrightarrow> bt_ok (sm_metadata m)
    \<Longrightarrow> files_store c now lock m d = (answer, d') \<Longrightarrow> \<exists>rs'. stored c d' rs'"
  using store_stored [of c d rs m now] store_refused [of m]
  by (cases "validate_confidence m"; cases lock) (auto split: option.splits)

lemma memory_step_ok [inv_pres]:
  assumes c: "memory_codec_ok c"
  shows "memory_step c b w w' \<Longrightarrow> world_ok c w \<Longrightarrow> world_ok c w'"
proof (induction rule: memory_step.induct)
  case (Store m now lock w answer d)
  then show ?case using store_keeps [OF c] unfolding world_ok_def by fastforce
next
  case (Find now q w hits w')
  then obtain rs where "stored c (mw_dir w) rs" "pending_ok (mw_pending w)" by (auto simp: world_ok_def)
  from find_stored [OF c this, of b now q] Find(1) this(1) show ?case by (auto simp: world_ok_def)
next
  case (Mark_used now node w marked d)
  then show ?case using mark_used_stored [OF c, of "mw_dir w" _ now node]
    unfolding world_ok_def by (fastforce simp: Let_def split: option.splits)
next
  case (Retract now lock node w report d)
  then show ?case using retract_stored [OF c, of "mw_dir w" _ now lock node]
    unfolding world_ok_def by (fastforce split: option.splits)
next
  case (Flush w n)
  then show ?case using flush_stored unfolding world_ok_def by blast
qed

lemma memory_steps_ok:
  assumes "memory_codec_ok c"
  shows "(memory_step c b)\<^sup>*\<^sup>* w w' \<Longrightarrow> world_ok c w \<Longrightarrow> world_ok c w'"
  by (induction rule: rtranclp_induct) (auto intro: memory_step_ok [OF assms])

end
