(* ===== verification/Memory_Properties.thy ===== *)
theory Memory_Properties
  imports Demo_Memory Memory_Steps Ranking_Properties "HOL-Library.Multiset"
begin

text \<open>
  The memory store as a bag of records: what storing, finding, retracting and marking do to the
  records that are loaded, and where the files and the pending writes let a record get lost or come back.
\<close>

section \<open>Storing\<close>








definition demo_dir :: memory_dir where
  "demo_dir = \<lparr>md_root = True, md_memory = True, md_files = []\<rparr>"

definition demo_atom :: store_memory where
  "demo_atom = (store_atom ''Use the staging bucket'')\<lparr>sm_agent_id := Some ''builder''\<rparr>"


lemma demo_atom_facts: "validate_confidence demo_atom = Inr ()" "bt_ok (sm_metadata demo_atom)"
  by (simp_all add: demo_atom_def store_atom_def validate_confidence_def bt_oks)


text \<open>A record survives its file: what is written is read back with its content trimmed and its
  relations normalised, whatever the clock says.\<close>

theorem record_file_round_trip:
  assumes "memory_codec_ok c" and "bt_ok (mr_metadata r)"
    and "trim (mr_content r) = mr_content r" and "normalize_relations (mr_relations r) (mr_node_id r) = mr_relations r"
  shows "parse_record c now (render_record c r) = Inr r"
  using parse_rendered_record [OF assms(1,2)] assms(3,4) by (simp add: as_read_def)

theorem record_file_round_trip_witness:
  "parse_record demo_memory_codec 9 (render_record demo_memory_codec (record_of demo_memory_codec 7 demo_atom)) =
    Inr (record_of demo_memory_codec 7 demo_atom)"
proof (rule record_file_round_trip [OF demo_memory_codec_ok])
  show "bt_ok (mr_metadata (record_of demo_memory_codec 7 demo_atom))"
    by (simp add: record_of_def demo_atom_def store_atom_def Let_def bt_oks)
  show "trim (mr_content (record_of demo_memory_codec 7 demo_atom)) = mr_content (record_of demo_memory_codec 7 demo_atom)"
    by (simp add: record_of_def demo_atom_def store_atom_def Let_def) code_simp
  show "normalize_relations (mr_relations (record_of demo_memory_codec 7 demo_atom)) (mr_node_id (record_of demo_memory_codec 7 demo_atom)) =
      mr_relations (record_of demo_memory_codec 7 demo_atom)"
    by (simp add: record_of_def demo_atom_def store_atom_def Let_def normalize_relations_def)
qed

section \<open>Every reachable store\<close>

text \<open>C3: From an empty store, after any operations and with the writes of earlier lookups in any order,
  every record file can be read, no id is stored twice and no lookup fails.\<close>

theorem reachable_store_is_readable:
  assumes "memory_codec_ok c" and "(memory_step c b)\<^sup>*\<^sup>* empty_world w"
  shows "\<exists>rs hits w'. load_records c now (mw_dir w) = Inr rs \<and> distinct (map mr_id rs)
    \<and> files_find c b now q w = (Inr hits, w')"
proof -
  obtain rs where rs: "stored c (mw_dir w) rs" "pending_ok (mw_pending w)"
    using memory_steps_ok [OF assms empty_world_ok] by (auto simp: world_ok_def)
  have "distinct (map mr_id (map as_read rs))" using rs(1) by (simp add: stored_def comp_def)
  then have "distinct (map mr_id (sort_key (\<lambda>r :: memory_record. - mr_created_at r) (map as_read rs)))"
    by (auto simp: distinct_map intro: inj_on_imageI inj_on_imageI2)
  then show ?thesis using load_stored [OF assms(1) rs(1)] find_stored [OF assms(1) rs, of b now q] by blast
qed

definition demo_stored :: memory_world where
  "demo_stored = empty_world\<lparr>mw_dir := snd (files_store demo_memory_codec 7 None demo_atom (mw_dir empty_world))\<rparr>"

lemma demo_stored_step: "(memory_step demo_memory_codec b)\<^sup>*\<^sup>* empty_world demo_stored"
  unfolding demo_stored_def by (intro r_into_rtranclp memory_step.Store [OF demo_atom_facts(2) prod.collapse [symmetric]])

theorem reachable_store_witness:
  "\<exists>rs hits w'. load_records demo_memory_codec 8 (mw_dir demo_stored) = Inr rs \<and> distinct (map mr_id rs)
    \<and> files_find demo_memory_codec new_files_backend 8 (new_query ''staging'') demo_stored = (Inr hits, w')"
  by (rule reachable_store_is_readable [OF demo_memory_codec_ok demo_stored_step])

section \<open>Finding\<close>

text \<open>A lookup answers at most \<open>limit\<close> records, every one of them loaded and selected by the query,
  in the order of their weight; what it leaves out is outweighed, and the files stay as they are.\<close>

definition hit_key :: "files_backend \<Rightarrow> timestamp \<Rightarrow> search_hit \<Rightarrow> real \<times> timestamp" where
  "hit_key b now h =
     (- (sh_score h * retrieval_strength (sh_record h) (fb_decay b) now), - mr_created_at (sh_record h))"

lemma ranked_hits_by_key:
  "ranked_hits b now q rs = take (mq_limit q) (sort_key (hit_key b now)
     (List.map_filter (\<lambda>r. score_record r (query_terms (mq_text q)) (mq_tags q \<noteq> [])) (filter (selects q) rs)))"
  by (simp add: ranked_hits_def hit_key_def [abs_def] Let_def)

lemma annotate_key [simp]:
  "map (hit_key b now) (annotate_session_distances now hits corpus current) = map (hit_key b now) hits"
  by (simp add: annotate_session_distances_def Let_def hit_key_def)

lemma scored_hits:
  "set (List.map_filter (\<lambda>r. score_record r terms keep) rs) = {h. \<exists>r \<in> set rs. score_record r terms keep = Some h}"
  by (auto simp: map_filter_def) force

lemma scored_record: "score_record r terms keep = Some h \<Longrightarrow> sh_record h = r"
  by (auto simp: score_record_def keyword_hit_def Let_def split: if_splits)

theorem find_answers_the_best_records:
  assumes "load_records c now (mw_dir w) = Inr rs" and "files_find c b now q w = (Inr hits, w')"
  shows "length hits \<le> mq_limit q \<and> mw_dir w' = mw_dir w
    \<and> list_all (\<lambda>h. sh_record h \<in> set rs \<and> selects q (sh_record h)) hits
    \<and> sorted (map (hit_key b now) hits)
    \<and> (\<forall>r h. r \<in> set rs \<longrightarrow> selects q r \<longrightarrow> score_record r (query_terms (mq_text q)) (mq_tags q \<noteq> []) = Some h
        \<longrightarrow> r \<notin> sh_record ` set hits \<longrightarrow> length hits = mq_limit q \<and> (\<forall>g \<in> set hits. hit_key b now g \<le> hit_key b now h))"
proof -
  let ?ranked = "ranked_hits b now q rs"
  let ?scored = "List.map_filter (\<lambda>r. score_record r (query_terms (mq_text q)) (mq_tags q \<noteq> [])) (filter (selects q) rs)"
  have hits: "hits = annotate_session_distances now ?ranked rs (mq_session_id q)" "mw_dir w' = mw_dir w"
    using assms by (auto simp: files_find_def Let_def split: if_splits)
  then have recs: "map sh_record hits = map sh_record ?ranked" and keys: "map (hit_key b now) hits = map (hit_key b now) ?ranked"
    by simp_all
  have len: "length hits = length ?ranked" using arg_cong [OF recs, of length] by simp
  have "sh_record h \<in> set rs \<and> selects q (sh_record h)" if "h \<in> set hits" for h
  proof -
    have "sh_record h \<in> set (map sh_record ?ranked)" using that by (simp flip: recs)
    then show ?thesis using ranked_hits_records by fastforce
  qed
  moreover have "sorted (map (hit_key b now) hits)"
    unfolding keys by (simp add: ranked_hits_by_key sorted_wrt_take flip: take_map)
  moreover have "length hits = mq_limit q \<and> (\<forall>g \<in> set hits. hit_key b now g \<le> hit_key b now h)"
    if r: "r \<in> set rs" "selects q r" "score_record r (query_terms (mq_text q)) (mq_tags q \<noteq> []) = Some h"
      "r \<notin> sh_record ` set hits" for r h
  proof -
    have h: "h \<in> set ?scored" unfolding scored_hits using r(1,2,3) by auto
    have "r \<notin> set (map sh_record ?ranked)" using r(4) by (simp flip: recs)
    then have "h \<notin> set ?ranked" using scored_record [OF r(3)] by auto
    then have "length ?ranked = mq_limit q" "\<forall>k \<in> set (map (hit_key b now) ?ranked). k \<le> hit_key b now h"
      using take_sorted_key [OF h, of "mq_limit q" "hit_key b now"] by (simp_all flip: ranked_hits_by_key)
    then show ?thesis unfolding len by (simp flip: keys)
  qed
  moreover have "length hits \<le> mq_limit q" unfolding len by (simp add: ranked_hits_def Let_def)
  ultimately show ?thesis using hits(2) by (simp add: list_all_iff)
qed

definition demo_record :: memory_record where
  "demo_record = (record_of demo_memory_codec 7 demo_atom)\<lparr>mr_id := replicate 64 (CHR ''1'')\<rparr>"

definition demo_world :: memory_world where
  "demo_world =
     \<lparr>mw_dir = demo_dir\<lparr>md_files := [(record_path demo_memory_codec demo_record, render_record demo_memory_codec demo_record)]\<rparr>,
      mw_pending = []\<rparr>"

lemma demo_record_facts [simp]:
  "mr_id demo_record = replicate 64 (CHR ''1'')" "mr_state demo_record = Active" "mr_metadata demo_record = bt_empty"
  "mr_last_access demo_record = None" "mr_created_at demo_record = 7" "mr_tags demo_record = []"
  "mr_project demo_record = None" "mr_relations demo_record = []"
  by (simp_all add: demo_record_def record_of_def demo_atom_def store_atom_def Let_def normalize_relations_def)

lemma demo_world_stored: "stored demo_memory_codec (mw_dir demo_world) [demo_record]"
proof -
  have n: "length (mr_id demo_record) = 64" by simp
  have "is_record_name (mr_id demo_record @ ''.md'')" "file_stem_of (mr_id demo_record @ ''.md'') = mr_id demo_record"
    by (rule record_name [OF n])+
  moreover have "keepable demo_record" by (simp add: keepable_def bt_oks)
  ultimately show ?thesis
    by (simp add: stored_def demo_world_def demo_dir_def record_files_def record_path_def in_memory_def file_of_def
        del: demo_record_facts(1))
qed

definition all_records :: memory_query where
  "all_records = new_query []"

lemma demo_find:
  "\<exists>hits w'. files_find demo_memory_codec new_files_backend 8 all_records demo_world = (Inr hits, w')
    \<and> map sh_record hits = [as_read demo_record]
    \<and> w' = demo_world\<lparr>mw_pending := [(mr_id demo_record, accessed 8 (as_read demo_record))]\<rparr>"
proof -
  have load: "load_records demo_memory_codec 8 (mw_dir demo_world) = Inr [as_read demo_record]"
    using load_stored [OF demo_memory_codec_ok demo_world_stored] by simp
  have r: "mr_project (as_read demo_record) = None" by (simp add: as_read_def)
  have "selects all_records (as_read demo_record)"
    by (simp add: selects_def all_records_def new_query_def matches_node_filter_def matches_tags_def
        matches_tenancy_def matches_project_union_def r)
  moreover have "query_terms [] = []" by code_simp
  ultimately have "map sh_record (ranked_hits new_files_backend 8 all_records [as_read demo_record]) = [as_read demo_record]"
    by (simp add: ranked_hits_def all_records_def new_query_def score_record_def map_filter_def keyword_hit_def)
  then have recs: "map sh_record (annotate_session_distances 8 (ranked_hits new_files_backend 8 all_records
      [as_read demo_record]) [as_read demo_record] (mq_session_id all_records)) = [as_read demo_record]" (is "map sh_record ?hits = _")
    by simp
  have "map (\<lambda>h. (mr_id (sh_record h), accessed 8 (sh_record h))) ?hits = map (\<lambda>r. (mr_id r, accessed 8 r)) (map sh_record ?hits)"
    by (simp only: map_map comp_def)
  then have "map (\<lambda>h. (mr_id (sh_record h), accessed 8 (sh_record h))) ?hits = [(mr_id demo_record, accessed 8 (as_read demo_record))]"
    by (simp only: recs list.map as_read_fields)
  moreover have "fb_track_access new_files_backend" "mw_pending demo_world = []"
    by (simp_all add: new_files_backend_def demo_world_def)
  ultimately show ?thesis using recs by (simp add: files_find_def load Let_def)
qed

theorem find_witness:
  "\<exists>hits w'. files_find demo_memory_codec new_files_backend 8 all_records demo_world = (Inr hits, w')
    \<and> map sh_record hits = [as_read demo_record] \<and> length hits \<le> 10
    \<and> sorted (map (hit_key new_files_backend 8) hits)"
proof -
  obtain hits w' where f: "files_find demo_memory_codec new_files_backend 8 all_records demo_world = (Inr hits, w')"
    "map sh_record hits = [as_read demo_record]" using demo_find by (elim exE conjE) (rule that)
  have load: "load_records demo_memory_codec 8 (mw_dir demo_world) = Inr [as_read demo_record]"
    using load_stored [OF demo_memory_codec_ok demo_world_stored] by simp
  from find_answers_the_best_records [OF load f(1)] f show ?thesis
    by (simp add: all_records_def new_query_def)
qed

section \<open>Where the store goes wrong\<close>

text \<open>The id of a memory does not say which tenancy field holds which value: the memory of a session
  named like an agent is taken for the memory of that agent. The caller is answered the other's
  record, and its own is not stored.\<close>

theorem tenants_share_an_id:
  assumes c: "memory_codec_ok c" and s: "stored c d rs" and m: "bt_ok (sm_metadata m)" "validate_confidence m = Inr ()"
    and new: "stable_memory_id (mc_hash c) m \<notin> mr_id ` set rs"
    and agent: "sm_agent_id m = Some x" "sm_session_id m = None"
  shows "\<exists>d'. files_store c now None m d = (Inr (record_of c now m), d')
    \<and> files_store c t None (m\<lparr>sm_agent_id := None, sm_session_id := Some x\<rparr>) d' = (Inr (as_read (record_of c now m)), d')
    \<and> mr_session_id (as_read (record_of c now m)) = None"
proof -
  let ?m = "m\<lparr>sm_agent_id := None, sm_session_id := Some x\<rparr>"
  have same: "stable_memory_id (mc_hash c) ?m = stable_memory_id (mc_hash c) m"
    by (simp add: stable_memory_id_def identity_text_def agent)
  have v: "validate_confidence ?m = Inr ()" using m(2) by (simp add: validate_confidence_def)
  have "List.find (\<lambda>r :: memory_record. mr_id r = stable_memory_id (mc_hash c) m) rs = None"
    using new by (intro find_eq_None) (metis imageI)
  then obtain d' where d': "files_store c now None m d = (Inr (record_of c now m), d')" "stored c d' (rs @ [record_of c now m])"
    using store_stored [OF c s m, of now] by auto
  have "List.find (\<lambda>r :: memory_record. mr_id r = stable_memory_id (mc_hash c) ?m) (rs @ [record_of c now m]) =
      Some (record_of c now m)"
    using new by (intro find_unique) (auto simp: same id_record_of image_iff)
  then have "files_store c t None ?m d' = (Inr (as_read (record_of c now m)), d')"
    using store_stored [OF c d'(2) _ v, of t] m(1) by simp
  then show ?thesis using d'(1) agent(2) by (simp add: as_read_def record_of_def Let_def)
qed

theorem tenants_share_an_id_witness:
  "\<exists>d'. files_store demo_memory_codec 7 None demo_atom demo_dir = (Inr (record_of demo_memory_codec 7 demo_atom), d')
    \<and> files_store demo_memory_codec 8 None (demo_atom\<lparr>sm_agent_id := None, sm_session_id := Some ''builder''\<rparr>) d' =
        (Inr (as_read (record_of demo_memory_codec 7 demo_atom)), d')
    \<and> mr_session_id (as_read (record_of demo_memory_codec 7 demo_atom)) = None"
proof (rule tenants_share_an_id [OF demo_memory_codec_ok _ demo_atom_facts(2,1)])
  show "stored demo_memory_codec demo_dir []" by (simp add: stored_def demo_dir_def record_files_def)
qed (simp_all add: demo_atom_def store_atom_def)

text \<open>Records beside the directory \<open>memory\<close> are read as long as it does not exist: the first
  memory that is stored hides them all. Until then they are found but cannot be retracted.\<close>

theorem first_store_hides_the_root:
  assumes c: "memory_codec_ok c" and root: "\<not> md_memory d" "list_all (\<lambda>(p, _). \<not> in_memory p) (md_files d)"
    and m: "bt_ok (sm_metadata m)" "validate_confidence m = Inr ()"
  shows "files_retract c now lock node d = (Inr None, d)
    \<and> (\<exists>d'. files_store c now None m d = (Inr (record_of c now m), d')
      \<and> load_records c t d' = Inr [as_read (record_of c now m)])"
proof -
  let ?r = "record_of c now m"
  have r: "keepable ?r" by (rule keepable_record_of [OF c m(1)])
  have none: "record_files in_memory d = []" using root(2) by (auto simp: record_files_def list_all_iff filter_empty_conv)
  have p: "record_path c ?r \<notin> set (map fst (md_files d))"
    using root(2) by (fastforce simp: record_path_def in_memory_def list_all_iff)
  let ?d = "append_update_log c ?r (write_path (record_path c ?r) (render_record c ?r) (ensure_reserved_files d))"
  have "record_files in_memory ?d = [(record_path c ?r, render_record c ?r)]"
    using new_record_file [OF p] r none by (simp add: keepable_def)
  then have "load_records c t ?d = Inr [as_read ?r]" using parse_kept [OF c r] by (simp add: load_records_def)
  moreover have "files_store c now None m d = (Inr ?r, ?d)"
    using root(1) m(2) by (simp add: files_store_def find_existing_record_path_def Let_def)
  moreover have "files_retract c now lock node d = (Inr None, d)"
    using root(1) by (simp add: files_retract_def load_record_with_path_def)
  ultimately show ?thesis by blast
qed

definition demo_root :: memory_dir where
  "demo_root = \<lparr>md_root = True, md_memory = False,
     md_files = [([''notes.md''], render_record demo_memory_codec demo_record)]\<rparr>"

theorem first_store_hides_the_root_witness:
  "load_records demo_memory_codec 7 demo_root = Inr [as_read demo_record]
    \<and> files_retract demo_memory_codec 7 None (mr_id demo_record) demo_root = (Inr None, demo_root)
    \<and> (\<exists>d'. files_store demo_memory_codec 7 None demo_atom demo_root = (Inr (record_of demo_memory_codec 7 demo_atom), d')
      \<and> load_records demo_memory_codec 8 d' = Inr [as_read (record_of demo_memory_codec 7 demo_atom)])"
proof (rule conjI)
  have "keepable demo_record" by (simp add: keepable_def bt_oks)
  from parse_kept [OF demo_memory_codec_ok this]
  show "load_records demo_memory_codec 7 demo_root = Inr [as_read demo_record]"
    by (simp add: load_records_def demo_root_def record_files_def is_record_name_def is_reserved_headwater_file_def
        ends_with_def starts_with_def)
qed (rule first_store_hides_the_root [OF demo_memory_codec_ok _ _ demo_atom_facts(2,1)],
    simp_all add: demo_root_def in_memory_def)

text \<open>C33: A lookup writes its access counts later, from the record as it was: if the record is retracted
  in between, the late write makes it active again.\<close>

theorem retraction_is_undone:
  assumes c: "memory_codec_ok c" and s: "stored c (mw_dir w) rs" and w: "mw_pending w = []"
    and b: "fb_track_access b" and find: "files_find c b now q w = (Inr hits, w1)"
    and hit: "n < length hits" "sh_record (hits ! n) = as_read r" "mr_state r = Active"
    and node: "List.find (\<lambda>x :: memory_record. mr_node_id x = node \<or> mr_id x = node) rs = Some r"
    and retract: "files_retract c t lock node (mw_dir w1) = (answer, d)"
  shows "\<exists>before after. load_records c u d = Inr before \<and> (\<exists>x \<in> set before. mr_id x = mr_id r \<and> mr_state x = Retracted)
    \<and> load_records c u (mw_dir (flush_write c n (w1\<lparr>mw_dir := d\<rparr>))) = Inr after
    \<and> (\<exists>x \<in> set after. mr_id x = mr_id r \<and> mr_state x = Active)"
proof -
  let ?w = "w1\<lparr>mw_dir := d\<rparr>" and ?r = "retraction c t (as_read r)"
  have dir: "mw_dir w1 = mw_dir w" and p: "pending_ok (mw_pending w1)"
    using find_stored [OF c s, of b now q] w find by (auto simp: pending_ok_def)
  have pending: "mw_pending w1 ! n = (mr_id r, accessed now (as_read r))" "n < length (mw_pending w1)"
    using find b hit(1,2) w by (auto simp: files_find_def Let_def split: sum.splits)
  have r: "r \<in> set rs" using find_SomeD [OF node] by simp
  obtain rs1 where rs1: "stored c d rs1" "?r \<in> set rs1"
    using retract_stored [OF c s, of t lock node] node retract dir r by (fastforce simp: put_record_def)
  have "stored c (mw_dir (flush_write c n ?w)) (put_record (accessed now (as_read r)) rs1)"
    using flush_stored [of c ?w rs1 n] rs1(1) p pending by simp
  moreover have "accessed now (as_read r) \<in> set (put_record (accessed now (as_read r)) rs1)"
    using rs1(2) by (force simp: put_record_def)
  ultimately obtain after where after: "load_records c u (mw_dir (flush_write c n ?w)) = Inr after"
    "as_read (accessed now (as_read r)) \<in> set after" using loaded_member [OF c] by blast
  obtain before where before: "load_records c u d = Inr before" "as_read ?r \<in> set before"
    using loaded_member [OF c rs1] by blast
  have "mr_id (as_read (accessed now (as_read r))) = mr_id r" "mr_state (as_read (accessed now (as_read r))) = Active"
    using hit(3) by (simp_all add: accessed_def)
  then show ?thesis using after before by (metis as_read_fields(1,3) retraction_fields(1,2))
qed

theorem retraction_is_undone_witness:
  "\<exists>hits w1 answer d before after.
      files_find demo_memory_codec new_files_backend 8 all_records demo_world = (Inr hits, w1)
    \<and> files_retract demo_memory_codec 9 None (mr_id demo_record) (mw_dir w1) = (answer, d)
    \<and> load_records demo_memory_codec 10 d = Inr before
    \<and> (\<exists>x \<in> set before. mr_id x = mr_id demo_record \<and> mr_state x = Retracted)
    \<and> load_records demo_memory_codec 10 (mw_dir (flush_write demo_memory_codec 0 (w1\<lparr>mw_dir := d\<rparr>))) = Inr after
    \<and> (\<exists>x \<in> set after. mr_id x = mr_id demo_record \<and> mr_state x = Active)"
proof -
  obtain hits w1 where f: "files_find demo_memory_codec new_files_backend 8 all_records demo_world = (Inr hits, w1)"
    "map sh_record hits = [as_read demo_record]" using demo_find by (elim exE conjE) (rule that)
  obtain answer d where r: "files_retract demo_memory_codec 9 None (mr_id demo_record) (mw_dir w1) = (answer, d)"
    by fastforce
  have "0 < length hits" "sh_record (hits ! 0) = as_read demo_record" using f(2) by (auto simp: map_eq_Cons_conv)
  from retraction_is_undone [OF demo_memory_codec_ok demo_world_stored _ _ f(1) this demo_record_facts(2) _ r, of 10]
  show ?thesis using f(1) r by (auto simp: demo_world_def new_files_backend_def)
qed

end
