(* ===== verification/Entity_Index.thy ===== *)
theory Entity_Index
  imports Ranking Memory_Graph
begin

text \<open>
  The process-local indexes of the vector backend and what is computed from them: the entity index of
  crates/aquifer/src/entity.rs, the time-aware orderings of temporal.rs and the episode clusters of
  episode.rs. A hash map is a function of its keys; where the code walks one, the walk is followed by
  a sort whose keys are distinct, or its order is shown not to matter.
  \<open>to_lowercase\<close> is the ASCII one; scores and embeddings are exact reals.
\<close>

section \<open>The entity index\<close>

record entity_index =
  ei_by_entity :: "string \<Rightarrow> string list"
  ei_by_node :: "string \<rightharpoonup> memory_record \<times> string list"

definition new_entity_index :: entity_index where
  "new_entity_index = \<lparr>ei_by_entity = (\<lambda>_. []), ei_by_node = Map.empty\<rparr>"

definition entities_of :: "memory_record \<Rightarrow> string list" where
  "entities_of r = sorted_dedup (mr_tags r @ extract_entities (mr_content r))"

definition index_record :: "memory_record \<Rightarrow> entity_index \<Rightarrow> entity_index" where
  "index_record r idx =
     \<lparr>ei_by_entity = fold (\<lambda>e m. m(e := m e @ [mr_node_id r])) (entities_of r) (ei_by_entity idx),
      ei_by_node = (ei_by_node idx)(mr_node_id r \<mapsto> (r, entities_of r))\<rparr>"

text \<open>The nodes are counted over all lists of the query's entities.\<close>

definition entity_hits :: "entity_index \<Rightarrow> string \<Rightarrow> nat \<Rightarrow> search_hit list" where
  "entity_hits idx query n =
     (let qs = sorted_dedup (extract_entities query); nodes = concat (map (ei_by_entity idx) qs)
      in if qs = [] then []
         else take n (by_score (List.map_filter
           (\<lambda>node. case ei_by_node idx node of
              Some (r, _) \<Rightarrow> Some (keyword_hit r (real (count_list nodes node) / real (length qs)))
            | None \<Rightarrow> None) (remdups nodes))))"

definition record_entities :: "entity_index \<Rightarrow> string \<Rightarrow> string list option" where
  "record_entities idx node = map_option snd (ei_by_node idx node)"

section \<open>Time-aware orderings\<close>

definition apply_recency_decay :: "timestamp \<Rightarrow> real \<Rightarrow> search_hit list \<Rightarrow> search_hit list" where
  "apply_recency_decay now lam hits =
     (if lam = 0 then hits
      else by_score (map (\<lambda>h. h\<lparr>sh_score :=
             sh_score h * exp (- lam * days_since now (mr_created_at (sh_record h)))\<rparr>) hits))"

text \<open>The loop over the pairs of hits that marks the older one of two that share an entity.\<close>

definition hit_pairs :: "nat \<Rightarrow> (nat \<times> nat) list" where
  "hit_pairs n = concat (map (\<lambda>i. map (\<lambda>j. (i, j)) [Suc i..<n]) [0..<n])"

definition shares_entity :: "string list \<Rightarrow> string list \<Rightarrow> bool" where
  "shares_entity es fs \<longleftrightarrow> list_ex (\<lambda>e. e \<in> set fs) es"

definition mark_older ::
    "search_hit list \<Rightarrow> string list list \<Rightarrow> nat \<times> nat \<Rightarrow> bool list \<Rightarrow> bool list" where
  "mark_older hits entities ij marks =
     (let (i, j) = ij; a = mr_created_at (sh_record (hits ! i)); b = mr_created_at (sh_record (hits ! j))
      in if \<not> shares_entity (entities ! i) (entities ! j) then marks
         else if a < b then marks[i := True]
         else if b < a then marks[j := True]
         else marks)"

definition apply_knowledge_supersession ::
    "search_hit list \<Rightarrow> entity_index \<Rightarrow> real \<Rightarrow> search_hit list" where
  "apply_knowledge_supersession hits idx penalty =
     (let entities = map (\<lambda>h. case record_entities idx (mr_node_id (sh_record h)) of
                                Some es \<Rightarrow> es | None \<Rightarrow> []) hits;
          marks = fold (mark_older hits entities) (hit_pairs (length hits)) (replicate (length hits) False)
      in by_score (map2 (\<lambda>h m. if m then h\<lparr>sh_score := sh_score h * penalty\<rparr> else h) hits marks))"

definition mentions :: "string \<Rightarrow> memory_record \<Rightarrow> bool" where
  "mentions entity r \<longleftrightarrow>
     list_ex (\<lambda>t. to_ascii_lowercase t = entity) (mr_tags r) \<or>
     list_ex (\<lambda>e. to_ascii_lowercase e = entity) (extract_entities (mr_content r))"

definition entity_timeline :: "memory_record list \<Rightarrow> string \<Rightarrow> memory_record list" where
  "entity_timeline records entity =
     (let entity = to_ascii_lowercase (trim entity)
      in if entity = [] then [] else sort_key mr_created_at (filter (mentions entity) records))"

section \<open>Episodes\<close>

record episode =
  en_nodes :: "string list"
  en_centroid :: "real list"

record episode_index =
  ex_episodes :: "episode list"
  ex_by_node :: "string \<rightharpoonup> nat"

definition new_episode_index :: episode_index where
  "new_episode_index = \<lparr>ex_episodes = [], ex_by_node = Map.empty\<rparr>"

definition norm_of :: "real list \<Rightarrow> real" where
  "norm_of a = sqrt (\<Sum>x\<leftarrow>a. x * x)"

definition cosine_similarity :: "real list \<Rightarrow> real list \<Rightarrow> real" where
  "cosine_similarity a b =
     (if length a \<noteq> length b \<or> a = [] then 0
      else if norm_of a = 0 \<or> norm_of b = 0 then 0
      else clamp (- 1) 1 ((\<Sum>(x, y)\<leftarrow>zip a b. x * y) / (norm_of a * norm_of b)))"

definition update_centroid :: "real list \<Rightarrow> real list \<Rightarrow> nat \<Rightarrow> real list" where
  "update_centroid centroid v n =
     (if length centroid \<noteq> length v \<or> n = 0 then centroid
      else map2 (\<lambda>c e. c * (real (n - 1) / real n) + e * (1 / real n)) centroid v)"

text \<open>\<open>max_by\<close>: of equal maxima the last.\<close>

fun last_max :: "(nat \<times> real) option \<Rightarrow> (nat \<times> real) list \<Rightarrow> (nat \<times> real) option" where
  "last_max best [] = best"
| "last_max best (x # xs) =
     last_max (case best of None \<Rightarrow> Some x | Some b \<Rightarrow> if snd b \<le> snd x then Some x else Some b) xs"

definition nearest_episode :: "episode list \<Rightarrow> real list \<Rightarrow> real \<Rightarrow> nat option" where
  "nearest_episode es v threshold =
     map_option fst (last_max None (filter (\<lambda>(_, s). s \<ge> threshold)
       (map (\<lambda>(i, e). (i, cosine_similarity v (en_centroid e))) (enumerate 0 es))))"

definition add_record :: "string \<Rightarrow> real list \<Rightarrow> real \<Rightarrow> episode_index \<Rightarrow> episode_index" where
  "add_record node v threshold idx =
     (case nearest_episode (ex_episodes idx) v threshold of
        Some i \<Rightarrow>
          let e = ex_episodes idx ! i; nodes = en_nodes e @ [node]
          in \<lparr>ex_episodes = (ex_episodes idx)[i :=
                \<lparr>en_nodes = nodes, en_centroid = update_centroid (en_centroid e) v (length nodes)\<rparr>],
              ex_by_node = (ex_by_node idx)(node \<mapsto> i)\<rparr>
      | None \<Rightarrow>
          \<lparr>ex_episodes = ex_episodes idx @ [\<lparr>en_nodes = [node], en_centroid = v\<rparr>],
           ex_by_node = (ex_by_node idx)(node \<mapsto> length (ex_episodes idx))\<rparr>)"

definition episode_mates :: "episode_index \<Rightarrow> string \<Rightarrow> string list" where
  "episode_mates idx node =
     (case ex_by_node idx node of
        None \<Rightarrow> []
      | Some i \<Rightarrow> filter (\<lambda>n. n \<noteq> node) (en_nodes (ex_episodes idx ! i)))"

end
