(* ===== verification/Entity_Properties.thy ===== *)
theory Entity_Properties
  imports Entity_Index Ranking_Properties
begin

text \<open>
  What the process-local indexes of the vector backend compute: overlaps of entities, penalties of
  outdated records and a partition of the nodes into episodes.
\<close>

section \<open>Entities\<close>

lemma entities_of_distinct: "distinct (entities_of r)"
  by (simp add: entities_of_def)

lemma fold_push:
  "distinct es \<Longrightarrow> fold (\<lambda>e m. m(e := m e @ [n])) es m e = (if e \<in> set es then m e @ [n] else m e)"
  by (induction es arbitrary: m) auto

lemma by_entity_records:
  "ei_by_entity (fold index_record rs idx) e =
     ei_by_entity idx e @ map mr_node_id (filter (\<lambda>r. e \<in> set (entities_of r)) rs)"
  by (induction rs arbitrary: idx) (simp_all add: index_record_def fold_push entities_of_distinct)

lemma by_node_records:
  "distinct (map mr_node_id rs) \<Longrightarrow> ei_by_node (fold index_record rs idx) n =
     (case List.find (\<lambda>r. mr_node_id r = n) rs of Some r \<Rightarrow> Some (r, entities_of r) | None \<Rightarrow> ei_by_node idx n)"
proof (induction rs arbitrary: idx)
  case (Cons r rs)
  have "List.find (\<lambda>x. mr_node_id x = n) rs = None" if "n = mr_node_id r"
    using Cons.prems that by (intro find_eq_None) (auto simp: image_iff)
  then show ?case using Cons by (auto simp: index_record_def split: option.splits)
qed simp

lemma count_list_distinct: "distinct xs \<Longrightarrow> count_list xs x = (if x \<in> set xs then 1 else 0)"
  by (induction xs) auto

lemma count_list_nodes:
  assumes "distinct (map mr_node_id rs)" and "r \<in> set rs"
  shows "count_list (map mr_node_id (filter P rs)) (mr_node_id r) = (if P r then 1 else 0)"
proof -
  have d: "distinct (map mr_node_id (filter P rs))" using assms(1) by (rule distinct_map_filter)
  have "mr_node_id r \<in> set (map mr_node_id (filter P rs)) \<longleftrightarrow> P r"
    using assms by (auto simp: distinct_map dest: inj_onD)
  then show ?thesis using d by (simp add: count_list_distinct)
qed

lemma overlap_count:
  assumes "distinct (map mr_node_id rs)" and "r \<in> set rs"
  shows "count_list (concat (map (\<lambda>e. map mr_node_id (filter (\<lambda>s. e \<in> set (entities_of s)) rs)) qs)) (mr_node_id r) =
    length (filter (\<lambda>e. e \<in> set (entities_of r)) qs)"
  by (induction qs) (simp_all add: count_list_append count_list_nodes [OF assms])

text \<open>The score of a hit is the share of the query's entities that its record has; it lies between
  zero, exclusive, and one, as long as no node is indexed twice.\<close>

theorem entity_scores_are_overlaps:
  assumes "distinct (map mr_node_id rs)"
  shows "let qs = sorted_dedup (extract_entities query) in
    list_all (\<lambda>h. sh_record h \<in> set rs \<and> 0 < sh_score h \<and> sh_score h \<le> 1 \<and>
      sh_score h = real (length (filter (\<lambda>e. e \<in> set (entities_of (sh_record h))) qs)) / real (length qs))
      (entity_hits (fold index_record rs new_entity_index) query n)"
proof -
  let ?idx = "fold index_record rs new_entity_index"
  define qs where "qs = sorted_dedup (extract_entities query)"
  define nodes where "nodes = concat (map (ei_by_entity ?idx) qs)"
  have nodes: "nodes = concat (map (\<lambda>e. map mr_node_id (filter (\<lambda>s. e \<in> set (entities_of s)) rs)) qs)"
    unfolding nodes_def by_entity_records by (simp add: new_entity_index_def)
  have "sh_record h \<in> set rs \<and> 0 < sh_score h \<and> sh_score h \<le> 1 \<and>
      sh_score h = real (length (filter (\<lambda>e. e \<in> set (entities_of (sh_record h))) qs)) / real (length qs)"
    if h: "h \<in> set (entity_hits ?idx query n)" for h
  proof -
    have "entity_hits ?idx query n = (if qs = [] then [] else take n (by_score (List.map_filter
        (\<lambda>node. case ei_by_node ?idx node of
           Some (r, _) \<Rightarrow> Some (keyword_hit r (real (count_list nodes node) / real (length qs)))
         | None \<Rightarrow> None) (remdups nodes))))"
      by (simp only: entity_hits_def Let_def qs_def nodes_def)
    then have "h \<in> set (by_score (List.map_filter (\<lambda>node. case ei_by_node ?idx node of
        Some (r, _) \<Rightarrow> Some (keyword_hit r (real (count_list nodes node) / real (length qs)))
      | None \<Rightarrow> None) (remdups nodes)))"
      using h by (auto split: if_splits dest: in_set_takeD)
    then obtain node where node: "node \<in> set nodes" "(case ei_by_node ?idx node of
        Some (r, _) \<Rightarrow> Some (keyword_hit r (real (count_list nodes node) / real (length qs)))
      | None \<Rightarrow> None) = Some h"
      by (auto simp: by_score_def map_filter_def)
    then obtain r where r: "List.find (\<lambda>r. mr_node_id r = node) rs = Some r"
      and hr: "h = keyword_hit r (real (count_list nodes node) / real (length qs))"
      by (auto simp: by_node_records [OF assms] new_entity_index_def split: option.splits)
    have rs: "r \<in> set rs" "mr_node_id r = node" using find_SomeD [OF r] by auto
    have "count_list nodes node = length (filter (\<lambda>e. e \<in> set (entities_of r)) qs)"
      using overlap_count [OF assms rs(1), of qs] rs(2) by (simp add: nodes)
    moreover have "count_list nodes node > 0" using node(1) count_list_0_iff [of nodes node] by linarith
    moreover have "length (filter (\<lambda>e. e \<in> set (entities_of r)) qs) \<le> length qs" "qs \<noteq> []"
      using node(1) by (auto simp: nodes)
    ultimately show ?thesis using rs(1) hr by (auto simp: keyword_hit_def divide_le_eq_1)
  qed
  then show ?thesis unfolding Let_def list_all_iff qs_def [symmetric] by blast
qed

definition rate_limit :: memory_record where
  "rate_limit = new_record 0 ''a'' ''n'' ''the limit'' [''RateLimit''] [] L1Atom"

lemma rate_limit_index:
  "mr_node_id rate_limit = ''n''" "entities_of rate_limit = [''RateLimit'']"
  "sorted_dedup (extract_entities ''RateLimit'') = [''RateLimit'']"
  by (simp_all add: rate_limit_def new_record_def entities_of_def) code_simp+

theorem entity_scores_witness:
  "\<exists>h. entity_hits (fold index_record [rate_limit] new_entity_index) ''RateLimit'' 5 = [h] \<and> sh_score h = 1"
proof -
  have "entity_hits (fold index_record [rate_limit] new_entity_index) ''RateLimit'' 5 = [keyword_hit rate_limit 1]"
    by (simp add: entity_hits_def rate_limit_index index_record_def new_entity_index_def by_score_def map_filter_def)
  then show ?thesis
    using entity_scores_are_overlaps [of "[rate_limit]" "''RateLimit''" 5] by (simp add: Let_def keyword_hit_def)
qed

text \<open>A node that is indexed again keeps its earlier entries: its score grows beyond one.\<close>

theorem indexing_twice_doubles_the_score:
  "\<exists>h. entity_hits (fold index_record [rate_limit, rate_limit] new_entity_index) ''RateLimit'' 5 = [h] \<and> sh_score h = 2"
  by (simp add: entity_hits_def rate_limit_index index_record_def new_entity_index_def by_score_def map_filter_def
      keyword_hit_def)

section \<open>Outdated records\<close>

lemma length_mark_older [simp]: "length (mark_older hits es ij marks) = length marks"
  by (simp add: mark_older_def Let_def split: prod.split)

lemma nth_update: "k < length xs \<Longrightarrow> xs[i := x] ! k = (if i = k then x else xs ! k)"
  by auto

lemma mark_older_nth:
  assumes "k < length marks"
  shows "mark_older hits es (i, j) marks ! k \<longleftrightarrow> marks ! k \<or>
    shares_entity (es ! i) (es ! j) \<and>
    (k = i \<and> mr_created_at (sh_record (hits ! i)) < mr_created_at (sh_record (hits ! j)) \<or>
     k = j \<and> mr_created_at (sh_record (hits ! j)) < mr_created_at (sh_record (hits ! i)))"
  using assms by (auto simp: mark_older_def Let_def nth_update)

lemma fold_mark_older:
  "k < length marks \<Longrightarrow> fold (mark_older hits es) ps marks ! k \<longleftrightarrow> marks ! k \<or>
    (\<exists>(i, j) \<in> set ps. shares_entity (es ! i) (es ! j) \<and>
      (k = i \<and> mr_created_at (sh_record (hits ! i)) < mr_created_at (sh_record (hits ! j)) \<or>
       k = j \<and> mr_created_at (sh_record (hits ! j)) < mr_created_at (sh_record (hits ! i))))"
proof (induction ps arbitrary: marks)
  case (Cons p ps)
  then show ?case by (cases p) (auto simp: mark_older_nth)
qed simp

lemma length_fold_mark_older [simp]: "length (fold (mark_older hits es) ps marks) = length marks"
  by (induction ps arbitrary: marks) simp_all

lemma set_hit_pairs: "set (hit_pairs n) = {(i, j). i < j \<and> j < n}"
  by (force simp: hit_pairs_def)

lemma older_of_pairs:
  fixes c :: "nat \<Rightarrow> int"
  assumes sym: "\<And>i j. s i j \<longleftrightarrow> s j i" and "k < n"
  shows "(\<exists>(i, j) \<in> set (hit_pairs n). s i j \<and> (k = i \<and> c i < c j \<or> k = j \<and> c j < c i)) \<longleftrightarrow>
    (\<exists>j < n. s k j \<and> c k < c j)"
proof
  assume "\<exists>(i, j) \<in> set (hit_pairs n). s i j \<and> (k = i \<and> c i < c j \<or> k = j \<and> c j < c i)"
  then obtain i j where "i < j" "j < n" "s i j" "k = i \<and> c i < c j \<or> k = j \<and> c j < c i"
    by (auto simp: set_hit_pairs)
  moreover have "s j i" using sym [of i j] \<open>s i j\<close> by simp
  ultimately show "\<exists>j < n. s k j \<and> c k < c j" by (metis less_trans)
next
  assume "\<exists>j < n. s k j \<and> c k < c j"
  then obtain j where j: "j < n" "s k j" "c k < c j" by blast
  then have "j \<noteq> k" by auto
  then consider "k < j" | "j < k" by linarith
  then show "\<exists>(i, j) \<in> set (hit_pairs n). s i j \<and> (k = i \<and> c i < c j \<or> k = j \<and> c j < c i)"
  proof cases
    case 1
    then show ?thesis using j by (intro bexI [of _ "(k, j)"]) (simp_all add: set_hit_pairs)
  next
    case 2
    then show ?thesis using j sym [of k j] assms(2) by (intro bexI [of _ "(j, k)"]) (simp_all add: set_hit_pairs)
  qed
qed

lemma shares_entity_sym: "shares_entity es fs \<longleftrightarrow> shares_entity fs es"
  by (auto simp: shares_entity_def list_ex_iff)

text \<open>The entities the index knows of a hit.\<close>

definition hit_entities :: "entity_index \<Rightarrow> search_hit \<Rightarrow> string list" where
  "hit_entities idx h =
     (case record_entities idx (mr_node_id (sh_record h)) of Some es \<Rightarrow> es | None \<Rightarrow> [])"

definition outdated :: "entity_index \<Rightarrow> search_hit list \<Rightarrow> search_hit \<Rightarrow> bool" where
  "outdated idx hits h \<longleftrightarrow> list_ex (\<lambda>g. shares_entity (hit_entities idx h) (hit_entities idx g)
     \<and> mr_created_at (sh_record h) < mr_created_at (sh_record g)) hits"

text \<open>C28: The loop over pairs penalises exactly the hits that share an entity with a newer hit, once each,
  and ranks again.\<close>

theorem supersession_penalises_the_outdated:
  "apply_knowledge_supersession hits idx penalty =
     by_score (map (\<lambda>h. if outdated idx hits h then h\<lparr>sh_score := sh_score h * penalty\<rparr> else h) hits)"
proof -
  let ?es = "map (hit_entities idx) hits" and ?n = "length hits"
  define marks where "marks = fold (mark_older hits ?es) (hit_pairs ?n) (replicate ?n False)"
  have "marks ! k \<longleftrightarrow> outdated idx hits (hits ! k)" if k: "k < ?n" for k
  proof -
    let ?shares = "\<lambda>i j. shares_entity (?es ! i) (?es ! j)" and ?c = "\<lambda>i. mr_created_at (sh_record (hits ! i))"
    have "marks ! k \<longleftrightarrow> (\<exists>(i, j) \<in> set (hit_pairs ?n). ?shares i j \<and> (k = i \<and> ?c i < ?c j \<or> k = j \<and> ?c j < ?c i))"
      using k by (simp add: marks_def fold_mark_older)
    also have "\<dots> \<longleftrightarrow> (\<exists>j < ?n. ?shares k j \<and> ?c k < ?c j)"
      by (rule older_of_pairs [OF shares_entity_sym k])
    also have "\<dots> \<longleftrightarrow> outdated idx hits (hits ! k)"
      using k by (auto simp: outdated_def list_ex_iff set_conv_nth)
    finally show ?thesis .
  qed
  then have "map2 (\<lambda>h m. if m then h\<lparr>sh_score := sh_score h * penalty\<rparr> else h) hits marks =
    map (\<lambda>h. if outdated idx hits h then h\<lparr>sh_score := sh_score h * penalty\<rparr> else h) hits"
    by (intro nth_equalityI) (simp_all add: marks_def)
  then show ?thesis
    by (simp add: apply_knowledge_supersession_def Let_def marks_def hit_entities_def [abs_def])
qed

section \<open>Episodes\<close>

text \<open>Every node that was added is in the episode the index says; when no node is added twice, it is
  in no other.\<close>

definition nodes_ok :: "(string \<rightharpoonup> nat) \<Rightarrow> string list list \<Rightarrow> bool" where
  "nodes_ok f ns \<longleftrightarrow> (\<forall>n i. f n = Some i \<longrightarrow> i < length ns \<and> n \<in> set (ns ! i))"

definition nodes_split :: "(string \<rightharpoonup> nat) \<Rightarrow> string list list \<Rightarrow> bool" where
  "nodes_split f ns \<longleftrightarrow> (\<forall>i < length ns. \<forall>n \<in> set (ns ! i). f n = Some i)"

definition episodes_ok :: "episode_index \<Rightarrow> bool" where
  "episodes_ok idx \<longleftrightarrow> nodes_ok (ex_by_node idx) (map en_nodes (ex_episodes idx))"

definition episodes_split :: "episode_index \<Rightarrow> bool" where
  "episodes_split idx \<longleftrightarrow> nodes_split (ex_by_node idx) (map en_nodes (ex_episodes idx))"

lemma nodes_ok_join: "nodes_ok f ns \<Longrightarrow> i < length ns \<Longrightarrow> nodes_ok (f(n \<mapsto> i)) (ns[i := ns ! i @ [n]])"
  unfolding nodes_ok_def by (simp add: nth_list_update)

lemma nodes_ok_start: "nodes_ok f ns \<Longrightarrow> nodes_ok (f(n \<mapsto> length ns)) (ns @ [[n]])"
  unfolding nodes_ok_def by (simp add: nth_append less_SucI)

lemma nodes_split_join:
  "nodes_split f ns \<Longrightarrow> f n = None \<Longrightarrow> i < length ns \<Longrightarrow> nodes_split (f(n \<mapsto> i)) (ns[i := ns ! i @ [n]])"
  unfolding nodes_split_def by (auto simp: nth_list_update)

lemma nodes_split_start: "nodes_split f ns \<Longrightarrow> f n = None \<Longrightarrow> nodes_split (f(n \<mapsto> length ns)) (ns @ [[n]])"
  unfolding nodes_split_def by (auto simp: nth_append less_Suc_eq)

lemma last_max_in: "last_max b xs = Some x \<Longrightarrow> b = Some x \<or> x \<in> set xs"
proof (induction xs arbitrary: b)
  case (Cons y xs)
  then show ?case by (cases b) (auto split: if_splits)
qed simp

lemma nearest_episode_bound: "nearest_episode es v t = Some i \<Longrightarrow> i < length es"
  by (auto simp: nearest_episode_def in_set_enumerate_eq dest!: last_max_in)

lemma add_record_cases:
  obtains (join) i where "nearest_episode (ex_episodes idx) v t = Some i" "i < length (ex_episodes idx)"
      "ex_by_node (add_record n v t idx) = (ex_by_node idx)(n \<mapsto> i)"
      "map en_nodes (ex_episodes (add_record n v t idx)) =
        (map en_nodes (ex_episodes idx))[i := en_nodes (ex_episodes idx ! i) @ [n]]"
  | (start) "ex_by_node (add_record n v t idx) = (ex_by_node idx)(n \<mapsto> length (ex_episodes idx))"
      "map en_nodes (ex_episodes (add_record n v t idx)) = map en_nodes (ex_episodes idx) @ [[n]]"
proof (cases "nearest_episode (ex_episodes idx) v t")
  case None
  then show ?thesis by (intro start) (simp_all add: add_record_def)
next
  case (Some i)
  then show ?thesis
    using nearest_episode_bound [OF Some] by (intro join [of i]) (simp_all add: add_record_def Let_def map_update)
qed

lemma add_record_ok [inv_pres]:
  assumes "episodes_ok idx" shows "episodes_ok (add_record n v t idx)"
proof (rule add_record_cases [of idx v t n])
  fix i assume "i < length (ex_episodes idx)" and upd: "ex_by_node (add_record n v t idx) = (ex_by_node idx)(n \<mapsto> i)"
    "map en_nodes (ex_episodes (add_record n v t idx)) =
        (map en_nodes (ex_episodes idx))[i := en_nodes (ex_episodes idx ! i) @ [n]]"
  then show ?thesis using nodes_ok_join [of _ "map en_nodes (ex_episodes idx)" i n] assms
    unfolding episodes_ok_def upd by simp
next
  assume upd: "ex_by_node (add_record n v t idx) = (ex_by_node idx)(n \<mapsto> length (ex_episodes idx))"
    "map en_nodes (ex_episodes (add_record n v t idx)) = map en_nodes (ex_episodes idx) @ [[n]]"
  then show ?thesis using nodes_ok_start [of _ "map en_nodes (ex_episodes idx)" n] assms
    unfolding episodes_ok_def upd by simp
qed

lemma add_record_split:
  assumes "episodes_split idx" and "ex_by_node idx n = None"
  shows "episodes_split (add_record n v t idx)"
proof (rule add_record_cases [of idx v t n])
  fix i assume "i < length (ex_episodes idx)" and upd: "ex_by_node (add_record n v t idx) = (ex_by_node idx)(n \<mapsto> i)"
    "map en_nodes (ex_episodes (add_record n v t idx)) =
        (map en_nodes (ex_episodes idx))[i := en_nodes (ex_episodes idx ! i) @ [n]]"
  then show ?thesis using nodes_split_join [of _ "map en_nodes (ex_episodes idx)" n i] assms
    unfolding episodes_split_def upd by simp
next
  assume upd: "ex_by_node (add_record n v t idx) = (ex_by_node idx)(n \<mapsto> length (ex_episodes idx))"
    "map en_nodes (ex_episodes (add_record n v t idx)) = map en_nodes (ex_episodes idx) @ [[n]]"
  then show ?thesis using nodes_split_start [of _ "map en_nodes (ex_episodes idx)" n] assms
    unfolding episodes_split_def upd by simp
qed

lemma add_record_dom: "dom (ex_by_node (add_record n v t idx)) = insert n (dom (ex_by_node idx))"
  by (rule add_record_cases [of idx v t n]) simp_all

definition add_all :: "real \<Rightarrow> (string \<times> real list) list \<Rightarrow> episode_index" where
  "add_all t adds = fold (\<lambda>(n, v). add_record n v t) adds new_episode_index"

lemma add_all_ok:
  "episodes_ok (add_all t adds) \<and> dom (ex_by_node (add_all t adds)) = fst ` set adds
    \<and> (distinct (map fst adds) \<longrightarrow> episodes_split (add_all t adds))"
proof (induction adds rule: rev_induct)
  case Nil
  then show ?case by (simp add: add_all_def new_episode_index_def episodes_ok_def episodes_split_def nodes_ok_def nodes_split_def)
next
  case (snoc x adds)
  obtain n v where x: "x = (n, v)" by (cases x)
  have step: "add_all t (adds @ [x]) = add_record n v t (add_all t adds)" by (simp add: add_all_def x)
  have "ex_by_node (add_all t adds) n = None" if "distinct (map fst (adds @ [x]))"
    using snoc that x by (auto simp: domIff)
  then show ?case unfolding step add_record_dom
    using snoc x by (auto simp: add_record_ok intro!: add_record_split)
qed

text \<open>C27: Episodes partition the nodes: with every node added once, two nodes are mates of each other or not at all,
  no node is its own mate, and a node has mates only if both were added.\<close>

theorem episode_mates_are_symmetric:
  assumes "distinct (map fst adds)"
  shows "(a \<in> set (episode_mates (add_all t adds) b) \<longleftrightarrow> b \<in> set (episode_mates (add_all t adds) a))
    \<and> a \<notin> set (episode_mates (add_all t adds) a)
    \<and> set (episode_mates (add_all t adds) a) \<subseteq> fst ` set adds"
proof -
  let ?idx = "add_all t adds"
  have ok: "episodes_ok ?idx" "episodes_split ?idx" "dom (ex_by_node ?idx) = fst ` set adds"
    using add_all_ok [of t adds] assms by auto
  have member: "b \<in> set (en_nodes (ex_episodes ?idx ! i)) \<longleftrightarrow> ex_by_node ?idx b = Some i"
    if "ex_by_node ?idx a = Some i" for a b i
  proof -
    have i: "i < length (map en_nodes (ex_episodes ?idx))"
      using ok(1) that unfolding episodes_ok_def nodes_ok_def by blast
    then show ?thesis
      using ok(1,2) unfolding episodes_ok_def episodes_split_def nodes_ok_def nodes_split_def
      by (metis length_map nth_map)
  qed
  have mates: "b \<in> set (episode_mates ?idx a) \<longleftrightarrow> a \<noteq> b \<and> (\<exists>i. ex_by_node ?idx a = Some i \<and> ex_by_node ?idx b = Some i)" for a b
    using member [of a] by (cases "ex_by_node ?idx a") (auto simp: episode_mates_def)
  show ?thesis by (auto simp: mates simp flip: ok(3))
qed

theorem episode_mates_witness:
  "''a'' \<in> set (episode_mates (add_all 0 [(''a'', []), (''b'', [])]) ''b'')
    \<and> ''b'' \<in> set (episode_mates (add_all 0 [(''a'', []), (''b'', [])]) ''a'')"
proof -
  have "''b'' \<in> set (episode_mates (add_all 0 [(''a'', []), (''b'', [])]) ''a'')"
    by (simp add: add_all_def add_record_def new_episode_index_def nearest_episode_def cosine_similarity_def
        episode_mates_def enumerate_eq_zip)
  then show ?thesis
    using episode_mates_are_symmetric [of "[(''a'', []), (''b'', [])]" "''a''" 0 "''b''"] by simp
qed

end
