(* ===== verification/Events.thy ===== *)
theory Events
  imports Entity_Index Hashing
begin

text \<open>
  Events: crates/aquifer/src/event.rs groups records that share an entity within a time window, with
  a union-find over the record indices; temporal.rs orders hits by them.

  \<open>uf_find\<close> follows parents in a loop of its own, so it is a partial function: \<open>None\<close> is a loop that
  does not end or an index out of bounds. The two hash maps that are walked (entities, components)
  yield their keys in an order that the standard library leaves open: the orders are parameters.
\<close>

record event =
  ev_id :: string
  ev_title :: string
  ev_time_range :: "timestamp \<times> timestamp"
  ev_entities :: "string list"
  ev_member_node_ids :: "string list"

section \<open>Union-find\<close>

partial_function (option) uf_find :: "nat list \<Rightarrow> nat \<Rightarrow> nat option" where
  "uf_find parent x =
     (if x \<ge> length parent then None
      else if parent ! x = x then Some x
      else uf_find parent (parent ! x))"

definition uf_union :: "nat list \<Rightarrow> nat \<times> nat \<Rightarrow> nat list option" where
  "uf_union parent xy =
     Option.bind (uf_find parent (fst xy)) (\<lambda>rx.
     Option.bind (uf_find parent (snd xy)) (\<lambda>ry.
       Some (if rx \<noteq> ry then parent[rx := ry] else parent)))"

fun uf_unions :: "nat list \<Rightarrow> (nat \<times> nat) list \<Rightarrow> nat list option" where
  "uf_unions parent [] = Some parent"
| "uf_unions parent (xy # ps) = Option.bind (uf_union parent xy) (\<lambda>p. uf_unions p ps)"

fun uf_roots :: "nat list \<Rightarrow> nat list \<Rightarrow> nat list option" where
  "uf_roots parent [] = Some []"
| "uf_roots parent (x # xs) =
     Option.bind (uf_find parent x) (\<lambda>r. Option.bind (uf_roots parent xs) (\<lambda>rs. Some (r # rs)))"

section \<open>Components\<close>

definition entity_indices :: "memory_record list \<Rightarrow> string \<Rightarrow> nat list" where
  "entity_indices records e =
     sort_key (\<lambda>i. mr_created_at (records ! i))
       (filter (\<lambda>i. e \<in> set (entities_of (records ! i))) [0..<length records])"

definition close_pairs :: "memory_record list \<Rightarrow> int \<Rightarrow> string \<Rightarrow> (nat \<times> nat) list" where
  "close_pairs records window e =
     filter (\<lambda>(a, b). \<bar>mr_created_at (records ! b) - mr_created_at (records ! a)\<bar> div 1000000000 \<le> window)
       (zip (entity_indices records e) (tl (entity_indices records e)))"

definition entity_keys :: "memory_record list \<Rightarrow> string list" where
  "entity_keys records = remdups (concat (map entities_of records))"

definition event_components ::
    "(string list \<Rightarrow> string list) \<Rightarrow> (nat list \<Rightarrow> nat list) \<Rightarrow> memory_record list \<Rightarrow> int \<Rightarrow> nat list list option" where
  "event_components walk arrange records window =
     Option.bind (uf_unions [0..<length records]
        (concat (map (close_pairs records window) (walk (entity_keys records))))) (\<lambda>parent.
     Option.bind (uf_roots parent [0..<length records]) (\<lambda>roots.
       Some (map (\<lambda>r. filter (\<lambda>i. roots ! i = r) [0..<length records]) (arrange (remdups roots)))))"

section \<open>Events\<close>

text \<open>\<open>max_by\<close> by count, then by name; the names are distinct, so the walk's order is immaterial.\<close>

definition event_title :: "memory_record list \<Rightarrow> nat list \<Rightarrow> string" where
  "event_title records members =
     (let names = concat (map (\<lambda>i. entities_of (records ! i)) members)
      in snd (fold (\<lambda>e best. max best (count_list names e, e)) (remdups names) (0, ''event'')))"

definition event_id_fnv1a :: "string list \<Rightarrow> string" where
  "event_id_fnv1a sorted_node_ids =
     hex_digits 16 (unat (fnv_hash (concat (map (\<lambda>n. n @ LF) sorted_node_ids))))"

definition build_event :: "memory_record list \<Rightarrow> nat list \<Rightarrow> event" where
  "build_event records component =
     (let members = sort_key (\<lambda>i. mr_created_at (records ! i)) component;
          node_ids = sort (map (\<lambda>i. mr_node_id (records ! i)) members)
      in \<lparr>ev_id = event_id_fnv1a node_ids, ev_title = event_title records members,
          ev_time_range = (mr_created_at (records ! hd members), mr_created_at (records ! last members)),
          ev_entities = sorted_dedup (concat (map (\<lambda>i. entities_of (records ! i)) members)),
          ev_member_node_ids = node_ids\<rparr>)"

definition assemble_events ::
    "(string list \<Rightarrow> string list) \<Rightarrow> (nat list \<Rightarrow> nat list) \<Rightarrow> memory_record list \<Rightarrow> u64 \<Rightarrow> event list option" where
  "assemble_events walk arrange records window =
     (if records = [] then Some []
      else map_option (\<lambda>components. sort_key (\<lambda>e. fst (ev_time_range e))
             (map (build_event records) (filter (\<lambda>c. length c \<ge> 2) components)))
        (event_components walk arrange records (sint window)))"

section \<open>Hits in the order of events\<close>

text \<open>Of several events of a node the last one is kept by the collected map.\<close>

definition event_starts :: "event list \<Rightarrow> (string \<times> timestamp) list" where
  "event_starts events =
     rev (concat (map (\<lambda>e. map (\<lambda>n. (n, fst (ev_time_range e))) (ev_member_node_ids e)) events))"

definition sort_hits_by_event_time :: "search_hit list \<Rightarrow> event list \<Rightarrow> search_hit list" where
  "sort_hits_by_event_time hits events =
     (if events = [] then hits
      else
        let start = (\<lambda>h. map_of (event_starts events) (mr_node_id (sh_record h)));
            indexed = enumerate 0 hits;
            covered = List.map_filter (\<lambda>(i, h). map_option (\<lambda>s. (s, i, h)) (start h)) indexed;
            others = filter (\<lambda>h. start h = None) hits
        in map (\<lambda>(s, i, h). h) (sort_key (\<lambda>(s, i, h). (s, i)) covered) @ others)"

end
