(* ===== verification/Event_Properties.thy ===== *)
theory Event_Properties
  imports Events "HOL-Library.Multiset"
begin

text \<open>
  Events are the classes of the records under chains of close records that share an entity, in
  whatever order the hash maps are walked: the union-find terminates, stays in bounds and computes the
  equivalence closure of the links.
\<close>

section \<open>Union-find\<close>

text \<open>A parent array is a forest when every search ends.\<close>

definition forest :: "nat list \<Rightarrow> bool" where
  "forest p \<longleftrightarrow> (\<forall>x < length p. uf_find p x \<noteq> None)"

definition root :: "nat list \<Rightarrow> nat \<Rightarrow> nat" where
  "root p x = the (uf_find p x)"

lemma uf_find_root:
  assumes "uf_find p x = Some r"
  shows "r < length p \<and> p ! r = r \<and> x < length p"
proof (rule uf_find.raw_induct [where P = "\<lambda>p x r. r < length p \<and> p ! r = r \<and> x < length p"
      and xa = "(p, x)", unfolded prod.case, OF _ assms])
  fix f p x r
  assume IH: "\<And>p x r. f p x = Some r \<Longrightarrow> r < length p \<and> p ! r = r \<and> x < length p"
    and run: "(if x \<ge> length p then None else if p ! x = x then Some x else f p (p ! x)) = Some r"
  then show "r < length p \<and> p ! r = r \<and> x < length p" by (auto split: if_splits)
qed

lemma uf_find_self: "r < length p \<Longrightarrow> p ! r = r \<Longrightarrow> uf_find p r = Some r"
  by (simp add: uf_find.simps)

text \<open>What linking one root below another does to every search.\<close>

lemma uf_find_link:
  assumes rx: "rx < length p" "p ! rx = rx" and ry: "ry < length p" "p ! ry = ry" and ne: "rx \<noteq> ry"
    and z: "uf_find p z = Some r"
  shows "uf_find (p[rx := ry]) z = Some (if r = rx then ry else r)"
proof -
  have "p = p \<longrightarrow> uf_find (p[rx := ry]) z = Some (if r = rx then ry else r)"
  proof (rule uf_find.raw_induct [where P = "\<lambda>q z r. q = p \<longrightarrow> uf_find (p[rx := ry]) z = Some (if r = rx then ry else r)"
        and xa = "(p, z)", unfolded prod.case, OF _ z])
    fix f q z r
    assume IH: "\<And>q z r. f q z = Some r \<Longrightarrow> q = p \<longrightarrow> uf_find (p[rx := ry]) z = Some (if r = rx then ry else r)"
      and run: "(if z \<ge> length q then None else if q ! z = z then Some z else f q (q ! z)) = Some r"
    show "q = p \<longrightarrow> uf_find (p[rx := ry]) z = Some (if r = rx then ry else r)"
    proof
      assume q: "q = p"
      have zl: "z < length p" using run q by (auto split: if_splits)
      show "uf_find (p[rx := ry]) z = Some (if r = rx then ry else r)"
      proof (cases "p ! z = z")
        case True
        then have r: "r = z" using run q by (auto split: if_splits)
        show ?thesis
        proof (cases "z = rx")
          case True
          have "uf_find (p[rx := ry]) ry = Some ry" using ry ne by (intro uf_find_self) auto
          then show ?thesis using True r ne zl by (subst uf_find.simps) auto
        next
          case False
          then show ?thesis using r zl \<open>p ! z = z\<close> by (subst uf_find.simps) auto
        qed
      next
        case False
        then have "f p (p ! z) = Some r" using run q zl by (auto split: if_splits)
        then have onward: "uf_find (p[rx := ry]) (p ! z) = Some (if r = rx then ry else r)" using IH by blast
        have "z \<noteq> rx" using False rx(2) by auto
        then have "(p[rx := ry]) ! z = p ! z" by simp
        then show ?thesis using onward False zl by (subst uf_find.simps) auto
      qed
    qed
  qed
  then show ?thesis by simp
qed

lemma forest_root:
  assumes "forest p" and "x < length p"
  shows "uf_find p x = Some (root p x)" "root p x < length p" "p ! root p x = root p x"
  using assms uf_find_root unfolding forest_def root_def by fastforce+

lemma uf_union_spec:
  assumes p: "forest p" and "x < length p" "y < length p"
  shows "\<exists>q. uf_union p (x, y) = Some q \<and> forest q \<and> length q = length p
    \<and> (\<forall>z < length p. root q z = (if root p z = root p x then root p y else root p z))"
proof (cases "root p x = root p y")
  case True
  then show ?thesis using assms forest_root by (auto simp: uf_union_def)
next
  case False
  let ?q = "p[root p x := root p y]"
  have find: "uf_find ?q z = Some (if root p z = root p x then root p y else root p z)" if "z < length p" for z
    using uf_find_link [OF _ _ _ _ False forest_root(1) [OF p that]] forest_root(2,3) [OF p] assms(2,3) by simp
  then have "forest ?q" by (simp add: forest_def)
  moreover have "uf_union p (x, y) = Some ?q" using False assms forest_root(1) by (simp add: uf_union_def)
  ultimately show ?thesis using find by (auto simp: root_def)
qed

section \<open>The equivalence closure\<close>

text \<open>The symmetric, transitive closure of a list of pairs.\<close>

definition chains :: "(nat \<times> nat) set \<Rightarrow> (nat \<times> nat) set" where
  "chains R = (R \<union> R\<inverse>)\<^sup>*"

lemma chains_sym: "(a, b) \<in> chains R \<Longrightarrow> (b, a) \<in> chains R"
  unfolding chains_def by (metis converse_Un converse_converse rtrancl_converseI sup_commute)

lemma chains_trans: "(a, b) \<in> chains R \<Longrightarrow> (b, c) \<in> chains R \<Longrightarrow> (a, c) \<in> chains R"
  unfolding chains_def by (rule rtrancl_trans)

lemma chains_mono: "R \<subseteq> S \<Longrightarrow> chains R \<subseteq> chains S"
  unfolding chains_def by (intro rtrancl_mono) auto

lemma chains_insert:
  "(a, b) \<in> chains (insert (x, y) R) \<longleftrightarrow> (a, b) \<in> chains R
     \<or> (a, x) \<in> chains R \<and> (y, b) \<in> chains R \<or> (a, y) \<in> chains R \<and> (x, b) \<in> chains R"
proof
  assume "(a, b) \<in> chains (insert (x, y) R)"
  then have "(a, b) \<in> (insert (x, y) (insert (y, x) (R \<union> R\<inverse>)))\<^sup>*"
    unfolding chains_def by (rule back_subst [where P = "\<lambda>s. (a, b) \<in> s\<^sup>*"]) auto
  then show "(a, b) \<in> chains R \<or> (a, x) \<in> chains R \<and> (y, b) \<in> chains R \<or> (a, y) \<in> chains R \<and> (x, b) \<in> chains R"
  proof (induction rule: rtrancl_induct)
    case base
    then show ?case by (simp add: chains_def)
  next
    case (step b c)
    have one: "(u, v) \<in> chains R" if "(u, v) \<in> R \<union> R\<inverse>" for u v using that unfolding chains_def by blast
    have refl: "(u, u) \<in> chains R" for u by (simp add: chains_def)
    from step(2) consider "b = x" "c = y" | "b = y" "c = x" | "(b, c) \<in> chains R" using one by blast
    then show ?case
    proof cases
      case 1
      then show ?thesis using step(3) refl chains_sym chains_trans by blast
    next
      case 2
      then show ?thesis using step(3) refl chains_sym chains_trans by blast
    next
      case 3
      then show ?thesis using step(3) chains_trans by blast
    qed
  qed
next
  assume "(a, b) \<in> chains R \<or> (a, x) \<in> chains R \<and> (y, b) \<in> chains R \<or> (a, y) \<in> chains R \<and> (x, b) \<in> chains R"
  moreover have "chains R \<subseteq> chains (insert (x, y) R)" by (rule chains_mono) auto
  moreover have "(x, y) \<in> chains (insert (x, y) R)" "(y, x) \<in> chains (insert (x, y) R)" by (auto simp: chains_def)
  ultimately show "(a, b) \<in> chains (insert (x, y) R)" by (meson chains_trans subsetD)
qed

lemma uf_unions_spec:
  assumes "forest p" and "\<forall>(x, y) \<in> set ps. x < length p \<and> y < length p"
    and "\<forall>a < length p. \<forall>b < length p. root p a = root p b \<longleftrightarrow> (a, b) \<in> chains R"
  shows "\<exists>q. uf_unions p ps = Some q \<and> forest q \<and> length q = length p
    \<and> (\<forall>a < length p. \<forall>b < length p. root q a = root q b \<longleftrightarrow> (a, b) \<in> chains (R \<union> set ps))"
  using assms
proof (induction ps arbitrary: p R)
  case (Cons xy ps)
  obtain x y where xy: "xy = (x, y)" by (cases xy)
  have b: "x < length p" "y < length p" using Cons.prems(2) xy by auto
  obtain q where q: "uf_union p (x, y) = Some q" "forest q" "length q = length p"
    "\<forall>z < length p. root q z = (if root p z = root p x then root p y else root p z)"
    using uf_union_spec [OF Cons.prems(1) b] by blast
  have "\<forall>a < length q. \<forall>b < length q. root q a = root q b \<longleftrightarrow> (a, b) \<in> chains (insert (x, y) R)"
    unfolding chains_insert q(3) using q(4) Cons.prems(3) b by (metis chains_sym)
  from Cons.IH [OF q(2) _ this] Cons.prems(2) q(1,3) xy show ?case by auto
qed auto

lemma uf_roots_spec: "forest p \<Longrightarrow> \<forall>x \<in> set xs. x < length p \<Longrightarrow> uf_roots p xs = Some (map (root p) xs)"
  by (induction xs) (simp_all add: forest_root(1))

section \<open>Components are the classes of the links\<close>

definition links :: "memory_record list \<Rightarrow> int \<Rightarrow> (nat \<times> nat) set" where
  "links records window = (\<Union>r \<in> set records. \<Union>e \<in> set (entities_of r). set (close_pairs records window e))"

lemma entity_indices_bounded: "i \<in> set (entity_indices records e) \<Longrightarrow> i < length records"
  by (auto simp: entity_indices_def)

lemma set_tl_subset: "set (tl xs) \<subseteq> set xs" by (cases xs) auto

lemma close_pairs_bounded:
  assumes "(a, b) \<in> set (close_pairs records window e)"
  shows "a < length records \<and> b < length records"
proof -
  have "(a, b) \<in> set (zip (entity_indices records e) (tl (entity_indices records e)))"
    using assms unfolding close_pairs_def by simp
  then have ab: "a \<in> set (entity_indices records e)" "b \<in> set (tl (entity_indices records e))"
    by (auto dest: set_zip_leftD set_zip_rightD)
  have "set (tl (entity_indices records e)) \<subseteq> set (entity_indices records e)" by (rule set_tl_subset)
  then show ?thesis using ab entity_indices_bounded by blast
qed

lemma links_walk:
  assumes "\<forall>l. mset (walk l) = mset l"
  shows "set (concat (map (close_pairs records window) (walk (entity_keys records)))) = links records window"
proof -
  have "set (walk (entity_keys records)) = set (entity_keys records)" using assms by (metis set_mset_mset)
  then show ?thesis by (auto simp: links_def entity_keys_def)
qed

text \<open>C11: The classes are found, each one once and with its members in ascending order, for every order in which
  the two hash maps are walked; in particular no search of the union-find loops or leaves the array.\<close>

theorem event_components_are_classes:
  assumes "\<forall>l. mset (walk l) = mset l" and "\<forall>l. mset (arrange l) = mset l"
  shows "\<exists>components. event_components walk arrange records window = Some components
    \<and> distinct components \<and> (\<forall>c \<in> set components. sorted c \<and> distinct c)
    \<and> set ` set components = (\<lambda>i. {j. j < length records \<and> (i, j) \<in> chains (links records window)}) ` {..<length records}"
proof -
  let ?n = "length records" and ?links = "links records window"
  let ?pairs = "concat (map (close_pairs records window) (walk (entity_keys records)))"
  have start: "uf_find [0..<?n] x = Some x" if "x < ?n" for x using that by (simp add: uf_find.simps)
  then have forest: "forest [0..<?n]" and root: "root [0..<?n] x = x" if "x < ?n" for x
    using that by (simp_all add: forest_def root_def)
  have "forest [0..<?n]" using start by (simp add: forest_def)
  moreover have "\<forall>(x, y) \<in> set ?pairs. x < length [0..<?n] \<and> y < length [0..<?n]"
    unfolding links_walk [OF assms(1)] links_def using close_pairs_bounded by fastforce
  moreover have "\<forall>a < length [0..<?n]. \<forall>b < length [0..<?n]. root [0..<?n] a = root [0..<?n] b \<longleftrightarrow> (a, b) \<in> chains {}"
    using root by (simp add: chains_def)
  ultimately obtain q where q: "uf_unions [0..<?n] ?pairs = Some q" "forest q" "length q = ?n"
    and eq: "\<And>a b. a < ?n \<Longrightarrow> b < ?n \<Longrightarrow> root q a = root q b \<longleftrightarrow> (a, b) \<in> chains ?links"
    using uf_unions_spec [of "[0..<?n]" ?pairs "{}"] links_walk [OF assms(1)] by auto
  let ?roots = "map (root q) [0..<?n]" and ?classes = "\<lambda>r. filter (\<lambda>i. map (root q) [0..<?n] ! i = r) [0..<?n]"
  have found: "event_components walk arrange records window = Some (map ?classes (arrange (remdups ?roots)))"
    using q(1) uf_roots_spec [OF q(2), of "[0..<?n]"] q(3) by (simp add: event_components_def)
  have keys: "set (arrange (remdups ?roots)) = root q ` {..<?n}" "distinct (arrange (remdups ?roots))"
    using assms(2) by (metis atLeast_upt set_map set_mset_mset set_remdups, metis distinct_remdups mset_eq_imp_distinct_iff)
  have member: "set (?classes (root q i)) = {j. j < ?n \<and> (i, j) \<in> chains ?links}" if "i < ?n" for i
    using that by (auto simp flip: eq [OF that])
  have "inj_on ?classes (root q ` {..<?n})"
  proof (rule inj_onI)
    fix r s assume rs: "r \<in> root q ` {..<?n}" "?classes r = ?classes s"
    then obtain i where i: "i < ?n" "r = root q i" by blast
    then have "i \<in> set (?classes r)" by simp
    then have "i \<in> set (?classes s)" using rs(2) by metis
    then show "r = s" using i by simp
  qed
  then have "distinct (map ?classes (arrange (remdups ?roots)))" using keys by (simp add: distinct_map)
  moreover have "\<forall>c \<in> set (map ?classes (arrange (remdups ?roots))). sorted c \<and> distinct c"
    by (auto intro: sorted_wrt_filter)
  moreover have "set ` set (map ?classes (arrange (remdups ?roots))) =
      (\<lambda>i. {j. j < ?n \<and> (i, j) \<in> chains ?links}) ` {..<?n}"
    unfolding set_map keys(1) image_image using member by (intro image_cong) auto
  ultimately show ?thesis using found by blast
qed

definition tagged :: "string \<Rightarrow> string \<Rightarrow> memory_record" where
  "tagged n tag = new_record 0 n n [] [tag] bt_empty L1Atom"

lemma entities_of_tagged [simp]: "entities_of (tagged n tag) = [tag]"
proof -
  have "extract_entities [] = []" by code_simp
  then show ?thesis by (simp add: entities_of_def tagged_def new_record_def sorted_dedup_def)
qed

lemma tagged_time [simp]: "mr_created_at (tagged n tag) = 0" "mr_node_id (tagged n tag) = n"
  by (simp_all add: tagged_def new_record_def)

definition two_pairs :: "memory_record list" where
  "two_pairs = [tagged ''a'' ''x'', tagged ''b'' ''x'', tagged ''c'' ''y'', tagged ''d'' ''y'']"

lemma two_pairs_components:
  "event_components id arrange two_pairs 10 = Some (map (\<lambda>r. filter (\<lambda>i. [1, 1, 3, 3] ! i = r) [0, 1, 2, 3]) (arrange [1, 3]))"
proof -
  have idx: "entity_indices two_pairs ''x'' = [0, 1]" "entity_indices two_pairs ''y'' = [2, 3]"
    by (simp_all add: entity_indices_def two_pairs_def upt_rec sort_key_def)
  then have pairs: "close_pairs two_pairs 10 ''x'' = [(0, 1)]" "close_pairs two_pairs 10 ''y'' = [(2, 3)]"
    by (simp_all add: close_pairs_def two_pairs_def)
  have keys: "entity_keys two_pairs = [''x'', ''y'']" by (simp add: entity_keys_def two_pairs_def)
  have "length two_pairs = 4" by (simp add: two_pairs_def)
  then show ?thesis
    by (simp add: event_components_def keys pairs upt_rec uf_union_def uf_find.simps eval_nat_numeral)
qed

text \<open>One component of records one after the other, as the theorem finds it.\<close>

theorem event_components_witness:
  "\<exists>components. event_components id id two_pairs 10 = Some components \<and> distinct components
    \<and> (\<exists>c \<in> set components. set c = {j. j < 4 \<and> (0, j) \<in> chains (links two_pairs 10)})"
proof -
  have four: "length two_pairs = 4" by (simp add: two_pairs_def)
  obtain components where found: "event_components id id two_pairs 10 = Some components" "distinct components"
    "set ` set components = (\<lambda>i. {j. j < 4 \<and> (i, j) \<in> chains (links two_pairs 10)}) ` {..<4}"
    using event_components_are_classes [of id id two_pairs 10] unfolding four by auto
  then have "{j. j < 4 \<and> (0, j) \<in> chains (links two_pairs 10)} \<in> set ` set components"
    by (simp only: found(3)) (rule image_eqI [of _ _ 0], simp_all)
  then show ?thesis using found by fastforce
qed

section \<open>The order of events\<close>

text \<open>Although the derivation is documented as deterministic, two events that start at the same time come in
  the order in which the map of components happens to be walked.\<close>

theorem simultaneous_events_in_any_order:
  "\<exists>ab cd. assemble_events id id two_pairs 10 = Some [ab, cd] \<and> assemble_events id rev two_pairs 10 = Some [cd, ab]
    \<and> ev_member_node_ids ab = [''a'', ''b''] \<and> ev_member_node_ids cd = [''c'', ''d'']"
proof -
  let ?ab = "build_event two_pairs [0, 1]" and ?cd = "build_event two_pairs [2, 3]"
  have sorts: "sort_key (\<lambda>i. mr_created_at (two_pairs ! i)) [0, 1] = [0, 1]"
    "sort_key (\<lambda>i. mr_created_at (two_pairs ! i)) [2, 3] = [2, 3]"
    by (simp_all add: two_pairs_def sort_key_def)
  then have time: "fst (ev_time_range ?ab) = 0" "fst (ev_time_range ?cd) = 0"
    and nodes: "ev_member_node_ids ?ab = [''a'', ''b'']" "ev_member_node_ids ?cd = [''c'', ''d'']"
    by (simp_all add: build_event_def two_pairs_def Let_def)
  have "two_pairs \<noteq> []" by (simp add: two_pairs_def)
  then have "assemble_events id id two_pairs 10 = Some [?ab, ?cd]" "assemble_events id rev two_pairs 10 = Some [?cd, ?ab]"
    using time by (simp_all add: assemble_events_def two_pairs_components sort_key_def)
  then show ?thesis using nodes by blast
qed

section \<open>Hits in the order of events\<close>

lemma map_insort_key:
  "\<forall>y \<in> insert x (set ys). f y = g (h y) \<Longrightarrow> map h (insort_key f x ys) = insort_key g (h x) (map h ys)"
  by (induction ys) auto

lemma map_sort_key:
  "\<forall>x \<in> set xs. f x = g (h x) \<Longrightarrow> map h (sort_key f xs) = sort_key g (map h xs)"
  by (induction xs) (simp_all add: map_insort_key [where g = g])

lemma sort_key_position:
  assumes "sorted (map (\<lambda>(s, i, h). i) xs)"
  shows "sort_key (\<lambda>(s :: int, i :: nat, h). (s, i)) xs = sort_key (\<lambda>(s, i, h). s) xs"
proof (rule properties_for_sort_key [symmetric])
  let ?f = "\<lambda>(s :: int, i :: nat, h). (s, i)"
  show "mset (sort_key ?f xs) = mset xs" by simp
  have "sorted (map ?f (sort_key ?f xs))" by (rule sorted_sort_key)
  then show "sorted (map (\<lambda>(s, i, h). s) (sort_key ?f xs))"
    by (auto simp: sorted_map case_prod_unfold less_eq_prod_def elim!: sorted_wrt_mono_rel [rotated])
  fix k assume "k \<in> set (sort_key ?f xs)"
  let ?same = "\<lambda>x. (case k of (s, i, h) \<Rightarrow> s) = (case x of (s, i, h) \<Rightarrow> s)"
  have "sorted (map ?f (filter ?same xs))"
    using assms by (induction xs) (auto simp: less_eq_prod_def split: prod.splits)
  then have "sort_key ?f (filter ?same xs) = filter ?same xs" by (rule sort_key_id_if_sorted)
  then show "filter ?same (sort_key ?f xs) = filter ?same xs" by (simp add: filter_sort)
qed

text \<open>Hits that belong to an event come first, by the start of it and otherwise in their order; the other
  hits follow in theirs.\<close>

theorem hits_by_event_time_is_stable:
  "sort_hits_by_event_time hits events =
     (let start = (\<lambda>h. map_of (event_starts events) (mr_node_id (sh_record h)))
      in sort_key (\<lambda>h. the (start h)) (filter (\<lambda>h. start h \<noteq> None) hits) @ filter (\<lambda>h. start h = None) hits)"
proof -
  define start where "start = (\<lambda>h :: search_hit. map_of (event_starts events) (mr_node_id (sh_record h)))"
  let ?covered = "\<lambda>n. List.map_filter (\<lambda>(i, h). map_option (\<lambda>s. (s, i, h)) (start h)) (enumerate n hits)"
  have increasing: "sorted (map (\<lambda>(s, i, h). i) (?covered n)) \<and> (\<forall>x \<in> set (?covered n). n \<le> fst (snd x))" for n
  proof (induction hits arbitrary: n)
    case (Cons h hs)
    show ?case using Cons [of "Suc n"] by (cases "start h") (fastforce simp: List.map_filter_simps)+
  qed (simp add: List.map_filter_simps)
  have plain: "map (\<lambda>(s, i, h). h) (?covered n) = filter (\<lambda>h. start h \<noteq> None) hits" for n
    by (induction hits arbitrary: n) (auto simp: List.map_filter_simps split: option.splits)
  have key: "\<forall>x \<in> set (?covered n). (case x of (s, i, h) \<Rightarrow> s) = the (start (case x of (s, i, h) \<Rightarrow> h))" for n
    by (auto simp: List.map_filter_def)
  show ?thesis
  proof (cases "events = []")
    case True
    then show ?thesis by (simp add: sort_hits_by_event_time_def event_starts_def sort_key_def)
  next
    case False
    have "map (\<lambda>(s, i, h). h) (sort_key (\<lambda>(s, i, h). (s, i)) (?covered 0)) =
        map (\<lambda>(s, i, h). h) (sort_key (\<lambda>(s, i, h). s) (?covered 0))"
      by (subst sort_key_position) (use increasing in auto)
    also have "\<dots> = sort_key (\<lambda>h. the (start h)) (map (\<lambda>(s, i, h). h) (?covered 0))"
      by (rule map_sort_key) (use key [of 0] in fastforce)
    finally show ?thesis using False unfolding plain by (simp add: sort_hits_by_event_time_def start_def Let_def)
  qed
qed

end
