(* ===== verification/Vector_Store.thy ===== *)
theory Vector_Store
  imports Memory_Files Chunking Entity_Index
begin

text \<open>
  The contract of the vector stores: crates/aquifer/src/vector.rs (filters, points, searches, the
  store trait), the payload of a memory record (vector_memory.rs \<open>MemoryPayload\<close>) and the
  compatibility record of a collection (compat.rs). Payloads are JSON values; a number is an exact
  rational, a vector a list of reals. Printing and reading of time stamps are parameters; the texts
  of the decoder's messages are left empty.
\<close>

section \<open>Payload values\<close>

datatype payload_value =
    PNull | PBool bool | PNum rat | PStr string | PArr "payload_value list" | PObj "(string \<times> payload_value) list"

definition value_get :: "string \<Rightarrow> payload_value \<Rightarrow> payload_value option" where
  "value_get key v = (case v of PObj kvs \<Rightarrow> map_of kvs key | _ \<Rightarrow> None)"

fun value_path :: "string list \<Rightarrow> payload_value \<Rightarrow> payload_value option" where
  "value_path [] v = Some v"
| "value_path (k # ks) v = Option.bind (value_get k v) (value_path ks)"

definition field_value :: "payload_value \<Rightarrow> string \<Rightarrow> payload_value option" where
  "field_value payload field = value_path (split_on ''.'' field) payload"

definition as_str :: "payload_value \<Rightarrow> string option" where
  "as_str v = (case v of PStr s \<Rightarrow> Some s | _ \<Rightarrow> None)"

section \<open>Filters\<close>

datatype filter_value = FString string | FNumber rat | FBool bool

record range_filter =
  rg_field :: string
  rg_gte :: "rat option"
  rg_gt :: "rat option"
  rg_lte :: "rat option"
  rg_lt :: "rat option"

datatype filter_condition =
    Eq_cond string filter_value | In_cond string "filter_value list" | Range_cond range_filter | Exists_cond string

record vector_filter =
  vf_must :: "filter_condition list"
  vf_should :: "filter_condition list"
  vf_must_not :: "filter_condition list"

definition empty_filter :: vector_filter where
  "empty_filter = \<lparr>vf_must = [], vf_should = [], vf_must_not = []\<rparr>"

definition must_eq :: "string \<Rightarrow> string \<Rightarrow> vector_filter \<Rightarrow> vector_filter" where
  "must_eq field val f = f\<lparr>vf_must := vf_must f @ [Eq_cond field (FString val)]\<rparr>"

definition node_id_filter :: "string \<Rightarrow> vector_filter" where
  "node_id_filter node = must_eq ''node_id'' node empty_filter"

definition add_project_union :: "string \<Rightarrow> vector_filter \<Rightarrow> vector_filter" where
  "add_project_union project f =
     (let project = (if trim project = [] then SHARED_PROJECT else trim project)
      in f\<lparr>vf_should := vf_should f @ [Eq_cond ''project'' (FString project)]
            @ (if project \<noteq> SHARED_PROJECT then [Eq_cond ''project'' (FString SHARED_PROJECT)] else [])
            @ [Exists_cond ''project'']\<rparr>)"

definition must_string_eq :: "vector_filter \<Rightarrow> (string \<times> string) list" where
  "must_string_eq f =
     List.map_filter (\<lambda>c. case c of Eq_cond field (FString v) \<Rightarrow> Some (field, v) | _ \<Rightarrow> None) (vf_must f)"

definition is_safe_field_path :: "string \<Rightarrow> bool" where
  "is_safe_field_path field \<longleftrightarrow> field \<noteq> []
     \<and> list_all (\<lambda>c. is_ascii_alphanumeric c \<or> c = CHR ''_'' \<or> c = CHR ''.'') field"

definition f64_epsilon :: rat where "f64_epsilon = 1 / 2 ^ 52"

fun filter_values_equal :: "payload_value \<Rightarrow> filter_value \<Rightarrow> bool" where
  "filter_values_equal v (FString s) = (v = PStr s)"
| "filter_values_equal v (FNumber n) = (case v of PNum q \<Rightarrow> \<bar>q - n\<bar> \<le> f64_epsilon | _ \<Rightarrow> False)"
| "filter_values_equal v (FBool b) = (v = PBool b)"

definition value_matches :: "payload_value \<Rightarrow> filter_value \<Rightarrow> bool" where
  "value_matches v expected =
     (case v of PArr vs \<Rightarrow> list_ex (\<lambda>i. filter_values_equal i expected) vs | _ \<Rightarrow> filter_values_equal v expected)"

definition range_matches :: "rat \<Rightarrow> range_filter \<Rightarrow> bool" where
  "range_matches q r \<longleftrightarrow> (case rg_gte r of None \<Rightarrow> True | Some b \<Rightarrow> q \<ge> b) \<and> (case rg_gt r of None \<Rightarrow> True | Some b \<Rightarrow> q > b)
     \<and> (case rg_lte r of None \<Rightarrow> True | Some b \<Rightarrow> q \<le> b) \<and> (case rg_lt r of None \<Rightarrow> True | Some b \<Rightarrow> q < b)"

fun payload_matches_condition :: "payload_value \<Rightarrow> filter_condition \<Rightarrow> bool" where
  "payload_matches_condition p (Eq_cond field v) =
     (case field_value p field of Some c \<Rightarrow> value_matches c v | None \<Rightarrow> False)"
| "payload_matches_condition p (In_cond field vs) =
     (case field_value p field of Some c \<Rightarrow> list_ex (value_matches c) vs | None \<Rightarrow> False)"
| "payload_matches_condition p (Range_cond r) =
     (case field_value p (rg_field r) of Some (PNum q) \<Rightarrow> range_matches q r | _ \<Rightarrow> False)"
| "payload_matches_condition p (Exists_cond field) =
     (case field_value p field of Some c \<Rightarrow> c = PNull | None \<Rightarrow> True)"

definition payload_matches_filter :: "payload_value \<Rightarrow> vector_filter \<Rightarrow> bool" where
  "payload_matches_filter p f \<longleftrightarrow>
     list_all (payload_matches_condition p) (vf_must f)
     \<and> (vf_should f = [] \<or> list_ex (payload_matches_condition p) (vf_should f))
     \<and> list_all (\<lambda>c. \<not> payload_matches_condition p c) (vf_must_not f)"

definition COMPAT_POINT_ID :: string where
  "COMPAT_POINT_ID = ''__artesian_compat''"

definition filter_from_query :: "memory_query \<Rightarrow> vector_filter" where
  "filter_from_query q =
     (let f = (case mq_node_id q of Some n \<Rightarrow> node_id_filter n | None \<Rightarrow> empty_filter);
          f = f\<lparr>vf_must_not := vf_must_not f @ [Eq_cond ''node_id'' (FString COMPAT_POINT_ID)]\<rparr>;
          opt = (\<lambda>field v f. case v of Some x \<Rightarrow> must_eq field x f | None \<Rightarrow> f);
          f = opt ''scope'' (map_option scope_as_str (mq_scope q)) f;
          f = opt ''agent_id'' (mq_agent_id q) f;
          f = opt ''session_id'' (mq_session_id q) f;
          f = opt ''task_id'' (mq_task_id q) f;
          f = opt ''user_id'' (mq_user_id q) f;
          f = fold (must_eq ''tags'') (mq_tags q) f
      in add_project_union (effective_project q) f)"

section \<open>Points, searches, stores\<close>

datatype vector_metric = Cosine | Dot | Euclidean
datatype vector_quantization = Float32 | Int8

record vector_collection =
  vc_name :: string
  vc_dimensions :: nat
  vc_distance :: vector_metric
  vc_quantization :: vector_quantization

record vector_point =
  vp_id :: string
  vp_vector :: "real list"
  vp_payload :: payload_value

record vector_search =
  vs_vector :: "real list option"
  vs_text :: "string option"
  vs_filter :: vector_filter
  vs_limit :: nat
  vs_source :: search_source

record vector_hit =
  vh_point :: vector_point
  vh_score :: real

text \<open>The operations of the store trait over a state of the store.\<close>

type_synonym ('s, 'a) operation = "'s \<Rightarrow> (memory_error + 'a) \<times> 's"

record 's vector_store =
  st_ensure_collection :: "vector_collection \<Rightarrow> ('s, unit) operation"
  st_ensure_payload_index :: "string \<Rightarrow> string \<Rightarrow> ('s, unit) operation"
  st_upsert :: "string \<Rightarrow> vector_point list \<Rightarrow> ('s, unit) operation"
  st_upsert_no_wait :: "string \<Rightarrow> vector_point list \<Rightarrow> ('s, unit) operation"
  st_flush_upsert :: "string \<Rightarrow> ('s, unit) operation"
  st_search :: "string \<Rightarrow> vector_search \<Rightarrow> 's \<Rightarrow> memory_error + vector_hit list"
  st_get :: "string \<Rightarrow> string \<Rightarrow> 's \<Rightarrow> memory_error + vector_point option"
  st_distinct_payload_values :: "string \<Rightarrow> string \<Rightarrow> 's \<Rightarrow> memory_error + string list"
  st_server_side_hybrid :: bool

section \<open>The payload of a record\<close>

record payload_codec =
  pc_hash :: "string \<Rightarrow> string"
  pc_rfc3339 :: "timestamp \<Rightarrow> string"
  pc_time :: "timestamp \<Rightarrow> string"
  pc_read_time :: "string \<Rightarrow> timestamp option"

fun tier_name :: "memory_tier \<Rightarrow> string" where
  "tier_name L0Raw = ''l0-raw''"
| "tier_name L1Atom = ''l1-atom''"
| "tier_name L2Scenario = ''l2-scenario''"
| "tier_name L3Project = ''l3-project''"

fun state_name :: "memory_state \<Rightarrow> string" where
  "state_name Active = ''active''"
| "state_name Archived = ''archived''"
| "state_name Retracted = ''retracted''"

definition relation_value :: "relation \<Rightarrow> payload_value" where
  "relation_value r =
     PObj [(''subject'', PStr (rl_subject r)), (''predicate'', PStr (rl_predicate r)),
           (''object'', PStr (rl_object r)), (''source_node_id'', PStr (rl_source_node_id r))]"

definition nullable :: "string option \<Rightarrow> payload_value" where
  "nullable x = (case x of Some s \<Rightarrow> PStr s | None \<Rightarrow> PNull)"

definition unless_none :: "string \<Rightarrow> payload_value option \<Rightarrow> (string \<times> payload_value) list" where
  "unless_none key x = (case x of Some v \<Rightarrow> [(key, v)] | None \<Rightarrow> [])"

definition payload_of :: "payload_codec \<Rightarrow> memory_record \<Rightarrow> payload_value" where
  "payload_of c r =
     PObj ([(''id'', PStr (mr_id r)), (''node_id'', PStr (mr_node_id r)), (''content'', PStr (mr_content r)),
        (''tags'', PArr (map PStr (mr_tags r))),
        (''metadata'', PObj (map (\<lambda>(k, v). (k, PStr v)) (mr_metadata r))),
        (''tier'', PStr (tier_name (mr_tier r))), (''created_at'', PStr (pc_time c (mr_created_at r))),
        (''scope'', nullable (map_option scope_as_str (mr_scope r))), (''agent_id'', nullable (mr_agent_id r)),
        (''session_id'', nullable (mr_session_id r)), (''task_id'', nullable (mr_task_id r)),
        (''user_id'', nullable (mr_user_id r))]
      @ unless_none ''project'' (map_option PStr (mr_project r))
      @ unless_none ''source'' (map_option PStr (mr_source r))
      @ unless_none ''author_id'' (map_option PStr (mr_author_id r))
      @ unless_none ''confidence'' (map_option PNum (mr_confidence r))
      @ (if mr_relations r = [] then [] else [(''relations'', PArr (map relation_value (mr_relations r)))])
      @ unless_none ''last_access'' (map_option (\<lambda>t. PStr (pc_time c t)) (mr_last_access r))
      @ [(''access_count'', PNum (of_nat (unat (mr_access_count r)))),
         (''useful_count'', PNum (of_nat (unat (mr_useful_count r)))),
         (''state'', PStr (state_name (mr_state r)))])"

text \<open>The decoder derived for \<open>MemoryPayload\<close>: \<open>None\<close> is a missing or ill-typed field.\<close>

definition the_string :: "payload_value option \<Rightarrow> string option" where
  "the_string v = Option.bind v as_str"

definition opt_string :: "payload_value option \<Rightarrow> string option option" where
  "opt_string v = (case v of None \<Rightarrow> Some None | Some PNull \<Rightarrow> Some None | Some (PStr s) \<Rightarrow> Some (Some s) | _ \<Rightarrow> None)"

fun each :: "('a \<Rightarrow> 'b option) \<Rightarrow> 'a list \<Rightarrow> 'b list option" where
  "each f [] = Some []"
| "each f (x # xs) = Option.bind (f x) (\<lambda>y. Option.bind (each f xs) (\<lambda>ys. Some (y # ys)))"

definition the_strings :: "payload_value option \<Rightarrow> string list option" where
  "the_strings v = (case v of Some (PArr vs) \<Rightarrow> each as_str vs | _ \<Rightarrow> None)"

definition the_metadata :: "payload_value option \<Rightarrow> metadata option" where
  "the_metadata v =
     (case v of
        Some (PObj kvs) \<Rightarrow> map_option (\<lambda>kvs. fold (\<lambda>(k, v). bt_insert k v) kvs bt_empty)
                             (each (\<lambda>(k, v). map_option (Pair k) (as_str v)) kvs)
      | _ \<Rightarrow> None)"

definition read_tier :: "string \<Rightarrow> memory_tier option" where
  "read_tier s = map_of (map (\<lambda>t. (tier_name t, t)) [L0Raw, L1Atom, L2Scenario, L3Project]) s"

definition read_scope :: "string \<Rightarrow> memory_scope option" where
  "read_scope s = map_of (map (\<lambda>t. (scope_as_str t, t)) [Shared, Agent, Session, Task]) s"

definition read_state :: "string \<Rightarrow> memory_state option" where
  "read_state s = map_of (map (\<lambda>t. (state_name t, t)) [Active, Archived, Retracted]) s"

definition read_relation :: "payload_value \<Rightarrow> relation option" where
  "read_relation v =
     Option.bind (the_string (value_get ''subject'' v)) (\<lambda>s.
     Option.bind (the_string (value_get ''predicate'' v)) (\<lambda>p.
     Option.bind (the_string (value_get ''object'' v)) (\<lambda>ob.
     Option.bind (the_string (value_get ''source_node_id'' v)) (\<lambda>n.
       Some (new_relation s p ob n)))))"

definition read_u32 :: "payload_value option \<Rightarrow> u32 option" where
  "read_u32 v =
     (case v of
        None \<Rightarrow> Some 0
      | Some (PNum q) \<Rightarrow> if of_int \<lfloor>q\<rfloor> = q \<and> 0 \<le> \<lfloor>q\<rfloor> \<and> \<lfloor>q\<rfloor> < 2 ^ 32 then Some (of_int \<lfloor>q\<rfloor>) else None
      | _ \<Rightarrow> None)"

definition read_confidence :: "payload_value option \<Rightarrow> rat option option" where
  "read_confidence v = (case v of None \<Rightarrow> Some None | Some PNull \<Rightarrow> Some None | Some (PNum q) \<Rightarrow> Some (Some q) | _ \<Rightarrow> None)"

definition optional :: "(string \<Rightarrow> 'a option) \<Rightarrow> string option \<Rightarrow> 'a option option" where
  "optional f x = (case x of None \<Rightarrow> Some None | Some s \<Rightarrow> map_option Some (f s))"

definition record_of_payload :: "payload_codec \<Rightarrow> payload_value \<Rightarrow> memory_record option" where
  "record_of_payload c v =
     (let get = (\<lambda>k. value_get k v) in
     Option.bind (the_string (get ''id'')) (\<lambda>i.
     Option.bind (the_string (get ''node_id'')) (\<lambda>node.
     Option.bind (the_string (get ''content'')) (\<lambda>content.
     Option.bind (the_strings (get ''tags'')) (\<lambda>tags.
     Option.bind (the_metadata (get ''metadata'')) (\<lambda>meta.
     Option.bind (Option.bind (the_string (get ''tier'')) read_tier) (\<lambda>tier.
     Option.bind (Option.bind (the_string (get ''created_at'')) (pc_read_time c)) (\<lambda>created.
     Option.bind (Option.bind (opt_string (get ''scope'')) (optional read_scope)) (\<lambda>scope.
     Option.bind (opt_string (get ''agent_id'')) (\<lambda>agent.
     Option.bind (opt_string (get ''session_id'')) (\<lambda>session.
     Option.bind (opt_string (get ''task_id'')) (\<lambda>task.
     Option.bind (opt_string (get ''user_id'')) (\<lambda>user.
     Option.bind (opt_string (get ''project'')) (\<lambda>project.
     Option.bind (opt_string (get ''source'')) (\<lambda>source.
     Option.bind (opt_string (get ''author_id'')) (\<lambda>author.
     Option.bind (read_confidence (get ''confidence'')) (\<lambda>confidence.
     Option.bind (case get ''relations'' of None \<Rightarrow> Some [] | Some (PArr vs) \<Rightarrow> each read_relation vs | _ \<Rightarrow> None) (\<lambda>relations.
     Option.bind (Option.bind (opt_string (get ''last_access'')) (optional (pc_read_time c))) (\<lambda>access.
     Option.bind (read_u32 (get ''access_count'')) (\<lambda>accesses.
     Option.bind (read_u32 (get ''useful_count'')) (\<lambda>useful.
     Option.bind (case get ''state'' of None \<Rightarrow> Some Active | Some v \<Rightarrow> Option.bind (as_str v) read_state) (\<lambda>state.
       Some \<lparr>mr_id = i, mr_node_id = node, mr_content = content, mr_tags = tags, mr_metadata = meta,
             mr_tier = tier, mr_created_at = created, mr_scope = scope, mr_agent_id = agent,
             mr_session_id = session, mr_task_id = task, mr_user_id = user, mr_project = project,
             mr_source = source, mr_author_id = author, mr_confidence = confidence,
             mr_relations = relations, mr_last_access = access, mr_access_count = accesses,
             mr_useful_count = useful, mr_state = state\<rparr>))))))))))))))))))))))"

definition point_to_record :: "payload_codec \<Rightarrow> vector_point \<Rightarrow> memory_error + memory_record" where
  "point_to_record c p =
     (case record_of_payload c (vp_payload p) of Some r \<Rightarrow> Inr r | None \<Rightarrow> Inl (Payload_error []))"

section \<open>Compatibility of a collection\<close>

record collection_compat =
  cc_artesian_version :: string
  cc_headwater_version :: string
  cc_embedding_model :: string
  cc_dimensions :: nat
  cc_distance :: vector_metric

definition HEADWATER_VERSION :: string where "HEADWATER_VERSION = ''1''"

definition validate_compatible :: "collection_compat \<Rightarrow> collection_compat \<Rightarrow> memory_error + unit" where
  "validate_compatible found expected =
     (if cc_embedding_model found \<noteq> cc_embedding_model expected \<or> cc_dimensions found \<noteq> cc_dimensions expected
         \<or> cc_distance found \<noteq> cc_distance expected
      then Inl (Compat_mismatch (cc_embedding_model found) (cc_dimensions found)
                  (cc_embedding_model expected) (cc_dimensions expected))
      else Inr ())"

fun metric_name :: "vector_metric \<Rightarrow> string" where
  "metric_name Cosine = ''cosine''"
| "metric_name Dot = ''dot''"
| "metric_name Euclidean = ''euclidean''"

definition read_metric :: "string \<Rightarrow> vector_metric option" where
  "read_metric s = map_of (map (\<lambda>d. (metric_name d, d)) [Cosine, Dot, Euclidean]) s"

definition compat_payload :: "collection_compat \<Rightarrow> payload_value" where
  "compat_payload cc =
     PObj [(''kind'', PStr ''artesian.compat''), (''id'', PStr COMPAT_POINT_ID), (''node_id'', PStr COMPAT_POINT_ID),
           (''artesian_version'', PStr (cc_artesian_version cc)), (''headwater_version'', PStr (cc_headwater_version cc)),
           (''embedding_model'', PStr (cc_embedding_model cc)), (''dimensions'', PNum (of_nat (cc_dimensions cc))),
           (''distance'', PStr (metric_name (cc_distance cc)))]"

definition read_usize :: "payload_value option \<Rightarrow> nat option" where
  "read_usize v = (case v of Some (PNum q) \<Rightarrow> if of_int \<lfloor>q\<rfloor> = q \<and> 0 \<le> \<lfloor>q\<rfloor> \<and> \<lfloor>q\<rfloor> < 2 ^ 64 then Some (nat \<lfloor>q\<rfloor>) else None | _ \<Rightarrow> None)"

definition default_string :: "payload_value option \<Rightarrow> string option" where
  "default_string v = (case v of None \<Rightarrow> Some [] | Some w \<Rightarrow> as_str w)"

definition compat_of_payload :: "payload_value \<Rightarrow> collection_compat option" where
  "compat_of_payload v =
     (let get = (\<lambda>k. value_get k v) in
     Option.bind (default_string (get ''kind'')) (\<lambda>_.
     Option.bind (default_string (get ''id'')) (\<lambda>_.
     Option.bind (default_string (get ''node_id'')) (\<lambda>_.
     Option.bind (the_string (get ''artesian_version'')) (\<lambda>artesian.
     Option.bind (opt_string (get ''headwater_version'')) (\<lambda>headwater.
     Option.bind (opt_string (get ''okf_version'')) (\<lambda>okf.
     Option.bind (the_string (get ''embedding_model'')) (\<lambda>model.
     Option.bind (read_usize (get ''dimensions'')) (\<lambda>dims.
     Option.bind (Option.bind (the_string (get ''distance'')) read_metric) (\<lambda>metric.
       Some \<lparr>cc_artesian_version = artesian,
             cc_headwater_version = (case headwater of Some h \<Rightarrow> h
                | None \<Rightarrow> (case okf of Some h \<Rightarrow> h | None \<Rightarrow> HEADWATER_VERSION)),
             cc_embedding_model = model, cc_dimensions = dims, cc_distance = metric\<rparr>))))))))))"

end
