(* ===== verification/Sqlite_Store.thy ===== *)
theory Sqlite_Store
  imports Vector_Store "HOL-Library.AList"
begin

text \<open>
  The vector store in SQLite: crates/aquifer/src/sqlite_vec.rs. A collection is three tables: the
  records in the order of their rows, their full text and their vectors; the quantization of each
  collection is kept in a table of its own.

  The engine is a parameter: full-text ranking, nearest neighbours and the text of a JSON value. A
  statement either takes effect or, with its transaction, does not; rows without an order come in
  the order of the table; a vector of another length or element type than the column is refused,
  as the extension documents. The texts of its messages are left empty.
\<close>

datatype stored_vector = Floats "real list" | Ints "int list"

record vector_table =
  vt_dimensions :: nat
  vt_quantization :: vector_quantization
  vt_metric :: string
  vt_rows :: "(string \<times> stored_vector) list"

record collection_tables =
  tb_records :: "(string \<times> string \<times> payload_value) list"
  tb_fts :: "(string \<times> string) list"
  tb_vectors :: vector_table

record sqlite_db =
  db_tables :: "string \<Rightarrow> collection_tables option"
  db_meta :: "string \<Rightarrow> vector_quantization option"

record sqlite_engine =
  sq_match :: "(string \<times> string) list \<Rightarrow> string \<Rightarrow> nat \<Rightarrow> (string \<times> real) list"
  sq_knn :: "vector_table \<Rightarrow> stored_vector \<Rightarrow> nat \<Rightarrow> (string \<times> real option) list"
  sq_json_text :: "payload_value \<Rightarrow> string"

section \<open>Names\<close>

definition sanitize_char :: "char \<Rightarrow> char" where
  "sanitize_char c = (if is_ascii_alphanumeric c then ascii_lower c else CHR ''_'')"

definition sanitize_collection :: "string \<Rightarrow> memory_error + string" where
  "sanitize_collection collection =
     (let name = trim_underscores (map sanitize_char (filter (\<lambda>c. \<not> utf8_cont c) collection))
      in if name = [] then Inl (Database_error ''collection name must contain at least one alphanumeric character'')
         else Inr (''artesian_'' @ name))"

fun sqlite_distance :: "vector_metric \<Rightarrow> string" where
  "sqlite_distance Cosine = ''cosine''"
| "sqlite_distance Dot = ''l2''"
| "sqlite_distance Euclidean = ''l2''"

section \<open>Vectors\<close>

definition round_half_away :: "real \<Rightarrow> int" where
  "round_half_away x = (if x \<ge> 0 then \<lfloor>x + 1/2\<rfloor> else \<lceil>x - 1/2\<rceil>)"

definition quantize_i8 :: "real list \<Rightarrow> int list" where
  "quantize_i8 v =
     (let max_abs = fold max (map abs v) 0;
          scale = (if max_abs > 0 then max_abs / 127 else 1)
      in map (\<lambda>x. max (-127) (min 127 (round_half_away (x / scale)))) v)"

definition stored_form :: "vector_quantization \<Rightarrow> real list \<Rightarrow> stored_vector" where
  "stored_form q v = (case q of Float32 \<Rightarrow> Floats v | Int8 \<Rightarrow> Ints (quantize_i8 v))"

definition collection_quantization :: "sqlite_db \<Rightarrow> string \<Rightarrow> vector_quantization" where
  "collection_quantization db collection = (case db_meta db collection of Some q \<Rightarrow> q | None \<Rightarrow> Float32)"

definition fits :: "vector_table \<Rightarrow> vector_quantization \<Rightarrow> real list \<Rightarrow> bool" where
  "fits t q v \<longleftrightarrow> q = vt_quantization t \<and> v \<noteq> [] \<and> length v = vt_dimensions t"

section \<open>Collections\<close>

definition new_tables :: "vector_collection \<Rightarrow> collection_tables" where
  "new_tables c =
     \<lparr>tb_records = [], tb_fts = [],
      tb_vectors = \<lparr>vt_dimensions = vc_dimensions c, vt_quantization = vc_quantization c,
                    vt_metric = sqlite_distance (vc_distance c), vt_rows = []\<rparr>\<rparr>"

definition sqlite_ensure_collection :: "vector_collection \<Rightarrow> (sqlite_db, unit) operation" where
  "sqlite_ensure_collection c db =
     (case sanitize_collection (vc_name c) of
        Inl e \<Rightarrow> (Inl e, db)
      | Inr name \<Rightarrow>
          (Inr (), \<lparr>db_tables = (case db_tables db name of
                       None \<Rightarrow> (db_tables db)(name \<mapsto> new_tables c) | Some _ \<Rightarrow> db_tables db),
                    db_meta = (db_meta db)(vc_name c \<mapsto> vc_quantization c)\<rparr>))"

definition tables_of :: "sqlite_db \<Rightarrow> string \<Rightarrow> memory_error + collection_tables" where
  "tables_of db collection =
     (case sanitize_collection collection of
        Inl e \<Rightarrow> Inl e
      | Inr name \<Rightarrow> (case db_tables db name of Some t \<Rightarrow> Inr t | None \<Rightarrow> Inl (Database_error [])))"

definition sqlite_ensure_payload_index :: "string \<Rightarrow> string \<Rightarrow> (sqlite_db, unit) operation" where
  "sqlite_ensure_payload_index collection field db =
     (case sanitize_collection collection of
        Inl e \<Rightarrow> (Inl e, db)
      | Inr name \<Rightarrow>
          if field \<noteq> ''node_id'' \<and> \<not> is_safe_field_path field then (Inr (), db)
          else (case db_tables db name of Some _ \<Rightarrow> (Inr (), db) | None \<Rightarrow> (Inl (Database_error []), db)))"

section \<open>Writing\<close>

definition payload_text :: "string \<Rightarrow> payload_value \<Rightarrow> string" where
  "payload_text field p = (case the_string (value_get field p) of Some s \<Rightarrow> s | None \<Rightarrow> [])"

definition upsert_point :: "vector_quantization \<Rightarrow> vector_point \<Rightarrow> collection_tables \<Rightarrow> collection_tables option" where
  "upsert_point q p t =
     (if fits (tb_vectors t) q (vp_vector p)
      then Some \<lparr>tb_records = AList.update (vp_id p) (payload_text ''node_id'' (vp_payload p), vp_payload p) (tb_records t),
                 tb_fts = filter (\<lambda>(i, _). i \<noteq> vp_id p) (tb_fts t) @ [(vp_id p, payload_text ''content'' (vp_payload p))],
                 tb_vectors = (tb_vectors t)\<lparr>vt_rows :=
                    filter (\<lambda>(i, _). i \<noteq> vp_id p) (vt_rows (tb_vectors t)) @ [(vp_id p, stored_form q (vp_vector p))]\<rparr>\<rparr>
      else None)"

fun upsert_points :: "vector_quantization \<Rightarrow> vector_point list \<Rightarrow> collection_tables \<Rightarrow> collection_tables option" where
  "upsert_points q [] t = Some t"
| "upsert_points q (p # ps) t = Option.bind (upsert_point q p t) (upsert_points q ps)"

definition sqlite_upsert :: "string \<Rightarrow> vector_point list \<Rightarrow> (sqlite_db, unit) operation" where
  "sqlite_upsert collection points db =
     (case sanitize_collection collection of
        Inl e \<Rightarrow> (Inl e, db)
      | Inr name \<Rightarrow>
          if points = [] then (Inr (), db)
          else
            (case Option.bind (db_tables db name) (upsert_points (collection_quantization db collection) points) of
               Some t \<Rightarrow> (Inr (), db\<lparr>db_tables := (db_tables db)(name \<mapsto> t)\<rparr>)
             | None \<Rightarrow> (Inl (Database_error []), db)))"

definition delete_records :: "string \<Rightarrow> string list \<Rightarrow> (sqlite_db, unit) operation" where
  "delete_records collection ids db =
     (if ids = [] then (Inr (), db)
      else case sanitize_collection collection of
             Inl e \<Rightarrow> (Inl e, db)
           | Inr name \<Rightarrow>
               (case db_tables db name of
                  None \<Rightarrow> (Inl (Database_error []), db)
                | Some t \<Rightarrow>
                    (let keep = (\<lambda>i. i \<notin> set ids)
                     in (Inr (), db\<lparr>db_tables := (db_tables db)(name \<mapsto>
                           \<lparr>tb_records = filter (\<lambda>r. keep (fst r)) (tb_records t),
                            tb_fts = filter (\<lambda>r. keep (fst r)) (tb_fts t),
                            tb_vectors = (tb_vectors t)\<lparr>vt_rows := filter (\<lambda>r. keep (fst r)) (vt_rows (tb_vectors t))\<rparr>\<rparr>)\<rparr>))))"

section \<open>Reading\<close>

definition row_to_point :: "string \<times> string \<times> payload_value \<Rightarrow> vector_point" where
  "row_to_point row = \<lparr>vp_id = fst row, vp_vector = [], vp_payload = snd (snd row)\<rparr>"

definition sqlite_get :: "string \<Rightarrow> string \<Rightarrow> sqlite_db \<Rightarrow> memory_error + vector_point option" where
  "sqlite_get collection i db =
     (case tables_of db collection of
        Inl e \<Rightarrow> Inl e
      | Inr t \<Rightarrow> Inr (map_option (\<lambda>row. row_to_point (i, row)) (map_of (tb_records t) i)))"

text \<open>\<open>json_extract\<close> of a path gives the text of a string, and the JSON text of an array or object.\<close>

definition sql_equals :: "sqlite_engine \<Rightarrow> payload_value option \<Rightarrow> string \<Rightarrow> bool" where
  "sql_equals e v s =
     (case v of
        Some (PStr x) \<Rightarrow> x = s
      | Some (PArr vs) \<Rightarrow> sq_json_text e (PArr vs) = s
      | Some (PObj kvs) \<Rightarrow> sq_json_text e (PObj kvs) = s
      | _ \<Rightarrow> False)"

definition pushed_clauses :: "vector_filter \<Rightarrow> (string \<times> string) list" where
  "pushed_clauses f = filter (\<lambda>(field, _). field = ''node_id'' \<or> is_safe_field_path field) (must_string_eq f)"

definition clause_holds :: "sqlite_engine \<Rightarrow> string \<times> string \<times> payload_value \<Rightarrow> string \<times> string \<Rightarrow> bool" where
  "clause_holds e row clause =
     (if fst clause = ''node_id'' then fst (snd row) = snd clause
      else sql_equals e (field_value (snd (snd row)) (fst clause)) (snd clause))"

definition scan :: "sqlite_engine \<Rightarrow> collection_tables \<Rightarrow> vector_filter \<Rightarrow> nat \<Rightarrow> vector_hit list" where
  "scan e t f limit =
     (let clauses = pushed_clauses f;
          sql_limit = (if clauses \<noteq> [] then max limit 1 else max limit 1 * 10);
          rows = take sql_limit (filter (\<lambda>row. list_all (clause_holds e row) clauses) (tb_records t))
      in map (\<lambda>row. \<lparr>vh_point = row_to_point row, vh_score = 1\<rparr>)
           (filter (\<lambda>row. payload_matches_filter (snd (snd row)) f) rows))"

definition distance_to_score :: "real option \<Rightarrow> real" where
  "distance_to_score d = (case d of Some d \<Rightarrow> 1 / (1 + max d 0) | None \<Rightarrow> 0)"

definition bm25_to_score :: "real \<Rightarrow> real" where
  "bm25_to_score rank = 1 / (1 + \<bar>rank\<bar>)"

definition fts_query :: "string \<Rightarrow> string" where
  "fts_query txt =
     join '' OR '' (map (\<lambda>term. CHR 0x22 # replace_all [CHR 0x22] [CHR 0x22, CHR 0x22] term @ [CHR 0x22]) (split_whitespace txt))"

definition joined :: "collection_tables \<Rightarrow> (string \<times> 'x) list \<Rightarrow> ((string \<times> string \<times> payload_value) \<times> 'x) list" where
  "joined t ranked = List.map_filter (\<lambda>(i, x). map_option (\<lambda>row. ((i, row), x)) (map_of (tb_records t) i)) ranked"

definition matching_hits ::
    "vector_filter \<Rightarrow> ('x \<Rightarrow> real) \<Rightarrow> ((string \<times> string \<times> payload_value) \<times> 'x) list \<Rightarrow> vector_hit list" where
  "matching_hits f score rows =
     map (\<lambda>(row, x). \<lparr>vh_point = row_to_point row, vh_score = score x\<rparr>)
       (filter (\<lambda>(row, _). payload_matches_filter (snd (snd row)) f) rows)"

definition keyword_search :: "sqlite_engine \<Rightarrow> collection_tables \<Rightarrow> string \<Rightarrow> vector_filter \<Rightarrow> nat \<Rightarrow> vector_hit list" where
  "keyword_search e t txt f limit =
     (if trim txt = [] then scan e t f limit
      else matching_hits f bm25_to_score (joined t (sq_match e (tb_fts t) (fts_query txt) (max limit 1))))"

definition vector_search_rows ::
    "sqlite_engine \<Rightarrow> vector_quantization \<Rightarrow> collection_tables \<Rightarrow> real list \<Rightarrow> vector_filter \<Rightarrow> nat \<Rightarrow> memory_error + vector_hit list" where
  "vector_search_rows e q t v f limit =
     (if fits (tb_vectors t) q v
      then Inr (matching_hits f distance_to_score (joined t (sq_knn e (tb_vectors t) (stored_form q v) (max limit 1))))
      else Inl (Database_error []))"

definition sqlite_search :: "sqlite_engine \<Rightarrow> string \<Rightarrow> vector_search \<Rightarrow> sqlite_db \<Rightarrow> memory_error + vector_hit list" where
  "sqlite_search e collection s db =
     (case sanitize_collection collection of
        Inl err \<Rightarrow> Inl err
      | Inr name \<Rightarrow>
          (case (vs_source s, vs_vector s) of
             (Vector, None) \<Rightarrow> Inr []
           | (source, v) \<Rightarrow>
               (case tables_of db collection of
                  Inl err \<Rightarrow> Inl err
                | Inr t \<Rightarrow>
                    (case (source, v) of
                       (Keyword, _) \<Rightarrow> Inr (keyword_search e t (case vs_text s of Some x \<Rightarrow> x | None \<Rightarrow> []) (vs_filter s) (vs_limit s))
                     | (_, Some v) \<Rightarrow> vector_search_rows e (collection_quantization db collection) t v (vs_filter s) (vs_limit s)
                     | (_, None) \<Rightarrow> Inr (keyword_search e t (case vs_text s of Some x \<Rightarrow> x | None \<Rightarrow> []) (vs_filter s) (vs_limit s))))))"

definition sql_text :: "sqlite_engine \<Rightarrow> payload_value \<Rightarrow> string option" where
  "sql_text e v =
     (case v of PStr s \<Rightarrow> Some s | PArr vs \<Rightarrow> Some (sq_json_text e v) | PObj kvs \<Rightarrow> Some (sq_json_text e v) | _ \<Rightarrow> None)"

definition sqlite_distinct :: "sqlite_engine \<Rightarrow> string \<Rightarrow> string \<Rightarrow> sqlite_db \<Rightarrow> memory_error + string list" where
  "sqlite_distinct e collection field db =
     (case sanitize_collection collection of
        Inl err \<Rightarrow> Inl err
      | Inr name \<Rightarrow>
          if \<not> is_safe_field_path field then Inr []
          else
            (case tables_of db collection of
               Inl err \<Rightarrow> Inl err
             | Inr t \<Rightarrow>
                 (case each (sql_text e) (filter (\<lambda>v. v \<noteq> PNull)
                         (List.map_filter (\<lambda>row. field_value (snd (snd row)) field) (tb_records t))) of
                    Some texts \<Rightarrow> Inr (sorted_dedup texts)
                  | None \<Rightarrow> Inl (Database_error []))))"

definition scan_all_records :: "string \<Rightarrow> sqlite_db \<Rightarrow> memory_error + payload_value list" where
  "scan_all_records collection db =
     (case tables_of db collection of Inl e \<Rightarrow> Inl e | Inr t \<Rightarrow> Inr (map (\<lambda>row. snd (snd row)) (tb_records t)))"

section \<open>The store\<close>

definition sqlite_store :: "sqlite_engine \<Rightarrow> sqlite_db vector_store" where
  "sqlite_store e =
     \<lparr>st_ensure_collection = sqlite_ensure_collection, st_ensure_payload_index = sqlite_ensure_payload_index,
      st_upsert = sqlite_upsert, st_upsert_no_wait = sqlite_upsert,
      st_flush_upsert = (\<lambda>_ db. (Inr (), db)), st_search = sqlite_search e, st_get = sqlite_get,
      st_distinct_payload_values = sqlite_distinct e, st_server_side_hybrid = False\<rparr>"

definition in_memory_db :: sqlite_db where
  "in_memory_db = \<lparr>db_tables = (\<lambda>_. None), db_meta = (\<lambda>_. None)\<rparr>"

end
