(* ===== verification/Vector_Memory.thy ===== *)
theory Vector_Memory
  imports Vector_Store Ranking
begin

text \<open>
  The memory engine over a vector store: crates/aquifer/src/vector_memory.rs. A memory is cut into
  chunks, each a point of the store; a lookup fuses keyword and vector hits, and widens each chunk to
  a window of its document. The store, the embedder, the reranker and the time codec are parameters;
  the state is that of the store with the indexes of the session. Locks are held over single calls
  and never poisoned. Scores are reals.
\<close>

section \<open>Configuration and state\<close>

record vector_config =
  vm_collection :: string
  vm_embedding_model :: string
  vm_dimensions :: nat
  vm_distance :: vector_metric
  vm_quantization :: vector_quantization
  vm_entity_linking :: bool
  vm_relation_extraction :: bool
  vm_temporal_decay_lambda :: real
  vm_supersession :: bool
  vm_episode_window :: nat
  vm_episode_threshold :: real
  vm_parent_context_chars :: nat
  vm_parent_context_auto :: bool
  vm_parent_context_max_chars :: nat
  vm_rerank_candidates :: nat
  vm_rerank :: bool
  vm_mmr :: bool
  vm_mmr_lambda :: real
  vm_mmr_min_candidates :: nat
  vm_track_access :: bool

definition new_vector_config :: "string \<Rightarrow> vector_config" where
  "new_vector_config collection =
     \<lparr>vm_collection = collection, vm_embedding_model = ''intfloat/multilingual-e5-small'', vm_dimensions = 384,
      vm_distance = Cosine, vm_quantization = Float32, vm_entity_linking = False, vm_relation_extraction = False,
      vm_temporal_decay_lambda = 0, vm_supersession = False, vm_episode_window = 0, vm_episode_threshold = 3/4,
      vm_parent_context_chars = 3200, vm_parent_context_auto = True, vm_parent_context_max_chars = 8192,
      vm_rerank_candidates = 0, vm_rerank = False, vm_mmr = False, vm_mmr_lambda = MMR_DEFAULT_LAMBDA,
      vm_mmr_min_candidates = MMR_MIN_CANDIDATES, vm_track_access = True\<rparr>"

record parent_samples =
  pz_sizes :: "nat list"
  pz_cached_median :: "nat option"
  pz_last_computed_len :: nat

definition no_samples :: parent_samples where
  "no_samples = \<lparr>pz_sizes = [], pz_cached_median = None, pz_last_computed_len = 0\<rparr>"

record 's vector_backend =
  vb_store :: "'s vector_store"
  vb_config :: vector_config
  vb_embed_query :: "string \<Rightarrow> memory_error + real list"
  vb_embed_passage :: "string \<Rightarrow> memory_error + real list"
  vb_reranker :: "(string \<Rightarrow> search_hit list \<Rightarrow> nat \<Rightarrow> memory_error + search_hit list) option"
  vb_codec :: payload_codec
  vb_version :: string

record 's engine =
  eg_store :: 's
  eg_entities :: entity_index
  eg_episodes :: episode_index
  eg_samples :: parent_samples

definition new_engine :: "'s \<Rightarrow> 's engine" where
  "new_engine s = \<lparr>eg_store = s, eg_entities = new_entity_index, eg_episodes = new_episode_index, eg_samples = no_samples\<rparr>"

text \<open>Operations in sequence: the first error ends them, and what was done before it stays.\<close>

definition and_then :: "('s, 'a) operation \<Rightarrow> ('a \<Rightarrow> ('s, 'b) operation) \<Rightarrow> ('s, 'b) operation" where
  "and_then f g s = (case f s of (Inl e, s') \<Rightarrow> (Inl e, s') | (Inr a, s') \<Rightarrow> g a s')"

definition answer :: "'a \<Rightarrow> ('s, 'a) operation" where
  "answer a s = (Inr a, s)"

definition asking :: "(memory_error + 'a) \<Rightarrow> ('s, 'a) operation" where
  "asking r s = (r, s)"

definition in_store :: "('s, 'a) operation \<Rightarrow> ('s engine, 'a) operation" where
  "in_store f w = (case f (eg_store w) of (r, s) \<Rightarrow> (r, w\<lparr>eg_store := s\<rparr>))"

definition of_store :: "('s \<Rightarrow> memory_error + 'a) \<Rightarrow> ('s engine, 'a) operation" where
  "of_store f w = (f (eg_store w), w)"

fun run_each :: "('a \<Rightarrow> ('s, unit) operation) \<Rightarrow> 'a list \<Rightarrow> ('s, unit) operation" where
  "run_each f [] = answer ()"
| "run_each f (x # xs) = and_then (f x) (\<lambda>_. run_each f xs)"

section \<open>Set-up\<close>

definition compat_from_config :: "'s vector_backend \<Rightarrow> collection_compat" where
  "compat_from_config b =
     \<lparr>cc_artesian_version = vb_version b, cc_headwater_version = HEADWATER_VERSION,
      cc_embedding_model = vm_embedding_model (vb_config b), cc_dimensions = vm_dimensions (vb_config b),
      cc_distance = vm_distance (vb_config b)\<rparr>"

definition ensure_compat_metadata :: "'s vector_backend \<Rightarrow> ('s engine, unit) operation" where
  "ensure_compat_metadata b =
     (let c = vm_collection (vb_config b); expected = compat_from_config b in
      and_then (of_store (st_get (vb_store b) c COMPAT_POINT_ID)) (\<lambda>found.
        case found of
          Some p \<Rightarrow> asking (case compat_of_payload (vp_payload p) of
                     None \<Rightarrow> Inl (Payload_error []) | Some cc \<Rightarrow> validate_compatible cc expected)
        | None \<Rightarrow> in_store (st_upsert (vb_store b) c
            [\<lparr>vp_id = COMPAT_POINT_ID, vp_vector = replicate (vm_dimensions (vb_config b)) 0,
              vp_payload = compat_payload expected\<rparr>])))"

definition indexed_fields :: "string list" where
  "indexed_fields =
     [''node_id'', ''scope'', ''agent_id'', ''session_id'', ''task_id'', ''user_id'', ''author_id'', ''project'',
      ''created_at'', ''metadata.parent_node'']"

definition ensure_ready :: "'s vector_backend \<Rightarrow> ('s engine, unit) operation" where
  "ensure_ready b =
     (let cfg = vb_config b in
      and_then (in_store (st_ensure_collection (vb_store b)
          \<lparr>vc_name = vm_collection cfg, vc_dimensions = vm_dimensions cfg, vc_distance = vm_distance cfg,
           vc_quantization = vm_quantization cfg\<rparr>)) (\<lambda>_.
      and_then (run_each (\<lambda>field. in_store (st_ensure_payload_index (vb_store b) (vm_collection cfg) field)) indexed_fields)
        (\<lambda>_. ensure_compat_metadata b)))"

section \<open>Hits\<close>

fun to_memory_hits ::
    "payload_codec \<Rightarrow> search_source \<Rightarrow> bool \<Rightarrow> vector_hit list \<Rightarrow> memory_error + search_hit list" where
  "to_memory_hits c source archived [] = Inr []"
| "to_memory_hits c source archived (h # hs) =
     (case point_to_record c (vh_point h) of
        Inl e \<Rightarrow> Inl e
      | Inr r \<Rightarrow>
          (case to_memory_hits c source archived hs of
             Inl e \<Rightarrow> Inl e
           | Inr rest \<Rightarrow>
               Inr (if archived \<or> mr_state r = Active
                    then \<lparr>sh_record = r, sh_score = vh_score h, sh_source = source, sh_session_distance = None\<rparr> # rest
                    else rest)))"

definition search_points :: "'s vector_backend \<Rightarrow> vector_search \<Rightarrow> ('s engine, vector_hit list) operation" where
  "search_points b s = of_store (st_search (vb_store b) (vm_collection (vb_config b)) s)"

definition vector_hits :: "'s vector_backend \<Rightarrow> memory_query \<Rightarrow> ('s engine, search_hit list) operation" where
  "vector_hits b q =
     and_then (ensure_ready b) (\<lambda>_.
     and_then (asking (vb_embed_query b (mq_text q))) (\<lambda>v.
     and_then (search_points b \<lparr>vs_vector = Some v, vs_text = None, vs_filter = filter_from_query q,
                                vs_limit = mq_limit q, vs_source = Vector\<rparr>) (\<lambda>hits.
       asking (to_memory_hits (vb_codec b) Vector (mq_include_archived q) hits))))"

definition keyword_hits :: "'s vector_backend \<Rightarrow> memory_query \<Rightarrow> ('s engine, search_hit list) operation" where
  "keyword_hits b q =
     and_then (ensure_ready b) (\<lambda>_.
     and_then (search_points b \<lparr>vs_vector = None, vs_text = Some (mq_text q), vs_filter = filter_from_query q,
                                vs_limit = mq_limit q, vs_source = Keyword\<rparr>) (\<lambda>hits.
       asking (to_memory_hits (vb_codec b) Keyword (mq_include_archived q) hits)))"

definition vector_hybrid_rrf ::
    "'s vector_backend \<Rightarrow> memory_query \<Rightarrow> memory_query \<Rightarrow> rrf_options \<Rightarrow> ('s engine, search_hit list) operation" where
  "vector_hybrid_rrf b kq vq options =
     and_then (ensure_ready b) (\<lambda>_.
       if st_server_side_hybrid (vb_store b)
       then
         and_then (asking (vb_embed_query b (mq_text vq))) (\<lambda>v.
         and_then (search_points b \<lparr>vs_vector = Some v, vs_text = Some (mq_text kq), vs_filter = filter_from_query vq,
                                    vs_limit = rf_limit options, vs_source = Hybrid\<rparr>) (\<lambda>hits.
           asking (to_memory_hits (vb_codec b) Hybrid (mq_include_archived vq) hits)))
       else
         and_then (keyword_hits b kq) (\<lambda>keyword.
         and_then (vector_hits b vq) (\<lambda>vector.
           answer (reciprocal_rank_fusion [keyword, vector] options))))"

section \<open>Chunks and their documents\<close>

definition parse_usize :: "string \<Rightarrow> nat option" where
  "parse_usize s =
     (let d = (case s of c # cs \<Rightarrow> if c = CHR ''+'' then cs else s | [] \<Rightarrow> s)
      in if d \<noteq> [] \<and> list_all is_ascii_digit d \<and> dec_val 0 d < 2 ^ 64 then Some (dec_val 0 d) else None)"

definition chunk_index_of :: "memory_record \<Rightarrow> nat" where
  "chunk_index_of r =
     (case Option.bind (bt_get (mr_metadata r) ''chunk_index'') parse_usize of Some n \<Rightarrow> n | None \<Rightarrow> 0)"

definition overlap_chars :: "string \<Rightarrow> string \<Rightarrow> nat \<Rightarrow> nat" where
  "overlap_chars acc nxt max_overlap =
     (case List.find (\<lambda>k. ends_with (take_chars k nxt) acc) (rev [1..<Suc (min max_overlap (char_count nxt))]) of
        Some k \<Rightarrow> k | None \<Rightarrow> 0)"

definition append_with_overlap :: "nat \<Rightarrow> string \<Rightarrow> string \<Rightarrow> string" where
  "append_with_overlap max_overlap nxt acc =
     (if acc = [] then nxt else acc @ drop_chars (overlap_chars acc nxt max_overlap) nxt)"

definition parent_filter :: "string \<Rightarrow> vector_filter" where
  "parent_filter node = must_eq ''metadata.parent_node'' node empty_filter"

definition filter_search :: "vector_filter \<Rightarrow> nat \<Rightarrow> vector_search" where
  "filter_search f limit = \<lparr>vs_vector = None, vs_text = None, vs_filter = f, vs_limit = limit, vs_source = Keyword\<rparr>"

fun points_to_records :: "payload_codec \<Rightarrow> vector_point list \<Rightarrow> memory_error + memory_record list" where
  "points_to_records c [] = Inr []"
| "points_to_records c (p # ps) =
     (case point_to_record c p of
        Inl e \<Rightarrow> Inl e
      | Inr r \<Rightarrow> (case points_to_records c ps of Inl e \<Rightarrow> Inl e | Inr rs \<Rightarrow> Inr (r # rs)))"

definition fetch_siblings :: "'s vector_backend \<Rightarrow> string \<Rightarrow> nat \<Rightarrow> ('s engine, memory_record list) operation" where
  "fetch_siblings b parent cap =
     and_then (search_points b (filter_search (parent_filter parent) (max cap 1))) (\<lambda>hits.
       asking (case points_to_records (vb_codec b) (map vh_point hits) of
                 Inl e \<Rightarrow> Inl e | Inr rs \<Rightarrow> Inr (sort_key chunk_index_of rs)))"

definition reconstruct_parent_record :: "string \<Rightarrow> memory_record list \<Rightarrow> memory_record" where
  "reconstruct_parent_record parent siblings =
     (let first = hd siblings
      in first\<lparr>mr_node_id := parent,
           mr_content := fold (\<lambda>s. append_with_overlap (cg_overlap_chars default_chunk_config) (mr_content s)) siblings [],
           mr_metadata := bt_insert ''reconstructed'' ''true'' (bt_insert ''chunk_count'' (show_nat (length siblings))
             (bt_remove ''parent_node'' (bt_remove ''chunk_index'' (mr_metadata first))))\<rparr>)"

section \<open>The budget of a window\<close>

definition SAMPLE_CAP :: nat where "SAMPLE_CAP = 65536"
definition REFRESH_STEP :: nat where "REFRESH_STEP = 16"

definition record_sample :: "nat \<Rightarrow> parent_samples \<Rightarrow> parent_samples" where
  "record_sample n p = (if length (pz_sizes p) < SAMPLE_CAP then p\<lparr>pz_sizes := pz_sizes p @ [n]\<rparr> else p)"

definition median_of :: "nat list \<Rightarrow> nat" where
  "median_of sizes =
     (let sorted = sort sizes; mid = length sorted div 2
      in if length sorted mod 2 = 1 then sorted ! mid else (sorted ! (mid - 1) + sorted ! mid) div 2)"

definition median :: "parent_samples \<Rightarrow> nat option \<times> parent_samples" where
  "median p =
     (if pz_sizes p = [] then (None, p)
      else
        let p = (if pz_cached_median p = None \<or> length (pz_sizes p) \<ge> pz_last_computed_len p + REFRESH_STEP
                 then p\<lparr>pz_cached_median := Some (median_of (pz_sizes p)), pz_last_computed_len := length (pz_sizes p)\<rparr>
                 else p)
        in (pz_cached_median p, p))"

definition effective_parent_budget :: "'s vector_backend \<Rightarrow> 's engine \<Rightarrow> nat option \<times> 's engine" where
  "effective_parent_budget b w =
     (let cfg = vb_config b in
      if vm_parent_context_auto cfg
      then
        let low = cg_max_chars default_chunk_config;
            high = max (vm_parent_context_max_chars cfg) low;
            (m, samples) = median (eg_samples w);
            target = (case m of Some t \<Rightarrow> t | None \<Rightarrow> vm_parent_context_chars cfg)
        in (Some (max low (min high target)), w\<lparr>eg_samples := samples\<rparr>)
      else if vm_parent_context_chars cfg > 0 then (Some (vm_parent_context_chars cfg), w)
      else (None, w))"

section \<open>From a chunk to its window\<close>

record small_to_big_group =
  sg_score :: real
  sg_source :: search_source
  sg_parent :: "string option"
  sg_anchor :: nat
  sg_matched :: "nat btree_set"
  sg_record :: memory_record

definition parent_of :: "memory_record \<Rightarrow> string option" where
  "parent_of r = bt_get (mr_metadata r) ''parent_node''"

definition group_hit :: "search_hit \<Rightarrow> (string \<times> small_to_big_group) list \<Rightarrow> (string \<times> small_to_big_group) list" where
  "group_hit h groups =
     (let parent = parent_of (sh_record h);
          key = (case parent of Some p \<Rightarrow> p | None \<Rightarrow> mr_node_id (sh_record h));
          idx = chunk_index_of (sh_record h)
      in case map_of groups key of
           Some g \<Rightarrow>
             (let g = (if sh_score h > sg_score g
                       then g\<lparr>sg_score := sh_score h, sg_anchor := (if parent \<noteq> None then idx else sg_anchor g)\<rparr>
                       else g);
                  g = (if parent \<noteq> None then g\<lparr>sg_matched := bs_insert idx (sg_matched g)\<rparr> else g)
              in map (\<lambda>(k, u). (k, if k = key then g else u)) groups)
         | None \<Rightarrow>
             groups @ [(key, \<lparr>sg_score = sh_score h, sg_source = sh_source h, sg_parent = parent, sg_anchor = idx,
                             sg_matched = (if parent \<noteq> None then bs_insert idx bt_empty else bt_empty),
                             sg_record = sh_record h\<rparr>)])"

text \<open>The loop that grows the window: a round tries the left neighbour, then the right one.\<close>

function grow :: "(nat \<Rightarrow> nat) \<Rightarrow> nat \<Rightarrow> nat \<Rightarrow> nat \<times> nat \<times> nat \<Rightarrow> nat \<times> nat" where
  "grow add n budget (lo, hi, used) =
     (let left = (lo > 0 \<and> used + add (lo - 1) \<le> budget);
          (lo', used') = (if left then (lo - 1, used + add (lo - 1)) else (lo, used));
          right = (hi + 1 < n \<and> used' + add (hi + 1) \<le> budget);
          (hi', used'') = (if right then (hi + 1, used' + add (hi + 1)) else (hi, used'))
      in if left \<or> right then grow add n budget (lo', hi', used'') else (lo', hi'))"
  by auto
termination
  by (relation "measure (\<lambda>(add, n, budget, lo, hi, used). lo + (n - hi))") (auto split: if_splits prod.splits)

declare grow.simps [simp del]

definition window_anchor :: "memory_record list \<Rightarrow> small_to_big_group \<Rightarrow> nat" where
  "window_anchor siblings g =
     (case List.find (\<lambda>i. chunk_index_of (siblings ! i) = sg_anchor g) [0..<length siblings] of
        Some i \<Rightarrow> i
      | None \<Rightarrow>
          (case List.find (\<lambda>i. mr_node_id (siblings ! i) = mr_node_id (sg_record g)) [0..<length siblings] of
             Some i \<Rightarrow> i | None \<Rightarrow> 0))"

definition build_parent_window :: "memory_record list \<Rightarrow> small_to_big_group \<Rightarrow> nat \<Rightarrow> nat \<Rightarrow> string" where
  "build_parent_window siblings g budget max_overlap =
     (let clen = (\<lambda>i. char_count (mr_content (siblings ! i)));
          anchor = window_anchor siblings g;
          (lo, hi) = grow (\<lambda>i. clen i - max_overlap) (length siblings) budget (anchor, anchor, clen anchor);
          window = fold (\<lambda>s. append_with_overlap max_overlap (mr_content s)) (drop lo (take (hi + 1) siblings)) []
      in if char_count window > budget then take_chars budget window else window)"

definition whole_hit :: "small_to_big_group \<Rightarrow> memory_record \<Rightarrow> search_hit" where
  "whole_hit g r = \<lparr>sh_record = r, sh_score = sg_score g, sh_source = sg_source g, sh_session_distance = None\<rparr>"

definition expanded_record :: "small_to_big_group \<Rightarrow> string \<Rightarrow> string \<Rightarrow> memory_record" where
  "expanded_record g parent window =
     (sg_record g)\<lparr>mr_node_id := parent, mr_content := window,
        mr_metadata := bt_insert ''expanded_from_chunk'' (join '','' (map show_nat (bt_keys (sg_matched g))))
          (bt_remove ''chunk_index'' (mr_metadata (sg_record g)))\<rparr>"

fun expand_groups ::
    "'s vector_backend \<Rightarrow> nat \<Rightarrow> small_to_big_group list \<Rightarrow> ('s engine, search_hit list) operation" where
  "expand_groups b budget [] = answer []"
| "expand_groups b budget (g # gs) =
     and_then
       (case sg_parent g of
          None \<Rightarrow> answer (whole_hit g (sg_record g))
        | Some parent \<Rightarrow>
            (let cap = (case Option.bind (bt_get (mr_metadata (sg_record g)) ''chunk_count'') parse_usize of
                          Some n \<Rightarrow> n + 1 | None \<Rightarrow> 256)
             in and_then (fetch_siblings b parent cap) (\<lambda>siblings.
                  answer (if siblings = [] then whole_hit g (sg_record g)
                          else whole_hit g (expanded_record g parent
                            (build_parent_window siblings g budget (cg_overlap_chars default_chunk_config)))))))
       (\<lambda>hit. and_then (expand_groups b budget gs) (\<lambda>hits. answer (hit # hits)))"

definition expand_small_to_big ::
    "'s vector_backend \<Rightarrow> search_hit list \<Rightarrow> nat \<Rightarrow> nat \<Rightarrow> ('s engine, search_hit list) operation" where
  "expand_small_to_big b hits limit budget =
     (if list_ex (\<lambda>h. parent_of (sh_record h) \<noteq> None) hits
      then and_then (expand_groups b budget (map snd (fold group_hit hits []))) (\<lambda>out. answer (take limit out))
      else answer hits)"

end
