(* ===== verification/Vector_Engine.thy ===== *)
theory Vector_Engine
  imports Vector_Memory
begin

text \<open>
  The operations of the memory engine over a vector store (vector_memory.rs, \<open>MemoryBackend\<close>):
  storing one memory and many, lookups, drill-down, use counts, retraction, the relation graph. The
  time of a call and the outcome of the lane lock are arguments.
\<close>

section \<open>Storing\<close>

definition base_node_of :: "payload_codec \<Rightarrow> store_memory \<Rightarrow> string" where
  "base_node_of c m =
     (case sm_node_id m of Some n \<Rightarrow> n | None \<Rightarrow> ''node:'' @ stable_memory_id (pc_hash c) m)"

definition base_relations_of :: "'s vector_backend \<Rightarrow> store_memory \<Rightarrow> relation list" where
  "base_relations_of b m =
     (let node = base_node_of (vb_codec b) m
      in normalize_relations
           (sm_relations m @ (if vm_relation_extraction (vb_config b)
                              then extract_entity_relations (sm_content m) (sm_tags m) node else [])) node)"

definition chunk_metadata :: "string \<Rightarrow> nat \<Rightarrow> chunk \<Rightarrow> metadata \<Rightarrow> metadata" where
  "chunk_metadata base_node count ch meta =
     (let meta = bt_insert ''chunk_count'' (show_nat count) (bt_insert ''chunk_index'' (show_nat (ch_index ch))
                   (bt_insert ''parent_node'' base_node meta))
      in case ch_heading ch of Some h \<Rightarrow> bt_insert ''heading'' h meta | None \<Rightarrow> meta)"

definition chunk_node :: "string \<Rightarrow> chunk \<Rightarrow> string" where
  "chunk_node base_node ch = base_node @ ''#chunk-'' @ show_nat (ch_index ch)"

text \<open>The record of one chunk; \<open>count\<close> is the number of chunks.\<close>

definition chunk_record :: "'s vector_backend \<Rightarrow> timestamp \<Rightarrow> store_memory \<Rightarrow> nat \<Rightarrow> chunk \<Rightarrow> memory_record" where
  "chunk_record b created m count ch =
     (let c = vb_codec b;
          single = (count = 1);
          base_node = base_node_of c m;
          meta = (if single then sm_metadata m else chunk_metadata base_node count ch (sm_metadata m));
          node = (if single then base_node else chunk_node base_node ch);
          chunk_memory = m\<lparr>sm_content := ch_content ch, sm_metadata := meta, sm_node_id := Some node,
                           sm_created_at := Some created, sm_relations := []\<rparr>;
          i = (if single then stable_memory_id (pc_hash c) m else stable_memory_id (pc_hash c) chunk_memory)
      in \<lparr>mr_id = i, mr_node_id = node, mr_content = ch_content ch, mr_tags = sm_tags m, mr_metadata = meta,
          mr_tier = sm_tier m, mr_created_at = created, mr_scope = sm_scope m, mr_agent_id = sm_agent_id m,
          mr_session_id = sm_session_id m, mr_task_id = sm_task_id m, mr_user_id = sm_user_id m,
          mr_project = sm_project m, mr_source = sm_source m, mr_author_id = sm_author_id m,
          mr_confidence = sm_confidence m,
          mr_relations = (if single \<or> ch_index ch = 0 then base_relations_of b m else []),
          mr_last_access = None, mr_access_count = 0, mr_useful_count = 0, mr_state = Active\<rparr>)"

definition chunk_records :: "'s vector_backend \<Rightarrow> timestamp \<Rightarrow> store_memory \<Rightarrow> memory_record list" where
  "chunk_records b now m =
     (let created = (case sm_created_at m of Some t \<Rightarrow> t | None \<Rightarrow> now);
          chunks = chunk_text (sm_content m) default_chunk_config
      in map (chunk_record b created m (length chunks)) chunks)"

definition point_of :: "payload_codec \<Rightarrow> memory_record \<Rightarrow> real list \<Rightarrow> vector_point" where
  "point_of c r v = \<lparr>vp_id = mr_id r, vp_vector = v, vp_payload = payload_of c r\<rparr>"

definition index_chunk :: "vector_config \<Rightarrow> memory_record \<Rightarrow> real list \<Rightarrow> 's engine \<Rightarrow> 's engine" where
  "index_chunk cfg r v w =
     w\<lparr>eg_entities := (if vm_entity_linking cfg then index_record r (eg_entities w) else eg_entities w),
       eg_episodes := (if vm_episode_window cfg > 0
                       then add_record (mr_node_id r) v (vm_episode_threshold cfg) (eg_episodes w) else eg_episodes w)\<rparr>"

text \<open>A chunk that is there under its id is kept. The representative is the first chunk, written or found; a
  found one is decoded only if it is first.\<close>

fun store_chunks ::
    "'s vector_backend \<Rightarrow> memory_record list \<Rightarrow> memory_record option \<Rightarrow> ('s engine, memory_record option) operation" where
  "store_chunks b [] rep = answer rep"
| "store_chunks b (r # rs) rep =
     and_then (of_store (st_get (vb_store b) (vm_collection (vb_config b)) (mr_id r))) (\<lambda>found.
       case found of
         Some p \<Rightarrow>
           and_then (if rep = None
                     then asking (case point_to_record (vb_codec b) p of Inl e \<Rightarrow> Inl e | Inr x \<Rightarrow> Inr (Some x))
                     else answer rep) (store_chunks b rs)
       | None \<Rightarrow>
           and_then (asking (vb_embed_passage b (mr_content r))) (\<lambda>v.
           and_then (in_store (st_upsert (vb_store b) (vm_collection (vb_config b)) [point_of (vb_codec b) r v])) (\<lambda>_ w.
             store_chunks b rs (if rep = None then Some r else rep) (index_chunk (vb_config b) r v w))))"

definition sample_parent :: "store_memory \<Rightarrow> nat \<Rightarrow> 's engine \<Rightarrow> 's engine" where
  "sample_parent m count w =
     (if count = 1 then w else w\<lparr>eg_samples := record_sample (char_count (sm_content m)) (eg_samples w)\<rparr>)"

definition vector_store_memory ::
    "'s vector_backend \<Rightarrow> timestamp \<Rightarrow> memory_error option \<Rightarrow> store_memory \<Rightarrow> ('s engine, memory_record) operation" where
  "vector_store_memory b now lock m =
     and_then (asking (validate_confidence m)) (\<lambda>_.
     and_then (asking (case lock of Some e \<Rightarrow> Inl e | None \<Rightarrow> Inr ())) (\<lambda>_.
     and_then (ensure_ready b) (\<lambda>_ w.
       (let rs = chunk_records b now m in
        and_then (store_chunks b rs None) (\<lambda>rep.
          asking (case rep of Some r \<Rightarrow> Inr r | None \<Rightarrow> Inl (Database_error ''chunking produced no records'')))
          (sample_parent m (length rs) w)))))"

section \<open>Storing in bulk\<close>

record bulk_report =
  bk_stored :: nat
  bk_skipped :: nat
  bk_failures :: "(string \<times> memory_error) list"

fun embed_all ::
    "'s vector_backend \<Rightarrow> memory_record list \<Rightarrow> vector_point list \<times> (string \<times> memory_error) list" where
  "embed_all b [] = ([], [])"
| "embed_all b (r # rs) =
     (let (points, failures) = embed_all b rs in
      case vb_embed_passage b (mr_content r) of
        Inr v \<Rightarrow> (point_of (vb_codec b) r v # points, failures)
      | Inl e \<Rightarrow> (points, (mr_id r, e) # failures))"

function batches :: "nat \<Rightarrow> 'a list \<Rightarrow> 'a list list" where
  "batches n xs = (if xs = [] \<or> n = 0 then [] else take n xs # batches n (drop n xs))"
  by auto
termination
  by (relation "measure (\<lambda>(n, xs). length xs)") auto

declare batches.simps [simp del]

fun upsert_batches ::
    "'s vector_backend \<Rightarrow> vector_point list list \<Rightarrow> 's engine \<Rightarrow> nat \<times> (string \<times> memory_error) list \<times> 's engine" where
  "upsert_batches b [] w = (0, [], w)"
| "upsert_batches b (ps # rest) w =
     (case in_store (st_upsert_no_wait (vb_store b) (vm_collection (vb_config b)) ps) w of
        (Inl e, w') \<Rightarrow> (let (n, fs, w'') = upsert_batches b rest w' in (n, map (\<lambda>p. (vp_id p, e)) ps @ fs, w''))
      | (Inr _, w') \<Rightarrow> (let (n, fs, w'') = upsert_batches b rest w' in (length ps + n, fs, w'')))"

definition vector_bulk_store ::
    "'s vector_backend \<Rightarrow> timestamp \<Rightarrow> store_memory list \<Rightarrow> nat \<Rightarrow> 's engine \<Rightarrow> bulk_report \<times> 's engine" where
  "vector_bulk_store b now memories batch_size w =
     (if memories = [] then (\<lparr>bk_stored = 0, bk_skipped = 0, bk_failures = []\<rparr>, w)
      else case ensure_ready b w of
        (Inl e, w') \<Rightarrow>
          (\<lparr>bk_stored = 0, bk_skipped = 0,
            bk_failures = map (\<lambda>m. (stable_memory_id (pc_hash (vb_codec b)) m, e)) memories\<rparr>, w')
      | (Inr _, w') \<Rightarrow>
          (let rss = map (chunk_records b now) memories;
               w1 = fold (\<lambda>(m, rs). sample_parent m (length rs)) (zip memories rss) w';
               (points, failures) = embed_all b (concat rss);
               (stored, refused, w2) = upsert_batches b (batches (max batch_size 1) points) w1
           in case in_store (st_flush_upsert (vb_store b) (vm_collection (vb_config b))) w2 of
                (Inl e, w3) \<Rightarrow> (\<lparr>bk_stored = stored, bk_skipped = 0, bk_failures = failures @ refused @ [(''flush_upsert'', e)]\<rparr>, w3)
              | (Inr _, w3) \<Rightarrow> (\<lparr>bk_stored = stored, bk_skipped = 0, bk_failures = failures @ refused\<rparr>, w3)))"

section \<open>Drill-down\<close>

definition vector_get_node :: "'s vector_backend \<Rightarrow> string \<Rightarrow> ('s engine, memory_record option) operation" where
  "vector_get_node b node =
     (let c = vm_collection (vb_config b);
          decode = (\<lambda>p. asking (case point_to_record (vb_codec b) p of Inl e \<Rightarrow> Inl e | Inr r \<Rightarrow> Inr (Some r))) in
      and_then (ensure_ready b) (\<lambda>_.
      and_then (of_store (st_get (vb_store b) c node)) (\<lambda>found.
        case found of
          Some p \<Rightarrow> decode p
        | None \<Rightarrow>
            and_then (search_points b (filter_search (node_id_filter node) 1)) (\<lambda>hits.
              if hits \<noteq> [] then decode (vh_point (last hits))
              else and_then (fetch_siblings b node 4096) (\<lambda>siblings.
                answer (if siblings = [] then None else Some (reconstruct_parent_record node siblings)))))))"

section \<open>Rewriting points\<close>

definition add_points :: "vector_point list \<Rightarrow> vector_point list \<Rightarrow> vector_point list" where
  "add_points ps qs =
     fold (\<lambda>q ps. if vp_id q \<in> set (map vp_id ps) then ps else ps @ [q]) qs ps"

definition points_for_node_or_parent :: "'s vector_backend \<Rightarrow> string \<Rightarrow> ('s engine, vector_point list) operation" where
  "points_for_node_or_parent b node =
     and_then (ensure_ready b) (\<lambda>_.
     and_then (of_store (st_get (vb_store b) (vm_collection (vb_config b)) node)) (\<lambda>found.
     and_then (search_points b (filter_search (node_id_filter node) 4096)) (\<lambda>nodes.
     and_then (search_points b (filter_search (parent_filter node) 4096)) (\<lambda>chunks.
       answer (add_points (add_points (case found of Some p \<Rightarrow> [p] | None \<Rightarrow> []) (map vh_point nodes))
                 (map vh_point chunks))))))"

fun rewritten ::
    "'s vector_backend \<Rightarrow> (memory_record \<Rightarrow> memory_record) \<Rightarrow> vector_point list
      \<Rightarrow> memory_error + (vector_point \<times> memory_record) list" where
  "rewritten b f [] = Inr []"
| "rewritten b f (p # ps) =
     (case point_to_record (vb_codec b) p of
        Inl e \<Rightarrow> Inl e
      | Inr r \<Rightarrow>
          (case (if vp_vector p = [] then vb_embed_passage b (mr_content (f r)) else Inr (vp_vector p)) of
             Inl e \<Rightarrow> Inl e
           | Inr v \<Rightarrow>
               (case rewritten b f ps of
                  Inl e \<Rightarrow> Inl e
                | Inr rest \<Rightarrow> Inr ((point_of (vb_codec b) (f r) v, f r) # rest))))"

definition rewrite_record_points ::
    "'s vector_backend \<Rightarrow> vector_point list \<Rightarrow> (memory_record \<Rightarrow> memory_record) \<Rightarrow> ('s engine, memory_record list) operation" where
  "rewrite_record_points b points f =
     and_then (asking (rewritten b f points)) (\<lambda>updated.
       if updated = [] then answer []
       else and_then (in_store (st_upsert (vb_store b) (vm_collection (vb_config b)) (map fst updated)))
              (\<lambda>_. answer (map snd updated)))"

definition vector_mark_used :: "'s vector_backend \<Rightarrow> string \<Rightarrow> ('s engine, memory_record option) operation" where
  "vector_mark_used b node =
     and_then (points_for_node_or_parent b node) (\<lambda>points.
       if points = [] then answer None
       else and_then (rewrite_record_points b points (\<lambda>r. r\<lparr>mr_useful_count := saturating_inc (mr_useful_count r)\<rparr>))
              (\<lambda>updated. answer (if updated = [] then None else Some (last updated))))"

definition retracting :: "payload_codec \<Rightarrow> timestamp \<Rightarrow> relation \<Rightarrow> memory_record \<Rightarrow> memory_record" where
  "retracting c now rel r =
     r\<lparr>mr_state := Retracted, mr_metadata := bt_insert ''retracted_at'' (pc_rfc3339 c now) (mr_metadata r),
       mr_relations := normalize_relations (mr_relations r @ [rel]) (mr_node_id r)\<rparr>"

definition retraction_notice :: "payload_codec \<Rightarrow> timestamp \<Rightarrow> string \<Rightarrow> memory_record \<Rightarrow> relation \<Rightarrow> store_memory" where
  "retraction_notice c now node r rel =
     \<lparr>sm_content = ''Memory '' @ node @ '' was retracted.'', sm_tags = [''retraction'', ''supersede''],
      sm_metadata = bt_insert ''retracted_node_id'' node
        (bt_insert ''retracted_record_id'' (mr_id r) (bt_insert ''retracted_at'' (pc_rfc3339 c now) bt_empty)),
      sm_tier = mr_tier r, sm_node_id = Some (''retract:'' @ node), sm_created_at = Some now,
      sm_scope = mr_scope r, sm_agent_id = mr_agent_id r, sm_session_id = mr_session_id r,
      sm_task_id = mr_task_id r, sm_user_id = mr_user_id r, sm_project = mr_project r,
      sm_source = Some ''artesian.retract'', sm_author_id = mr_author_id r, sm_confidence = mr_confidence r,
      sm_relations = [rel]\<rparr>"

definition vector_retract ::
    "'s vector_backend \<Rightarrow> timestamp \<Rightarrow> memory_error option \<Rightarrow> string \<Rightarrow> ('s engine, retract_report option) operation" where
  "vector_retract b now lock node =
     (let notice = ''retract:'' @ node; rel = new_relation node ''superseded_by'' notice notice in
      and_then (points_for_node_or_parent b node) (\<lambda>points.
        if points = [] then answer None
        else
          and_then (rewrite_record_points b points (retracting (vb_codec b) now rel)) (\<lambda>updated.
            if updated = [] then answer None
            else
              and_then (vector_store_memory b now lock (retraction_notice (vb_codec b) now node (last updated) rel)) (\<lambda>s.
                answer (Some \<lparr>rr_retracted = last updated, rr_supersede = s\<rparr>)))))"

section \<open>The relation graph\<close>

definition GRAPH_SCAN_LIMIT :: nat where "GRAPH_SCAN_LIMIT = 512"

definition graph_records :: "'s vector_backend \<Rightarrow> ('s engine, memory_record list) operation" where
  "graph_records b =
     and_then (ensure_ready b) (\<lambda>_.
     and_then (search_points b (filter_search (filter_from_query (new_query [])) GRAPH_SCAN_LIMIT)) (\<lambda>hits.
       asking (case points_to_records (vb_codec b) (map vh_point hits) of
                 Inl e \<Rightarrow> Inl e | Inr rs \<Rightarrow> Inr (filter (\<lambda>r. mr_relations r \<noteq> []) rs))))"

fun records_for_node_ids ::
    "'s vector_backend \<Rightarrow> memory_record list \<Rightarrow> string list \<Rightarrow> string list \<Rightarrow> ('s engine, memory_record list) operation" where
  "records_for_node_ids b rs seen [] = answer []"
| "records_for_node_ids b rs seen (n # ns) =
     (if n \<in> set seen then records_for_node_ids b rs seen ns
      else and_then (vector_get_node b n) (\<lambda>found.
        and_then (records_for_node_ids b rs (n # seen) ns) (\<lambda>rest.
          answer ((case found of Some r \<Rightarrow> [r] | None \<Rightarrow> records_by_node_ids rs [n]) @ rest))))"

definition vector_neighbors :: "'s vector_backend \<Rightarrow> string \<Rightarrow> nat \<Rightarrow> ('s engine, memory_record list) operation" where
  "vector_neighbors b node hops =
     and_then (graph_records b) (\<lambda>rs. records_for_node_ids b rs [] (neighbor_node_ids rs node hops))"

definition vector_by_entity :: "'s vector_backend \<Rightarrow> string \<Rightarrow> ('s engine, memory_record list) operation" where
  "vector_by_entity b entity =
     and_then (graph_records b) (\<lambda>rs. records_for_node_ids b rs [] (by_entity_node_ids rs entity))"

definition vector_projects :: "'s vector_backend \<Rightarrow> ('s engine, string list) operation" where
  "vector_projects b =
     and_then (ensure_ready b) (\<lambda>_.
       of_store (st_distinct_payload_values (vb_store b) (vm_collection (vb_config b)) ''project''))"

section \<open>Lookups\<close>

definition rerank_active :: "'s vector_backend \<Rightarrow> nat \<Rightarrow> bool" where
  "rerank_active b limit \<longleftrightarrow>
     vm_rerank (vb_config b) \<and> vb_reranker b \<noteq> None \<and> vm_rerank_candidates (vb_config b) > limit"

definition pool_limit :: "'s vector_backend \<Rightarrow> nat \<Rightarrow> nat" where
  "pool_limit b limit =
     (let mmr_pool = (if vm_mmr (vb_config b) then max limit (vm_mmr_min_candidates (vb_config b)) else limit)
      in if rerank_active b limit then max (vm_rerank_candidates (vb_config b)) mmr_pool else mmr_pool)"

definition signals_active :: "vector_config \<Rightarrow> bool" where
  "signals_active cfg \<longleftrightarrow> vm_entity_linking cfg \<or> vm_temporal_decay_lambda cfg > 0 \<or> vm_supersession cfg
     \<or> vm_episode_window cfg > 0"

fun append_mates ::
    "'s vector_backend \<Rightarrow> string list \<Rightarrow> string list \<Rightarrow> search_hit list \<Rightarrow> ('s engine, search_hit list) operation" where
  "append_mates b seen [] hits = answer hits"
| "append_mates b seen (m # ms) hits =
     (if m \<in> set seen then append_mates b seen ms hits
      else and_then (vector_get_node b m) (\<lambda>found.
        case found of
          Some r \<Rightarrow> append_mates b (m # seen) ms (hits @ [keyword_hit r (1/100)])
        | None \<Rightarrow> append_mates b seen ms hits))"

definition expand_episode_context ::
    "'s vector_backend \<Rightarrow> search_hit list \<Rightarrow> nat \<Rightarrow> ('s engine, search_hit list) operation" where
  "expand_episode_context b hits window w =
     (let seen = map (\<lambda>h. mr_node_id (sh_record h)) hits;
          mates = take (window * max (length hits) 1)
                    (filter (\<lambda>m. m \<notin> set seen) (concat (map (episode_mates (eg_episodes w)) seen)))
      in append_mates b seen mates hits w)"

definition signal_hits :: "'s vector_backend \<Rightarrow> timestamp \<Rightarrow> memory_query \<Rightarrow> nat \<Rightarrow> ('s engine, search_hit list) operation" where
  "signal_hits b now q pool =
     (let cfg = vb_config b in
      and_then (ensure_ready b) (\<lambda>_.
      and_then (keyword_hits b q) (\<lambda>keyword.
      and_then (vector_hits b q) (\<lambda>vector w.
        (let entity = (if vm_entity_linking cfg then entity_hits (eg_entities w) (mq_text q) pool else []);
             channels = [keyword, vector] @ (if entity \<noteq> [] then [entity] else []);
             hits = reciprocal_rank_fusion channels (default_rrf\<lparr>rf_limit := pool\<rparr>);
             hits = (if vm_temporal_decay_lambda cfg > 0 then apply_recency_decay now (vm_temporal_decay_lambda cfg) hits else hits);
             hits = (if vm_supersession cfg then apply_knowledge_supersession hits (eg_entities w) (3/10) else hits)
         in if vm_episode_window cfg > 0
            then and_then (expand_episode_context b hits (vm_episode_window cfg)) (\<lambda>hits. answer (take pool hits)) w
            else answer hits w)))))"

text \<open>The write that follows a lookup: the hits, as they were answered, with their counts raised.\<close>

fun access_points :: "'s vector_backend \<Rightarrow> timestamp \<Rightarrow> search_hit list \<Rightarrow> 's engine \<Rightarrow> vector_point list" where
  "access_points b now [] w = []"
| "access_points b now (h # hs) w =
     (let r = accessed now (sh_record h) in
      case st_get (vb_store b) (vm_collection (vb_config b)) (mr_id r) (eg_store w) of
        Inr (Some p) \<Rightarrow> point_of (vb_codec b) r (vp_vector p) # access_points b now hs w
      | _ \<Rightarrow> access_points b now hs w)"

definition track_access :: "'s vector_backend \<Rightarrow> timestamp \<Rightarrow> search_hit list \<Rightarrow> 's engine \<Rightarrow> 's engine" where
  "track_access b now hits w =
     (if vm_track_access (vb_config b) \<and> hits \<noteq> []
      then (let points = access_points b now hits w
            in if points = [] then w
               else snd (in_store (st_upsert_no_wait (vb_store b) (vm_collection (vb_config b)) points) w))
      else w)"

definition candidate_hits :: "'s vector_backend \<Rightarrow> timestamp \<Rightarrow> memory_query \<Rightarrow> ('s engine, search_hit list) operation" where
  "candidate_hits b now q =
     (let pool = pool_limit b (mq_limit q); pq = with_limit pool q in
      if signals_active (vb_config b) then signal_hits b now pq pool
      else vector_hybrid_rrf b pq pq (default_rrf\<lparr>rf_limit := pool\<rparr>))"

definition reranked_hits :: "'s vector_backend \<Rightarrow> memory_query \<Rightarrow> search_hit list \<Rightarrow> memory_error + search_hit list" where
  "reranked_hits b q hits =
     (case vb_reranker b of
        Some rerank \<Rightarrow>
          if rerank_active b (mq_limit q)
          then rerank (mq_text q) hits (if vm_mmr (vb_config b) then pool_limit b (mq_limit q) else mq_limit q)
          else Inr hits
      | None \<Rightarrow> Inr hits)"

definition diversified_hits :: "'s vector_backend \<Rightarrow> memory_query \<Rightarrow> search_hit list \<Rightarrow> search_hit list" where
  "diversified_hits b q hits =
     (let cfg = vb_config b in
      if vm_mmr cfg then mmr_diversify_when_large hits (mq_limit q) (vm_mmr_lambda cfg) (vm_mmr_min_candidates cfg) else hits)"

definition raw_hits :: "'s vector_backend \<Rightarrow> timestamp \<Rightarrow> memory_query \<Rightarrow> ('s engine, search_hit list) operation" where
  "raw_hits b now q =
     and_then (candidate_hits b now q) (\<lambda>hits.
     and_then (asking (reranked_hits b q hits)) (\<lambda>hits. answer (diversified_hits b q hits)))"

text \<open>The hits, widened to the budget that the engine has found.\<close>

definition widened_hits :: "'s vector_backend \<Rightarrow> memory_query \<Rightarrow> search_hit list \<Rightarrow> ('s engine, search_hit list) operation" where
  "widened_hits b q hits w =
     (let (budget, w) = effective_parent_budget b w in
      (case budget of Some n \<Rightarrow> expand_small_to_big b hits (mq_limit q) n | None \<Rightarrow> answer hits) w)"

definition vector_find :: "'s vector_backend \<Rightarrow> timestamp \<Rightarrow> memory_query \<Rightarrow> ('s engine, search_hit list) operation" where
  "vector_find b now q =
     and_then (raw_hits b now q) (\<lambda>hits.
     and_then (widened_hits b q hits) (\<lambda>hits w.
       (let hits = annotate_session_distances now hits (map sh_record hits) (mq_session_id q)
        in (Inr hits, track_access b now hits w))))"

end
