(* ===== verification/Vector_Facts.thy ===== *)
theory Vector_Facts
  imports Vector_Store
begin

text \<open>
  Facts about payloads and filters: a record survives the payload, and the filter of a query selects
  what the tenancy rules of the file backend select.
\<close>

section \<open>The payload of a record\<close>

text \<open>What the time codec is documented to do, at the precision of the time stamps.\<close>

definition payload_codec_ok :: "payload_codec \<Rightarrow> bool" where
  "payload_codec_ok c \<longleftrightarrow> (\<forall>t. pc_read_time c (pc_time c t) = Some t)"

named_theorems payload_fields \<open>the fields of the payload of a record\<close>

lemma each_map [simp]: "\<forall>x \<in> set xs. f (g x) = Some (h x) \<Longrightarrow> each f (map g xs) = Some (map h xs)"
  by (induction xs) auto

lemma bt_insert_last: "bt_ok (m @ [(k, v)]) \<Longrightarrow> bt_insert k v m = m @ [(k, v)]"
  by (induction k v m rule: bt_insert.induct) (auto simp: bt_ok_def)

lemma bt_ok_butlast: "bt_ok (m @ [x]) \<Longrightarrow> bt_ok m"
  by (simp add: bt_ok_def sorted_wrt_append)

lemma fold_bt_insert: "bt_ok m \<Longrightarrow> fold (\<lambda>(k, v). bt_insert k v) m bt_empty = m"
proof (induction m rule: rev_induct)
  case (snoc x m)
  obtain k v where x: "x = (k, v)" by (cases x)
  show ?case using snoc.IH [OF bt_ok_butlast [OF snoc.prems]] snoc.prems by (simp add: x bt_insert_last)
qed (simp add: bt_empty_def)

lemma metadata_round_trip:
  "bt_ok m \<Longrightarrow> the_metadata (Some (PObj (map (\<lambda>(k, v). (k, PStr v)) m))) = Some m"
proof -
  assume ok: "bt_ok m"
  have "each (\<lambda>(k, v). map_option (Pair k) (as_str v)) (map (\<lambda>(k, v). (k, PStr v)) m) = Some m"
    by (induction m) (auto simp: as_str_def)
  then show ?thesis using ok by (simp add: the_metadata_def fold_bt_insert)
qed

lemma read_tier_name [simp]: "read_tier (tier_name t) = Some t"
  by (cases t) (simp_all add: read_tier_def)

lemma read_scope_name [simp]: "read_scope (scope_as_str s) = Some s"
  by (cases s) (simp_all add: read_scope_def)

lemma read_state_name [simp]: "read_state (state_name s) = Some s"
  by (cases s) (simp_all add: read_state_def)

lemma read_u32_nat: "k < 2 ^ 32 \<Longrightarrow> read_u32 (Some (PNum (of_nat k))) = Some (of_nat k)"
proof -
  assume "k < 2 ^ 32"
  then have "int k < 2 ^ 32" by simp
  then show ?thesis by (simp add: read_u32_def)
qed

lemma read_u32_unat [simp]: "read_u32 (Some (PNum (unsigned (n :: u32)))) = Some n"
  using read_u32_nat [of "unat n"] unsigned_less [of n, where ?'a = nat] by simp

lemma read_relation_value [simp]: "read_relation (relation_value r) = Some r"
  by (simp add: read_relation_def relation_value_def value_get_def the_string_def as_str_def new_relation_def)

lemma map_of_unless_none: "map_of (unless_none k x @ l) j = (if j = k \<and> x \<noteq> None then x else map_of l j)"
  by (cases x) (auto simp: unless_none_def)

lemma map_of_unless_empty:
  "map_of ((if rs = [] then [] else [(k, v)]) @ l) j = (if j = k \<and> rs \<noteq> [] then Some v else map_of l j)"
  by auto

lemma field_of_payload [payload_fields]:
  "value_get ''id'' (payload_of c r) = Some (PStr (mr_id r))"
  "value_get ''node_id'' (payload_of c r) = Some (PStr (mr_node_id r))"
  "value_get ''content'' (payload_of c r) = Some (PStr (mr_content r))"
  "value_get ''tags'' (payload_of c r) = Some (PArr (map PStr (mr_tags r)))"
  "value_get ''metadata'' (payload_of c r) = Some (PObj (map (\<lambda>(k, v). (k, PStr v)) (mr_metadata r)))"
  "value_get ''tier'' (payload_of c r) = Some (PStr (tier_name (mr_tier r)))"
  "value_get ''created_at'' (payload_of c r) = Some (PStr (pc_time c (mr_created_at r)))"
  "value_get ''scope'' (payload_of c r) = Some (nullable (map_option scope_as_str (mr_scope r)))"
  "value_get ''agent_id'' (payload_of c r) = Some (nullable (mr_agent_id r))"
  "value_get ''session_id'' (payload_of c r) = Some (nullable (mr_session_id r))"
  "value_get ''task_id'' (payload_of c r) = Some (nullable (mr_task_id r))"
  "value_get ''user_id'' (payload_of c r) = Some (nullable (mr_user_id r))"
  by (simp_all add: payload_of_def value_get_def)

lemma optional_field_of_payload [payload_fields]:
  "value_get ''project'' (payload_of c r) = map_option PStr (mr_project r)"
  "value_get ''source'' (payload_of c r) = map_option PStr (mr_source r)"
  "value_get ''author_id'' (payload_of c r) = map_option PStr (mr_author_id r)"
  "value_get ''confidence'' (payload_of c r) = map_option PNum (mr_confidence r)"
  "value_get ''relations'' (payload_of c r) =
     (if mr_relations r = [] then None else Some (PArr (map relation_value (mr_relations r))))"
  "value_get ''last_access'' (payload_of c r) = map_option (\<lambda>t. PStr (pc_time c t)) (mr_last_access r)"
  "value_get ''access_count'' (payload_of c r) = Some (PNum (of_nat (unat (mr_access_count r))))"
  "value_get ''useful_count'' (payload_of c r) = Some (PNum (of_nat (unat (mr_useful_count r))))"
  "value_get ''state'' (payload_of c r) = Some (PStr (state_name (mr_state r)))"
  unfolding payload_of_def value_get_def payload_value.case
  by (simp_all add: map_of_unless_none map_of_unless_empty del: map_of_append)

lemma opt_string_simps [simp]:
  "opt_string (Some (nullable x)) = Some x" "opt_string (map_option PStr x) = Some x"
  by (cases x; simp add: opt_string_def nullable_def)+

lemma payload_inverse:
  assumes "payload_codec_ok c" and "bt_ok (mr_metadata r)"
  shows "record_of_payload c (payload_of c r) = Some r"
proof -
  have time: "pc_read_time c (pc_time c t) = Some t" for t using assms(1) by (simp add: payload_codec_ok_def)
  have strings: "the_strings (Some (PArr (map PStr xs))) = Some xs" for xs
    using each_map [of xs as_str PStr "\<lambda>x. x"] by (simp add: the_strings_def as_str_def)
  have scope: "Option.bind (opt_string (Some (nullable (map_option scope_as_str (mr_scope r))))) (optional read_scope)
      = Some (mr_scope r)" unfolding opt_string_simps by (cases "mr_scope r") (simp_all add: optional_def)
  have confidence: "read_confidence (map_option PNum (mr_confidence r)) = Some (mr_confidence r)"
    by (cases "mr_confidence r") (simp_all add: read_confidence_def)
  have relations: "(case if mr_relations r = [] then None else Some (PArr (map relation_value (mr_relations r))) of
      None \<Rightarrow> Some [] | Some (PArr vs) \<Rightarrow> each read_relation vs | _ \<Rightarrow> None) = Some (mr_relations r)"
    using each_map [of "mr_relations r" read_relation relation_value "\<lambda>x. x"] by simp
  have access: "Option.bind (opt_string (map_option (\<lambda>t. PStr (pc_time c t)) (mr_last_access r))) (optional (pc_read_time c))
      = Some (mr_last_access r)" by (cases "mr_last_access r") (simp_all add: opt_string_def optional_def time)
  show ?thesis
    unfolding record_of_payload_def Let_def payload_fields strings scope confidence relations access
      metadata_round_trip [OF assms(2)]
    by (simp add: the_string_def as_str_def time)
qed

text \<open>A stored record is read back as it was, whatever of its optional fields are present.\<close>

theorem payload_round_trip:
  assumes "payload_codec_ok c" and "bt_ok (mr_metadata r)" and "vp_payload p = payload_of c r"
  shows "point_to_record c p = Inr r"
  by (simp add: point_to_record_def assms(3) payload_inverse [OF assms(1,2)])

section \<open>The filter of a query\<close>

lemma single_field:
  assumes "split_on ''.'' field = [field]"
  shows "field_value p field = value_get field p"
  using assms by (cases "value_get field p") (simp_all add: field_value_def)

lemma plain_fields:
  "split_on ''.'' ''node_id'' = [''node_id'']" "split_on ''.'' ''scope'' = [''scope'']"
  "split_on ''.'' ''agent_id'' = [''agent_id'']" "split_on ''.'' ''session_id'' = [''session_id'']"
  "split_on ''.'' ''task_id'' = [''task_id'']" "split_on ''.'' ''user_id'' = [''user_id'']"
  "split_on ''.'' ''tags'' = [''tags'']" "split_on ''.'' ''project'' = [''project'']"
  by code_simp+

lemma parent_field: "split_on ''.'' ''metadata.parent_node'' = [''metadata'', ''parent_node'']"
  by code_simp

lemma field_values [payload_fields]:
  "field_value p ''node_id'' = value_get ''node_id'' p" "field_value p ''scope'' = value_get ''scope'' p"
  "field_value p ''agent_id'' = value_get ''agent_id'' p" "field_value p ''session_id'' = value_get ''session_id'' p"
  "field_value p ''task_id'' = value_get ''task_id'' p" "field_value p ''user_id'' = value_get ''user_id'' p"
  "field_value p ''tags'' = value_get ''tags'' p" "field_value p ''project'' = value_get ''project'' p"
  by (simp_all add: single_field plain_fields)

lemma value_matches_nullable: "value_matches (nullable x) (FString s) \<longleftrightarrow> x = Some s"
  by (cases x) (auto simp: nullable_def value_matches_def)

lemma value_matches_str [simp]: "value_matches (PStr x) (FString s) \<longleftrightarrow> x = s"
  by (simp add: value_matches_def)

lemma scope_as_str_inj: "scope_as_str a = scope_as_str b \<longleftrightarrow> a = b"
  by (cases a; cases b) simp_all

lemma fold_must_eq_tags:
  "fold (must_eq ''tags'') tags f = f\<lparr>vf_must := vf_must f @ map (\<lambda>t. Eq_cond ''tags'' (FString t)) tags\<rparr>"
  by (induction tags arbitrary: f) (simp_all add: must_eq_def)

lemma list_ex_str: "list_ex (\<lambda>i. i = PStr t) (map PStr xs) \<longleftrightarrow> t \<in> set xs"
  by (induction xs) auto

lemma filter_selects:
  assumes "trim (effective_project q) = effective_project q"
  shows "payload_matches_filter (payload_of c r) (filter_from_query q) \<longleftrightarrow>
     (mq_node_id q = None \<or> mq_node_id q = Some (mr_node_id r)) \<and> mr_node_id r \<noteq> COMPAT_POINT_ID
     \<and> matches_tags r (mq_tags q) \<and> matches_tenancy r q"
proof -
  let ?p = "payload_of c r"
  have opt: "payload_matches_condition ?p (Eq_cond f (FString s)) \<longleftrightarrow> x = Some s"
    if "field_value ?p f = Some (nullable x)" for f s x
    using that by (simp add: value_matches_nullable)
  have tags: "list_all (payload_matches_condition ?p) (map (\<lambda>t. Eq_cond ''tags'' (FString t)) ts) \<longleftrightarrow> matches_tags r ts" for ts
    by (induction ts) (simp_all add: payload_fields value_matches_def list_ex_str matches_tags_def)
  have project: "list_ex (payload_matches_condition ?p) (vf_should (add_project_union pr f))
      \<longleftrightarrow> matches_project_union (mr_project r) pr" if "trim pr = pr" "vf_should f = []" for pr f
    using that by (cases "mr_project r")
      (auto simp: add_project_union_def payload_fields matches_project_union_def Let_def)
  define opt_eq where "opt_eq f v flt = (case v of Some s \<Rightarrow> must_eq f s flt | None \<Rightarrow> flt)" for f v flt
  have must: "list_all (payload_matches_condition ?p) (vf_must (opt_eq f x flt))
      \<longleftrightarrow> list_all (payload_matches_condition ?p) (vf_must flt) \<and> (x = None \<or> y = x)"
    if "field_value ?p f = Some (nullable y)" for f x y flt
    using opt [OF that] by (cases x) (auto simp: must_eq_def opt_eq_def)
  have rest: "vf_should (opt_eq f x flt) = vf_should flt" "vf_must_not (opt_eq f x flt) = vf_must_not flt" for x f flt
    by (cases x; simp add: must_eq_def opt_eq_def)+
  have fields: "field_value ?p ''scope'' = Some (nullable (map_option scope_as_str (mr_scope r)))"
    "field_value ?p ''agent_id'' = Some (nullable (mr_agent_id r))"
    "field_value ?p ''session_id'' = Some (nullable (mr_session_id r))"
    "field_value ?p ''task_id'' = Some (nullable (mr_task_id r))"
    "field_value ?p ''user_id'' = Some (nullable (mr_user_id r))"
    by (simp_all add: payload_fields)
  have union: "vf_must (add_project_union pr f) = vf_must f" "vf_must_not (add_project_union pr f) = vf_must_not f"
    "vf_should (add_project_union pr f) \<noteq> []" for pr f
    by (simp_all add: add_project_union_def Let_def)
  have scope: "map_option scope_as_str y = map_option scope_as_str x \<longleftrightarrow> y = x" for x y
    by (cases x; cases y) (simp_all add: scope_as_str_inj)
  have node: "list_all (payload_matches_condition ?p) (vf_must (case x of Some n \<Rightarrow> node_id_filter n | None \<Rightarrow> empty_filter))
      \<longleftrightarrow> x = None \<or> x = Some (mr_node_id r)" for x
    by (cases x) (auto simp: node_id_filter_def must_eq_def empty_filter_def payload_fields)
  have node_rest: "vf_should (case x of Some n \<Rightarrow> node_id_filter n | None \<Rightarrow> empty_filter) = []"
    "vf_must_not (case x of Some n \<Rightarrow> node_id_filter n | None \<Rightarrow> empty_filter) = []" for x
    by (cases x; simp add: node_id_filter_def must_eq_def empty_filter_def)+
  have not_compat: "payload_matches_condition ?p (Eq_cond ''node_id'' (FString COMPAT_POINT_ID))
      \<longleftrightarrow> mr_node_id r = COMPAT_POINT_ID" by (simp add: payload_fields)
  note musts = must [OF fields(1)] must [OF fields(2)] must [OF fields(3)] must [OF fields(4)] must [OF fields(5)]
  show ?thesis
    unfolding payload_matches_filter_def filter_from_query_def Let_def union(1,2) fold_must_eq_tags opt_eq_def [symmetric]
    by (simp add: union(3) project [OF assms] rest node_rest musts tags node not_compat matches_tenancy_def scope
        del: payload_matches_condition.simps) blast
qed

text \<open>The vector stores select by their filter what the file backend selects by its tenancy and tag rules;
  a node filter means the node id only, and the compatibility record is never selected.\<close>

theorem filter_is_tenancy:
  assumes "trim (effective_project q) = effective_project q"
  shows "payload_matches_filter (payload_of c r) (filter_from_query q) \<longleftrightarrow>
     (mq_node_id q = None \<or> mq_node_id q = Some (mr_node_id r)) \<and> mr_node_id r \<noteq> COMPAT_POINT_ID
     \<and> matches_tags r (mq_tags q) \<and> matches_tenancy r q"
  by (rule filter_selects [OF assms])

end
