(* ===== verification/Vector_Laws.thy ===== *)
theory Vector_Laws
  imports Vector_Engine Vector_Facts Sqlite_Store
begin

text \<open>
  What the memory engine relies on of a vector store, as a locale, with what the engine's operations
  do under these laws; and its interpretation on the SQLite store.

  \<open>contents\<close> is the abstract state of a collection: its points, without their vectors, in their order.
\<close>

type_synonym contents = "(string \<times> payload_value) list"

text \<open>Points are added under new ids only.\<close>

definition add_absent :: "payload_codec \<Rightarrow> memory_record list \<Rightarrow> contents \<Rightarrow> contents" where
  "add_absent c rs ps =
     fold (\<lambda>r ps. if map_of ps (mr_id r) = None then ps @ [(mr_id r, payload_of c r)] else ps) rs ps"

definition collection_of :: "vector_config \<Rightarrow> vector_collection" where
  "collection_of cfg =
     \<lparr>vc_name = vm_collection cfg, vc_dimensions = vm_dimensions cfg, vc_distance = vm_distance cfg,
      vc_quantization = vm_quantization cfg\<rparr>"

lemma collection_of_simps [simp]:
  "vc_name (collection_of cfg) = vm_collection cfg" "vc_dimensions (collection_of cfg) = vm_dimensions cfg"
  by (simp_all add: collection_of_def)

named_theorems steps \<open>sequencing of operations\<close>

lemma and_then_simps [steps]:
  "f s = (Inl e, s') \<Longrightarrow> and_then f g s = (Inl e, s')"
  "f s = (Inr a, s') \<Longrightarrow> and_then f g s = g a s'"
  by (simp_all add: and_then_def)

lemma and_then_fixed [simp]:
  "and_then (answer a) g = g a" "and_then (asking (Inl e)) g s = (Inl e, s)" "and_then (asking (Inr a)) g = g a"
  by (auto simp: and_then_def answer_def asking_def)

lemma answer_Inr [simp]: "answer a s = (Inr b, s') \<longleftrightarrow> b = a \<and> s' = s"
  by (auto simp: answer_def)

lemma asking_Inr [simp]: "asking r s = (Inr b, s') \<longleftrightarrow> r = Inr b \<and> s' = s"
  by (auto simp: asking_def)

lemma of_store_Inr [simp]: "of_store f w = (Inr b, w') \<longleftrightarrow> f (eg_store w) = Inr b \<and> w' = w"
  by (auto simp: of_store_def)

lemma and_then_Inr: "and_then f g s = (Inr b, s'') \<longleftrightarrow> (\<exists>a s'. f s = (Inr a, s') \<and> g a s' = (Inr b, s''))"
  by (auto simp: and_then_def split: prod.split sum.split)

lemma and_then_cases:
  assumes "and_then f g s = (Inr b, s'')"
  obtains a s' where "f s = (Inr a, s')" "g a s' = (Inr b, s'')"
  using assms by (auto simp: and_then_Inr)

text \<open>An embedder that answers vectors of the configured length.\<close>

definition embeds :: "'s vector_backend \<Rightarrow> bool" where
  "embeds b \<longleftrightarrow> (\<forall>txt. \<exists>v. vb_embed_passage b txt = Inr v \<and> length v = vm_dimensions (vb_config b))"

text \<open>The stored payloads of these ids can be decoded.\<close>

definition decodable :: "payload_codec \<Rightarrow> string set \<Rightarrow> contents \<Rightarrow> bool" where
  "decodable c ids ps \<longleftrightarrow> (\<forall>i p. map_of ps i = Some p \<longrightarrow> i \<in> ids \<longrightarrow> record_of_payload c p \<noteq> None)"

lemma decodableD: "decodable c ids ps \<Longrightarrow> map_of ps i = Some p \<Longrightarrow> i \<in> ids \<Longrightarrow> \<exists>x. record_of_payload c p = Some x"
  unfolding decodable_def by blast

section \<open>The records of the chunks\<close>

lemma record_of_payload_of:
  "payload_codec_ok c \<Longrightarrow> bt_ok (mr_metadata r) \<Longrightarrow> record_of_payload c (payload_of c r) = Some r"
  by (rule payload_inverse)

lemma chunk_records_nonempty: "chunk_records b now m \<noteq> []"
  by (simp add: chunk_records_def chunk_text_def Let_def)

lemma chunk_metadata_ok: "bt_ok (sm_metadata m) \<Longrightarrow> \<forall>r \<in> set (chunk_records b now m). bt_ok (mr_metadata r)"
  by (auto simp: chunk_records_def chunk_record_def chunk_metadata_def Let_def bt_oks split: option.splits)

section \<open>Adding what is absent\<close>

lemma add_absent_Cons:
  "add_absent c (r # rs) ps =
     add_absent c rs (if map_of ps (mr_id r) = None then ps @ [(mr_id r, payload_of c r)] else ps)"
  by (simp add: add_absent_def)

lemma add_absent_keeps: "map_of ps i = Some p \<Longrightarrow> map_of (add_absent c rs ps) i = Some p"
proof (induction rs arbitrary: ps)
  case (Cons r rs)
  then show ?case unfolding add_absent_Cons by (intro Cons.IH) (auto simp: map_add_Some_iff)
qed (simp add: add_absent_def)

lemma add_absent_prefix: "\<exists>ns. add_absent c rs ps = ps @ ns"
proof (induction rs arbitrary: ps)
  case (Cons r rs)
  show ?case unfolding add_absent_Cons using Cons.IH [of ps] Cons.IH [of "ps @ [(mr_id r, payload_of c r)]"] by auto
qed (simp add: add_absent_def)

lemma add_absent_present: "r \<in> set rs \<Longrightarrow> map_of (add_absent c rs ps) (mr_id r) \<noteq> None"
proof (induction rs arbitrary: ps)
  case (Cons a rs)
  show ?case
  proof (cases "r = a")
    case True
    obtain p where "map_of (if map_of ps (mr_id a) = None then ps @ [(mr_id a, payload_of c a)] else ps) (mr_id a) = Some p"
      by (cases "map_of ps (mr_id a)") (auto simp: map_add_def)
    then show ?thesis using True add_absent_keeps unfolding add_absent_Cons by (metis option.distinct(1))
  next
    case False
    then show ?thesis using Cons unfolding add_absent_Cons by simp
  qed
qed simp

lemma add_absent_all_present:
  "\<forall>r \<in> set rs. map_of ps (mr_id r) \<noteq> None \<Longrightarrow> add_absent c rs ps = ps"
  by (induction rs) (auto simp: add_absent_Cons, simp add: add_absent_def)

lemma add_absent_new:
  assumes "distinct (map mr_id rs)" and "r \<in> set rs" and "map_of ps (mr_id r) = None"
  shows "map_of (add_absent c rs ps) (mr_id r) = Some (payload_of c r)"
  using assms
proof (induction rs arbitrary: ps)
  case (Cons a rs)
  show ?case
  proof (cases "r = a")
    case True
    then show ?thesis using Cons.prems(3) unfolding add_absent_Cons by (intro add_absent_keeps) (auto simp: map_add_def)
  next
    case False
    then have "mr_id a \<noteq> mr_id r" "r \<in> set rs" using Cons.prems by force+
    then show ?thesis using Cons.prems unfolding add_absent_Cons by (intro Cons.IH) (auto simp: map_add_def)
  qed
qed simp

lemma add_absent_fresh:
  assumes "\<forall>r \<in> set rs. map_of ps (mr_id r) = None" and "distinct (map mr_id rs)"
  shows "add_absent c rs ps = ps @ map (\<lambda>r. (mr_id r, payload_of c r)) rs"
  using assms
proof (induction rs arbitrary: ps)
  case (Cons r rs)
  have "\<forall>x \<in> set rs. mr_id x \<noteq> mr_id r" using Cons.prems(2) by (auto simp: image_iff)
  then have "\<forall>x \<in> set rs. map_of (ps @ [(mr_id r, payload_of c r)]) (mr_id x) = None"
    using Cons.prems(1) by (simp add: map_add_def)
  then show ?case unfolding add_absent_Cons using Cons by simp
qed (simp add: add_absent_def)

lemma add_absent_decodable:
  assumes "payload_codec_ok c" and "\<forall>r \<in> set rs. bt_ok (mr_metadata r)" and "decodable c ids ps"
  shows "decodable c ids (add_absent c rs ps)"
  using assms(2,3)
proof (induction rs arbitrary: ps)
  case (Cons r rs)
  have "record_of_payload c (payload_of c r) = Some r" using assms(1) Cons.prems(1) by (simp add: payload_inverse)
  then have "decodable c ids (if map_of ps (mr_id r) = None then ps @ [(mr_id r, payload_of c r)] else ps)"
    using Cons.prems(2) by (auto simp: decodable_def map_add_Some_iff)
  then show ?case unfolding add_absent_Cons using Cons by simp
qed (simp add: add_absent_def)

text \<open>The ids of the chunks are those of the contents, whenever they are stored.\<close>

lemma chunk_ids: "map mr_id (chunk_records b now m) = map mr_id (chunk_records b later m)"
  by (simp add: chunk_records_def chunk_record_def Let_def stable_memory_id_def identity_text_def)

section \<open>The laws\<close>

locale vector_laws =
  fixes vs :: "'s vector_store"
    and ready :: "vector_collection \<Rightarrow> 's \<Rightarrow> bool"
    and contents :: "string \<Rightarrow> 's \<Rightarrow> contents"
  assumes ensure: "ready col s \<Longrightarrow> st_ensure_collection vs col s = (Inr (), s)"
    and index: "ready col s \<Longrightarrow> st_ensure_payload_index vs (vc_name col) field s = (Inr (), s)"
    and get: "ready col s \<Longrightarrow> \<exists>v. st_get vs (vc_name col) i s =
        Inr (map_option (\<lambda>p. \<lparr>vp_id = i, vp_vector = v, vp_payload = p\<rparr>) (map_of (contents (vc_name col) s) i))"
    and upsert: "ready col s \<Longrightarrow> length (vp_vector p) = vc_dimensions col \<Longrightarrow>
        \<exists>s'. st_upsert vs (vc_name col) [p] s = (Inr (), s') \<and> ready col s'
          \<and> contents (vc_name col) s' = AList.update (vp_id p) (vp_payload p) (contents (vc_name col) s)"
    and search_sound: "ready col s \<Longrightarrow> st_search vs (vc_name col) q s = Inr hits \<Longrightarrow> h \<in> set hits \<Longrightarrow>
        (vp_id (vh_point h), vp_payload (vh_point h)) \<in> set (contents (vc_name col) s)
          \<and> payload_matches_filter (vp_payload (vh_point h)) (vs_filter q)"
begin

definition engine_ready :: "'s vector_backend \<Rightarrow> 's engine \<Rightarrow> bool" where
  "engine_ready b w \<longleftrightarrow> vb_store b = vs \<and> ready (collection_of (vb_config b)) (eg_store w)
     \<and> (\<exists>p cc. map_of (contents (vm_collection (vb_config b)) (eg_store w)) COMPAT_POINT_ID = Some p
          \<and> compat_of_payload p = Some cc \<and> validate_compatible cc (compat_from_config b) = Inr ())"

definition stored_points :: "'s vector_backend \<Rightarrow> 's engine \<Rightarrow> contents" where
  "stored_points b w = contents (vm_collection (vb_config b)) (eg_store w)"

lemma ready_store: "engine_ready b w \<Longrightarrow> ready (collection_of (vb_config b)) (eg_store w)"
  by (simp add: engine_ready_def)

lemma run_each_index:
  "engine_ready b w \<Longrightarrow>
     run_each (\<lambda>field. in_store (st_ensure_payload_index (vb_store b) (vm_collection (vb_config b)) field)) fs w = (Inr (), w)"
proof (induction fs)
  case (Cons f fs)
  have "st_ensure_payload_index vs (vm_collection (vb_config b)) f (eg_store w) = (Inr (), eg_store w)"
    using index [OF ready_store [OF Cons.prems], of f] by simp
  then have "in_store (st_ensure_payload_index (vb_store b) (vm_collection (vb_config b)) f) w = (Inr (), w)"
    using Cons.prems by (simp add: in_store_def engine_ready_def)
  then show ?case using Cons by (simp add: steps)
qed (simp add: answer_def)

text \<open>Set-up changes nothing of a collection that is set up.\<close>

lemma ensure_ready_again: "engine_ready b w \<Longrightarrow> ensure_ready b w = (Inr (), w)"
proof -
  assume ok: "engine_ready b w"
  let ?c = "vm_collection (vb_config b)"
  have "in_store (st_ensure_collection (vb_store b) (collection_of (vb_config b))) w = (Inr (), w)"
    using ensure [OF ready_store [OF ok]] ok by (simp add: in_store_def engine_ready_def)
  moreover obtain p cc where p: "map_of (contents ?c (eg_store w)) COMPAT_POINT_ID = Some p"
    "compat_of_payload p = Some cc" "validate_compatible cc (compat_from_config b) = Inr ()"
    using ok by (auto simp: engine_ready_def)
  moreover obtain v where "st_get vs ?c COMPAT_POINT_ID (eg_store w) = Inr (Some \<lparr>vp_id = COMPAT_POINT_ID, vp_vector = v, vp_payload = p\<rparr>)"
    using get [OF ready_store [OF ok], of COMPAT_POINT_ID] p(1) by auto
  then have "ensure_compat_metadata b w = (Inr (), w)"
    using ok p(2,3) by (simp add: ensure_compat_metadata_def and_then_def of_store_def asking_def engine_ready_def Let_def)
  ultimately show ?thesis
    using run_each_index [OF ok, of indexed_fields]
    by (simp add: ensure_ready_def Let_def steps flip: collection_of_def)
qed

lemma get_absent:
  assumes "engine_ready b w" and "map_of (stored_points b w) i = None"
  shows "of_store (st_get (vb_store b) (vm_collection (vb_config b)) i) w = (Inr None, w)"
  using get [OF ready_store [OF assms(1)], of i] assms by (auto simp: of_store_def engine_ready_def stored_points_def)

lemma get_present:
  assumes "engine_ready b w" and "map_of (stored_points b w) i = Some p"
  obtains v where "of_store (st_get (vb_store b) (vm_collection (vb_config b)) i) w =
    (Inr (Some \<lparr>vp_id = i, vp_vector = v, vp_payload = p\<rparr>), w)"
  using get [OF ready_store [OF assms(1)], of i] assms by (auto simp: of_store_def engine_ready_def stored_points_def)

lemma update_absent: "map_of ps i = None \<Longrightarrow> AList.update i p ps = ps @ [(i, p)]"
  by (induction ps) (auto split: if_splits)

lemma write_absent:
  assumes ok: "engine_ready b w" and absent: "map_of (stored_points b w) (mr_id r) = None"
    and v: "length v = vm_dimensions (vb_config b)"
  obtains w' where "in_store (st_upsert (vb_store b) (vm_collection (vb_config b)) [point_of (vb_codec b) r v]) w = (Inr (), w')"
    "engine_ready b (index_chunk (vb_config b) r v w')"
    "stored_points b (index_chunk (vb_config b) r v w') = stored_points b w @ [(mr_id r, payload_of (vb_codec b) r)]"
proof -
  obtain s' where s': "st_upsert vs (vm_collection (vb_config b)) [point_of (vb_codec b) r v] (eg_store w) = (Inr (), s')"
    "ready (collection_of (vb_config b)) s'"
    "contents (vm_collection (vb_config b)) s' = stored_points b w @ [(mr_id r, payload_of (vb_codec b) r)]"
    using upsert [OF ready_store [OF ok], of "point_of (vb_codec b) r v"] v absent
    by (auto simp: point_of_def stored_points_def update_absent)
  let ?w = "w\<lparr>eg_store := s'\<rparr>"
  have "in_store (st_upsert (vb_store b) (vm_collection (vb_config b)) [point_of (vb_codec b) r v]) w = (Inr (), ?w)"
    using s'(1) ok by (simp add: in_store_def engine_ready_def)
  moreover have "engine_ready b (index_chunk (vb_config b) r v ?w)"
    using ok s'(2,3) by (auto simp: engine_ready_def index_chunk_def stored_points_def)
  moreover have "stored_points b (index_chunk (vb_config b) r v ?w) = stored_points b w @ [(mr_id r, payload_of (vb_codec b) r)]"
    using s'(3) by (simp add: stored_points_def index_chunk_def)
  ultimately show ?thesis using that by blast
qed

lemma store_chunks_add_absent:
  assumes "engine_ready b w" and "embeds b" and "payload_codec_ok (vb_codec b)" and "\<forall>r \<in> set rs. bt_ok (mr_metadata r)"
    and "decodable (vb_codec b) (mr_id ` set rs) (stored_points b w)"
  shows "\<exists>rep' w'. store_chunks b rs rep w = (Inr rep', w') \<and> engine_ready b w'
    \<and> stored_points b w' = add_absent (vb_codec b) rs (stored_points b w)
    \<and> (rep \<noteq> None \<longrightarrow> rep' = rep) \<and> (rs \<noteq> [] \<longrightarrow> rep' \<noteq> None)"
  using assms(1,4,5)
proof (induction rs arbitrary: rep w)
  case Nil
  then show ?case by (auto simp: add_absent_def answer_def)
next
  case (Cons r rs)
  show ?case
  proof (cases "map_of (stored_points b w) (mr_id r)")
    case (Some p)
    obtain v where found: "of_store (st_get (vb_store b) (vm_collection (vb_config b)) (mr_id r)) w =
        (Inr (Some \<lparr>vp_id = mr_id r, vp_vector = v, vp_payload = p\<rparr>), w)"
      using get_present [OF Cons.prems(1) Some] by blast
    obtain x where x: "record_of_payload (vb_codec b) p = Some x" using decodableD [OF Cons.prems(3) Some] by auto
    obtain y where y: "(if rep = None then Some x else rep) = Some y" by (cases rep) auto
    have "decodable (vb_codec b) (mr_id ` set rs) (stored_points b w)" using Cons.prems(3) by (auto simp: decodable_def)
    then obtain rep' w' where rest: "store_chunks b rs (Some y) w = (Inr rep', w')" "engine_ready b w'"
      "stored_points b w' = add_absent (vb_codec b) rs (stored_points b w)" "rep' = Some y"
      using Cons.IH [OF Cons.prems(1), of "Some y"] Cons.prems(2) by auto
    have "store_chunks b (r # rs) rep w = (Inr rep', w')"
      using found rest(1) x y by (cases rep) (simp_all add: steps point_to_record_def)
    then show ?thesis using rest Some y by (auto simp: add_absent_def split: if_splits)
  next
    case None
    obtain v where v: "vb_embed_passage b (mr_content r) = Inr v" "length v = vm_dimensions (vb_config b)"
      using assms(2) by (auto simp: embeds_def)
    obtain w1 where w1: "in_store (st_upsert (vb_store b) (vm_collection (vb_config b)) [point_of (vb_codec b) r v]) w = (Inr (), w1)"
      "engine_ready b (index_chunk (vb_config b) r v w1)"
      "stored_points b (index_chunk (vb_config b) r v w1) = stored_points b w @ [(mr_id r, payload_of (vb_codec b) r)]"
      using write_absent [OF Cons.prems(1) None v(2)] by blast
    have "record_of_payload (vb_codec b) (payload_of (vb_codec b) r) \<noteq> None"
      using record_of_payload_of [OF assms(3), of r] Cons.prems(2) by simp
    then have "decodable (vb_codec b) (mr_id ` set rs) (stored_points b (index_chunk (vb_config b) r v w1))"
      using Cons.prems(3) None unfolding decodable_def w1(3) by (auto simp: map_add_Some_iff split: if_splits)
    moreover obtain y where y: "(if rep = None then Some r else rep) = Some y" by (cases rep) auto
    ultimately obtain rep' w' where rest: "store_chunks b rs (Some y) (index_chunk (vb_config b) r v w1) = (Inr rep', w')"
      "engine_ready b w'" "stored_points b w' = add_absent (vb_codec b) rs (stored_points b w @ [(mr_id r, payload_of (vb_codec b) r)])"
      "rep' = Some y"
      using Cons.IH [OF w1(2), of "Some y"] Cons.prems(2) w1(3) by auto
    have "store_chunks b (r # rs) rep w = (Inr rep', w')"
      using get_absent [OF Cons.prems(1) None] v(1) w1(1) rest(1) y by (simp add: steps)
    then show ?thesis using rest None y by (auto simp: add_absent_def split: if_splits)
  qed
qed

lemma sample_parent_simps [simp]:
  "engine_ready b (sample_parent m n w) = engine_ready b w" "stored_points b (sample_parent m n w) = stored_points b w"
  by (simp_all add: sample_parent_def engine_ready_def stored_points_def)

text \<open>Storing adds the chunks that are not there, and nothing else.\<close>

lemma store_adds_absent:
  assumes "engine_ready b w" and "embeds b" and "payload_codec_ok (vb_codec b)" and "bt_ok (sm_metadata m)"
    and "validate_confidence m = Inr ()" and "decodable (vb_codec b) (mr_id ` set (chunk_records b now m)) (stored_points b w)"
  shows "\<exists>r w'. vector_store_memory b now None m w = (Inr r, w') \<and> engine_ready b w'
    \<and> stored_points b w' = add_absent (vb_codec b) (chunk_records b now m) (stored_points b w)"
proof -
  let ?rs = "chunk_records b now m"
  have meta: "\<forall>r \<in> set ?rs. bt_ok (mr_metadata r)" by (rule chunk_metadata_ok [OF assms(4)])
  have "decodable (vb_codec b) (mr_id ` set ?rs) (stored_points b (sample_parent m (length ?rs) w))" using assms(6) by (simp add: decodable_def)
  then obtain rep w' where run: "store_chunks b ?rs None (sample_parent m (length ?rs) w) = (Inr rep, w')" "engine_ready b w'"
    "stored_points b w' = add_absent (vb_codec b) ?rs (stored_points b w)" "rep \<noteq> None"
    using store_chunks_add_absent [OF _ assms(2,3) meta, of "sample_parent m (length ?rs) w" None] assms(1) chunk_records_nonempty
    by (metis sample_parent_simps)
  then have "vector_store_memory b now None m w = (Inr (the rep), w')"
    using ensure_ready_again [OF assms(1)] assms(5) by (auto simp: vector_store_memory_def steps Let_def)
  then show ?thesis using run by blast
qed

text \<open>A point that is there is what a drill-down by its id answers.\<close>

lemma get_node_by_id:
  assumes "engine_ready b w" and "map_of (stored_points b w) i = Some p" and "record_of_payload (vb_codec b) p = Some r"
  shows "vector_get_node b i w = (Inr (Some r), w)"
proof -
  obtain v where "of_store (st_get (vb_store b) (vm_collection (vb_config b)) i) w =
      (Inr (Some \<lparr>vp_id = i, vp_vector = v, vp_payload = p\<rparr>), w)" using get_present [OF assms(1,2)] by blast
  then show ?thesis
    using ensure_ready_again [OF assms(1)] assms(3) by (simp add: vector_get_node_def Let_def steps point_to_record_def)
qed

end

end
