(* ===== verification/Vector_Tenancy.thy ===== *)
theory Vector_Tenancy
  imports Vector_Laws Ranking_Properties
begin

text \<open>
  What a lookup may answer: the records of its hits pass through fusion, reranking, diversification and
  widening, and each of them was selected by the filter of the query and the state of the record.
\<close>

section \<open>Passing hits on\<close>

definition records_of_hits :: "search_hit list \<Rightarrow> memory_record set" where
  "records_of_hits hits = sh_record ` set hits"

lemma fused_records:
  "records_of_hits (reciprocal_rank_fusion channels opts) \<subseteq> (\<Union>ch \<in> set channels. records_of_hits ch)"
proof
  fix r assume "r \<in> records_of_hits (reciprocal_rank_fusion channels opts)"
  then obtain h where h: "h \<in> set (reciprocal_rank_fusion channels opts)" "r = sh_record h" by (auto simp: records_of_hits_def)
  then obtain hit score where "(hit, score) \<in> set (bt_values (fold (fuse_channel (rf_rank_constant opts)) channels bt_empty))"
    "r = sh_record hit"
    by (auto simp: reciprocal_rank_fusion_def by_score_def Let_def dest!: in_set_takeD)
  then obtain node where "(node, hit, score) \<in> set (fold (fuse_hit (rf_rank_constant opts)) (ranked channels) bt_empty)"
    by (auto simp: bt_values_def fold_channels)
  then have "hit \<in> set (concat channels)"
    using fused_key set_ranked [of channels] by (metis image_eqI snd_conv)
  then show "r \<in> (\<Union>ch \<in> set channels. records_of_hits ch)" using \<open>r = sh_record hit\<close> by (auto simp: records_of_hits_def)
qed

lemma diversified_subset: "set (mmr_diversify_when_large hits n lam k) \<subseteq> set hits"
proof -
  have "set (mmr_select f n [] [0..<length hits]) \<subseteq> {..<length hits}" for f
    using mmr_select_picks [of "[0..<length hits]" f n "[]"] by auto
  then have "(!) hits ` set (mmr_select f n [] [0..<length hits]) \<subseteq> set hits" for f
    by (auto simp: subset_iff)
  moreover have "set (take n hits) \<subseteq> set hits" by (rule set_take_subset)
  ultimately show ?thesis
    by (simp add: mmr_diversify_when_large_def mmr_diversify_def Let_def del: set_take_subset)
qed

lemma diversified_records: "records_of_hits (mmr_diversify_when_large hits n lam k) \<subseteq> records_of_hits hits"
  unfolding records_of_hits_def using diversified_subset by (rule image_mono)

lemma annotated_records: "records_of_hits (annotate_session_distances now hits corpus s) = records_of_hits hits"
  by (auto simp: annotate_session_distances_def records_of_hits_def Let_def image_image)

text \<open>What a query may be answered.\<close>

definition admits :: "memory_query \<Rightarrow> memory_record \<Rightarrow> bool" where
  "admits q r \<longleftrightarrow> (mq_include_archived q \<or> mr_state r = Active) \<and> matches_tags r (mq_tags q) \<and> matches_tenancy r q"

lemma admits_widened [simp]:
  "admits q (r\<lparr>mr_node_id := n, mr_content := c, mr_metadata := m\<rparr>) = admits q r"
  by (simp add: admits_def matches_tags_def matches_tenancy_def)

lemma admits_with_limit [simp]: "admits (with_limit n q) r = admits q r"
  by (simp add: admits_def with_limit_def matches_tags_def matches_tenancy_def effective_project_def)

definition all_admitted :: "memory_query \<Rightarrow> search_hit list \<Rightarrow> bool" where
  "all_admitted q hits \<longleftrightarrow> (\<forall>r \<in> records_of_hits hits. admits q r)"

lemma all_admitted_mono: "records_of_hits hits' \<subseteq> records_of_hits hits \<Longrightarrow> all_admitted q hits \<Longrightarrow> all_admitted q hits'"
  by (auto simp: all_admitted_def)

definition group_records :: "(string \<times> small_to_big_group) list \<Rightarrow> memory_record set" where
  "group_records groups = (\<lambda>(k, g). sg_record g) ` set groups"

lemma group_hit_records: "group_records (group_hit h groups) \<subseteq> insert (sh_record h) (group_records groups)"
proof (cases "map_of groups (case parent_of (sh_record h) of Some p \<Rightarrow> p | None \<Rightarrow> mr_node_id (sh_record h))")
  case None
  then show ?thesis by (auto simp: group_hit_def Let_def group_records_def)
next
  case (Some g)
  have "sg_record g \<in> group_records groups" using map_of_SomeD [OF Some] by (force simp: group_records_def)
  then show ?thesis using Some by (auto simp: group_hit_def Let_def group_records_def split: if_splits)
qed

lemma grouped_records: "group_records (fold group_hit hits groups) \<subseteq> records_of_hits hits \<union> group_records groups"
proof (induction hits arbitrary: groups)
  case (Cons h hits)
  have "group_records (fold group_hit (h # hits) groups) \<subseteq> records_of_hits hits \<union> group_records (group_hit h groups)"
    using Cons by simp
  also have "\<dots> \<subseteq> records_of_hits (h # hits) \<union> group_records groups"
    using group_hit_records [of h groups] by (auto simp: records_of_hits_def)
  finally show ?case .
qed simp

text \<open>Widening changes the node id, the content and the metadata of a record only.\<close>

lemma expand_groups_records:
  assumes "expand_groups b budget gs w = (Inr hits, w')" and "\<forall>g \<in> set gs. admits q (sg_record g)"
  shows "all_admitted q hits"
  using assms
proof (induction gs arbitrary: hits w)
  case Nil
  then show ?case by (simp add: all_admitted_def records_of_hits_def)
next
  case (Cons g gs)
  from Cons.prems(1) obtain hit w1 rest where
    first: "(case sg_parent g of
          None \<Rightarrow> answer (whole_hit g (sg_record g))
        | Some parent \<Rightarrow>
            (let cap = (case Option.bind (bt_get (mr_metadata (sg_record g)) ''chunk_count'') parse_usize of
                          Some n \<Rightarrow> n + 1 | None \<Rightarrow> 256)
             in and_then (fetch_siblings b parent cap) (\<lambda>siblings.
                  answer (if siblings = [] then whole_hit g (sg_record g)
                          else whole_hit g (expanded_record g parent
                            (build_parent_window siblings g budget (cg_overlap_chars default_chunk_config))))))) w
      = (Inr hit, w1)" and rest: "expand_groups b budget gs w1 = (Inr rest, w')" and hits: "hits = hit # rest"
    by (auto simp: and_then_Inr)
  have "admits q (sh_record hit)"
    using first Cons.prems(2)
    by (cases "sg_parent g") (auto simp: whole_hit_def expanded_record_def and_then_Inr Let_def split: if_splits)
  moreover have "all_admitted q rest" using Cons.IH [OF rest] Cons.prems(2) by simp
  ultimately show ?case by (auto simp: hits all_admitted_def records_of_hits_def)
qed

lemma expand_small_to_big_records:
  assumes "expand_small_to_big b hits limit budget w = (Inr out, w')" and "all_admitted q hits"
  shows "all_admitted q out"
proof (cases "list_ex (\<lambda>h. parent_of (sh_record h) \<noteq> None) hits")
  case True
  then obtain all where all: "expand_groups b budget (map snd (fold group_hit hits [])) w = (Inr all, w')" "out = take limit all"
    using assms(1) by (auto simp: expand_small_to_big_def and_then_Inr)
  have "\<forall>g \<in> set (map snd (fold group_hit hits [])). admits q (sg_record g)"
    using grouped_records [of hits "[]"] assms(2) by (force simp: all_admitted_def group_records_def)
  from expand_groups_records [OF all(1) this] show ?thesis
    using all(2) by (auto simp: all_admitted_def records_of_hits_def dest: in_set_takeD)
next
  case False
  then show ?thesis using assms by (simp add: expand_small_to_big_def)
qed

lemma to_memory_hits_sound:
  assumes "to_memory_hits c src archived hits = Inr out" and "h \<in> set out"
  shows "\<exists>v \<in> set hits. record_of_payload c (vp_payload (vh_point v)) = Some (sh_record h) \<and> (archived \<or> mr_state (sh_record h) = Active)"
  using assms
  by (induction hits arbitrary: out) (auto simp: point_to_record_def split: sum.splits option.splits if_splits)

section \<open>Lookups under the laws\<close>

text \<open>The points of an engine: its records, and the compatibility record.\<close>

definition own_points :: "payload_codec \<Rightarrow> contents \<Rightarrow> bool" where
  "own_points c ps \<longleftrightarrow> (\<forall>(i, p) \<in> set ps.
     (\<exists>cc. p = compat_payload cc) \<or> (\<exists>r. bt_ok (mr_metadata r) \<and> p = payload_of c r))"

lemma compat_never_matches: "\<not> payload_matches_filter (compat_payload cc) (filter_from_query q)"
proof -
  have "vf_must_not (filter_from_query q) = [Eq_cond ''node_id'' (FString COMPAT_POINT_ID)]"
  proof -
    have opt: "vf_must_not (case x of Some s \<Rightarrow> must_eq f s flt | None \<Rightarrow> flt) = vf_must_not flt" for x f flt
      by (cases x; simp add: must_eq_def)
    have one: "vf_must_not (must_eq f x flt) = vf_must_not flt" for f x flt by (simp add: must_eq_def)
    have start: "vf_must_not (case x of Some n \<Rightarrow> node_id_filter n | None \<Rightarrow> empty_filter) = []" for x
      by (cases x; simp add: node_id_filter_def must_eq_def empty_filter_def)
    show ?thesis unfolding filter_from_query_def Let_def fold_must_eq_tags
      by (cases "mq_scope q") (simp_all add: add_project_union_def Let_def opt one start)
  qed
  then show ?thesis
    by (simp add: payload_matches_filter_def payload_fields compat_payload_def value_get_def)
qed

text \<open>A reranker orders the hits it is given and leaves some out.\<close>

definition reranks :: "'s vector_backend \<Rightarrow> bool" where
  "reranks b \<longleftrightarrow> (\<forall>f txt hits n out. vb_reranker b = Some f \<longrightarrow> f txt hits n = Inr out \<longrightarrow> records_of_hits out \<subseteq> records_of_hits hits)"

context vector_laws begin

lemma channel_admitted:
  assumes ok: "engine_ready b w" and codec: "payload_codec_ok (vb_codec b)" and own: "own_points (vb_codec b) (stored_points b w)"
    and trimmed: "trim (effective_project q) = effective_project q"
    and found: "search_points b s w = (Inr hits, w')" and s: "vs_filter s = filter_from_query q'"
    and q': "filter_from_query q' = filter_from_query q"
    and out: "to_memory_hits (vb_codec b) src (mq_include_archived q) hits = Inr out"
  shows "all_admitted q out \<and> w' = w"
proof -
  have run: "st_search vs (vc_name (collection_of (vb_config b))) s (eg_store w) = Inr hits" "w' = w"
    using found ok by (auto simp: search_points_def engine_ready_def)
  have "admits q (sh_record h)" if h: "h \<in> set out" for h
  proof -
    obtain v where v: "v \<in> set hits" "record_of_payload (vb_codec b) (vp_payload (vh_point v)) = Some (sh_record h)"
      "mq_include_archived q \<or> mr_state (sh_record h) = Active" using to_memory_hits_sound [OF out h] by blast
    have p: "(vp_id (vh_point v), vp_payload (vh_point v)) \<in> set (stored_points b w)"
      "payload_matches_filter (vp_payload (vh_point v)) (filter_from_query q)"
      using search_sound [OF ready_store [OF ok] run(1) v(1)] s q' by (simp_all add: stored_points_def)
    then obtain r where r: "bt_ok (mr_metadata r)" "vp_payload (vh_point v) = payload_of (vb_codec b) r"
      using own compat_never_matches by (fastforce simp: own_points_def)
    then have "r = sh_record h" using payload_inverse [OF codec r(1)] v(2) by simp
    then show ?thesis using filter_selects [OF trimmed, of "vb_codec b" r] p(2) v(3) r(2) by (simp add: admits_def)
  qed
  then show ?thesis using run(2) by (auto simp: all_admitted_def records_of_hits_def)
qed

lemma filter_with_limit [simp]: "filter_from_query (with_limit n q) = filter_from_query q"
  by (simp add: filter_from_query_def with_limit_def effective_project_def)

lemma hybrid_admitted:
  assumes ok: "engine_ready b w" and codec: "payload_codec_ok (vb_codec b)" and own: "own_points (vb_codec b) (stored_points b w)"
    and trimmed: "trim (effective_project q) = effective_project q"
    and run: "vector_hybrid_rrf b (with_limit n q) (with_limit n q) opts w = (Inr hits, w')"
  shows "all_admitted q hits \<and> w' = w"
proof -
  have archived: "mq_include_archived (with_limit n q) = mq_include_archived q" by (simp add: with_limit_def)
  note ready = ensure_ready_again [OF ok]
  note channel = channel_admitted [OF ok codec own trimmed _ _ filter_with_limit]
  have keyword: "all_admitted q out \<and> w1 = w" if "keyword_hits b (with_limit n q) w = (Inr out, w1)" for out w1
    using that channel by (fastforce simp: keyword_hits_def and_then_Inr ready archived)
  have vector: "all_admitted q out \<and> w1 = w" if "vector_hits b (with_limit n q) w = (Inr out, w1)" for out w1
    using that channel by (fastforce simp: vector_hits_def and_then_Inr ready archived)
  show ?thesis
  proof (cases "st_server_side_hybrid (vb_store b)")
    case True
    then show ?thesis using run channel by (fastforce simp: vector_hybrid_rrf_def and_then_Inr ready archived)
  next
    case False
    then obtain k v w1 w2 where kv: "keyword_hits b (with_limit n q) w = (Inr k, w1)" "vector_hits b (with_limit n q) w1 = (Inr v, w2)"
      "hits = reciprocal_rank_fusion [k, v] opts" "w' = w2"
      using run by (auto simp: vector_hybrid_rrf_def and_then_Inr ready)
    have "all_admitted q k" "w1 = w" using keyword [OF kv(1)] by auto
    moreover have "all_admitted q v" "w2 = w" using vector kv(2) \<open>w1 = w\<close> by auto
    ultimately show ?thesis using kv(3,4) fused_records [of "[k, v]" opts] by (auto simp: all_admitted_def)
  qed
qed

lemma find_admitted:
  assumes ok: "engine_ready b w" and codec: "payload_codec_ok (vb_codec b)" and own: "own_points (vb_codec b) (stored_points b w)"
    and trimmed: "trim (effective_project q) = effective_project q"
    and plain: "\<not> signals_active (vb_config b)" and reranks: "reranks b"
    and run: "vector_find b now q w = (Inr hits, w')"
  shows "all_admitted q hits"
proof -
  from run obtain raw w1 where raw: "raw_hits b now q w = (Inr raw, w1)"
    and rest: "and_then (widened_hits b q raw) (\<lambda>hits w.
       (let hits = annotate_session_distances now hits (map sh_record hits) (mq_session_id q)
        in (Inr hits, track_access b now hits w))) w1 = (Inr hits, w')"
    unfolding vector_find_def by (rule and_then_cases)
  from rest obtain out w2 where out: "widened_hits b q raw w1 = (Inr out, w2)"
    and hits: "hits = annotate_session_distances now out (map sh_record out) (mq_session_id q)"
    by (auto simp: Let_def elim!: and_then_cases)
  from raw obtain fused w3 where fused: "candidate_hits b now q w = (Inr fused, w3)"
    and more: "and_then (asking (reranked_hits b q fused)) (\<lambda>hits. answer (diversified_hits b q hits)) w3 = (Inr raw, w1)"
    unfolding raw_hits_def by (rule and_then_cases)
  from more obtain reranked where reranked: "reranked_hits b q fused = Inr reranked" "raw = diversified_hits b q reranked"
    by (auto simp: and_then_Inr)
  have "all_admitted q fused"
    using fused plain hybrid_admitted [OF ok codec own trimmed] unfolding candidate_hits_def Let_def by auto
  moreover have "records_of_hits reranked \<subseteq> records_of_hits fused"
    using reranked(1) reranks by (auto simp: reranked_hits_def reranks_def split: option.splits if_splits)
  moreover have "records_of_hits raw \<subseteq> records_of_hits reranked"
    using reranked(2) diversified_records by (simp add: diversified_hits_def Let_def)
  ultimately have raw_ok: "all_admitted q raw" by (meson all_admitted_mono)
  obtain budget w4 where "(case budget of Some n \<Rightarrow> expand_small_to_big b raw (mq_limit q) n | None \<Rightarrow> answer raw) w4 = (Inr out, w2)"
    using out by (auto simp: widened_hits_def Let_def split: prod.splits)
  then have "all_admitted q out" using raw_ok expand_small_to_big_records by (cases budget) auto
  then show ?thesis by (simp add: hits all_admitted_def annotated_records)
qed

end

end
