(* ===== verification/Sqlite_Laws.thy ===== *)
theory Sqlite_Laws
  imports Sqlite_Store Vector_Tenancy
begin

text \<open>
  The SQLite store keeps the laws of a vector store: its invariant, what its operations do to the
  contents of a collection, and the interpretation of the interface on it.
\<close>

definition sqlite_contents :: "string \<Rightarrow> sqlite_db \<Rightarrow> contents" where
  "sqlite_contents collection db =
     (case tables_of db collection of Inr t \<Rightarrow> map (\<lambda>row. (fst row, snd (snd row))) (tb_records t) | Inl _ \<Rightarrow> [])"

text \<open>A collection that was created as it is configured now, by the name it is known by.\<close>

definition sqlite_ready :: "vector_collection \<Rightarrow> sqlite_db \<Rightarrow> bool" where
  "sqlite_ready col db \<longleftrightarrow>
     db_meta db (vc_name col) = Some (vc_quantization col) \<and> vc_dimensions col > 0 \<and>
     (\<exists>t. tables_of db (vc_name col) = Inr t \<and> vt_dimensions (tb_vectors t) = vc_dimensions col
       \<and> vt_quantization (tb_vectors t) = vc_quantization col)"

lemma tables_ofE:
  assumes "tables_of db c = Inr t"
  obtains name where "sanitize_collection c = Inr name" "db_tables db name = Some t"
  using assms by (auto simp: tables_of_def split: sum.splits option.splits)

lemma map_of_contents: "map_of (map (\<lambda>row. (fst row, snd (snd row))) rows) i = map_option snd (map_of rows i)"
  by (induction rows) auto

lemma update_contents:
  "map (\<lambda>row. (fst row, snd (snd row))) (AList.update i (n, p) rows) = AList.update i p (map (\<lambda>row. (fst row, snd (snd row))) rows)"
  by (induction rows) auto

lemma joined_rows: "((i, row), x) \<in> set (joined t scored) \<Longrightarrow> (i, row) \<in> set (tb_records t)"
  by (auto simp: joined_def List.map_filter_def dest: map_of_SomeD)

definition sound_hit :: "collection_tables \<Rightarrow> vector_filter \<Rightarrow> vector_hit \<Rightarrow> bool" where
  "sound_hit t f h \<longleftrightarrow>
     (vp_id (vh_point h), vp_payload (vh_point h)) \<in> (\<lambda>row. (fst row, snd (snd row))) ` set (tb_records t)
     \<and> payload_matches_filter (vp_payload (vh_point h)) f"

lemma matching_hits_sound:
  assumes "h \<in> set (matching_hits f score (joined t scored))"
  shows "sound_hit t f h"
proof -
  obtain i row x where row: "((i, row), x) \<in> set (joined t scored)" "payload_matches_filter (snd row) f"
    "h = \<lparr>vh_point = row_to_point (i, row), vh_score = score x\<rparr>"
    using assms by (auto simp: matching_hits_def)
  then show ?thesis using joined_rows [OF row(1)] by (force simp: sound_hit_def row_to_point_def)
qed

lemma scan_sound:
  assumes "h \<in> set (scan e t f limit)"
  shows "sound_hit t f h"
  using assms by (force simp: sound_hit_def scan_def Let_def row_to_point_def dest: in_set_takeD)

lemma sqlite_search_sound:
  assumes "tables_of db c = Inr t" and "sqlite_search e c s db = Inr hits" and "h \<in> set hits"
  shows "(vp_id (vh_point h), vp_payload (vh_point h)) \<in> set (sqlite_contents c db)
    \<and> payload_matches_filter (vp_payload (vh_point h)) (vs_filter s)"
proof -
  have "sound_hit t (vs_filter s) h"
    using assms by (auto simp: sqlite_search_def keyword_search_def vector_search_rows_def
        intro: scan_sound matching_hits_sound split: sum.splits search_source.splits option.splits if_splits)
  then show ?thesis using assms(1) by (simp add: sqlite_contents_def sound_hit_def)
qed

lemma sqlite_upsert_one:
  assumes "sqlite_ready col db" and "length (vp_vector p) = vc_dimensions col"
  shows "\<exists>db'. sqlite_upsert (vc_name col) [p] db = (Inr (), db') \<and> sqlite_ready col db'
    \<and> sqlite_contents (vc_name col) db' = AList.update (vp_id p) (vp_payload p) (sqlite_contents (vc_name col) db)"
proof -
  obtain t where t: "tables_of db (vc_name col) = Inr t" "vt_dimensions (tb_vectors t) = vc_dimensions col"
    "vt_quantization (tb_vectors t) = vc_quantization col" "db_meta db (vc_name col) = Some (vc_quantization col)" "vc_dimensions col > 0"
    using assms(1) by (auto simp: sqlite_ready_def)
  obtain name where name: "sanitize_collection (vc_name col) = Inr name" "db_tables db name = Some t" using t(1) by (rule tables_ofE)
  have "fits (tb_vectors t) (vc_quantization col) (vp_vector p)" using t assms(2) by (auto simp: fits_def)
  then obtain t' where t': "upsert_point (vc_quantization col) p t = Some t'"
    "tb_records t' = AList.update (vp_id p) (payload_text ''node_id'' (vp_payload p), vp_payload p) (tb_records t)"
    "vt_dimensions (tb_vectors t') = vt_dimensions (tb_vectors t)" "vt_quantization (tb_vectors t') = vt_quantization (tb_vectors t)"
    by (simp add: upsert_point_def)
  let ?db = "db\<lparr>db_tables := (db_tables db)(name \<mapsto> t')\<rparr>"
  have tables: "tables_of ?db (vc_name col) = Inr t'" using name by (simp add: tables_of_def)
  have "sqlite_upsert (vc_name col) [p] db = (Inr (), ?db)"
    using name t(4) t'(1) by (simp add: sqlite_upsert_def collection_quantization_def)
  moreover have "sqlite_ready col ?db" using t t' tables by (simp add: sqlite_ready_def)
  moreover have "sqlite_contents (vc_name col) ?db = AList.update (vp_id p) (vp_payload p) (sqlite_contents (vc_name col) db)"
    using tables t(1) t'(2) by (simp add: sqlite_contents_def update_contents)
  ultimately show ?thesis by blast
qed

interpretation sqlite: vector_laws "sqlite_store e" sqlite_ready sqlite_contents for e
proof
  fix col db i q hits h p field
  show "st_ensure_collection (sqlite_store e) col db = (Inr (), db)" if ok: "sqlite_ready col db"
  proof -
    obtain t where "tables_of db (vc_name col) = Inr t" using ok by (auto simp: sqlite_ready_def)
    then obtain name where "sanitize_collection (vc_name col) = Inr name" "db_tables db name = Some t" by (rule tables_ofE)
    then show ?thesis using ok
      by (auto simp: sqlite_store_def sqlite_ensure_collection_def sqlite_ready_def fun_upd_idem intro!: sqlite_db.equality)
  qed
  show "st_ensure_payload_index (sqlite_store e) (vc_name col) field db = (Inr (), db)" if "sqlite_ready col db"
    using that by (auto simp: sqlite_store_def sqlite_ensure_payload_index_def sqlite_ready_def elim!: tables_ofE)
  show "\<exists>v. st_get (sqlite_store e) (vc_name col) i db =
      Inr (map_option (\<lambda>p. \<lparr>vp_id = i, vp_vector = v, vp_payload = p\<rparr>) (map_of (sqlite_contents (vc_name col) db) i))"
    if "sqlite_ready col db"
    using that by (intro exI [of _ "[]"])
      (auto simp: sqlite_store_def sqlite_get_def sqlite_ready_def sqlite_contents_def map_of_contents row_to_point_def
        option.map_comp comp_def)
  show "\<exists>s'. st_upsert (sqlite_store e) (vc_name col) [p] db = (Inr (), s') \<and> sqlite_ready col s'
      \<and> sqlite_contents (vc_name col) s' = AList.update (vp_id p) (vp_payload p) (sqlite_contents (vc_name col) db)"
    if "sqlite_ready col db" "length (vp_vector p) = vc_dimensions col"
    using sqlite_upsert_one [OF that] by (simp add: sqlite_store_def)
  show "(vp_id (vh_point h), vp_payload (vh_point h)) \<in> set (sqlite_contents (vc_name col) db)
      \<and> payload_matches_filter (vp_payload (vh_point h)) (vs_filter q)"
    if "sqlite_ready col db" "st_search (sqlite_store e) (vc_name col) q db = Inr hits" "h \<in> set hits"
    using that sqlite_search_sound by (auto simp: sqlite_store_def sqlite_ready_def)
qed

end
