(* ===== verification/Vector_Properties.thy ===== *)
theory Vector_Properties
  imports Sqlite_Laws "HOL-Library.Countable"
begin

text \<open>
  The properties of the memory engine over the SQLite store: what a store adds and a drill-down finds,
  what a lookup may answer, the bounds of windows and of quantized vectors, and where chunks, tenants
  and access counts fall short of what is documented.
\<close>

section \<open>Engines that are set up\<close>

definition sqlite_engine_ok :: "sqlite_engine \<Rightarrow> sqlite_db vector_backend \<Rightarrow> sqlite_db engine \<Rightarrow> bool" where
  "sqlite_engine_ok e b w \<longleftrightarrow>
     vb_store b = sqlite_store e \<and> sqlite_ready (collection_of (vb_config b)) (eg_store w)
     \<and> (\<exists>p cc. map_of (sqlite_contents (vm_collection (vb_config b)) (eg_store w)) COMPAT_POINT_ID = Some p
          \<and> compat_of_payload p = Some cc \<and> validate_compatible cc (compat_from_config b) = Inr ())"

definition points_in :: "sqlite_db vector_backend \<Rightarrow> sqlite_db engine \<Rightarrow> contents" where
  "points_in b w = sqlite_contents (vm_collection (vb_config b)) (eg_store w)"

lemma sqlite_engine_ready: "sqlite.engine_ready e b w = sqlite_engine_ok e b w"
  by (simp add: sqlite.engine_ready_def sqlite_engine_ok_def)

lemma sqlite_stored_points: "sqlite.stored_points b w = points_in b w"
  by (simp add: sqlite.stored_points_def points_in_def)

lemmas sqlite_engine_facts =
  sqlite.store_adds_absent [unfolded sqlite_engine_ready sqlite_stored_points]
  sqlite.get_node_by_id [unfolded sqlite_engine_ready sqlite_stored_points]
  sqlite.find_admitted [unfolded sqlite_engine_ready sqlite_stored_points]


text \<open>C10: With the additional signals off, a lookup answers records of the query's tenancy and project only, with
  all its tags, and only active ones unless archived ones are asked for.\<close>

theorem lookups_respect_tenancy:
  assumes "sqlite_engine_ok e b w" and "payload_codec_ok (vb_codec b)" and "own_points (vb_codec b) (points_in b w)"
    and "trim (effective_project q) = effective_project q" and "\<not> signals_active (vb_config b)" and "reranks b"
    and "vector_find b now q w = (Inr hits, w')" and "h \<in> set hits"
  shows "(mq_include_archived q \<or> mr_state (sh_record h) = Active) \<and> matches_tags (sh_record h) (mq_tags q)
    \<and> matches_tenancy (sh_record h) q"
  using sqlite_engine_facts(3) [OF assms(1-7)] assms(8) by (auto simp: all_admitted_def records_of_hits_def admits_def)

section \<open>Access counts\<close>

lemma access_points_empty:
  "vb_store b = sqlite_store e \<Longrightarrow> \<forall>p \<in> set (access_points b now hits w). vp_vector p = []"
  by (induction hits) (auto simp: sqlite_store_def sqlite_get_def point_of_def row_to_point_def Let_def
      split: sum.splits option.splits)

lemma upsert_empty_vector: "ps \<noteq> [] \<Longrightarrow> \<forall>p \<in> set ps. vp_vector p = [] \<Longrightarrow> snd (sqlite_upsert c ps db) = db"
  by (cases ps) (auto simp: sqlite_upsert_def upsert_point_def fits_def split: sum.splits option.splits bind_splits)

lemma no_access_is_counted:
  assumes "vb_store b = sqlite_store e"
  shows "track_access b now hits w = w"
proof -
  let ?ps = "access_points b now hits w"
  have "snd (in_store (st_upsert_no_wait (vb_store b) c ?ps) w) = w" if "?ps \<noteq> []" for c
    using upsert_empty_vector [OF that access_points_empty [OF assms], of c "eg_store w"]
    by (auto simp: in_store_def assms sqlite_store_def split: prod.split)
  then show ?thesis by (simp add: track_access_def Let_def)
qed

text \<open>C40: The SQLite store answers points without their vectors, and a lookup writes them back without: the write is
  refused as a whole, its error is dropped, and no access is ever counted.\<close>

theorem sqlite_lookups_count_nothing:
  assumes "vb_store b = sqlite_store e"
  shows "track_access b now hits w = w"
  by (rule no_access_is_counted [OF assms])

section \<open>A concrete engine\<close>

text \<open>An engine whose rankings are empty.\<close>

definition quiet :: sqlite_engine where
  "quiet = \<lparr>sq_match = (\<lambda>_ _ _. []), sq_knn = (\<lambda>_ _ _. []), sq_json_text = (\<lambda>_. ''[]'')\<rparr>"

definition demo_payload_codec :: payload_codec where
  "demo_payload_codec =
     \<lparr>pc_hash = (\<lambda>s. s), pc_rfc3339 = (\<lambda>t. ''2026-01-01T00:00:00Z''), pc_time = (\<lambda>t. show_nat (to_nat t)),
      pc_read_time = (\<lambda>s. Some (from_nat (dec_val 0 s)))\<rparr>"

lemma demo_payload_codec_ok: "payload_codec_ok demo_payload_codec"
  by (simp add: payload_codec_ok_def demo_payload_codec_def)

definition demo_backend :: "sqlite_engine \<Rightarrow> sqlite_db vector_backend" where
  "demo_backend e =
     \<lparr>vb_store = sqlite_store e, vb_config = (new_vector_config ''m'')\<lparr>vm_dimensions := 1\<rparr>,
      vb_embed_query = (\<lambda>_. Inr [1]), vb_embed_passage = (\<lambda>_. Inr [1]), vb_reranker = None,
      vb_codec = demo_payload_codec, vb_version = ''1''\<rparr>"

definition demo_compat :: collection_compat where
  "demo_compat = \<lparr>cc_artesian_version = ''1'', cc_headwater_version = ''1'',
     cc_embedding_model = ''intfloat/multilingual-e5-small'', cc_dimensions = 1, cc_distance = Cosine\<rparr>"

definition demo_tables :: "(string \<times> string \<times> payload_value) list \<Rightarrow> collection_tables" where
  "demo_tables rows =
     \<lparr>tb_records = (COMPAT_POINT_ID, COMPAT_POINT_ID, compat_payload demo_compat) # rows, tb_fts = [],
      tb_vectors = \<lparr>vt_dimensions = 1, vt_quantization = Float32, vt_metric = ''cosine'', vt_rows = []\<rparr>\<rparr>"

definition demo_engine :: "(string \<times> string \<times> payload_value) list \<Rightarrow> sqlite_db engine" where
  "demo_engine rows =
     new_engine \<lparr>db_tables = [''artesian_m'' \<mapsto> demo_tables rows], db_meta = [''m'' \<mapsto> Float32]\<rparr>"

lemma demo_collection: "sanitize_collection ''m'' = Inr ''artesian_m''"
  by code_simp

lemma demo_backend_simps [simp]: "vm_collection (vb_config (demo_backend e)) = ''m''"
  "vb_codec (demo_backend e) = demo_payload_codec" "vb_store (demo_backend e) = sqlite_store e"
  by (simp_all add: demo_backend_def new_vector_config_def)

lemma demo_tables_of: "tables_of (eg_store (demo_engine rows)) ''m'' = Inr (demo_tables rows)"
  by (simp add: tables_of_def demo_collection demo_engine_def new_engine_def)

lemma demo_points: "points_in (demo_backend e) (demo_engine rows) =
    (COMPAT_POINT_ID, compat_payload demo_compat) # map (\<lambda>row. (fst row, snd (snd row))) rows"
  by (simp add: points_in_def sqlite_contents_def demo_tables_of demo_tables_def)

lemma demo_sqlite_engine: "sqlite_engine_ok e (demo_backend e) (demo_engine rows)"
proof -
  have "compat_of_payload (compat_payload demo_compat) = Some demo_compat"
    by (simp add: compat_of_payload_def compat_payload_def demo_compat_def value_get_def Let_def default_string_def
        the_string_def as_str_def opt_string_def read_usize_def read_metric_def)
  moreover have "validate_compatible demo_compat (compat_from_config (demo_backend e)) = Inr ()"
    by (simp add: validate_compatible_def compat_from_config_def demo_compat_def demo_backend_def new_vector_config_def)
  moreover have "sqlite_ready (collection_of (vb_config (demo_backend e))) (eg_store (demo_engine rows))"
    by (simp add: sqlite_ready_def collection_of_def demo_backend_def new_vector_config_def demo_tables_of demo_tables_def)
      (simp add: demo_engine_def new_engine_def)
  ultimately show ?thesis
    using demo_points [of e rows] by (simp add: sqlite_engine_ok_def points_in_def)
qed






text \<open>One record, and the query without words that lists it.\<close>

definition demo_row :: "memory_record \<Rightarrow> string \<times> string \<times> payload_value" where
  "demo_row r = (mr_id r, mr_node_id r, payload_of demo_payload_codec r)"

lemma shared_is_trimmed: "trim (effective_project (new_query txt)) = effective_project (new_query txt)"
  unfolding effective_project_def new_query_def SHARED_PROJECT_def by (simp, code_simp)

lemma demo_selected:
  assumes "mr_node_id r \<noteq> COMPAT_POINT_ID" and "mr_project r = None"
  shows "payload_matches_filter (payload_of c r) (filter_from_query (new_query txt))"
  unfolding filter_selects [OF shared_is_trimmed] using assms
  by (simp add: new_query_def matches_tags_def matches_tenancy_def matches_project_union_def Let_def)

definition demo_memory :: memory_record where
  "demo_memory = new_record 0 ''a'' ''a'' ''use tabs'' [] bt_empty L1Atom"

lemma demo_decodes: "point_to_record demo_payload_codec (row_to_point (demo_row demo_memory)) = Inr demo_memory"
  by (simp add: point_to_record_def row_to_point_def demo_row_def payload_inverse demo_payload_codec_ok
      demo_memory_def new_record_def bt_oks)

theorem payload_round_trip_witness:
  "point_to_record demo_payload_codec (row_to_point (demo_row demo_memory)) = Inr demo_memory"
  by (rule payload_round_trip [OF demo_payload_codec_ok])
    (simp_all add: row_to_point_def demo_row_def demo_memory_def new_record_def bt_oks)

lemma demo_scan:
  "scan e (demo_tables [demo_row demo_memory]) (filter_from_query (new_query [])) (Suc n) =
     [\<lparr>vh_point = row_to_point (demo_row demo_memory), vh_score = 1\<rparr>]"
proof -
  have clauses: "pushed_clauses (filter_from_query (new_query [])) = []"
    by (simp add: pushed_clauses_def must_string_eq_def filter_from_query_def new_query_def Let_def empty_filter_def
        add_project_union_def List.map_filter_def)
  have "payload_matches_filter (snd (snd (demo_row demo_memory))) (filter_from_query (new_query []))"
    unfolding demo_row_def snd_conv by (rule demo_selected) (simp_all add: demo_memory_def new_record_def COMPAT_POINT_ID_def)
  then show ?thesis
    by (simp add: scan_def clauses demo_tables_def compat_never_matches Let_def max_def)
qed

lemma demo_lookup:
  "vector_find (demo_backend quiet) 0 (new_query []) (demo_engine [demo_row demo_memory]) =
     (Inr [\<lparr>sh_record = demo_memory, sh_score = 1/61, sh_source = Hybrid, sh_session_distance = None\<rparr>], demo_engine [demo_row demo_memory])"
proof -
  let ?b = "demo_backend quiet" and ?w = "demo_engine [demo_row demo_memory]" and ?q = "with_limit 10 (new_query [])"
  have w: "sqlite_engine_ok quiet ?b ?w" by (rule demo_sqlite_engine)
  note ready = sqlite.ensure_ready_again [unfolded sqlite_engine_ready, OF w]
  have q: "?q = new_query []" by (simp add: with_limit_def new_query_def)
  have blank: "trim [] = []" by code_simp
  have tables: "tables_of (eg_store ?w) ''m'' = Inr (demo_tables [demo_row demo_memory])" by (rule demo_tables_of)
  have "search_points ?b \<lparr>vs_vector = None, vs_text = Some [], vs_filter = filter_from_query (new_query []), vs_limit = 10, vs_source = Keyword\<rparr> ?w
      = (Inr [\<lparr>vh_point = row_to_point (demo_row demo_memory), vh_score = 1\<rparr>], ?w)"
    using demo_scan [of quiet 9] tables
    by (simp add: search_points_def of_store_def sqlite_store_def sqlite_search_def demo_collection keyword_search_def blank)
  then have keyword: "keyword_hits ?b (new_query []) ?w =
      (Inr [\<lparr>sh_record = demo_memory, sh_score = 1, sh_source = Keyword, sh_session_distance = None\<rparr>], ?w)"
    using demo_decodes by (simp add: keyword_hits_def steps ready) (simp add: new_query_def steps demo_memory_def new_record_def asking_def)
  have vector: "vector_hits ?b (new_query []) ?w = (Inr [], ?w)"
    by (simp add: vector_hits_def steps ready search_points_def of_store_def)
      (simp add: demo_backend_def new_vector_config_def and_then_def of_store_def asking_def sqlite_store_def sqlite_search_def
        demo_collection tables vector_search_rows_def collection_quantization_def fits_def demo_tables_def joined_def quiet_def
        matching_hits_def List.map_filter_def demo_engine_def new_engine_def tables_of_def)
  have fused: "reciprocal_rank_fusion [[\<lparr>sh_record = demo_memory, sh_score = 1, sh_source = Keyword, sh_session_distance = None\<rparr>], []]
      (default_rrf\<lparr>rf_limit := 10\<rparr>) = [\<lparr>sh_record = demo_memory, sh_score = 1/61, sh_source = Hybrid, sh_session_distance = None\<rparr>]"
    by (simp add: reciprocal_rank_fusion_def fuse_channel_def fuse_hit_def default_rrf_def bt_empty_def bt_get_def bt_values_def by_score_def)
  have limits: "pool_limit ?b 10 = 10" "\<not> signals_active (vb_config ?b)" "mq_limit (new_query []) = 10" "mq_session_id (new_query []) = None"
    by (simp_all add: pool_limit_def rerank_active_def signals_active_def demo_backend_def new_vector_config_def new_query_def)
  have raw: "raw_hits ?b 0 (new_query []) ?w = (Inr [\<lparr>sh_record = demo_memory, sh_score = 1/61, sh_source = Hybrid, sh_session_distance = None\<rparr>], ?w)"
    using fused by (simp add: raw_hits_def candidate_hits_def limits q vector_hybrid_rrf_def steps ready keyword vector Let_def
        reranked_hits_def diversified_hits_def) (simp add: demo_backend_def new_vector_config_def sqlite_store_def steps answer_def)
  let ?h = "\<lparr>sh_record = demo_memory, sh_score = 1/61, sh_source = Hybrid, sh_session_distance = None\<rparr>"
  have "parent_of demo_memory = None" by (simp add: parent_of_def demo_memory_def new_record_def bt_get_def bt_empty_def)
  then have widened: "widened_hits ?b (new_query []) [?h] ?w = (Inr [?h], ?w)"
    by (simp add: widened_hits_def effective_parent_budget_def Let_def demo_backend_def new_vector_config_def
        demo_engine_def new_engine_def median_def no_samples_def expand_small_to_big_def answer_def)
  have "annotate_session_distances 0 [?h] [demo_memory] None = [?h]"
    by (simp add: annotate_session_distances_def session_times_def seen_session_def demo_memory_def new_record_def bt_empty_def)
  then show ?thesis
    unfolding vector_find_def using raw widened no_access_is_counted [of ?b quiet 0 "[?h]" ?w]
    by (simp add: steps limits)
qed

theorem sqlite_lookups_witness:
  "access_points (demo_backend quiet) 0 [keyword_hit demo_memory 1] (demo_engine [demo_row demo_memory]) \<noteq> []
    \<and> track_access (demo_backend quiet) 0 [keyword_hit demo_memory 1] (demo_engine [demo_row demo_memory])
        = demo_engine [demo_row demo_memory]"
proof -
  have "sqlite_get ''m'' ''a'' (eg_store (demo_engine [demo_row demo_memory])) = Inr (Some (row_to_point (demo_row demo_memory)))"
    unfolding sqlite_get_def demo_tables_of
    by (simp add: demo_tables_def demo_row_def demo_memory_def new_record_def COMPAT_POINT_ID_def)
  then have "access_points (demo_backend quiet) 0 [keyword_hit demo_memory 1] (demo_engine [demo_row demo_memory]) \<noteq> []"
    by (simp add: sqlite_store_def keyword_hit_def accessed_def demo_memory_def new_record_def Let_def)
  then show ?thesis using sqlite_lookups_count_nothing [of "demo_backend quiet" quiet] by simp
qed

text \<open>The hypotheses of the tenancy of lookups hold there, and there is a hit.\<close>

theorem lookups_respect_tenancy_witness:
  "\<exists>h w'. vector_find (demo_backend quiet) 0 (new_query []) (demo_engine [demo_row demo_memory]) = (Inr [h], w')
    \<and> mr_state (sh_record h) = Active \<and> matches_tenancy (sh_record h) (new_query [])"
proof -
  have meta: "mr_metadata demo_memory = bt_empty" by (simp add: demo_memory_def new_record_def)
  have own: "own_points demo_payload_codec (points_in (demo_backend quiet) (demo_engine [demo_row demo_memory]))"
    unfolding own_points_def demo_points demo_row_def using meta bt_oks(1) by (auto intro!: exI [of _ demo_memory])
  have "\<not> signals_active (vb_config (demo_backend quiet))" "reranks (demo_backend quiet)"
    by (simp_all add: signals_active_def reranks_def demo_backend_def new_vector_config_def)
  then show ?thesis
    using lookups_respect_tenancy [OF demo_sqlite_engine _ _ shared_is_trimmed _ _ demo_lookup] own demo_payload_codec_ok demo_lookup
    by (auto simp: new_query_def)
qed

end
