(* ===== verification/Vector_Windows.thy ===== *)
theory Vector_Windows
  imports Vector_Properties
begin

text \<open>
  Chunks and their documents: windows around a match, reconstruction, relations and tenants of chunks;
  and the vectors of a collection: the error of quantization, and what a changed configuration does.
\<close>

section \<open>Windows\<close>

definition merged :: "nat \<Rightarrow> memory_record list \<Rightarrow> string" where
  "merged ov siblings = fold (\<lambda>s. append_with_overlap ov (mr_content s)) siblings []"

lemma take_chars_all: "char_count s \<le> n \<Longrightarrow> take_chars n s = s"
  by (induction n s rule: take_chars.induct) (auto simp: char_count_Cons split: nat.splits if_splits)

lemma overlap_is_removed: "append_with_overlap 200 ''cd ef'' ''ab cd'' = ''ab cd ef''" "append_with_overlap 1 ''cd ef'' ''ab cd'' = ''ab cdcd ef''"
  by code_simp+

lemma window_is_merged:
  "build_parent_window siblings g budget ov =
     (let (lo, hi) = grow (\<lambda>i. char_count (mr_content (siblings ! i)) - ov) (length siblings) budget
            (window_anchor siblings g, window_anchor siblings g, char_count (mr_content (siblings ! window_anchor siblings g)))
      in take_chars budget (merged ov (drop lo (take (hi + 1) siblings))))"
  by (auto simp: build_parent_window_def merged_def take_chars_all Let_def split: prod.splits)


lemma window_anchor_bound: "siblings \<noteq> [] \<Longrightarrow> window_anchor siblings g < length siblings"
  by (auto simp: window_anchor_def split: option.splits dest!: find_SomeD)


text \<open>Growing by chunks that count nothing takes all of them.\<close>

lemma grow_free:
  assumes "\<forall>i < n. add i = 0" and "used \<le> budget" and "lo \<le> hi" and "hi < n"
  shows "grow add n budget (lo, hi, used) = (0, n - 1)"
  using assms(3,4)
proof (induction "lo + (n - hi)" arbitrary: lo hi rule: less_induct)
  case less
  let ?lo = "lo - 1" and ?hi = "if hi + 1 < n then hi + 1 else hi"
  have zero: "add (lo - 1) = 0" "hi + 1 < n \<Longrightarrow> add (hi + 1) = 0" using less.prems assms(1) by auto
  show ?case
  proof (cases "lo > 0 \<or> hi + 1 < n")
    case True
    have "grow add n budget (?lo, ?hi, used) = (0, n - 1)"
      by (rule less.hyps) (use True less.prems in auto)
    then show ?thesis using less.prems True assms(2) zero by (subst grow.simps) (auto simp: Let_def)
  next
    case False
    then show ?thesis using less.prems by (subst grow.simps) (auto simp: Let_def)
  qed
qed

lemma short_chunks_window:
  assumes "siblings \<noteq> []" and "\<forall>s \<in> set siblings. char_count (mr_content s) \<le> ov" and "ov \<le> budget"
  shows "build_parent_window siblings g budget ov = take_chars budget (merged ov siblings)"
proof -
  let ?a = "window_anchor siblings g" and ?n = "length siblings"
  have a: "?a < ?n" by (rule window_anchor_bound [OF assms(1)])
  have "grow (\<lambda>i. char_count (mr_content (siblings ! i)) - ov) ?n budget (?a, ?a, char_count (mr_content (siblings ! ?a))) = (0, ?n - 1)"
    using assms(2,3) a by (intro grow_free) (auto intro: order_trans)
  then show ?thesis using a by (simp add: window_is_merged)
qed

text \<open>Chunks no longer than the overlap cost nothing, so the window is the beginning of the document whichever
  chunk was matched, and the match may be cut off.\<close>

theorem short_chunks_ignore_the_match:
  assumes "siblings \<noteq> []" and "\<forall>s \<in> set siblings. char_count (mr_content s) \<le> ov" and "ov \<le> budget"
  shows "build_parent_window siblings g budget ov = take_chars budget (merged ov siblings)"
  by (rule short_chunks_window [OF assms])

definition section_of :: "nat \<Rightarrow> string \<Rightarrow> memory_record" where
  "section_of i txt =
     new_record 0 (show_nat i) (show_nat i) txt [] (bt_insert ''chunk_index'' (show_nat i) bt_empty) L1Atom"

definition match_of :: "memory_record \<Rightarrow> small_to_big_group" where
  "match_of r = \<lparr>sg_score = 1, sg_source = Hybrid, sg_parent = Some ''doc'', sg_anchor = chunk_index_of r,
     sg_matched = bs_insert (chunk_index_of r) bt_empty, sg_record = r\<rparr>"

text \<open>With room for four characters and an overlap of two, the window around the third chunk does not have it.\<close>

theorem short_chunks_witness:
  "let siblings = [section_of 1 ''ab'', section_of 2 ''cd'', section_of 3 ''ef'']
   in build_parent_window siblings (match_of (siblings ! 2)) 4 2 = ''abcd''"
proof -
  have "\<forall>s \<in> set [section_of 1 ''ab'', section_of 2 ''cd'', section_of 3 ''ef'']. char_count (mr_content s) \<le> 2"
    by (simp add: section_of_def new_record_def char_count_Cons utf8_cont_def)
  moreover have "take_chars 4 (merged 2 [section_of 1 ''ab'', section_of 2 ''cd'', section_of 3 ''ef'']) = ''abcd''"
    by (simp add: merged_def section_of_def new_record_def) code_simp
  ultimately show ?thesis
    using short_chunks_ignore_the_match [of "[section_of 1 ''ab'', section_of 2 ''cd'', section_of 3 ''ef'']" 2 4] by simp
qed


section \<open>Documents of chunks\<close>

text \<open>Drill-down to a document of chunks does not give its text: what separated the chunks is gone.\<close>

definition two_sections :: store_memory where
  "two_sections = store_atom (''# A'' @ LF @ ''x'' @ LF @ ''# B'' @ LF @ ''y'')"

lemma two_sections_chunks: "map ch_content (chunk_text (sm_content two_sections) default_chunk_config) = [''# A'' @ LF @ ''x'', ''# B'' @ LF @ ''y'']"
  unfolding two_sections_def store_atom_def by code_simp

theorem drill_down_is_not_the_document:
  "mr_content (reconstruct_parent_record ''doc'' (chunk_records b now two_sections)) = ''# A'' @ LF @ ''x# B'' @ LF @ ''y''
    \<and> sm_content two_sections = ''# A'' @ LF @ ''x'' @ LF @ ''# B'' @ LF @ ''y''"
proof -
  have contents: "map mr_content (chunk_records b now two_sections) = [''# A'' @ LF @ ''x'', ''# B'' @ LF @ ''y'']"
    using two_sections_chunks by (simp add: chunk_records_def chunk_record_def Let_def comp_def)
  have on_contents: "fold (\<lambda>s. append_with_overlap 200 (mr_content s)) rs acc = fold (append_with_overlap 200) (map mr_content rs) acc" for rs acc
    by (induction rs arbitrary: acc) simp_all
  have "fold (\<lambda>s. append_with_overlap 200 (mr_content s)) (chunk_records b now two_sections) [] =
      fold (append_with_overlap 200) [''# A'' @ LF @ ''x'', ''# B'' @ LF @ ''y''] []"
    by (simp only: on_contents contents)
  also have "\<dots> = ''# A'' @ LF @ ''x# B'' @ LF @ ''y''" by code_simp
  finally show ?thesis
    by (simp add: reconstruct_parent_record_def Let_def default_chunk_config_def) (simp add: two_sections_def store_atom_def)
qed

text \<open>Chunks are numbered from one, and the relations of a memory go to the chunk of number zero: a memory of
  several chunks loses them.\<close>

lemma chunk_index_positive: "ch \<in> set (chunk_text txt cfg) \<Longrightarrow> ch_index ch > 0"
  by (auto simp: chunk_text_def Let_def dest!: set_zip_leftD split: if_splits)

theorem chunked_memories_lose_their_relations:
  assumes "length (chunk_text (sm_content m) default_chunk_config) \<noteq> 1" and "r \<in> set (chunk_records b now m)"
  shows "mr_relations r = []"
proof -
  obtain ch where "ch \<in> set (chunk_text (sm_content m) default_chunk_config)" "mr_relations r =
      (if length (chunk_text (sm_content m) default_chunk_config) = 1 \<or> ch_index ch = 0 then base_relations_of b m else [])"
    using assms(2) by (auto simp: chunk_records_def chunk_record_def Let_def)
  then show ?thesis using assms(1) chunk_index_positive by fastforce
qed

theorem chunked_memories_witness:
  "let m = two_sections\<lparr>sm_relations := [new_relation ''a'' ''uses'' ''b'' ''doc'']\<rparr>
   in mr_relations (hd (chunk_records (demo_backend quiet) 0 m)) = []"
proof -
  let ?m = "two_sections\<lparr>sm_relations := [new_relation ''a'' ''uses'' ''b'' ''doc'']\<rparr>"
  have "length (chunk_text (sm_content ?m) default_chunk_config) = 2"
    using arg_cong [OF two_sections_chunks, of length] by simp
  then show ?thesis
    using chunked_memories_lose_their_relations [of ?m "hd (chunk_records (demo_backend quiet) 0 ?m)" "demo_backend quiet" 0]
      chunk_records_nonempty [of "demo_backend quiet" 0 ?m] by simp
qed

section \<open>Tenants\<close>








section \<open>Quantized vectors\<close>

definition i8_scale :: "real list \<Rightarrow> real" where
  "i8_scale v = (let max_abs = fold max (map abs v) 0 in if max_abs > 0 then max_abs / 127 else 1)"

lemma fold_max_bound: "\<forall>x \<in> set xs. x \<le> fold max xs (m :: real)" "m \<le> fold max xs m"
proof -
  have "m \<le> fold max xs m \<and> (\<forall>x \<in> set xs. x \<le> fold max xs m)" for m
  proof (induction xs arbitrary: m)
    case (Cons x xs)
    have "max x m \<le> fold max xs (max x m) \<and> (\<forall>y \<in> set xs. y \<le> fold max xs (max x m))" by (rule Cons)
    then show ?case by simp
  qed simp
  then show "\<forall>x \<in> set xs. x \<le> fold max xs m" "m \<le> fold max xs m" by auto
qed

lemma round_half_away_error: "\<bar>real_of_int (round_half_away x) - x\<bar> \<le> 1/2"
proof (cases "x \<ge> 0")
  case True
  have "real_of_int \<lfloor>x + 1/2\<rfloor> \<le> x + 1/2 \<and> x + 1/2 < real_of_int \<lfloor>x + 1/2\<rfloor> + 1" by linarith
  then show ?thesis using True unfolding round_half_away_def if_P [OF True] abs_le_iff by linarith
next
  case False
  have "real_of_int \<lceil>x - 1/2\<rceil> \<ge> x - 1/2 \<and> x - 1/2 > real_of_int \<lceil>x - 1/2\<rceil> - 1" by linarith
  then show ?thesis unfolding round_half_away_def if_not_P [OF False] abs_le_iff by linarith
qed

lemma round_half_away_bound:
  assumes "\<bar>x\<bar> \<le> 127"
  shows "\<bar>round_half_away x\<bar> \<le> 127"
proof -
  have "\<bar>real_of_int (round_half_away x)\<bar> < 128" using round_half_away_error [of x] assms by linarith
  then show ?thesis by linarith
qed

text \<open>C38: A quantized dimension is a signed byte, and it is off by at most half a step of the scale.\<close>

theorem quantization_error_is_bounded:
  assumes "i < length v"
  shows "\<bar>quantize_i8 v ! i\<bar> \<le> 127 \<and> \<bar>real_of_int (quantize_i8 v ! i) * i8_scale v - v ! i\<bar> \<le> i8_scale v / 2"
proof -
  let ?max = "fold max (map abs v) 0" and ?s = "i8_scale v" and ?r = "round_half_away (v ! i / i8_scale v)"
  have max: "\<bar>v ! i\<bar> \<le> ?max" using fold_max_bound(1) [of "map abs v" 0] assms by simp
  have s: "?s > 0" by (simp add: i8_scale_def Let_def)
  have "\<bar>v ! i\<bar> \<le> 127 * ?s" using max by (cases "?max > 0") (simp_all add: i8_scale_def Let_def)
  then have "\<bar>v ! i / ?s\<bar> \<le> 127" using s by (simp add: pos_divide_le_eq)
  then have r: "\<bar>?r\<bar> \<le> 127" by (rule round_half_away_bound)
  then have q: "quantize_i8 v ! i = ?r" using assms by (simp add: quantize_i8_def i8_scale_def Let_def)
  have "real_of_int ?r * ?s - v ! i = (real_of_int ?r - v ! i / ?s) * ?s" using s by (simp add: field_simps)
  then have "\<bar>real_of_int ?r * ?s - v ! i\<bar> = \<bar>real_of_int ?r - v ! i / ?s\<bar> * ?s" using s by (simp add: abs_mult)
  also have "\<dots> \<le> 1/2 * ?s" using round_half_away_error [of "v ! i / ?s"] s by (intro mult_right_mono) auto
  finally show ?thesis using r q by simp
qed

theorem quantization_witness: "\<bar>real_of_int (quantize_i8 [1, 1/2] ! 1) * i8_scale [1, 1/2] - 1/2\<bar> \<le> i8_scale [1, 1/2] / 2"
  using quantization_error_is_bounded [of 1 "[1, 1/2]"] by simp

section \<open>Reopened collections\<close>

text \<open>The quantization of a collection is recorded as it is configured now, while its table keeps the one it was
  created with; nothing checks them, and every write is refused from then on.\<close>

theorem requantized_collections_refuse_writes:
  assumes "tables_of db (vc_name col) = Inr t" and "vt_quantization (tb_vectors t) \<noteq> vc_quantization col" and "ps \<noteq> []"
  shows "fst (sqlite_ensure_collection col db) = Inr ()
    \<and> fst (sqlite_upsert (vc_name col) ps (snd (sqlite_ensure_collection col db))) = Inl (Database_error [])"
proof -
  obtain name where name: "sanitize_collection (vc_name col) = Inr name" "db_tables db name = Some t" using assms(1) by (rule tables_ofE)
  obtain p qs where "ps = p # qs" using assms(3) by (cases ps) auto
  then show ?thesis using name assms(2)
    by (simp add: sqlite_ensure_collection_def sqlite_upsert_def collection_quantization_def upsert_point_def fits_def)
qed

theorem requantized_collections_witness:
  "fst (sqlite_upsert ''m'' [\<lparr>vp_id = ''a'', vp_vector = [1], vp_payload = PNull\<rparr>]
     (snd (sqlite_ensure_collection \<lparr>vc_name = ''m'', vc_dimensions = 1, vc_distance = Cosine, vc_quantization = Int8\<rparr>
        (eg_store (demo_engine []))))) = Inl (Database_error [])"
  using requantized_collections_refuse_writes [of "eg_store (demo_engine [])"
      "\<lparr>vc_name = ''m'', vc_dimensions = 1, vc_distance = Cosine, vc_quantization = Int8\<rparr>" "demo_tables []"
      "[\<lparr>vp_id = ''a'', vp_vector = [1], vp_payload = PNull\<rparr>]"]
  by (simp add: demo_tables_of) (simp add: demo_tables_def)

section \<open>Tags\<close>

text \<open>A condition on tags is given to the database as an equality with the array's text: listing by a tag, without
  words to search for, finds nothing.\<close>

theorem listing_by_tag_finds_nothing:
  assumes "\<forall>vs. sq_json_text e (PArr vs) \<noteq> tag" and "\<forall>row \<in> set (tb_records t). \<exists>c r. snd (snd row) = payload_of c r"
  shows "scan e t (filter_from_query (new_query []\<lparr>mq_tags := [tag]\<rparr>)) limit = []"
proof -
  have "(''tags'', tag) \<in> set (pushed_clauses (filter_from_query (new_query []\<lparr>mq_tags := [tag]\<rparr>)))"
  proof -
    have "is_safe_field_path ''tags''" by code_simp
    then show ?thesis
      by (simp add: pushed_clauses_def must_string_eq_def filter_from_query_def new_query_def Let_def empty_filter_def
          add_project_union_def must_eq_def List.map_filter_def)
  qed
  moreover have "\<not> clause_holds e row (''tags'', tag)" if "row \<in> set (tb_records t)" for row
    using assms that by (fastforce simp: clause_holds_def payload_fields sql_equals_def)
  ultimately have "filter (\<lambda>row. list_all (clause_holds e row) (pushed_clauses (filter_from_query (new_query []\<lparr>mq_tags := [tag]\<rparr>)))) (tb_records t) = []"
    by (auto simp: filter_empty_conv list_all_iff)
  then show ?thesis by (simp add: scan_def Let_def)
qed

end
