(* ===== verification/Spec2Isabelle.thy ===== *)
theory Spec2Isabelle
  imports Txn_Concurrent Lanes Task_Properties Basin_Properties Loop_Properties Receipts_Properties
    Redaction Routing_Properties Dispatch_Properties Team_Properties
    Gate_Properties Bundle_Properties Savings Lane_Lock Chunking Eviction_Properties Graph_Properties Memory_Properties
    Entity_Properties Event_Properties Vector_Windows
begin

text \<open>
  Verification library for \<open>artesian\<close>, a workspace in which coding agents share tasks and memory.

  \<^bold>\<open>The program and its parts.\<close> A task is a file in one of four directories (crates/headrace). The
  orchestration loop (crates/basin) claims tasks, has a worker do them, verifies and retries. Teams of
  agents (crates/flume) claim tasks through a lead, within lanes, and each delegation starts one child
  process and leaves receipts; an autonomous loop (flume/loop_core) repeats a worker until its verifier
  passes. What agents learn goes to the memory engine (crates/aquifer): records in files, or points of a
  vector store, found by words, vectors, entities and relations, and forgotten by an eviction. What an
  agent is shown is decided by the control plane (crates/headgate): candidates are judged, compressed
  and committed to a state of bounded size, which is rendered, bundled and handed over.

  \<^bold>\<open>Theories and sources.\<close> A theory carries the names of its code; the state of a component is a record,
  an operation maps the state to a result, of type \<open>error + 'a\<close>, and the new state.
  \<^item> \<open>Prelude\<close>, \<open>BTree\<close>, \<open>Ratios\<close>, \<open>Hashing\<close>: strings as UTF-8 bytes with the functions of Rust's
    library that are called on them, ordered maps and sets, scores and their decimal text, FNV-1a.
  \<^item> \<open>Core_Types\<close>: crates/artesian-core/src roles.rs, coordination.rs, event.rs, agent.rs, config.rs.
  \<^item> \<open>Task_Store\<close> (headrace store.rs, files.rs), \<open>Task_Facts\<close>, \<open>Task_Board\<close>, \<open>Task_Ops\<close>, \<open>Task_Claims\<close>
    (verifier.rs), \<open>Task_Properties\<close>: the directories as lists of files, and the task board they refine.
  \<^item> \<open>Basin\<close>, \<open>Basin_Facts\<close>, \<open>Basin_Properties\<close>: basin/src/lib.rs, \<open>run_once\<close> and \<open>run_until_idle\<close>.
  \<^item> \<open>Lanes\<close> (flume lane.rs), \<open>Receipts\<close>, \<open>Receipts_Properties\<close> (receipts.rs), \<open>Redaction\<close>, \<open>Routing\<close>,
    \<open>Routing_Properties\<close>, \<open>Dispatch\<close>, \<open>Dispatch_Properties\<close>, \<open>Team_Runtime\<close>, \<open>Team_Facts\<close>,
    \<open>Team_Properties\<close> (flume lib.rs), \<open>Loop_Core\<close>, \<open>Loop_Properties\<close> (loop_core.rs, quota.rs).
  \<^item> \<open>Committed\<close> (headgate ccs.rs, compressor.rs, metrics.rs), \<open>Gates\<close>, \<open>Judges\<close> (gate.rs, judge.rs,
    council.rs, tier.rs, position.rs), \<open>Headgate\<close> (controller.rs), \<open>Headgate_Facts\<close>, \<open>Escaping\<close>,
    \<open>Headgate_Properties\<close>, \<open>Gate_Properties\<close>; \<open>Bundle\<close>, \<open>Bundle_Properties\<close> (bundle.rs, aquifer
    session.rs); \<open>Savings\<close> (savings.rs).
  \<^item> \<open>Memory_Records\<close> (aquifer types.rs, identity.rs), \<open>Memory_Graph\<close>, \<open>Graph_Properties\<close> (graph.rs),
    \<open>Ranking\<close>, \<open>Ranking_Properties\<close> (decay.rs, rrf.rs, mmr.rs, retrieval.rs), \<open>Eviction\<close>,
    \<open>Eviction_Properties\<close> (eviction.rs), \<open>Memory_Files\<close>, \<open>Memory_Facts\<close>, \<open>Memory_Steps\<close>,
    \<open>Memory_Properties\<close> (files.rs), \<open>Chunking\<close>, \<open>Lane_Lock\<close>, \<open>Txn\<close>, \<open>Txn_Concurrent\<close> (txn.rs).
  \<^item> \<open>Entity_Index\<close>, \<open>Entity_Properties\<close> (aquifer entity.rs, temporal.rs, episode.rs), \<open>Events\<close>,
    \<open>Event_Properties\<close> (event.rs), \<open>Vector_Store\<close>, \<open>Vector_Facts\<close> (vector.rs, compat.rs and the payloads
    of vector_memory.rs), \<open>Sqlite_Store\<close>, \<open>Sqlite_Laws\<close> (sqlite_vec.rs), \<open>Vector_Memory\<close>,
    \<open>Vector_Engine\<close>, \<open>Vector_Laws\<close>, \<open>Vector_Tenancy\<close>, \<open>Vector_Properties\<close>, \<open>Vector_Windows\<close>
    (vector_memory.rs).
  \<^item> \<open>Demo_Codec\<close>, \<open>Demo_Memory\<close>: codecs that satisfy the laws assumed of a parameter, for the witnesses.

  \<^bold>\<open>Interfaces.\<close> Each is a locale, interpreted on the model's definitions: \<open>ordered_map\<close> on the ordered
  association list; \<open>task_board_store\<close>, what a task store promises, on the file store, with the
  verifier gate and the loop as clients; \<open>vector_laws\<close>, what the memory engine relies on of a vector
  store, on the SQLite store; \<open>loop_invariant\<close>, \<open>team_invariant\<close> and \<open>committed_invariant\<close>, what carries
  an invariant through every tick, call or cycle; \<open>fresh_gate\<close>, \<open>routing_gate\<close> and \<open>fresh_tiers\<close> on the
  gates, \<open>tokenizer\<close> and \<open>fitting_compressor\<close> on the compressors.

  \<^bold>\<open>What is shown.\<close> Refinement: claiming and completing a task against a board of tasks, storing a memory
  against a list of records (files) and a list of points (SQLite). Invariants of every reachable state:
  one lane per task, the caps on teammates, lanes, quotas and retries, the budget of the committed
  state, unique ids of receipts and events, readable record files, one writer per commit, one holder of
  a lane lock. Safety: no task is done unverified, plans need approval, lookups keep to their tenant,
  redaction leaves no token. Equivalence: neighbours are the reachable nodes, events are classes of
  close records, a rollup is the aggregate of its log. Round trips of task files, record files, payloads
  and bundles. Bounds of chunks, windows, strengths and quantized vectors. Termination of the loops.
  Error properties pin down where the code departs from its documentation or from what it is for.

  \<^bold>\<open>Loops and bounds.\<close> Loops that end are total functions with their measure; the loops that need not
  end are \<open>partial_function\<close>s or run for a number of turns given by the code's own bound
  (\<open>max_turns\<close>, \<open>max_retries\<close>), and that they end is a property. Counters keep the width of the code
  (\<open>u32\<close>, \<open>u64\<close>) where they can wrap or saturate; lengths and indices (\<open>usize\<close>) are natural numbers.

  \<^bold>\<open>Abstractions.\<close> Floating-point numbers are exact rationals or reals. White space and letter case are
  those of ASCII. JSON, YAML and TOML codecs, SHA-256, tokenizers, language models, embeddings, child
  processes, clocks and the ranking of the database engine are parameters; the laws assumed of them are
  premises, and a witness satisfies them. Single reads and writes of files succeed, locks are not
  poisoned. A hash map that is walked is walked in an order given as a parameter, unless a sort follows.

  \<^bold>\<open>Not modelled.\<close> The vector stores on database servers (aquifer qdrant.rs, pgvector.rs), whose contract is
  that of \<open>Vector_Store\<close>; the command line, the MCP server, the benchmarks and the process agent, which
  parse, print and supervise around the components above; the readers of quota files; HTTP transports
  of language models; importers and migrations of foreign data.
\<close>

end
